(* ===== verification/Prelude.thy ===== *)
theory Prelude
  imports Main "HOL-Library.Sublist"
begin

text \<open>
  Shared vocabulary of the development: how a Go function's results, errors and panics are
  represented, the collections the component proofs draw on, and the generic facts on lists,
  options and maps that several components use.

  A Go \<open>error\<close> is a value of \<open>error\<close>, a Go result \<open>(T, error)\<close> is \<open>error + T\<close> where the code only
  looks at \<open>T\<close> when the error is nil, and \<open>T \<times> error option\<close> where it returns both (a
  reconciler's \<open>(ctrl.Result, error)\<close>).  A nil-pointer dereference is the value \<open>Panic\<close> of
  \<open>outcome\<close>.
\<close>

section \<open>Collections\<close>

named_theorems api_consts "distinctness of the annotation, label and condition names"
named_theorems ext_laws "consequences of the contracts of third-party code"
named_theorems frame "what an operation leaves unchanged"

section \<open>Errors and results\<close>

text \<open>
  \<open>NotFound\<close> and \<open>AlreadyExists\<close> are the API errors the code tells apart
  (\<open>apierrors.IsNotFound\<close>, \<open>apierrors.IsAlreadyExists\<close>); \<open>ErrorString\<close> is any other error, by its
  text; \<open>Wrapped\<close> is \<open>errors.Wrap\<close>, \<open>errors.Wrapf\<close> and \<open>fmt.Errorf\<close> with \<open>%w\<close>.
\<close>

datatype error =
    NotFound string
  | AlreadyExists string
  | ErrorString string
  | Wrapped string error

fun IsNotFound :: "error \<Rightarrow> bool" where
  "IsNotFound (NotFound _) = True"
| "IsNotFound (AlreadyExists _) = False"
| "IsNotFound (ErrorString _) = False"
| "IsNotFound (Wrapped _ e) = IsNotFound e"

fun IsAlreadyExists :: "error \<Rightarrow> bool" where
  "IsAlreadyExists (NotFound _) = False"
| "IsAlreadyExists (AlreadyExists _) = True"
| "IsAlreadyExists (ErrorString _) = False"
| "IsAlreadyExists (Wrapped _ e) = IsAlreadyExists e"

text \<open>\<open>err.Error()\<close>, the text that \<open>%v\<close> and \<open>%s\<close> print.\<close>

fun Error :: "error \<Rightarrow> string" where
  "Error (NotFound m) = m"
| "Error (AlreadyExists m) = m"
| "Error (ErrorString m) = m"
| "Error (Wrapped m e) = m @ '': '' @ Error e"

datatype 'a outcome = Return 'a | Panic string

lemma IsNotFound_not_AlreadyExists [simp]: "IsNotFound e \<Longrightarrow> \<not> IsAlreadyExists e"
  by (induction e) simp_all

text \<open>\<open>ctrl.Result\<close>: the code uses its \<open>RequeueAfter\<close> field only.  Durations are nanoseconds.\<close>

type_synonym Duration = int

definition Second :: Duration where
  "Second = 1000000000"

record Result =
  RequeueAfter :: Duration

definition no_requeue :: Result where
  "no_requeue = \<lparr>RequeueAfter = 0\<rparr>"

definition requeue_after :: "Duration \<Rightarrow> Result" where
  "requeue_after d = \<lparr>RequeueAfter = d\<rparr>"

lemma RequeueAfter_simps [simp]:
  "RequeueAfter no_requeue = 0" "RequeueAfter (requeue_after d) = d"
  by (simp_all add: no_requeue_def requeue_after_def)

lemma requeue_after_neq [simp]: "(requeue_after d = no_requeue) = (d = 0)"
  by (simp add: no_requeue_def requeue_after_def)

text \<open>
  The error a function returns when a deferred call may overwrite its named result
  \<open>reterr\<close>: the body's own error wins, the deferred call's error is reported only after a body
  that succeeded.
\<close>

definition defer_error :: "error option \<Rightarrow> error option \<Rightarrow> error option" where
  "defer_error reterr err = (case reterr of None \<Rightarrow> err | Some e \<Rightarrow> Some e)"

lemma defer_error_simps [simp]:
  "defer_error None err = err"
  "defer_error (Some e) err = Some e"
  "defer_error reterr None = reterr"
  by (simp_all add: defer_error_def split: option.splits)

lemma defer_error_None_iff [simp]: "defer_error a b = None \<longleftrightarrow> a = None \<and> b = None"
  by (simp add: defer_error_def split: option.splits)

section \<open>Lists and maps\<close>

lemma find_Some_in_set: "find P xs = Some x \<Longrightarrow> x \<in> set xs \<and> P x"
  by (induction xs) (auto split: if_splits)

lemma find_None_iff_all: "find P xs = None \<longleftrightarrow> (\<forall>x\<in>set xs. \<not> P x)"
  by (induction xs) auto

lemma removeAll_idem [simp]: "removeAll x (removeAll x xs) = removeAll x xs"
  by (induction xs) auto

lemma upd_None_apply [simp]: "(m(k := None)) k = None"
  by simp

lemma upd_Some_neq_None [simp]: "(m(k \<mapsto> v)) k \<noteq> None"
  by simp

end
