(* ===== verification/Api_Types.thy ===== *)
theory Api_Types
  imports Prelude "HOL-Library.Word"
begin

text \<open>
  The API objects of \<open>apis/infrastructure/v1beta1\<close> and the parts of the Kubernetes and
  Cluster-API objects the code reads or writes.  A Go struct that embeds
  \<open>metav1.TypeMeta\<close> and \<open>metav1.ObjectMeta\<close> is a record that extends \<open>ObjectMeta\<close>; a pointer
  field is an option; a \<open>map[string]string\<close> is a HOL map, a nil map being the empty one (every
  write in the code is to a map it has just made or checked).  A field name that two Go types
  share carries a prefix here.
\<close>

section \<open>Names\<close>

definition HostCleanupAnnotation :: string where
  "HostCleanupAnnotation = ''byoh.infrastructure.cluster.x-k8s.io/unregistering''"

definition EndPointIPAnnotation :: string where
  "EndPointIPAnnotation = ''byoh.infrastructure.cluster.x-k8s.io/endpointip''"

definition K8sVersionAnnotation :: string where
  "K8sVersionAnnotation = ''byoh.infrastructure.cluster.x-k8s.io/k8sversion''"

definition AttachedByoMachineLabel :: string where
  "AttachedByoMachineLabel = ''byoh.infrastructure.cluster.x-k8s.io/byomachine-name''"

definition BundleLookupBaseRegistryAnnotation :: string where
  "BundleLookupBaseRegistryAnnotation = ''byoh.infrastructure.cluster.x-k8s.io/bundle-registry''"

definition ClusterLabel :: string where
  "ClusterLabel = ''kaapi.pf9.io/cluster-name''"

definition ClusterLabelCP :: string where
  "ClusterLabelCP = ''kaapi.pf9.io/cluster-name-cp''"

text \<open>The label and the annotation of Cluster API itself (\<open>clusterv1\<close>).\<close>

definition ClusterNameLabel :: string where
  "ClusterNameLabel = ''cluster.x-k8s.io/cluster-name''"

definition PausedAnnotation :: string where
  "PausedAnnotation = ''cluster.x-k8s.io/paused''"

definition UpgradeInProgressAnnotation :: string where
  "UpgradeInProgressAnnotation = ''barista.platform9.io/upgrade-in-progress''"

lemmas annotation_defs =
  HostCleanupAnnotation_def EndPointIPAnnotation_def K8sVersionAnnotation_def
  BundleLookupBaseRegistryAnnotation_def PausedAnnotation_def UpgradeInProgressAnnotation_def

lemmas label_defs =
  AttachedByoMachineLabel_def ClusterLabel_def ClusterLabelCP_def ClusterNameLabel_def

lemma annotations_distinct [simp, api_consts]:
  "distinct [HostCleanupAnnotation, EndPointIPAnnotation, K8sVersionAnnotation,
             BundleLookupBaseRegistryAnnotation, PausedAnnotation]"
  by (simp add: annotation_defs)

lemma labels_distinct [simp, api_consts]:
  "distinct [AttachedByoMachineLabel, ClusterLabel, ClusterLabelCP, ClusterNameLabel]"
  by (simp add: label_defs)

lemmas annotation_neqs [simp] = annotations_distinct [simplified]
lemmas label_neqs [simp] = labels_distinct [simplified]

lemma label_neqs_sym [simp]:
  "ClusterLabel \<noteq> AttachedByoMachineLabel"
  "ClusterLabelCP \<noteq> AttachedByoMachineLabel"
  "ClusterNameLabel \<noteq> AttachedByoMachineLabel"
  "ClusterLabelCP \<noteq> ClusterLabel"
  "ClusterNameLabel \<noteq> ClusterLabel"
  "ClusterNameLabel \<noteq> ClusterLabelCP"
  by (simp_all add: label_defs)

lemma annotation_neqs_sym [simp]:
  "EndPointIPAnnotation \<noteq> HostCleanupAnnotation"
  "K8sVersionAnnotation \<noteq> HostCleanupAnnotation"
  "BundleLookupBaseRegistryAnnotation \<noteq> HostCleanupAnnotation"
  "PausedAnnotation \<noteq> HostCleanupAnnotation"
  "K8sVersionAnnotation \<noteq> EndPointIPAnnotation"
  "BundleLookupBaseRegistryAnnotation \<noteq> EndPointIPAnnotation"
  "PausedAnnotation \<noteq> EndPointIPAnnotation"
  "BundleLookupBaseRegistryAnnotation \<noteq> K8sVersionAnnotation"
  "PausedAnnotation \<noteq> K8sVersionAnnotation"
  "PausedAnnotation \<noteq> BundleLookupBaseRegistryAnnotation"
  by (simp_all add: annotation_defs)

text \<open>Finalizers.\<close>

definition MachineFinalizer :: string where
  "MachineFinalizer = ''byomachine.infrastructure.cluster.x-k8s.io''"

definition ClusterFinalizer :: string where
  "ClusterFinalizer = ''byocluster.infrastructure.cluster.x-k8s.io''"

definition K8sInstallerConfigFinalizer :: string where
  "K8sInstallerConfigFinalizer = ''k8sinstallerconfig.infrastructure.cluster.x-k8s.io''"

text \<open>Condition types and reasons (\<open>condition_consts.go\<close>).\<close>

definition K8sNodeBootstrapSucceeded :: string where
  "K8sNodeBootstrapSucceeded = ''K8sNodeBootstrapSucceeded''"

definition K8sComponentsInstallationSucceeded :: string where
  "K8sComponentsInstallationSucceeded = ''K8sComponentsInstallationSucceeded''"

definition BYOHostReady :: string where
  "BYOHostReady = ''BYOHostReady''"

lemma condition_types_neq [simp, api_consts]:
  "K8sNodeBootstrapSucceeded \<noteq> K8sComponentsInstallationSucceeded"
  "K8sComponentsInstallationSucceeded \<noteq> K8sNodeBootstrapSucceeded"
  by (simp_all add: K8sNodeBootstrapSucceeded_def K8sComponentsInstallationSucceeded_def)

definition WaitingForMachineRefReason :: string where
  "WaitingForMachineRefReason = ''WaitingForMachineRefToBeAssigned''"

definition BootstrapDataSecretUnavailableReason :: string where
  "BootstrapDataSecretUnavailableReason = ''BootstrapDataSecretUnavailable''"

definition K8sInstallationSecretUnavailableReason :: string where
  "K8sInstallationSecretUnavailableReason = ''K8sInstallationSecretUnavailable''"

definition CleanK8sDirectoriesFailedReason :: string where
  "CleanK8sDirectoriesFailedReason = ''CleanK8sDirectoriesFailed''"

definition CloudInitExecutionFailedReason :: string where
  "CloudInitExecutionFailedReason = ''CloudInitExecutionFailed''"

definition K8sNodeAbsentReason :: string where
  "K8sNodeAbsentReason = ''K8sNodeAbsent''"

definition K8sComponentsInstallationFailedReason :: string where
  "K8sComponentsInstallationFailedReason = ''K8sComponentsInstallationFailed''"

definition WaitingForClusterInfrastructureReason :: string where
  "WaitingForClusterInfrastructureReason = ''WaitingForClusterInfrastructure''"

definition WaitingForBootstrapDataSecretReason :: string where
  "WaitingForBootstrapDataSecretReason = ''WaitingForBootstrapDataSecret''"

definition BYOHostsUnavailableReason :: string where
  "BYOHostsUnavailableReason = ''BYOHostsUnavailable''"

definition InstallationSecretNotAvailableReason :: string where
  "InstallationSecretNotAvailableReason = ''InstallationSecretNotAvailable''"

definition ClusterOrResourcePausedReason :: string where
  "ClusterOrResourcePausedReason = ''ClusterOrResourcePaused''"

lemma machine_reasons_neq [simp, api_consts]:
  "WaitingForClusterInfrastructureReason \<noteq> InstallationSecretNotAvailableReason"
  "WaitingForBootstrapDataSecretReason \<noteq> InstallationSecretNotAvailableReason"
  "BYOHostsUnavailableReason \<noteq> InstallationSecretNotAvailableReason"
  "ClusterOrResourcePausedReason \<noteq> InstallationSecretNotAvailableReason"
  by (simp_all add: WaitingForClusterInfrastructureReason_def InstallationSecretNotAvailableReason_def
      WaitingForBootstrapDataSecretReason_def BYOHostsUnavailableReason_def
      ClusterOrResourcePausedReason_def)

section \<open>Object metadata\<close>

type_synonym strmap = "string \<rightharpoonup> string"

text \<open>A namespaced name: (namespace, name).\<close>

type_synonym key = "string \<times> string"

record TypeMeta =
  Kind :: string
  APIVersion :: string

record OwnerReference =
  own_APIVersion :: string
  own_Kind :: string
  own_Name :: string
  own_UID :: string
  own_Controller :: "bool option"

record ObjectMeta = TypeMeta +
  Name :: string
  Namespace :: string
  UID :: string
  Labels :: strmap
  Annotations :: strmap
  Finalizers :: "string list"
  OwnerReferences :: "OwnerReference list"
  DeletionTimestamp :: "int option"

definition obj_key :: "'a ObjectMeta_scheme \<Rightarrow> key" where
  "obj_key obj = (Namespace obj, Name obj)"

text \<open>\<open>!obj.DeletionTimestamp.IsZero()\<close>.\<close>

definition being_deleted :: "'a ObjectMeta_scheme \<Rightarrow> bool" where
  "being_deleted obj = (DeletionTimestamp obj \<noteq> None)"

record ObjectReference =
  ref_Kind :: string
  ref_APIVersion :: string
  ref_Namespace :: string
  ref_Name :: string
  ref_UID :: string

definition ref_key :: "ObjectReference \<Rightarrow> key" where
  "ref_key r = (ref_Namespace r, ref_Name r)"

section \<open>Conditions\<close>

datatype ConditionStatus = ConditionTrue | ConditionFalse | ConditionUnknown

datatype ConditionSeverity = SeverityError | SeverityWarning | SeverityInfo | SeverityNone

record Condition =
  cond_Type :: string
  cond_Status :: ConditionStatus
  cond_Severity :: ConditionSeverity
  cond_Reason :: string
  cond_Message :: string

section \<open>ByoHost\<close>

record ByoHostSpec =
  BootstrapSecret :: "ObjectReference option"
  InstallationSecret :: "ObjectReference option"
  UninstallationSecret :: "ObjectReference option"

record HostInfo =
  OSName :: string
  OSImage :: string
  Architecture :: string

record NetworkStatus =
  Connected :: bool
  IPAddrs :: "string list"
  MACAddr :: string
  NetworkInterfaceName :: string
  IsDefault :: bool

record ByoHostStatus =
  MachineRef :: "ObjectReference option"
  host_Conditions :: "Condition list"
  HostDetails :: HostInfo
  Network :: "NetworkStatus list"

record ByoHost = ObjectMeta +
  HostSpec :: ByoHostSpec
  HostStatus :: ByoHostStatus

definition host_GetConditions :: "ByoHost \<Rightarrow> Condition list" where
  "host_GetConditions byoHost = host_Conditions (HostStatus byoHost)"

definition host_SetConditions :: "Condition list \<Rightarrow> ByoHost \<Rightarrow> ByoHost" where
  "host_SetConditions conditions byoHost =
     byoHost\<lparr>HostStatus := (HostStatus byoHost)\<lparr>host_Conditions := conditions\<rparr>\<rparr>"

section \<open>ByoMachine\<close>

text \<open>A label requirement, and a \<open>metav1.LabelSelector\<close> as its two lists.\<close>

datatype Requirement =
    Equals string string
  | DoesNotExist string
  | Exists string
  | In string "string list"
  | NotIn string "string list"

record LabelSelector =
  MatchLabels :: "(string \<times> string) list"
  MatchExpressions :: "Requirement list"

record ByoMachineSpec =
  Selector :: "LabelSelector option"
  ProviderID :: string
  InstallerRef :: "ObjectReference option"

record ByoMachineStatus =
  mach_HostInfo :: HostInfo
  mach_Ready :: bool
  mach_Conditions :: "Condition list"

record ByoMachine = ObjectMeta +
  MachineSpec :: ByoMachineSpec
  MachineStatus :: ByoMachineStatus

definition machine_GetConditions :: "ByoMachine \<Rightarrow> Condition list" where
  "machine_GetConditions byoMachine = mach_Conditions (MachineStatus byoMachine)"

definition machine_SetConditions :: "Condition list \<Rightarrow> ByoMachine \<Rightarrow> ByoMachine" where
  "machine_SetConditions conditions byoMachine =
     byoMachine\<lparr>MachineStatus := (MachineStatus byoMachine)\<lparr>mach_Conditions := conditions\<rparr>\<rparr>"

section \<open>ByoCluster\<close>

record APIEndpoint =
  Host :: string
  Port :: "32 word"

record ByoClusterSpec =
  ControlPlaneEndpoint :: APIEndpoint
  BundleLookupBaseRegistry :: string

record ByoClusterStatus =
  clus_Ready :: bool
  clus_Conditions :: "Condition list"
  FailureDomains :: "string \<rightharpoonup> bool \<times> strmap"

record ByoCluster = ObjectMeta +
  ClusterSpec :: ByoClusterSpec
  ClusterStatus :: ByoClusterStatus

definition cluster_GetConditions :: "ByoCluster \<Rightarrow> Condition list" where
  "cluster_GetConditions byoCluster = clus_Conditions (ClusterStatus byoCluster)"

definition cluster_SetConditions :: "Condition list \<Rightarrow> ByoCluster \<Rightarrow> ByoCluster" where
  "cluster_SetConditions conditions byoCluster =
     byoCluster\<lparr>ClusterStatus := (ClusterStatus byoCluster)\<lparr>clus_Conditions := conditions\<rparr>\<rparr>"

section \<open>K8sInstallerConfig, BootstrapKubeconfig, Secret\<close>

record K8sInstallerConfigSpec =
  BundleRepo :: string
  BundleType :: string

record K8sInstallerConfigStatus =
  cfg_Ready :: bool
  cfg_InstallationSecret :: "ObjectReference option"
  cfg_UninstallationSecret :: "ObjectReference option"

record K8sInstallerConfig = ObjectMeta +
  ConfigSpec :: K8sInstallerConfigSpec
  ConfigStatus :: K8sInstallerConfigStatus

record BootstrapKubeconfigSpec =
  APIServer :: string
  InsecureSkipTLSVerify :: bool
  CertificateAuthorityData :: string

record BootstrapKubeconfigStatus =
  BootstrapKubeconfigData :: "string option"

record BootstrapKubeconfig = ObjectMeta +
  BKSpec :: BootstrapKubeconfigSpec
  BKStatus :: BootstrapKubeconfigStatus

record Secret = ObjectMeta +
  SecretType :: string
  SecretData :: strmap

section \<open>The Cluster-API objects, as far as the code reads them\<close>

record Machine = ObjectMeta +
  DataSecretName :: "string option"
  Version :: "string option"

record Cluster = ObjectMeta +
  InfrastructureReady :: bool
  InfrastructureRef :: "ObjectReference option"
  ClusterEndpointHost :: string
  ClusterPaused :: bool

record Node =
  NodeName :: string
  NodeProviderID :: string

end
