(* ===== verification/Externals.thy ===== *)
theory Externals
  imports Api_Types
begin

text \<open>
  The third-party code the program is built on, as parameters: a \<open>lib\<close> holds the pure
  functions of Cluster API's and controller-runtime's utility packages, a \<open>'w client\<close> the calls
  of the API client over a world \<open>'w\<close> (the API server, its cache, and everything else that may
  change between two calls).  Every client call threads the world, so that two reads may see
  different states.  What the code relies on is stated as predicates (\<open>conditions_contract\<close>,
  \<open>finalizer_contract\<close>, \<open>host_store\<close>, \<open>\<dots>\<close>), each documented behaviour of the package.

  The interface between the program and the conditions package is the pair of methods
  \<open>GetConditions\<close> and \<open>SetConditions\<close> of each API type, the locale \<open>conditions_object\<close>: its laws
  are proved for \<open>ByoHost\<close>, \<open>ByoMachine\<close> and \<open>ByoCluster\<close>, and its lemmas say what marking a
  condition on an object does.
\<close>

section \<open>Pure library functions\<close>

record lib =
  cnd_Get :: "Condition list \<Rightarrow> string \<Rightarrow> Condition option"
  cnd_IsTrue :: "Condition list \<Rightarrow> string \<Rightarrow> bool"
  cnd_GetReason :: "Condition list \<Rightarrow> string \<Rightarrow> string"
  cnd_MarkTrue :: "string \<Rightarrow> Condition list \<Rightarrow> Condition list"
  cnd_MarkFalse :: "string \<Rightarrow> string \<Rightarrow> ConditionSeverity \<Rightarrow> string \<Rightarrow> Condition list \<Rightarrow> Condition list"
  fin_Contains :: "string list \<Rightarrow> string \<Rightarrow> bool"
  fin_Add :: "string \<Rightarrow> string list \<Rightarrow> string list"
  fin_Remove :: "string \<Rightarrow> string list \<Rightarrow> string list"
  ann_Add :: "strmap \<Rightarrow> strmap \<Rightarrow> strmap"
  IsPaused :: "Cluster \<Rightarrow> strmap \<Rightarrow> bool"

definition conditions_contract :: "'z lib_scheme \<Rightarrow> bool" where
  "conditions_contract L \<longleftrightarrow>
     (\<forall>cs t. \<exists>c. cnd_Get L (cnd_MarkTrue L t cs) t = Some c \<and> cond_Status c = ConditionTrue) \<and>
     (\<forall>cs t t'. t' \<noteq> t \<longrightarrow> cnd_Get L (cnd_MarkTrue L t cs) t' = cnd_Get L cs t') \<and>
     (\<forall>cs t r sv m. \<exists>c. cnd_Get L (cnd_MarkFalse L t r sv m cs) t = Some c \<and>
        cond_Status c = ConditionFalse \<and> cond_Reason c = r \<and> cond_Severity c = sv) \<and>
     (\<forall>cs t r sv m t'. t' \<noteq> t \<longrightarrow> cnd_Get L (cnd_MarkFalse L t r sv m cs) t' = cnd_Get L cs t') \<and>
     (\<forall>cs t. cnd_IsTrue L cs t \<longleftrightarrow> (\<exists>c. cnd_Get L cs t = Some c \<and> cond_Status c = ConditionTrue)) \<and>
     (\<forall>cs t. cnd_GetReason L cs t = (case cnd_Get L cs t of None \<Rightarrow> [] | Some c \<Rightarrow> cond_Reason c))"

definition finalizer_contract :: "'z lib_scheme \<Rightarrow> bool" where
  "finalizer_contract L \<longleftrightarrow>
     (\<forall>fs f. fin_Contains L fs f \<longleftrightarrow> f \<in> set fs) \<and>
     (\<forall>fs f. set (fin_Add L f fs) = insert f (set fs)) \<and>
     (\<forall>fs f. set (fin_Remove L f fs) = set fs - {f})"

definition annotations_contract :: "'z lib_scheme \<Rightarrow> bool" where
  "annotations_contract L \<longleftrightarrow> (\<forall>cur desired. ann_Add L cur desired = cur ++ desired)"

definition paused_contract :: "'z lib_scheme \<Rightarrow> bool" where
  "paused_contract L \<longleftrightarrow>
     (\<forall>c ann. IsPaused L c ann \<longleftrightarrow> ClusterPaused c \<or> ann PausedAnnotation \<noteq> None)"

lemma cnd_IsTrue_iff:
  "conditions_contract L \<Longrightarrow>
   cnd_IsTrue L cs t \<longleftrightarrow> (\<exists>c. cnd_Get L cs t = Some c \<and> cond_Status c = ConditionTrue)"
  by (simp add: conditions_contract_def)

lemma cnd_Get_MarkTrue:
  "conditions_contract L \<Longrightarrow>
   \<exists>c. cnd_Get L (cnd_MarkTrue L t cs) t = Some c \<and> cond_Status c = ConditionTrue"
  by (simp add: conditions_contract_def)

lemma cnd_Get_MarkFalse:
  "conditions_contract L \<Longrightarrow>
   \<exists>c. cnd_Get L (cnd_MarkFalse L t r sv m cs) t = Some c \<and>
       cond_Status c = ConditionFalse \<and> cond_Reason c = r \<and> cond_Severity c = sv"
  by (simp add: conditions_contract_def)

lemma cnd_Get_other [ext_laws]:
  assumes "conditions_contract L" "t' \<noteq> t"
  shows "cnd_Get L (cnd_MarkTrue L t cs) t' = cnd_Get L cs t'"
    and "cnd_Get L (cnd_MarkFalse L t r sv m cs) t' = cnd_Get L cs t'"
  using assms by (simp_all add: conditions_contract_def)

lemma conditions_contract_laws [ext_laws]:
  assumes L: "conditions_contract L"
  shows "cnd_IsTrue L (cnd_MarkTrue L t cs) t"
    and "\<not> cnd_IsTrue L (cnd_MarkFalse L t r sv m cs) t"
    and "cnd_GetReason L (cnd_MarkFalse L t r sv m cs) t = r"
    and "t' \<noteq> t \<Longrightarrow> cnd_IsTrue L (cnd_MarkTrue L t cs) t' = cnd_IsTrue L cs t'"
    and "t' \<noteq> t \<Longrightarrow> cnd_IsTrue L (cnd_MarkFalse L t r sv m cs) t' = cnd_IsTrue L cs t'"
proof -
  show "cnd_IsTrue L (cnd_MarkTrue L t cs) t"
    using cnd_Get_MarkTrue [OF L] by (simp add: cnd_IsTrue_iff [OF L])
  obtain c where c: "cnd_Get L (cnd_MarkFalse L t r sv m cs) t = Some c"
      "cond_Status c = ConditionFalse" "cond_Reason c = r"
    using cnd_Get_MarkFalse [OF L] by blast
  then show "\<not> cnd_IsTrue L (cnd_MarkFalse L t r sv m cs) t"
    by (simp add: cnd_IsTrue_iff [OF L])
  show "cnd_GetReason L (cnd_MarkFalse L t r sv m cs) t = r"
    using L c by (simp add: conditions_contract_def)
qed (simp_all add: cnd_IsTrue_iff [OF L] cnd_Get_other [OF L])

lemma finalizer_contract_laws [ext_laws]:
  assumes "finalizer_contract L"
  shows "fin_Contains L fs f \<longleftrightarrow> f \<in> set fs"
    and "set (fin_Add L f fs) = insert f (set fs)"
    and "set (fin_Remove L f fs) = set fs - {f}"
  using assms by (simp_all add: finalizer_contract_def)

section \<open>Marking a condition on an object\<close>

text \<open>
  \<open>conditions.MarkTrue(to, t)\<close> and \<open>conditions.MarkFalse(to, t, reason, severity, msg)\<close> read the
  object's conditions by its \<open>GetConditions\<close> and write them by its \<open>SetConditions\<close>.
\<close>

definition MarkTrue ::
  "'z lib_scheme \<Rightarrow> ('o \<Rightarrow> Condition list) \<Rightarrow> (Condition list \<Rightarrow> 'o \<Rightarrow> 'o) \<Rightarrow> string \<Rightarrow> 'o \<Rightarrow> 'o" where
  "MarkTrue L get put t obj = put (cnd_MarkTrue L t (get obj)) obj"

definition MarkFalse ::
  "'z lib_scheme \<Rightarrow> ('o \<Rightarrow> Condition list) \<Rightarrow> (Condition list \<Rightarrow> 'o \<Rightarrow> 'o) \<Rightarrow>
   string \<Rightarrow> string \<Rightarrow> ConditionSeverity \<Rightarrow> 'o \<Rightarrow> 'o" where
  "MarkFalse L get put t reason severity obj = put (cnd_MarkFalse L t reason severity [] (get obj)) obj"

locale conditions_object =
  fixes GetConditions :: "'o \<Rightarrow> Condition list"
    and SetConditions :: "Condition list \<Rightarrow> 'o \<Rightarrow> 'o"
  assumes get_set: "GetConditions (SetConditions cs obj) = cs"
    and set_get: "SetConditions (GetConditions obj) obj = obj"
    and set_set: "SetConditions cs (SetConditions cs' obj) = SetConditions cs obj"
begin

lemma get_MarkTrue:
  "GetConditions (MarkTrue L GetConditions SetConditions t obj) = cnd_MarkTrue L t (GetConditions obj)"
  by (simp add: MarkTrue_def get_set)

lemma get_MarkFalse:
  "GetConditions (MarkFalse L GetConditions SetConditions t r sv obj) =
   cnd_MarkFalse L t r sv [] (GetConditions obj)"
  by (simp add: MarkFalse_def get_set)

lemma MarkTrue_IsTrue:
  "conditions_contract L \<Longrightarrow>
   cnd_IsTrue L (GetConditions (MarkTrue L GetConditions SetConditions t obj)) t"
  by (simp add: get_MarkTrue conditions_contract_laws)

lemma MarkFalse_reason:
  "conditions_contract L \<Longrightarrow>
   \<not> cnd_IsTrue L (GetConditions (MarkFalse L GetConditions SetConditions t r sv obj)) t \<and>
   cnd_GetReason L (GetConditions (MarkFalse L GetConditions SetConditions t r sv obj)) t = r"
  by (simp add: get_MarkFalse conditions_contract_laws)

lemma MarkTrue_other:
  "conditions_contract L \<Longrightarrow> t' \<noteq> t \<Longrightarrow>
   cnd_IsTrue L (GetConditions (MarkTrue L GetConditions SetConditions t obj)) t' =
   cnd_IsTrue L (GetConditions obj) t'"
  by (simp add: get_MarkTrue conditions_contract_laws)

lemma MarkFalse_other:
  "conditions_contract L \<Longrightarrow> t' \<noteq> t \<Longrightarrow>
   cnd_IsTrue L (GetConditions (MarkFalse L GetConditions SetConditions t r sv obj)) t' =
   cnd_IsTrue L (GetConditions obj) t'"
  by (simp add: get_MarkFalse conditions_contract_laws)

lemma MarkTrue_MarkFalse_IsTrue:
  "conditions_contract L \<Longrightarrow>
   cnd_IsTrue L (GetConditions (MarkTrue L GetConditions SetConditions t
     (MarkFalse L GetConditions SetConditions t r sv obj))) t"
  by (rule MarkTrue_IsTrue)

end

interpretation host_cond: conditions_object host_GetConditions host_SetConditions
  by unfold_locales (simp_all add: host_GetConditions_def host_SetConditions_def)

interpretation machine_cond: conditions_object machine_GetConditions machine_SetConditions
  by unfold_locales (simp_all add: machine_GetConditions_def machine_SetConditions_def)

interpretation cluster_cond: conditions_object cluster_GetConditions cluster_SetConditions
  by unfold_locales (simp_all add: cluster_GetConditions_def cluster_SetConditions_def)

abbreviation host_MarkTrue :: "'z lib_scheme \<Rightarrow> string \<Rightarrow> ByoHost \<Rightarrow> ByoHost" where
  "host_MarkTrue L \<equiv> MarkTrue L host_GetConditions host_SetConditions"

abbreviation host_MarkFalse ::
  "'z lib_scheme \<Rightarrow> string \<Rightarrow> string \<Rightarrow> ConditionSeverity \<Rightarrow> ByoHost \<Rightarrow> ByoHost" where
  "host_MarkFalse L \<equiv> MarkFalse L host_GetConditions host_SetConditions"

abbreviation machine_MarkTrue :: "'z lib_scheme \<Rightarrow> string \<Rightarrow> ByoMachine \<Rightarrow> ByoMachine" where
  "machine_MarkTrue L \<equiv> MarkTrue L machine_GetConditions machine_SetConditions"

abbreviation machine_MarkFalse ::
  "'z lib_scheme \<Rightarrow> string \<Rightarrow> string \<Rightarrow> ConditionSeverity \<Rightarrow> ByoMachine \<Rightarrow> ByoMachine" where
  "machine_MarkFalse L \<equiv> MarkFalse L machine_GetConditions machine_SetConditions"

abbreviation host_IsTrue :: "'z lib_scheme \<Rightarrow> ByoHost \<Rightarrow> string \<Rightarrow> bool" where
  "host_IsTrue L h t \<equiv> cnd_IsTrue L (host_GetConditions h) t"

text \<open>Marking a condition changes nothing else of the object.\<close>

lemma host_SetConditions_frame [simp, frame]:
  "HostSpec (host_SetConditions cs h) = HostSpec h"
  "MachineRef (HostStatus (host_SetConditions cs h)) = MachineRef (HostStatus h)"
  "HostDetails (HostStatus (host_SetConditions cs h)) = HostDetails (HostStatus h)"
  "Network (HostStatus (host_SetConditions cs h)) = Network (HostStatus h)"
  "Labels (host_SetConditions cs h) = Labels h"
  "Annotations (host_SetConditions cs h) = Annotations h"
  "Name (host_SetConditions cs h) = Name h"
  "Namespace (host_SetConditions cs h) = Namespace h"
  "obj_key (host_SetConditions cs h) = obj_key h"
  "DeletionTimestamp (host_SetConditions cs h) = DeletionTimestamp h"
  by (simp_all add: host_SetConditions_def obj_key_def)

lemma host_Mark_frame [simp, frame]:
  "HostSpec (host_MarkTrue L t h) = HostSpec h"
  "HostSpec (host_MarkFalse L t r sv h) = HostSpec h"
  "MachineRef (HostStatus (host_MarkTrue L t h)) = MachineRef (HostStatus h)"
  "MachineRef (HostStatus (host_MarkFalse L t r sv h)) = MachineRef (HostStatus h)"
  "Labels (host_MarkTrue L t h) = Labels h"
  "Labels (host_MarkFalse L t r sv h) = Labels h"
  "Annotations (host_MarkTrue L t h) = Annotations h"
  "Annotations (host_MarkFalse L t r sv h) = Annotations h"
  "Name (host_MarkTrue L t h) = Name h"
  "Name (host_MarkFalse L t r sv h) = Name h"
  "Namespace (host_MarkTrue L t h) = Namespace h"
  "Namespace (host_MarkFalse L t r sv h) = Namespace h"
  "obj_key (host_MarkTrue L t h) = obj_key h"
  "obj_key (host_MarkFalse L t r sv h) = obj_key h"
  by (simp_all add: MarkTrue_def MarkFalse_def)

lemma machine_SetConditions_frame [simp, frame]:
  "MachineSpec (machine_SetConditions cs m) = MachineSpec m"
  "mach_Ready (MachineStatus (machine_SetConditions cs m)) = mach_Ready (MachineStatus m)"
  "mach_HostInfo (MachineStatus (machine_SetConditions cs m)) = mach_HostInfo (MachineStatus m)"
  "Labels (machine_SetConditions cs m) = Labels m"
  "Annotations (machine_SetConditions cs m) = Annotations m"
  "Finalizers (machine_SetConditions cs m) = Finalizers m"
  "Name (machine_SetConditions cs m) = Name m"
  "Namespace (machine_SetConditions cs m) = Namespace m"
  "DeletionTimestamp (machine_SetConditions cs m) = DeletionTimestamp m"
  by (simp_all add: machine_SetConditions_def)

lemma machine_Mark_frame [simp, frame]:
  "MachineSpec (machine_MarkTrue L t m) = MachineSpec m"
  "MachineSpec (machine_MarkFalse L t r sv m) = MachineSpec m"
  "mach_Ready (MachineStatus (machine_MarkTrue L t m)) = mach_Ready (MachineStatus m)"
  "mach_Ready (MachineStatus (machine_MarkFalse L t r sv m)) = mach_Ready (MachineStatus m)"
  "mach_HostInfo (MachineStatus (machine_MarkFalse L t r sv m)) = mach_HostInfo (MachineStatus m)"
  "Labels (machine_MarkTrue L t m) = Labels m"
  "Labels (machine_MarkFalse L t r sv m) = Labels m"
  "Annotations (machine_MarkTrue L t m) = Annotations m"
  "Annotations (machine_MarkFalse L t r sv m) = Annotations m"
  "Finalizers (machine_MarkTrue L t m) = Finalizers m"
  "Finalizers (machine_MarkFalse L t r sv m) = Finalizers m"
  "Name (machine_MarkTrue L t m) = Name m"
  "Name (machine_MarkFalse L t r sv m) = Name m"
  "Namespace (machine_MarkTrue L t m) = Namespace m"
  "Namespace (machine_MarkFalse L t r sv m) = Namespace m"
  by (simp_all add: MarkTrue_def MarkFalse_def)

section \<open>The API client\<close>

text \<open>
  A patch helper remembers the object as it was when it was made (\<open>patch.NewHelper\<close>), and
  \<open>helper.Patch\<close> sends the difference to the object as it is now; the local object is not
  changed by it.  \<open>helper\<dots>\<close> is the error of \<open>NewHelper\<close>, \<open>patch\<dots> before after\<close> the call of \<open>Patch\<close>.
\<close>

record GroupVersionKind =
  gvk_Group :: string
  gvk_Version :: string
  gvk_Kind :: string

record 'w client =
  libs :: lib
  refGVK :: "ObjectReference \<Rightarrow> GroupVersionKind"
  getByoHost :: "key \<Rightarrow> 'w \<Rightarrow> (error + ByoHost) \<times> 'w"
  listByoHosts :: "Requirement list \<Rightarrow> string option \<Rightarrow> 'w \<Rightarrow> (error + ByoHost list) \<times> 'w"
  helperByoHost :: "ByoHost \<Rightarrow> error option"
  patchByoHost :: "ByoHost \<Rightarrow> ByoHost \<Rightarrow> 'w \<Rightarrow> error option \<times> 'w"
  getByoMachine :: "key \<Rightarrow> 'w \<Rightarrow> (error + ByoMachine) \<times> 'w"
  listByoMachines :: "string \<Rightarrow> (string \<times> string) list \<Rightarrow> 'w \<Rightarrow> (error + ByoMachine list) \<times> 'w"
  getSecret :: "key \<Rightarrow> 'w \<Rightarrow> (error + Secret) \<times> 'w"
  createSecret :: "Secret \<Rightarrow> 'w \<Rightarrow> error option \<times> 'w"
  updateSecret :: "Secret \<Rightarrow> 'w \<Rightarrow> error option \<times> 'w"
  deleteSecret :: "Secret \<Rightarrow> 'w \<Rightarrow> error option \<times> 'w"
  getClusterFromMetadata :: "ObjectMeta \<Rightarrow> 'w \<Rightarrow> (error + Cluster option) \<times> 'w"

text \<open>The objects a watch may hand to a map function.\<close>

datatype object = OCluster Cluster | OHost ByoHost | OMachine ByoMachine | OOther string

text \<open>The events an \<open>EventRecorder\<close> is given: the object's kind and name, type, reason, message.\<close>

datatype EventType = EventTypeNormal | EventTypeWarning

record Event =
  ev_object :: "string \<times> string"
  ev_type :: EventType
  ev_reason :: string
  ev_message :: string

definition Event_of :: "'a ObjectMeta_scheme \<Rightarrow> EventType \<Rightarrow> string \<Rightarrow> string \<Rightarrow> Event" where
  "Event_of obj ty reason msg =
     \<lparr>ev_object = (Kind obj, Name obj), ev_type = ty, ev_reason = reason, ev_message = msg\<rparr>"

text \<open>What a label selector means (\<open>labels.Requirement.Matches\<close>).\<close>

fun req_matches :: "Requirement \<Rightarrow> strmap \<Rightarrow> bool" where
  "req_matches (Equals k v) ls = (ls k = Some v)"
| "req_matches (DoesNotExist k) ls = (ls k = None)"
| "req_matches (Exists k) ls = (ls k \<noteq> None)"
| "req_matches (In k vs) ls = (\<exists>v\<in>set vs. ls k = Some v)"
| "req_matches (NotIn k vs) ls = (\<forall>v\<in>set vs. ls k \<noteq> Some v)"

definition sel_matches :: "Requirement list \<Rightarrow> strmap \<Rightarrow> bool" where
  "sel_matches sel ls = (\<forall>r\<in>set sel. req_matches r ls)"

text \<open>\<open>List\<close> returns only objects the selector and the namespace option admit.\<close>

definition list_contract :: "('w, 'z) client_scheme \<Rightarrow> bool" where
  "list_contract C \<longleftrightarrow>
     (\<forall>sel ns w hs w'. listByoHosts C sel ns w = (Inr hs, w') \<longrightarrow>
        (\<forall>h\<in>set hs. sel_matches sel (Labels h) \<and> (\<forall>n. ns = Some n \<longrightarrow> Namespace h = n)))"

lemma list_contractD [ext_laws]:
  assumes "list_contract C" "listByoHosts C sel ns w = (Inr hs, w')" "h \<in> set hs"
  shows "r \<in> set sel \<Longrightarrow> req_matches r (Labels h)" and "ns = Some n \<Longrightarrow> Namespace h = n"
  using assms unfolding list_contract_def sel_matches_def by metis+

end
