(* ===== verification/Go_Sha256.thy ===== *)
theory Go_Sha256
  imports Prelude "HOL-Library.Word"
begin

text \<open>
  SHA-256 as \<open>crypto/sha256\<close> and \<open>encoding/hex\<close> compute it (FIPS 180-4), on byte strings: the
  hash that \<open>generateSafeLabelValue\<close> shortens a label with.  The development uses that the
  hexadecimal digest is sixty-four lower-case hexadecimal digits.
\<close>

unbundle bit_operations_syntax

type_synonym u32 = "32 word"

definition sha_k :: "u32 list" where
  "sha_k =
     [0x428A2F98, 0x71374491, 0xB5C0FBCF, 0xE9B5DBA5, 0x3956C25B, 0x59F111F1,
      0x923F82A4, 0xAB1C5ED5, 0xD807AA98, 0x12835B01, 0x243185BE, 0x550C7DC3,
      0x72BE5D74, 0x80DEB1FE, 0x9BDC06A7, 0xC19BF174, 0xE49B69C1, 0xEFBE4786,
      0x0FC19DC6, 0x240CA1CC, 0x2DE92C6F, 0x4A7484AA, 0x5CB0A9DC, 0x76F988DA,
      0x983E5152, 0xA831C66D, 0xB00327C8, 0xBF597FC7, 0xC6E00BF3, 0xD5A79147,
      0x06CA6351, 0x14292967, 0x27B70A85, 0x2E1B2138, 0x4D2C6DFC, 0x53380D13,
      0x650A7354, 0x766A0ABB, 0x81C2C92E, 0x92722C85, 0xA2BFE8A1, 0xA81A664B,
      0xC24B8B70, 0xC76C51A3, 0xD192E819, 0xD6990624, 0xF40E3585, 0x106AA070,
      0x19A4C116, 0x1E376C08, 0x2748774C, 0x34B0BCB5, 0x391C0CB3, 0x4ED8AA4A,
      0x5B9CCA4F, 0x682E6FF3, 0x748F82EE, 0x78A5636F, 0x84C87814, 0x8CC70208,
      0x90BEFFFA, 0xA4506CEB, 0xBEF9A3F7, 0xC67178F2]"

definition sha_h0 :: "u32 list" where
  "sha_h0 =
     [0x6A09E667, 0xBB67AE85, 0x3C6EF372, 0xA54FF53A, 0x510E527F, 0x9B05688C,
      0x1F83D9AB, 0x5BE0CD19]"

definition rotr :: "nat \<Rightarrow> u32 \<Rightarrow> u32" where
  "rotr n x = word_rotr n x"

definition shr :: "nat \<Rightarrow> u32 \<Rightarrow> u32" where
  "shr n x = drop_bit n x"

text \<open>Padding: a one bit, zeros up to 56 bytes of the last block, the length in bits.\<close>

definition be64 :: "nat \<Rightarrow> nat list" where
  "be64 n = map (\<lambda>i. (n div 256 ^ i) mod 256) [7, 6, 5, 4, 3, 2, 1, 0]"

definition pad :: "nat list \<Rightarrow> nat list" where
  "pad msg = msg @ [128] @ replicate (nat ((55 - int (length msg)) mod 64)) 0
             @ be64 (8 * length msg)"

fun be_words :: "nat list \<Rightarrow> u32 list" where
  "be_words (a # b # c # d # r) =
     word_of_nat (((a * 256 + b) * 256 + c) * 256 + d) # be_words r"
| "be_words _ = []"

text \<open>The message schedule: sixteen words of the block, forty-eight more computed from them.\<close>

fun sched :: "nat \<Rightarrow> u32 list \<Rightarrow> u32 list" where
  "sched 0 ws = ws"
| "sched (Suc n) ws =
     (let t = length ws;
          x = ws ! (t - 15); y = ws ! (t - 2);
          s0 = rotr 7 x XOR rotr 18 x XOR shr 3 x;
          s1 = rotr 17 y XOR rotr 19 y XOR shr 10 y
      in sched n (ws @ [s1 + ws ! (t - 7) + s0 + ws ! (t - 16)]))"

fun sha_round :: "u32 \<times> u32 \<Rightarrow> u32 list \<Rightarrow> u32 list" where
  "sha_round (k, w) [a, b, c, d, e, f, g, h] =
     (let t1 = h + (rotr 6 e XOR rotr 11 e XOR rotr 25 e)
               + ((e AND f) XOR (NOT e AND g)) + k + w;
          t2 = (rotr 2 a XOR rotr 13 a XOR rotr 22 a)
               + ((a AND b) XOR (a AND c) XOR (b AND c))
      in [t1 + t2, a, b, c, d + t1, e, f, g])"
| "sha_round _ st = st"

definition sha_block :: "u32 list \<Rightarrow> u32 list \<Rightarrow> u32 list" where
  "sha_block hs blk = map2 (+) hs (fold sha_round (zip sha_k (sched 48 blk)) hs)"

function sha_blocks :: "u32 list \<Rightarrow> u32 list \<Rightarrow> u32 list" where
  "sha_blocks hs ws = (if length ws < 16 then hs
     else sha_blocks (sha_block hs (take 16 ws)) (drop 16 ws))"
  by pat_completeness auto
termination
  by (relation "measure (\<lambda>(hs, ws). length ws)") auto

declare sha_blocks.simps [simp del]

definition sha256_words :: "string \<Rightarrow> u32 list" where
  "sha256_words s = sha_blocks sha_h0 (be_words (pad (map of_char s)))"

definition hex_digit :: "nat \<Rightarrow> char" where
  "hex_digit n = ''0123456789abcdef'' ! (n mod 16)"

definition hex_word :: "u32 \<Rightarrow> string" where
  "hex_word w = map (\<lambda>i. hex_digit (unat w div 16 ^ i)) [7, 6, 5, 4, 3, 2, 1, 0]"

text \<open>\<open>hex.EncodeToString(sha256.Sum(s))\<close>.\<close>

definition sha256_hex :: "string \<Rightarrow> string" where
  "sha256_hex s = concat (map hex_word (sha256_words s))"

section \<open>Shape of the digest\<close>

lemma length_sha_round: "length (sha_round kw st) = length st"
  by (cases "(kw, st)" rule: sha_round.cases) (simp_all add: Let_def)

lemma length_fold_sha_round: "length (fold sha_round kws st) = length st"
  by (induction kws arbitrary: st) (simp_all add: length_sha_round)

lemma length_sha_block [simp]: "length (sha_block hs blk) = length hs"
  by (simp add: sha_block_def length_fold_sha_round)

lemma length_sha_blocks: "length (sha_blocks hs ws) = length hs"
proof (induction hs ws rule: sha_blocks.induct)
  case (1 hs ws)
  then show ?case by (simp add: sha_blocks.simps [of hs ws])
qed

lemma length_sha256_words [simp]: "length (sha256_words s) = 8"
  by (simp add: sha256_words_def length_sha_blocks sha_h0_def)

lemma length_concat_const: "(\<And>x. x \<in> set xs \<Longrightarrow> length x = n) \<Longrightarrow> length (concat xs) = length xs * n"
  by (induction xs) auto

theorem length_sha256_hex [simp]: "length (sha256_hex s) = 64"
proof -
  have "length (concat (map hex_word (sha256_words s))) = length (map hex_word (sha256_words s)) * 8"
    by (rule length_concat_const) (auto simp: hex_word_def)
  then show ?thesis by (simp add: sha256_hex_def)
qed

definition hex_digits :: string where
  "hex_digits = ''0123456789abcdef''"

lemma hex_digit_in: "hex_digit n \<in> set hex_digits"
  unfolding hex_digit_def hex_digits_def by (rule nth_mem) simp

theorem set_sha256_hex: "set (sha256_hex s) \<subseteq> set hex_digits"
  by (auto simp: sha256_hex_def hex_word_def hex_digit_in)

end
