(* ===== verification/Byo_Label.thy ===== *)
theory Byo_Label
  imports Api_Types Go_Sha256
begin

text \<open>
  \<open>generateSafeLabelValue\<close>: the value of the label that ties a host to the machine it is
  attached to.  The controller writes it in \<open>attachByoHost\<close> and searches for it in
  \<open>FetchAttachedByoHost\<close>, so it has to be a legal label value for every machine, and different for
  different machines.
\<close>

definition MaxK8sLabelValueLength :: nat where
  "MaxK8sLabelValueLength = 63"

definition LabelHashLength :: nat where
  "LabelHashLength = 8"

definition LabelSeparator :: string where
  "LabelSeparator = ''-''"

definition MaxLabelPrefixLength :: nat where
  "MaxLabelPrefixLength = MaxK8sLabelValueLength - LabelHashLength - length LabelSeparator"

definition generateSafeLabelValue :: "string \<Rightarrow> string \<Rightarrow> string" where
  "generateSafeLabelValue namespace name =
     (let originalValue = namespace @ ''.'' @ name
      in if length originalValue \<le> MaxK8sLabelValueLength then originalValue
         else let hashSuffix = take LabelHashLength (sha256_hex originalValue);
                  prefixToUse = take MaxLabelPrefixLength originalValue
              in prefixToUse @ LabelSeparator @ hashSuffix)"

lemmas label_limits =
  MaxK8sLabelValueLength_def LabelHashLength_def LabelSeparator_def MaxLabelPrefixLength_def

section \<open>Legal label values\<close>

definition lower_alnum :: "char \<Rightarrow> bool" where
  "lower_alnum c = (c \<in> set ''abcdefghijklmnopqrstuvwxyz0123456789'')"

definition alnum :: "char \<Rightarrow> bool" where
  "alnum c = (lower_alnum c \<or> c \<in> set ''ABCDEFGHIJKLMNOPQRSTUVWXYZ'')"

text \<open>
  What the API server accepts as a label value: at most 63 characters, alphanumeric at both
  ends, \<open>-\<close>, \<open>_\<close> and \<open>.\<close> allowed inside.
\<close>

definition valid_label_value :: "string \<Rightarrow> bool" where
  "valid_label_value s \<longleftrightarrow> length s \<le> 63 \<and>
     (s = [] \<or> alnum (hd s) \<and> alnum (last s) \<and> (\<forall>c\<in>set s. alnum c \<or> c \<in> set ''-_.''))"

text \<open>The names the API server accepts: DNS-1123 labels and subdomains.\<close>

definition dns_label :: "string \<Rightarrow> bool" where
  "dns_label s \<longleftrightarrow> s \<noteq> [] \<and> lower_alnum (hd s) \<and> lower_alnum (last s) \<and>
     (\<forall>c\<in>set s. lower_alnum c \<or> c = CHR ''-'')"

definition dns_subdomain :: "string \<Rightarrow> bool" where
  "dns_subdomain s \<longleftrightarrow> s \<noteq> [] \<and> lower_alnum (hd s) \<and> lower_alnum (last s) \<and>
     (\<forall>c\<in>set s. lower_alnum c \<or> c \<in> set ''-.'')"

lemma dns_label_subdomain: "dns_label s \<Longrightarrow> dns_subdomain s"
  by (auto simp: dns_label_def dns_subdomain_def)

lemma dns_label_no_dot: "dns_label s \<Longrightarrow> CHR ''.'' \<notin> set s"
proof -
  have "\<not> lower_alnum (CHR ''.'')" by code_simp
  then show "dns_label s \<Longrightarrow> CHR ''.'' \<notin> set s" by (auto simp: dns_label_def)
qed

lemma hex_digits_alnum: "c \<in> set hex_digits \<Longrightarrow> alnum c"
proof -
  have "list_all alnum hex_digits" by code_simp
  then show "c \<in> set hex_digits \<Longrightarrow> alnum c" by (simp add: list_all_iff)
qed

lemma lower_alnum_alnum: "lower_alnum c \<Longrightarrow> alnum c"
  by (simp add: alnum_def)

section \<open>The two forms of the value\<close>

lemma generateSafeLabelValue_short:
  "length (ns @ ''.'' @ n) \<le> MaxK8sLabelValueLength \<Longrightarrow> generateSafeLabelValue ns n = ns @ ''.'' @ n"
  by (simp add: generateSafeLabelValue_def)

lemma generateSafeLabelValue_long:
  "orig = ns @ ''.'' @ n \<Longrightarrow> \<not> length orig \<le> MaxK8sLabelValueLength \<Longrightarrow>
   generateSafeLabelValue ns n =
     take MaxLabelPrefixLength orig @ LabelSeparator @ take LabelHashLength (sha256_hex orig)"
  by (simp add: generateSafeLabelValue_def Let_def)

lemma length_shortened:
  "\<not> length orig \<le> MaxK8sLabelValueLength \<Longrightarrow>
   length (take MaxLabelPrefixLength orig @ LabelSeparator @ take LabelHashLength (sha256_hex orig))
     = MaxK8sLabelValueLength"
  by (simp add: label_limits)

lemma length_generateSafeLabelValue:
  "length (generateSafeLabelValue ns n) \<le> MaxK8sLabelValueLength"
proof (cases "length (ns @ ''.'' @ n) \<le> MaxK8sLabelValueLength")
  case True
  then show ?thesis by (simp add: generateSafeLabelValue_short)
next
  case False
  then show ?thesis
    using generateSafeLabelValue_long [OF refl] length_shortened by (metis order_refl)
qed

section \<open>Validity\<close>

lemma joined_chars:
  assumes "dns_subdomain ns" "dns_subdomain n" "c \<in> set (ns @ ''.'' @ n)"
  shows "alnum c \<or> c \<in> set ''-_.''"
  using assms lower_alnum_alnum by (auto simp: dns_subdomain_def)

lemma joined_ends:
  assumes "dns_subdomain ns" "dns_subdomain n"
  shows "alnum (hd (ns @ ''.'' @ n))" and "alnum (last (ns @ ''.'' @ n))"
  using assms lower_alnum_alnum by (auto simp: dns_subdomain_def)

lemma hash_suffix_alnum: "c \<in> set (take k (sha256_hex s)) \<Longrightarrow> alnum c"
  using set_sha256_hex [of s] hex_digits_alnum by (meson in_set_takeD subsetD)

lemma shortened_valid:
  assumes long: "\<not> length orig \<le> MaxK8sLabelValueLength" and hd: "alnum (hd orig)"
    and chars: "\<And>c. c \<in> set orig \<Longrightarrow> alnum c \<or> c \<in> set ''-_.''"
  shows "valid_label_value
    (take MaxLabelPrefixLength orig @ LabelSeparator @ take LabelHashLength (sha256_hex orig))"
    (is "valid_label_value (?p @ ?sep @ ?h)")
proof -
  have h: "?h \<noteq> []"
    using length_sha256_hex [of orig] by (auto simp: LabelHashLength_def simp del: length_sha256_hex)
  have "hd (?p @ ?sep @ ?h) = hd orig"
    using long by (cases orig) (simp_all add: label_limits)
  moreover have "alnum (last (?p @ ?sep @ ?h))"
    using hash_suffix_alnum [OF last_in_set [OF h]] h by (metis append_is_Nil_conv last_appendR)
  moreover have "alnum c \<or> c \<in> set ''-_.''" if mem: "c \<in> set (?p @ ?sep @ ?h)" for c
  proof -
    consider "c \<in> set orig" | "c = CHR ''-''" | "c \<in> set ?h"
      using mem by (auto simp: LabelSeparator_def dest: in_set_takeD)
    then show ?thesis
    proof cases
      case 3
      then show ?thesis using hash_suffix_alnum by blast
    qed (use chars in auto)
  qed
  moreover have "length (?p @ ?sep @ ?h) = 63"
    using length_shortened [OF long] by (simp add: MaxK8sLabelValueLength_def)
  ultimately show ?thesis
    unfolding valid_label_value_def using hd by (metis order_refl)
qed

lemma generateSafeLabelValue_valid:
  assumes ns: "dns_subdomain ns" and n: "dns_subdomain n"
  shows "valid_label_value (generateSafeLabelValue ns n)"
proof (cases "length (ns @ ''.'' @ n) \<le> MaxK8sLabelValueLength")
  case True
  then show ?thesis
    unfolding generateSafeLabelValue_short [OF True] valid_label_value_def
    using joined_ends [OF ns n] joined_chars [OF ns n] by (metis MaxK8sLabelValueLength_def)
next
  case False
  then show ?thesis
    unfolding generateSafeLabelValue_long [OF refl False]
    using joined_ends(1) [OF ns n] joined_chars [OF ns n] by (rule shortened_valid)
qed

section \<open>Injectivity\<close>

lemma append_sep_inj:
  "c \<notin> set a \<Longrightarrow> c \<notin> set b \<Longrightarrow> a @ c # x = b @ c # y \<Longrightarrow> a = b \<and> x = y"
proof (induction a arbitrary: b)
  case Nil
  then show ?case by (cases b) auto
next
  case (Cons d a)
  then show ?case by (cases b) auto
qed

text \<open>
  Two machines with the same label value are the same machine, or both values are shortened
  ones whose names agree on the first 54 characters and on the eight hash digits.
\<close>

lemma generateSafeLabelValue_eq:
  assumes "CHR ''.'' \<notin> set ns" "CHR ''.'' \<notin> set ns'"
    and "generateSafeLabelValue ns n = generateSafeLabelValue ns' n'"
    and "length (ns @ ''.'' @ n) \<le> MaxK8sLabelValueLength"
    and "length (ns' @ ''.'' @ n') \<le> MaxK8sLabelValueLength"
  shows "ns = ns' \<and> n = n'"
  using assms append_sep_inj [of "CHR ''.''" ns ns' n n']
  by (simp add: generateSafeLabelValue_short)

lemma generateSafeLabelValue_long_eq:
  assumes "orig = ns @ ''.'' @ n" and "orig' = ns' @ ''.'' @ n'"
    and "generateSafeLabelValue ns n = generateSafeLabelValue ns' n'"
    and long: "\<not> length orig \<le> MaxK8sLabelValueLength" "\<not> length orig' \<le> MaxK8sLabelValueLength"
  shows "take MaxLabelPrefixLength orig = take MaxLabelPrefixLength orig' \<and>
         take LabelHashLength (sha256_hex orig) = take LabelHashLength (sha256_hex orig')"
proof -
  have "take MaxLabelPrefixLength orig @ LabelSeparator @ take LabelHashLength (sha256_hex orig) =
        take MaxLabelPrefixLength orig' @ LabelSeparator @ take LabelHashLength (sha256_hex orig')"
    using assms generateSafeLabelValue_long by metis
  moreover have "length (take MaxLabelPrefixLength orig) = length (take MaxLabelPrefixLength orig')"
    using long by (simp add: label_limits)
  ultimately show ?thesis by simp
qed

text \<open>
  C19. For the names the API server admits, the label that ties a host to its machine is a value
  the API server accepts (at most 63 characters, well formed, shortened by a hash when the full
  name is longer), and as long as it is not shortened it identifies the machine: two machines
  have the same label only if they have the same namespace and name.
\<close>

theorem generateSafeLabelValue_sound:
  assumes "dns_label ns" "dns_subdomain n" "dns_label ns'"
  shows "valid_label_value (generateSafeLabelValue ns n) \<and>
    (length (ns @ ''.'' @ n) \<le> MaxK8sLabelValueLength \<longrightarrow> length (ns' @ ''.'' @ n') \<le> MaxK8sLabelValueLength \<longrightarrow>
     (generateSafeLabelValue ns n = generateSafeLabelValue ns' n' \<longleftrightarrow> ns = ns' \<and> n = n'))"
  using generateSafeLabelValue_valid [OF dns_label_subdomain [OF assms(1)] assms(2)]
    generateSafeLabelValue_eq [OF dns_label_no_dot [OF assms(1)] dns_label_no_dot [OF assms(3)]]
  by blast

theorem generateSafeLabelValue_sound_witness:
  "valid_label_value (generateSafeLabelValue ''default'' ''md-0.x'') \<and>
   generateSafeLabelValue ''default'' ''md-0.x'' \<noteq> generateSafeLabelValue ''other'' ''md-0.x''"
proof -
  have "dns_label ''default''" "dns_subdomain ''md-0.x''" "dns_label ''other''" by code_simp+
  from generateSafeLabelValue_sound [OF this, of "''md-0.x''"] show ?thesis
    by (simp add: MaxK8sLabelValueLength_def)
qed

end
