(* ===== verification/Go_Strings.thy ===== *)
theory Go_Strings
  imports Prelude
begin

text \<open>
  The functions of Go's \<open>strings\<close> package the code calls, on byte strings (a Go string is a
  sequence of bytes, as an HOL \<open>string\<close> is a sequence of 8-bit characters).  \<open>ToLower\<close> is the
  ASCII part of the library's function; every string the code lowers is an encoding name or an
  operating-system identifier.
\<close>

section \<open>Splitting and joining\<close>

text \<open>\<open>strings.Split(s, sep)\<close> for a separator of one byte: never empty.\<close>

fun Split :: "char \<Rightarrow> string \<Rightarrow> string list" where
  "Split c [] = [[]]"
| "Split c (x # xs) =
     (if x = c then [] # Split c xs
      else (case Split c xs of [] \<Rightarrow> [[x]] | y # ys \<Rightarrow> (x # y) # ys))"

text \<open>\<open>strings.Join\<close>.\<close>

fun Join :: "string \<Rightarrow> string list \<Rightarrow> string" where
  "Join sep [] = []"
| "Join sep [s] = s"
| "Join sep (s # t # ts) = s @ sep @ Join sep (t # ts)"

text \<open>\<open>strings.SplitN(s, sep, 2)\<close> for a separator of one byte: one or two parts.\<close>

fun SplitN2 :: "char \<Rightarrow> string \<Rightarrow> string list" where
  "SplitN2 c [] = [[]]"
| "SplitN2 c (x # xs) =
     (if x = c then [[], xs]
      else (case SplitN2 c xs of [] \<Rightarrow> [[x]] | y # ys \<Rightarrow> (x # y) # ys))"

lemma Split_neq_Nil [simp]: "Split c s \<noteq> []"
  by (cases s) (auto split: list.splits)

lemma SplitN2_neq_Nil [simp]: "SplitN2 c s \<noteq> []"
  by (cases s) (auto split: list.splits)

lemma Split_no_sep [simp]: "c \<notin> set s \<Longrightarrow> Split c s = [s]"
  by (induction s) (auto split: list.splits)

lemma Split_parts_no_sep: "p \<in> set (Split c s) \<Longrightarrow> c \<notin> set p"
  by (induction s arbitrary: p) (auto split: list.splits if_splits)

lemma length_Split: "length (Split c s) = Suc (count_list s c)"
proof (induction s)
  case (Cons x xs)
  then show ?case by (cases "Split c xs") auto
qed simp

lemma Join_Cons: "ts \<noteq> [] \<Longrightarrow> Join sep (s # ts) = s @ sep @ Join sep ts"
  by (cases ts) auto

lemma Join_Split: "Join [c] (Split c s) = s"
proof (induction s)
  case (Cons x xs)
  show ?case
  proof (cases "x = c")
    case True
    then show ?thesis using Cons by (simp add: Join_Cons)
  next
    case False
    obtain y ys where y: "Split c xs = y # ys" by (cases "Split c xs") auto
    then show ?thesis using Cons False by (cases ys) (auto simp: Join_Cons)
  qed
qed simp

lemma Split_append: "c \<notin> set a \<Longrightarrow> Split c (a @ c # b) = a # Split c b"
  by (induction a) (auto split: list.splits)

lemma Split_at: "Split c (a @ c # b) = Split c a @ Split c b"
proof (induction a)
  case (Cons x a)
  then show ?case by (cases "Split c a") auto
qed simp

lemma last_Split_append: "c \<notin> set b \<Longrightarrow> last (Split c (a @ c # b)) = b"
  by (simp add: Split_at)

lemma Split_Join:
  "ss \<noteq> [] \<Longrightarrow> \<forall>s\<in>set ss. c \<notin> set s \<Longrightarrow> Split c (Join [c] ss) = ss"
proof (induction ss)
  case (Cons s ss)
  then show ?case by (cases "ss = []") (simp_all add: Join_Cons Split_append)
qed simp

lemma SplitN2_append: "c \<notin> set a \<Longrightarrow> SplitN2 c (a @ c # b) = [a, b]"
  by (induction a) auto

lemma SplitN2_no_sep: "c \<notin> set s \<Longrightarrow> SplitN2 c s = [s]"
  by (induction s) auto

lemma length_SplitN2: "length (SplitN2 c s) = (if c \<in> set s then 2 else 1)"
proof (cases "c \<in> set s")
  case True
  then obtain a b where "s = a @ c # b" "c \<notin> set a" by (auto dest: split_list_first)
  then show ?thesis using SplitN2_append by auto
next
  case False
  then show ?thesis by (simp add: SplitN2_no_sep)
qed

text \<open>The part of \<open>s\<close> before the first \<open>c\<close>, Go's \<open>strings.Split(s, c)[0]\<close>.\<close>

definition before :: "char \<Rightarrow> string \<Rightarrow> string" where
  "before c s = hd (Split c s)"

lemma before_eq_takeWhile: "before c s = takeWhile (\<lambda>x. x \<noteq> c) s"
  unfolding before_def by (induction s) (auto split: list.splits)

lemma before_no_sep: "c \<notin> set (before c s)"
  by (auto simp: before_eq_takeWhile dest: set_takeWhileD)

section \<open>Searching, replacing, trimming\<close>

fun Contains :: "string \<Rightarrow> string \<Rightarrow> bool" where
  "Contains [] sub = (sub = [])"
| "Contains (x # xs) sub = (prefix sub (x # xs) \<or> Contains xs sub)"

lemma Contains_iff_sublist: "Contains s sub \<longleftrightarrow> sublist sub s"
  by (induction s) (auto simp: sublist_Cons_right)

abbreviation HasPrefix :: "string \<Rightarrow> string \<Rightarrow> bool" where
  "HasPrefix s p \<equiv> prefix p s"

text \<open>\<open>strings.ReplaceAll(s, old, new)\<close> for one-byte \<open>old\<close> and \<open>new\<close>.\<close>

definition ReplaceChar :: "char \<Rightarrow> char \<Rightarrow> string \<Rightarrow> string" where
  "ReplaceChar c d s = map (\<lambda>x. if x = c then d else x) s"

lemma length_ReplaceChar [simp]: "length (ReplaceChar c d s) = length s"
  by (simp add: ReplaceChar_def)

lemma ReplaceChar_removes: "c \<noteq> d \<Longrightarrow> c \<notin> set (ReplaceChar c d s)"
  by (auto simp: ReplaceChar_def)

lemma ReplaceChar_id: "c \<notin> set s \<Longrightarrow> ReplaceChar c d s = s"
  by (induction s) (auto simp: ReplaceChar_def)

text \<open>\<open>strings.ReplaceAll(s, old, "")\<close> for a nonempty \<open>old\<close>, scanning from the left.\<close>

function RemoveAllStr :: "string \<Rightarrow> string \<Rightarrow> string" where
  "RemoveAllStr old [] = []"
| "RemoveAllStr old (x # xs) =
     (if old \<noteq> [] \<and> prefix old (x # xs) then RemoveAllStr old (drop (length old) (x # xs))
      else x # RemoveAllStr old xs)"
  by pat_completeness auto
termination
  by (relation "measure (\<lambda>(old, s). length s)") (auto simp: neq_Nil_conv)

declare RemoveAllStr.simps [simp del]

lemma RemoveAllStr_absent: "old \<noteq> [] \<Longrightarrow> \<not> sublist old s \<Longrightarrow> RemoveAllStr old s = s"
  by (induction s) (auto simp: RemoveAllStr.simps sublist_Cons_right)

text \<open>
  \<open>strings.TrimSpace\<close>: the UTF-8 encodings of the code points with the White\_Space property.
\<close>

definition white_space :: "string list" where
  "white_space =
     [[CHR 0x09], [CHR 0x0A], [CHR 0x0B], [CHR 0x0C], [CHR 0x0D], [CHR 0x20],
      [CHR 0xC2, CHR 0x85], [CHR 0xC2, CHR 0xA0], [CHR 0xE1, CHR 0x9A, CHR 0x80]]
     @ map (\<lambda>b. [CHR 0xE2, CHR 0x80, b])
         [CHR 0x80, CHR 0x81, CHR 0x82, CHR 0x83, CHR 0x84, CHR 0x85, CHR 0x86, CHR 0x87,
          CHR 0x88, CHR 0x89, CHR 0x8A, CHR 0xA8, CHR 0xA9, CHR 0xAF]
     @ [[CHR 0xE2, CHR 0x81, CHR 0x9F], [CHR 0xE3, CHR 0x80, CHR 0x80]]"

lemma white_space_nonempty: "w \<in> set white_space \<Longrightarrow> w \<noteq> []"
  by (auto simp: white_space_def)

function trim_left :: "string list \<Rightarrow> string \<Rightarrow> string" where
  "trim_left ws s =
     (case find (\<lambda>w. w \<noteq> [] \<and> prefix w s) ws of
        None \<Rightarrow> s
      | Some w \<Rightarrow> trim_left ws (drop (length w) s))"
  by pat_completeness auto
termination
proof (relation "measure (\<lambda>(ws, s). length s)", goal_cases)
  case (2 ws s w)
  then have "w \<noteq> [] \<and> prefix w s" by (auto dest: find_Some_in_set)
  then show ?case by (cases s) (auto simp: neq_Nil_conv)
qed simp

declare trim_left.simps [simp del]

definition TrimSpace :: "string \<Rightarrow> string" where
  "TrimSpace s = rev (trim_left (map rev white_space) (rev (trim_left white_space s)))"

lemma trim_left_id: "(\<And>w. w \<in> set ws \<Longrightarrow> w \<noteq> [] \<Longrightarrow> \<not> prefix w s) \<Longrightarrow> trim_left ws s = s"
proof -
  assume "\<And>w. w \<in> set ws \<Longrightarrow> w \<noteq> [] \<Longrightarrow> \<not> prefix w s"
  then have "find (\<lambda>w. w \<noteq> [] \<and> prefix w s) ws = None" by (auto simp: find_None_iff_all)
  then show ?thesis by (simp add: trim_left.simps [of ws s])
qed

lemma trim_left_suffix: "suffix (trim_left ws s) s"
proof (induction ws s rule: trim_left.induct)
  case (1 ws s)
  show ?case
  proof (cases "find (\<lambda>w. w \<noteq> [] \<and> prefix w s) ws")
    case None
    then show ?thesis by (simp add: trim_left.simps [of ws s])
  next
    case (Some w)
    then have "suffix (trim_left ws (drop (length w) s)) (drop (length w) s)" using 1 by blast
    then show ?thesis using Some
      by (simp add: trim_left.simps [of ws s]) (meson suffix_drop suffix_order.trans)
  qed
qed

lemma trim_left_no_prefix: "w \<in> set ws \<Longrightarrow> w \<noteq> [] \<Longrightarrow> \<not> prefix w (trim_left ws s)"
proof (induction ws s rule: trim_left.induct)
  case (1 ws s)
  show ?case
  proof (cases "find (\<lambda>w. w \<noteq> [] \<and> prefix w s) ws")
    case None
    then have "trim_left ws s = s" by (simp add: trim_left.simps [of ws s])
    then show ?thesis using 1 None by (auto simp: find_None_iff_all)
  next
    case (Some w)
    then show ?thesis using 1 by (simp add: trim_left.simps [of ws s])
  qed
qed

lemma trim_left_idem [simp]: "trim_left ws (trim_left ws s) = trim_left ws s"
  by (rule trim_left_id) (rule trim_left_no_prefix)

text \<open>What \<open>TrimSpace\<close> returns has no space left at its end.\<close>

lemma TrimSpace_no_suffix: "w \<in> set white_space \<Longrightarrow> \<not> suffix w (TrimSpace s)"
  using trim_left_no_prefix [of "rev w" "map rev white_space"] white_space_nonempty [of w]
  by (auto simp: TrimSpace_def suffix_to_prefix)

section \<open>Case\<close>

definition lower_char :: "char \<Rightarrow> char" where
  "lower_char c = (if 65 \<le> (of_char c :: nat) \<and> (of_char c :: nat) \<le> 90
                   then char_of ((of_char c :: nat) + 32) else c)"

definition ToLower :: "string \<Rightarrow> string" where
  "ToLower s = map lower_char s"

lemma lower_char_idem [simp]: "lower_char (lower_char c) = lower_char c"
  by (simp add: lower_char_def)

lemma ToLower_idem [simp]: "ToLower (ToLower s) = ToLower s"
  by (simp add: ToLower_def)

lemma ToLower_append [simp]: "ToLower (s @ t) = ToLower s @ ToLower t"
  by (simp add: ToLower_def)

section \<open>Quoting\<close>

text \<open>
  The verb \<open>%q\<close> (\<open>strconv.Quote\<close>), for text without invalid or unprintable characters beyond
  ASCII: those would be escaped, and are left as they are here.
\<close>

definition hex_digit :: "nat \<Rightarrow> char" where
  "hex_digit n = (if n < 10 then char_of (48 + n) else char_of (87 + n))"

definition quote_char :: "char \<Rightarrow> string" where
  "quote_char c =
     (let n = (of_char c :: nat)
      in if n = 34 \<or> n = 92 then [CHR 0x5C, c]
         else if 7 \<le> n \<and> n \<le> 13 then [CHR 0x5C, ''abtnvfr'' ! (n - 7)]
         else if n < 32 \<or> n = 127 then [CHR 0x5C, CHR ''x'', hex_digit (n div 16), hex_digit (n mod 16)]
         else [c])"

definition Quote :: "string \<Rightarrow> string" where
  "Quote s = CHR 0x22 # concat (map quote_char s) @ [CHR 0x22]"

section \<open>Numbers and forms\<close>

text \<open>The verb \<open>%d\<close>.\<close>

fun nat_digits :: "nat \<Rightarrow> string" where
  "nat_digits n = (if n < 10 then [char_of (48 + n)] else nat_digits (n div 10) @ [char_of (48 + n mod 10)])"

declare nat_digits.simps [simp del]

definition Itoa :: "int \<Rightarrow> string" where
  "Itoa i = (if i < 0 then CHR ''-'' # nat_digits (nat (- i)) else nat_digits (nat i))"

text \<open>\<open>url.QueryEscape\<close>, and \<open>url.Values.Encode\<close> on values whose keys are in order.\<close>

definition upper_hex :: "nat \<Rightarrow> char" where
  "upper_hex n = (if n < 10 then char_of (48 + n) else char_of (55 + n))"

definition query_unreserved :: "char \<Rightarrow> bool" where
  "query_unreserved c =
     (let n = (of_char c :: nat)
      in (48 \<le> n \<and> n \<le> 57) \<or> (65 \<le> n \<and> n \<le> 90) \<or> (97 \<le> n \<and> n \<le> 122) \<or> c \<in> set ''-_.~'')"

definition query_char :: "char \<Rightarrow> string" where
  "query_char c =
     (let n = (of_char c :: nat)
      in if query_unreserved c then [c] else if n = 32 then ''+''
         else [CHR ''%'', upper_hex (n div 16), upper_hex (n mod 16)])"

definition QueryEscape :: "string \<Rightarrow> string" where
  "QueryEscape s = concat (map query_char s)"

definition Encode :: "(string \<times> string) list \<Rightarrow> string" where
  "Encode kvs = Join ''&'' (map (\<lambda>(k, v). QueryEscape k @ ''='' @ QueryEscape v) kvs)"

text \<open>An escaped string cannot be taken for a separator of the form.\<close>

lemma query_char_plain: "set (query_char c) \<inter> {CHR ''&'', CHR ''=''} = {}"
proof -
  have hex: "upper_hex n \<noteq> CHR ''&'' \<and> upper_hex n \<noteq> CHR ''=''" if "n < 16" for n
  proof -
    have "list_all (\<lambda>n. upper_hex n \<noteq> CHR ''&'' \<and> upper_hex n \<noteq> CHR ''='') [0..<16]" by code_simp
    with that show ?thesis by (simp add: list_all_iff)
  qed
  have "(of_char c :: nat) div 16 < 16" by (simp add: less_mult_imp_div_less)
  then have hi: "upper_hex (of_char c div 16) \<noteq> CHR ''&'' \<and> upper_hex (of_char c div 16) \<noteq> CHR ''=''"
    by (rule hex)
  have lo: "upper_hex (of_char c mod 16) \<noteq> CHR ''&'' \<and> upper_hex (of_char c mod 16) \<noteq> CHR ''=''"
    by (rule hex) simp
  have "\<not> query_unreserved CHR ''&''" and "\<not> query_unreserved CHR ''=''" by code_simp+
  then have "query_unreserved c \<Longrightarrow> c \<noteq> CHR ''&'' \<and> c \<noteq> CHR ''=''" by auto
  with hi lo show ?thesis by (simp add: query_char_def Let_def eq_commute [of "CHR ''&''"] eq_commute [of "CHR ''=''"])
qed

lemma QueryEscape_plain: "CHR ''&'' \<notin> set (QueryEscape s) \<and> CHR ''='' \<notin> set (QueryEscape s)"
  using query_char_plain by (fastforce simp: QueryEscape_def)

end
