(* ===== verification/Go_Regexp.thy ===== *)
theory Go_Regexp
  imports Prelude
begin

text \<open>
  The part of Go's \<open>regexp\<close> package the code uses: \<open>MatchString\<close> on patterns built from
  literals, \<open>.\<close>, character classes, concatenation and repetition.  \<open>matches\<close> is the meaning of
  a pattern, \<open>accepts\<close> a matcher by derivatives, and \<open>MatchString\<close> the unanchored search of
  the library: some substring of the text matches.
\<close>

datatype rexp =
    Never
  | Eps
  | Chars "char \<Rightarrow> bool"
  | Cat rexp rexp
  | Alt rexp rexp
  | Star rexp

inductive matches :: "rexp \<Rightarrow> string \<Rightarrow> bool" where
  m_eps: "matches Eps []"
| m_chars: "P c \<Longrightarrow> matches (Chars P) [c]"
| m_cat: "matches r u \<Longrightarrow> matches s v \<Longrightarrow> matches (Cat r s) (u @ v)"
| m_alt1: "matches r u \<Longrightarrow> matches (Alt r s) u"
| m_alt2: "matches s u \<Longrightarrow> matches (Alt r s) u"
| m_star0: "matches (Star r) []"
| m_star1: "matches r u \<Longrightarrow> matches (Star r) v \<Longrightarrow> matches (Star r) (u @ v)"

inductive_simps matches_simps [simp]:
  "matches Never w"
  "matches Eps w"
  "matches (Chars P) w"
  "matches (Cat r s) w"
  "matches (Alt r s) w"

inductive_cases matches_StarE: "matches (Star r) w"

fun nullable :: "rexp \<Rightarrow> bool" where
  "nullable Never = False"
| "nullable Eps = True"
| "nullable (Chars P) = False"
| "nullable (Cat r s) = (nullable r \<and> nullable s)"
| "nullable (Alt r s) = (nullable r \<or> nullable s)"
| "nullable (Star r) = True"

fun deriv :: "char \<Rightarrow> rexp \<Rightarrow> rexp" where
  "deriv c Never = Never"
| "deriv c Eps = Never"
| "deriv c (Chars P) = (if P c then Eps else Never)"
| "deriv c (Cat r s) = (if nullable r then Alt (Cat (deriv c r) s) (deriv c s) else Cat (deriv c r) s)"
| "deriv c (Alt r s) = Alt (deriv c r) (deriv c s)"
| "deriv c (Star r) = Cat (deriv c r) (Star r)"

fun accepts :: "rexp \<Rightarrow> string \<Rightarrow> bool" where
  "accepts r [] = nullable r"
| "accepts r (c # cs) = accepts (deriv c r) cs"

lemma nullable_iff: "nullable r \<longleftrightarrow> matches r []"
  by (induction r) (auto intro: matches.intros)

lemma matches_Star_Cons:
  assumes "matches (Star r) (c # w)"
  shows "\<exists>u v. w = u @ v \<and> matches r (c # u) \<and> matches (Star r) v"
  using assms
proof (induction "Star r" "c # w" arbitrary: c w rule: matches.induct)
  case (m_star1 u v)
  then show ?case by (cases u) auto
qed

lemma matches_deriv: "matches (deriv c r) w \<longleftrightarrow> matches r (c # w)"
proof (induction r arbitrary: w)
  case (Cat r s)
  have "matches (Cat r s) (c # w) \<longleftrightarrow>
      (\<exists>u v. w = u @ v \<and> matches r (c # u) \<and> matches s v) \<or> (matches r [] \<and> matches s (c # w))"
    by (auto simp: Cons_eq_append_conv)
  then show ?case using Cat by (auto simp: nullable_iff)
next
  case (Star r)
  have "matches (Star r) (c # w) \<longleftrightarrow> (\<exists>u v. w = u @ v \<and> matches r (c # u) \<and> matches (Star r) v)"
    using matches_Star_Cons m_star1 [of r "c # _"] by fastforce
  then show ?case using Star by auto
qed auto

theorem accepts_iff_matches: "accepts r w \<longleftrightarrow> matches r w"
  by (induction w arbitrary: r) (auto simp: nullable_iff matches_deriv)

section \<open>The forms of pattern in the sources\<close>

text \<open>\<open>.\<close> is any character but a newline; \<open>any\<close> is what surrounds an unanchored match.\<close>

definition dot :: rexp where
  "dot = Chars (\<lambda>c. c \<noteq> CHR 0x0A)"

definition any :: rexp where
  "any = Chars (\<lambda>_. True)"

definition rplus :: "rexp \<Rightarrow> rexp" where
  "rplus r = Cat r (Star r)"

fun lit :: "string \<Rightarrow> rexp" where
  "lit [] = Eps"
| "lit (c # cs) = Cat (Chars (\<lambda>x. x = c)) (lit cs)"

lemma matches_lit [simp]: "matches (lit s) w \<longleftrightarrow> w = s"
  by (induction s arbitrary: w) auto

lemma matches_Star_Chars: "matches (Star (Chars P)) w \<longleftrightarrow> (\<forall>c\<in>set w. P c)"
proof
  show "matches (Star (Chars P)) w \<Longrightarrow> \<forall>c\<in>set w. P c"
    by (induction "Star (Chars P)" w rule: matches.induct) auto
  show "\<forall>c\<in>set w. P c \<Longrightarrow> matches (Star (Chars P)) w"
  proof (induction w)
    case (Cons c w)
    then show ?case using m_star1 [of "Chars P" "[c]" w] by auto
  qed (rule m_star0)
qed

lemma matches_rplus_Chars: "matches (rplus (Chars P)) w \<longleftrightarrow> w \<noteq> [] \<and> (\<forall>c\<in>set w. P c)"
proof (cases w)
  case (Cons c cs)
  have "(\<exists>u v. w = u @ v \<and> (\<exists>d. u = [d] \<and> P d) \<and> (\<forall>d\<in>set v. P d)) \<longleftrightarrow> P c \<and> (\<forall>d\<in>set cs. P d)"
    unfolding Cons by (fastforce intro: exI [of _ "[c]"])
  then show ?thesis using Cons by (simp add: rplus_def matches_Star_Chars)
qed (auto simp: rplus_def)

lemma matches_Star_any [simp]: "matches (Star any) w"
  by (simp add: any_def matches_Star_Chars)

text \<open>
  The syntax of the patterns that are made of literal characters, the dot, and the postfix
  operators \<open>*\<close> and \<open>+\<close> on one of these.
\<close>

definition atom :: "char \<Rightarrow> rexp" where
  "atom c = (if c = CHR ''.'' then dot else Chars (\<lambda>x. x = c))"

fun compile :: "string \<Rightarrow> rexp" where
  "compile [] = Eps"
| "compile [c] = Cat (atom c) Eps"
| "compile (c # d # cs) =
     (if d = CHR ''*'' then Cat (Star (atom c)) (compile cs)
      else if d = CHR ''+'' then Cat (rplus (atom c)) (compile cs)
      else Cat (atom c) (compile (d # cs)))"

text \<open>\<open>regexp.MatchString\<close>: the pattern matches somewhere in the text.\<close>

definition MatchString :: "rexp \<Rightarrow> string \<Rightarrow> bool" where
  "MatchString r s = accepts (Cat (Star any) (Cat r (Star any))) s"

theorem MatchString_iff: "MatchString r s \<longleftrightarrow> (\<exists>u v w. s = u @ v @ w \<and> matches r v)"
  by (auto simp: MatchString_def accepts_iff_matches)

lemma MatchString_whole: "matches r s \<Longrightarrow> MatchString r s"
  by (metis MatchString_iff append_Nil append_Nil2)

text \<open>A pattern \<open>^r$\<close> has to match the whole text.\<close>

definition MatchAnchored :: "rexp \<Rightarrow> string \<Rightarrow> bool" where
  "MatchAnchored r s = accepts r s"

lemma MatchAnchored_iff: "MatchAnchored r s \<longleftrightarrow> matches r s"
  by (simp add: MatchAnchored_def accepts_iff_matches)

end
