(* ===== verification/ByoMachine_Ctl.thy ===== *)
theory ByoMachine_Ctl
  imports Externals Byo_Label Go_Strings Go_Regexp
begin

text \<open>
  The ByoMachine controller (\<open>controllers/infrastructure/byomachine_controller.go\<close> and
  \<open>byomachine_scope.go\<close>): it reserves a host of the capacity pool for a machine, hands it the
  secrets to install and bootstrap with, sets the provider ID of the node, and releases the host
  when the machine is deleted.

  The state of a reconciliation is the scope (with the local copies of the machine and its host,
  which the Go code mutates through pointers), the world and the events recorded so far.
\<close>

section \<open>Third-party calls of this controller\<close>

text \<open>
  \<open>Unstructured\<close> is an \<open>unstructured.Unstructured\<close>: an object of a kind known only at run time,
  with its content as a tree.
\<close>

datatype json = JNull | JBool bool | JNum int | JStr string | JArr "json list" | JObj "(string \<times> json) list"

record Unstructured =
  u_GVK :: GroupVersionKind
  u_Name :: string
  u_Namespace :: string
  u_Object :: json

record GenerateTemplateInput =
  gt_Template :: Unstructured
  gt_TemplateRef :: ObjectReference
  gt_Namespace :: string
  gt_Annotations :: strmap
  gt_ClusterName :: string
  gt_OwnerRef :: OwnerReference

record 'w machine_client = "'w client" +
  helperByoMachine :: "ByoMachine \<Rightarrow> error option"
  patchByoMachine :: "ByoMachine \<Rightarrow> ByoMachine \<Rightarrow> 'w \<Rightarrow> error option \<times> 'w"
  getByoCluster :: "key \<Rightarrow> 'w \<Rightarrow> (error + ByoCluster) \<times> 'w"
  getOwnerMachine :: "ObjectMeta \<Rightarrow> 'w \<Rightarrow> (error + Machine option) \<times> 'w"
  NewRequirement :: "Requirement \<Rightarrow> error option"
  LabelSelectorAsSelector :: "LabelSelector \<Rightarrow> error + Requirement list"
  NewControllerRef :: "ObjectMeta \<Rightarrow> OwnerReference"
  getUnstructured :: "GroupVersionKind \<Rightarrow> key \<Rightarrow> 'w \<Rightarrow> (error + Unstructured) \<times> 'w"
  createUnstructured :: "Unstructured \<Rightarrow> 'w \<Rightarrow> error option \<times> 'w"
  GenerateTemplate :: "GenerateTemplateInput \<Rightarrow> error + Unstructured"
  IsReady :: "Unstructured \<Rightarrow> error + bool"
  NestedField :: "json \<Rightarrow> string list \<Rightarrow> error + json option"
  FromUnstructured :: "json \<Rightarrow> error + ObjectReference"
  TrackerGetClient :: "key \<Rightarrow> 'w \<Rightarrow> error option \<times> 'w"
  getNode :: "key \<Rightarrow> key \<Rightarrow> 'w \<Rightarrow> (error + Node) \<times> 'w"
  helperNode :: "Node \<Rightarrow> error option"
  patchNode :: "key \<Rightarrow> Node \<Rightarrow> Node \<Rightarrow> 'w \<Rightarrow> error option \<times> 'w"
  RandomString :: "nat \<Rightarrow> 'w \<Rightarrow> string \<times> 'w"

section \<open>Constants and scope\<close>

definition ProviderIDPrefix :: string where
  "ProviderIDPrefix = ''byoh://''"

definition ProviderIDSuffixLength :: nat where
  "ProviderIDSuffixLength = 6"

definition RequeueForbyohost :: Duration where
  "RequeueForbyohost = 10 * Second"

definition RequeueInstallerConfigTime :: Duration where
  "RequeueInstallerConfigTime = 10 * Second"

record byoMachineScopeParams =
  p_Client :: bool
  p_Cluster :: "Cluster option"
  p_Machine :: "Machine option"
  p_ByoCluster :: "ByoCluster option"
  p_ByoMachine :: "ByoMachine option"
  p_ByoHost :: "ByoHost option"

record byoMachineScope =
  sc_Cluster :: Cluster
  sc_Machine :: Machine
  sc_ByoCluster :: ByoCluster
  sc_ByoMachine :: ByoMachine
  sc_ByoHost :: "ByoHost option"

definition newByoMachineScope ::
  "('w, 'z) machine_client_scheme \<Rightarrow> byoMachineScopeParams \<Rightarrow> error + byoMachineScope" where
  "newByoMachineScope C params =
     (if \<not> p_Client params then Inl (ErrorString ''Client is required when creating a MachineScope'')
      else case p_Cluster params of
        None \<Rightarrow> Inl (ErrorString ''Cluster is required when creating a MachineScope'')
      | Some cluster \<Rightarrow> (case p_Machine params of
          None \<Rightarrow> Inl (ErrorString ''Machine is required when creating a MachineScope'')
        | Some machine \<Rightarrow> (case p_ByoMachine params of
            None \<Rightarrow> Inl (ErrorString ''BYOMachine is required when creating a MachineScope'')
          | Some byoMachine \<Rightarrow> (case p_ByoCluster params of
              None \<Rightarrow> Inl (ErrorString ''ByoCluster is required when creating a MachineScope'')
            | Some byoCluster \<Rightarrow> (case helperByoMachine C byoMachine of
                Some err \<Rightarrow> Inl (Wrapped ''failed to init patch helper'' err)
              | None \<Rightarrow> Inr \<lparr>sc_Cluster = cluster, sc_Machine = machine, sc_ByoCluster = byoCluster,
                            sc_ByoMachine = byoMachine, sc_ByoHost = p_ByoHost params\<rparr>)))))"

record 'w mstate =
  scope :: byoMachineScope
  world :: 'w
  events :: "Event list"

definition record_event :: "Event \<Rightarrow> 'w mstate \<Rightarrow> 'w mstate" where
  "record_event e st = st\<lparr>events := events st @ [e]\<rparr>"

definition upd_machine :: "(ByoMachine \<Rightarrow> ByoMachine) \<Rightarrow> 'w mstate \<Rightarrow> 'w mstate" where
  "upd_machine f st = st\<lparr>scope := (scope st)\<lparr>sc_ByoMachine := f (sc_ByoMachine (scope st))\<rparr>\<rparr>"

definition put_host :: "ByoHost \<Rightarrow> 'w mstate \<Rightarrow> 'w mstate" where
  "put_host h st = st\<lparr>scope := (scope st)\<lparr>sc_ByoHost := Some h\<rparr>\<rparr>"

definition put_world :: "'w \<Rightarrow> 'w mstate \<Rightarrow> 'w mstate" where
  "put_world w st = st\<lparr>world := w\<rparr>"

type_synonym 'w mresult = "(Result \<times> error option) outcome \<times> 'w mstate"

section \<open>Finding and releasing the attached host\<close>

text \<open>
  \<open>labels.NewRequirement\<close> refuses an ill-formed label value; the code ignores its error and
  dereferences the requirement, which panics when there is none.
\<close>

definition FetchAttachedByoHost ::
  "('w, 'z) machine_client_scheme \<Rightarrow> string \<Rightarrow> string \<Rightarrow> 'w \<Rightarrow>
   (error + ByoHost option) outcome \<times> 'w" where
  "FetchAttachedByoHost C byomachineName byomachineNamespace w =
     (let req = Equals AttachedByoMachineLabel (generateSafeLabelValue byomachineNamespace byomachineName)
      in case NewRequirement C req of
           Some _ \<Rightarrow> (Panic ''nil pointer dereference'', w)
         | None \<Rightarrow> (case listByoHosts C [req] None w of
             (Inl err, w') \<Rightarrow> (Return (Inl err), w')
           | (Inr [], w') \<Rightarrow> (Return (Inr None), w')
           | (Inr (refByoHost # _), w') \<Rightarrow> (Return (Inr (Some refByoHost)), w')))"

definition setPausedConditionForByoHost ::
  "('w, 'z) machine_client_scheme \<Rightarrow> bool \<Rightarrow> ByoHost \<Rightarrow> 'w \<Rightarrow> error option \<times> ByoHost \<times> 'w" where
  "setPausedConditionForByoHost C isPaused host w =
     (case helperByoHost C host of
        Some err \<Rightarrow> (Some err, host, w)
      | None \<Rightarrow>
          let host' = (if isPaused
                       then host\<lparr>Annotations := ann_Add (libs C) (Annotations host) [PausedAnnotation \<mapsto> []]\<rparr>
                       else host\<lparr>Annotations := (Annotations host)(PausedAnnotation := None)\<rparr>);
              (err, w') = patchByoHost C host host' w
          in (err, host', w'))"

text \<open>The change \<open>markHostForCleanup\<close> makes to the host before it patches it.\<close>

definition cleanup_marked :: "ByoMachine \<Rightarrow> ByoHost \<Rightarrow> ByoHost" where
  "cleanup_marked byoMachine host =
     (let host1 = host\<lparr>Annotations := (Annotations host)(HostCleanupAnnotation \<mapsto> [])\<rparr>
      in if Annotations byoMachine UpgradeInProgressAnnotation = Some ''true'' then host1
         else host1\<lparr>Labels := (Labels host1)(ClusterLabel := None, ClusterLabelCP := None)\<rparr>)"

definition markHostForCleanup ::
  "('w, 'z) machine_client_scheme \<Rightarrow> ByoMachine \<Rightarrow> ByoHost \<Rightarrow> 'w \<Rightarrow>
   error option outcome \<times> ByoHost \<times> 'w" where
  "markHostForCleanup C byoMachine host w =
     (let host' = cleanup_marked byoMachine host
      in case helperByoHost C host of
           Some _ \<Rightarrow> (Panic ''nil pointer dereference'', host', w)
         | None \<Rightarrow> let (err, w') = patchByoHost C host host' w in (Return err, host', w'))"

definition reconcileDelete :: "('w, 'z) machine_client_scheme \<Rightarrow> 'w mstate \<Rightarrow> 'w mresult" where
  "reconcileDelete C st =
     (let finish = (\<lambda>st. (Return (no_requeue, None),
            upd_machine (\<lambda>m. m\<lparr>Finalizers := fin_Remove (libs C) MachineFinalizer (Finalizers m)\<rparr>) st))
      in case sc_ByoHost (scope st) of
           None \<Rightarrow> finish st
         | Some host \<Rightarrow>
             (let byoMachine = sc_ByoMachine (scope st)
              in case markHostForCleanup C byoMachine host (world st) of
                   (Panic m, host', w) \<Rightarrow> (Panic m, put_host host' (put_world w st))
                 | (Return (Some err), host', w) \<Rightarrow>
                     (Return (no_requeue, Some err), put_host host' (put_world w st))
                 | (Return None, host', w) \<Rightarrow>
                     finish
                       (record_event (Event_of byoMachine EventTypeNormal ''ByoHostReleaseSucceeded''
                          (''Released ByoHost '' @ Name host'))
                       (record_event (Event_of host' EventTypeNormal ''ByoHostReleaseSucceeded''
                          (''ByoHost Released by '' @ Name byoMachine))
                       (put_host host' (put_world w st))))))"

section \<open>The installer configuration\<close>

text \<open>
  The callers check \<open>InstallerRef\<close>, so \<open>ref\<close> is its value.  The kind of the configuration is
  the template's kind without \<open>Template\<close>; it has the machine's name and namespace.
\<close>

definition getInstallerConfig ::
  "('w, 'z) machine_client_scheme \<Rightarrow> ObjectReference \<Rightarrow> ByoMachine \<Rightarrow> 'w \<Rightarrow>
   (error + Unstructured) \<times> 'w" where
  "getInstallerConfig C ref byoMachine w =
     (let gvk = refGVK C ref
      in getUnstructured C (gvk\<lparr>gvk_Kind := RemoveAllStr ''Template'' (gvk_Kind gvk)\<rparr>)
           (Namespace byoMachine, Name byoMachine) w)"

definition createInstallerConfig ::
  "('w, 'z) machine_client_scheme \<Rightarrow> ObjectReference \<Rightarrow> byoMachineScope \<Rightarrow> 'w \<Rightarrow>
   error option outcome \<times> 'w" where
  "createInstallerConfig C ref sc w =
     (let byoMachine = sc_ByoMachine sc
      in case getInstallerConfig C ref byoMachine w of
           (Inr _, w1) \<Rightarrow> (Return None, w1)
         | (Inl err, w1) \<Rightarrow>
             if \<not> IsNotFound err then (Return (Some err), w1)
             else (case getUnstructured C (refGVK C ref) (ref_key ref) w1 of
               (Inl err, w2) \<Rightarrow> (Return (Some err), w2)
             | (Inr template, w2) \<Rightarrow>
                 (case Version (sc_Machine sc) of
                    None \<Rightarrow> (Panic ''nil pointer dereference'', w2)
                  | Some version \<Rightarrow>
                      (case GenerateTemplate C
                              \<lparr>gt_Template = template, gt_TemplateRef = ref,
                               gt_Namespace = Namespace byoMachine,
                               gt_Annotations = [K8sVersionAnnotation \<mapsto> before CHR ''+'' version],
                               gt_ClusterName = Name (sc_Cluster sc),
                               gt_OwnerRef = NewControllerRef C (ObjectMeta.truncate byoMachine)\<rparr> of
                         Inl err \<Rightarrow> (Return (Some err), w2)
                       | Inr installerConfig \<Rightarrow>
                           (case createUnstructured C (installerConfig\<lparr>u_Name := Name byoMachine\<rparr>) w2 of
                              (Some err, w3) \<Rightarrow> (Return (Some err), w3)
                            | (None, w3) \<Rightarrow> (Return None, w3))))))"

definition getInstallerConfigAndStatus ::
  "('w, 'z) machine_client_scheme \<Rightarrow> ObjectReference \<Rightarrow> ByoMachine \<Rightarrow> 'w \<Rightarrow>
   (error + Unstructured \<times> bool) \<times> 'w" where
  "getInstallerConfigAndStatus C ref byoMachine w =
     (case getInstallerConfig C ref byoMachine w of
        (Inl err, w') \<Rightarrow> (Inl err, w')
      | (Inr installerConfig, w') \<Rightarrow>
          (case IsReady C installerConfig of
             Inl err \<Rightarrow> (Inl err, w')
           | Inr ready \<Rightarrow> (Inr (installerConfig, ready), w')))"

text \<open>Left: what the caller returns at once.  Right: a ready configuration, and a helper was made.\<close>

definition getInstallerConfigAndHelper ::
  "('w, 'z) machine_client_scheme \<Rightarrow> ObjectReference \<Rightarrow> ByoMachine \<Rightarrow> ByoHost \<Rightarrow> 'w \<Rightarrow>
   ((Result \<times> error option) + Unstructured) \<times> 'w" where
  "getInstallerConfigAndHelper C ref byoMachine host w =
     (case getInstallerConfigAndStatus C ref byoMachine w of
        (Inl err, w') \<Rightarrow> (Inl (no_requeue, Some err), w')
      | (Inr (installerConfig, ready), w') \<Rightarrow>
          if \<not> ready then (Inl (requeue_after RequeueInstallerConfigTime, None), w')
          else (case helperByoHost C host of
            Some err \<Rightarrow> (Inl (no_requeue, Some err), w')
          | None \<Rightarrow> (Inr installerConfig, w')))"

text \<open>
  The reference at \<open>status.\<close>\<open>field\<close> of a ready configuration.  A value that is no object fails
  the type assertion \<open>secret.(map[string]interface{})\<close>.
\<close>

definition config_secret ::
  "('w, 'z) machine_client_scheme \<Rightarrow> string \<Rightarrow> string \<Rightarrow> string \<Rightarrow> Unstructured \<Rightarrow>
   (error + ObjectReference) outcome" where
  "config_secret C field what conv installerConfig =
     (case NestedField C (u_Object installerConfig) [''status'', field] of
        Inl err \<Rightarrow> Return (Inl err)
      | Inr None \<Rightarrow> Return (Inl (ErrorString (what @ '' secret not set on ready installerconfig '' @
                       gvk_Kind (u_GVK installerConfig) @ '' '' @ u_Name installerConfig)))
      | Inr (Some secret) \<Rightarrow>
          (case secret of
             JObj _ \<Rightarrow> (case FromUnstructured C secret of
                 Inl err \<Rightarrow> Return (Inl (ErrorString (''failed to convert unstructured '' @ conv @ '', '' @ Error err)))
               | Inr secretRef \<Rightarrow> Return (Inr secretRef))
           | _ \<Rightarrow> Panic ''interface conversion''))"

definition setInstallationSecretForByoHost ::
  "('w, 'z) machine_client_scheme \<Rightarrow> ObjectReference \<Rightarrow> ByoMachine \<Rightarrow> ByoHost \<Rightarrow> 'w \<Rightarrow>
   (Result \<times> error option) outcome \<times> ByoHost \<times> 'w" where
  "setInstallationSecretForByoHost C ref byoMachine host w =
     (case getInstallerConfigAndHelper C ref byoMachine host w of
        (Inl res, w') \<Rightarrow> (Return res, host, w')
      | (Inr installerConfig, w') \<Rightarrow>
          (case config_secret C ''installationSecret'' ''installation'' ''field'' installerConfig of
             Panic m \<Rightarrow> (Panic m, host, w')
           | Return (Inl err) \<Rightarrow> (Return (no_requeue, Some err), host, w')
           | Return (Inr secretRef) \<Rightarrow>
               let host' = host\<lparr>HostSpec := (HostSpec host)\<lparr>InstallationSecret := Some secretRef\<rparr>\<rparr>;
                   (err, w'') = patchByoHost C host host' w'
               in (Return (no_requeue, err), host', w'')))"

definition setUninstallationSecretForByoHost ::
  "('w, 'z) machine_client_scheme \<Rightarrow> ObjectReference \<Rightarrow> ByoMachine \<Rightarrow> ByoHost \<Rightarrow> 'w \<Rightarrow>
   (Result \<times> error option) outcome \<times> ByoHost \<times> 'w" where
  "setUninstallationSecretForByoHost C ref byoMachine host w =
     (case getInstallerConfigAndHelper C ref byoMachine host w of
        (Inl res, w') \<Rightarrow> (Return res, host, w')
      | (Inr installerConfig, w') \<Rightarrow>
          (case config_secret C ''uninstallationSecret'' ''uninstallation'' ''uninstallationSecret'' installerConfig of
             Panic m \<Rightarrow> (Panic m, host, w')
           | Return (Inl err) \<Rightarrow> (Return (no_requeue, Some err), host, w')
           | Return (Inr secretRef) \<Rightarrow>
               let host' = host\<lparr>HostSpec := (HostSpec host)\<lparr>UninstallationSecret := Some secretRef\<rparr>\<rparr>;
                   (err, w'') = patchByoHost C host host' w'
               in (Return (no_requeue, err), host', w'')))"

section \<open>Reserving a host\<close>

text \<open>The reservation \<open>attachByoHost\<close> writes on the chosen host.\<close>

definition reserved_host :: "byoMachineScope \<Rightarrow> string \<Rightarrow> string \<Rightarrow> ByoHost \<Rightarrow> ByoHost" where
  "reserved_host sc dataSecretName version host =
     (let byoMachine = sc_ByoMachine sc;
          machineRef = \<lparr>ref_Kind = Kind byoMachine, ref_APIVersion = APIVersion byoMachine,
                        ref_Namespace = Namespace byoMachine, ref_Name = Name byoMachine,
                        ref_UID = UID byoMachine\<rparr>;
          clusterName = (case Labels byoMachine ClusterNameLabel of None \<Rightarrow> [] | Some v \<Rightarrow> v);
          bootstrapSecret = \<lparr>ref_Kind = ''Secret'', ref_APIVersion = [],
                             ref_Namespace = Namespace byoMachine, ref_Name = dataSecretName, ref_UID = []\<rparr>
      in host\<lparr>HostStatus := (HostStatus host)\<lparr>MachineRef := Some machineRef\<rparr>,
              Labels := (Labels host)(ClusterNameLabel \<mapsto> clusterName,
                 AttachedByoMachineLabel \<mapsto> generateSafeLabelValue (Namespace byoMachine) (Name byoMachine)),
              HostSpec := (HostSpec host)\<lparr>BootstrapSecret := Some bootstrapSecret\<rparr>,
              Annotations := (Annotations host)(EndPointIPAnnotation \<mapsto> ClusterEndpointHost (sc_Cluster sc),
                 K8sVersionAnnotation \<mapsto> before CHR ''+'' version,
                 BundleLookupBaseRegistryAnnotation \<mapsto> BundleLookupBaseRegistry (ClusterSpec (sc_ByoCluster sc)))\<rparr>)"

text \<open>The second half of \<open>attachByoHost\<close>, once a host has been found.\<close>

definition attach_found_host ::
  "('w, 'z) machine_client_scheme \<Rightarrow> ByoHost \<Rightarrow> 'w mstate \<Rightarrow> 'w mresult" where
  "attach_found_host C host st =
     (case (DataSecretName (sc_Machine (scope st)), Version (sc_Machine (scope st)), helperByoHost C host) of
        (Some dataSecretName, Some version, None) \<Rightarrow>
          (let host' = reserved_host (scope st) dataSecretName version host
           in case patchByoHost C host host' (world st) of
                (Some err, w) \<Rightarrow> (Return (no_requeue, Some err), put_world w st)
              | (None, w) \<Rightarrow> (Return (no_requeue, None), put_host host' (put_world w st)))
      | _ \<Rightarrow> (Panic ''nil pointer dereference'', st))"

definition attachByoHost :: "('w, 'z) machine_client_scheme \<Rightarrow> 'w mstate \<Rightarrow> 'w mresult" where
  "attachByoHost C st =
     (let byoMachine = sc_ByoMachine (scope st)
      in if sc_ByoHost (scope st) \<noteq> None then (Return (no_requeue, None), st)
         else case (case Selector (MachineSpec byoMachine) of
                      Some s \<Rightarrow> LabelSelectorAsSelector C s
                    | None \<Rightarrow> Inr []) of
           Inl err \<Rightarrow> (Return (no_requeue, Some err), st)
         | Inr selector \<Rightarrow>
             (case NewRequirement C (DoesNotExist ClusterNameLabel) of
                Some _ \<Rightarrow> (Panic ''nil pointer dereference'', st)
              | None \<Rightarrow>
                  (case listByoHosts C (selector @ [DoesNotExist ClusterNameLabel])
                          (Some (Namespace byoMachine)) (world st) of
                     (Inl err, w) \<Rightarrow> (Return (requeue_after RequeueForbyohost, Some err), put_world w st)
                   | (Inr [], w) \<Rightarrow>
                       (Return (requeue_after RequeueForbyohost, Some (ErrorString ''no hosts found'')),
                        upd_machine (machine_MarkFalse (libs C) BYOHostReady BYOHostsUnavailableReason SeverityInfo)
                          (record_event (Event_of byoMachine EventTypeWarning ''ByoHostSelectionFailed''
                             ''No available ByoHost'') (put_world w st)))
                   | (Inr (host # _), w) \<Rightarrow> attach_found_host C host (put_world w st))))"

section \<open>The provider ID of the node\<close>

text \<open>
  The pattern \<open>byoh://<host name>/.+\<close>.  A host name is a DNS-1123 subdomain, in which the dot is
  the only character with a meaning in a regular expression.
\<close>

definition name_rexp :: "string \<Rightarrow> rexp" where
  "name_rexp name =
     foldr (\<lambda>c. Cat (if c = CHR ''.'' then dot else Chars (\<lambda>x. x = c))) name Eps"

definition provider_rexp :: "string \<Rightarrow> rexp" where
  "provider_rexp name = Cat (lit ProviderIDPrefix) (Cat (name_rexp name) (Cat (lit ''/'') (rplus dot)))"

definition setNodeProviderID ::
  "('w, 'z) machine_client_scheme \<Rightarrow> key \<Rightarrow> ByoHost \<Rightarrow> 'w \<Rightarrow> (string \<times> error option) \<times> 'w" where
  "setNodeProviderID C remoteClient host w =
     (case getNode C remoteClient (obj_key host) w of
        (Inl err, w1) \<Rightarrow> (([], Some err), w1)
      | (Inr node, w1) \<Rightarrow>
          if NodeProviderID node \<noteq> [] then
            (if MatchString (provider_rexp (Name host)) (NodeProviderID node)
             then ((NodeProviderID node, None), w1)
             else (([], Some (ErrorString ''invalid format for node.Spec.ProviderID'')), w1))
          else (case helperNode C node of
            Some err \<Rightarrow> (([], Some err), w1)
          | None \<Rightarrow>
              let (suffix, w2) = RandomString C ProviderIDSuffixLength w1;
                  node' = node\<lparr>NodeProviderID := ProviderIDPrefix @ Name host @ ''/'' @ suffix\<rparr>;
                  (err, w3) = patchNode C remoteClient node node' w2
              in ((NodeProviderID node', err), w3)))"

text \<open>The remote client is named by the key of its cluster.\<close>

definition getRemoteClient ::
  "('w, 'z) machine_client_scheme \<Rightarrow> ByoMachine \<Rightarrow> 'w \<Rightarrow> (error + key) outcome \<times> 'w" where
  "getRemoteClient C byoMachine w =
     (case getClusterFromMetadata C (ObjectMeta.truncate byoMachine) w of
        (Inl err, w1) \<Rightarrow> (Return (Inl err), w1)
      | (Inr None, w1) \<Rightarrow> (Panic ''nil pointer dereference'', w1)
      | (Inr (Some cluster), w1) \<Rightarrow>
          (case TrackerGetClient C (obj_key cluster) w1 of
             (Some err, w2) \<Rightarrow> (Return (Inl err), w2)
           | (None, w2) \<Rightarrow> (Return (Inr (obj_key cluster)), w2)))"

definition updateNodeProviderID ::
  "('w, 'z) machine_client_scheme \<Rightarrow> ByoHost \<Rightarrow> 'w mstate \<Rightarrow> 'w mresult" where
  "updateNodeProviderID C host st =
     (let byoMachine = sc_ByoMachine (scope st)
      in case getRemoteClient C byoMachine (world st) of
           (Panic m, w1) \<Rightarrow> (Panic m, put_world w1 st)
         | (Return (Inl err), w1) \<Rightarrow> (Return (no_requeue, Some err), put_world w1 st)
         | (Return (Inr remoteClient), w1) \<Rightarrow>
             (case setNodeProviderID C remoteClient host w1 of
                ((_, Some err), w2) \<Rightarrow>
                  (Return (no_requeue, Some err),
                   record_event (Event_of byoMachine EventTypeWarning ''SetNodeProviderFailed''
                     (''Node '' @ Name host @ '' does not exist'')) (put_world w2 st))
              | ((providerID, None), w2) \<Rightarrow>
                  (Return (no_requeue, None),
                   record_event (Event_of byoMachine EventTypeNormal ''NodeProvisionedSucceeded''
                     (''Provisioned Node '' @ Name host))
                   (upd_machine
                     (\<lambda>m. machine_MarkTrue (libs C) BYOHostReady
                        (m\<lparr>MachineSpec := (MachineSpec m)\<lparr>ProviderID := providerID\<rparr>,
                           MachineStatus := (MachineStatus m)\<lparr>mach_Ready := True\<rparr>\<rparr>))
                     (put_world w2 st)))))"

section \<open>Reconciliation\<close>

definition empty_HostInfo :: HostInfo where
  "empty_HostInfo = \<lparr>OSName = [], OSImage = [], Architecture = []\<rparr>"

text \<open>
  The last part of \<open>reconcileNormal\<close>, once the machine has a host: the two secrets are set on
  the host where they are missing, then the node gets its provider ID.  \<open>secret_step\<close> is the
  guarded call, \<open>unless_requeued\<close> the two early returns after it.
\<close>

definition secret_step ::
  "(ByoHost \<Rightarrow> 'w \<Rightarrow> (Result \<times> error option) outcome \<times> ByoHost \<times> 'w) \<Rightarrow> bool \<Rightarrow> ByoHost \<Rightarrow> 'w mstate \<Rightarrow>
   (Result \<times> error option) outcome \<times> ByoHost \<times> 'w mstate" where
  "secret_step set_secret missing host st =
     (if missing
      then let (r, host', w) = set_secret host (world st) in (r, host', put_host host' (put_world w st))
      else (Return (no_requeue, None), host, st))"

definition unless_requeued ::
  "(Result \<times> error option) outcome \<Rightarrow> 'w mstate \<Rightarrow> 'w mresult \<Rightarrow> 'w mresult" where
  "unless_requeued r st k =
     (case r of
        Panic m \<Rightarrow> (Panic m, st)
      | Return (res, Some err) \<Rightarrow> (Return (res, Some err), st)
      | Return (res, None) \<Rightarrow> if RequeueAfter res > 0 then (Return (res, None), st) else k)"

definition provision_host ::
  "('w, 'z) machine_client_scheme \<Rightarrow> ByoHost \<Rightarrow> 'w mstate \<Rightarrow> 'w mresult" where
  "provision_host C host st0 =
     (let st = (if mach_HostInfo (MachineStatus (sc_ByoMachine (scope st0))) = empty_HostInfo
                then upd_machine (\<lambda>m. m\<lparr>MachineStatus := (MachineStatus m)
                       \<lparr>mach_HostInfo := HostDetails (HostStatus host)\<rparr>\<rparr>) st0
                else st0);
          byoMachine = sc_ByoMachine (scope st)
      in case InstallerRef (MachineSpec byoMachine) of
           None \<Rightarrow> updateNodeProviderID C host st
         | Some ref \<Rightarrow>
             (let (r1, host1, st1) =
                    secret_step (setInstallationSecretForByoHost C ref byoMachine)
                      (InstallationSecret (HostSpec host) = None) host st
              in unless_requeued r1 st1
                   (let (r2, host2, st2) =
                          secret_step (setUninstallationSecretForByoHost C ref byoMachine)
                            (UninstallationSecret (HostSpec host1) = None) host1 st1
                    in unless_requeued r2 st2 (updateNodeProviderID C host2 st2))))"

text \<open>From line 257 on: the cluster and bootstrap gates, then the reservation.\<close>

definition gate_and_attach :: "('w, 'z) machine_client_scheme \<Rightarrow> 'w mstate \<Rightarrow> 'w mresult" where
  "gate_and_attach C st =
     (if \<not> InfrastructureReady (sc_Cluster (scope st)) then
        (Return (no_requeue, None),
         upd_machine (machine_MarkFalse (libs C) BYOHostReady WaitingForClusterInfrastructureReason SeverityInfo) st)
      else if DataSecretName (sc_Machine (scope st)) = None then
        (Return (no_requeue, None),
         upd_machine (machine_MarkFalse (libs C) BYOHostReady WaitingForBootstrapDataSecretReason SeverityInfo) st)
      else case sc_ByoHost (scope st) of
        Some host \<Rightarrow> provision_host C host st
      | None \<Rightarrow>
          (case attachByoHost C st of
             (Panic m, st1) \<Rightarrow> (Panic m, st1)
           | (Return (res, Some err), st1) \<Rightarrow> (Return (res, Some err), st1)
           | (Return (res, None), st1) \<Rightarrow>
               (let st2 = upd_machine (machine_MarkFalse (libs C) BYOHostReady
                            InstallationSecretNotAvailableReason SeverityInfo) st1;
                    byoMachine = sc_ByoMachine (scope st2)
                in case sc_ByoHost (scope st2) of
                     None \<Rightarrow> (Panic ''nil pointer dereference'', st2)
                   | Some host \<Rightarrow>
                       provision_host C host
                         (record_event (Event_of byoMachine EventTypeNormal ''ByoHostAttachSucceeded''
                            (''Attached ByoHost '' @ Name host))
                         (record_event (Event_of host EventTypeNormal ''ByoHostAttachSucceeded''
                            (''Attached to ByoMachine '' @ Name byoMachine)) st2)))))"

definition reconcileNormal :: "('w, 'z) machine_client_scheme \<Rightarrow> 'w mstate \<Rightarrow> 'w mresult" where
  "reconcileNormal C st0 =
     (let st = upd_machine (\<lambda>m. m\<lparr>Finalizers := fin_Add (libs C) MachineFinalizer (Finalizers m)\<rparr>) st0;
          (perr, st1) = (case sc_ByoHost (scope st) of
             None \<Rightarrow> (None, st)
           | Some host \<Rightarrow>
               let (err, host', w) = setPausedConditionForByoHost C False host (world st)
               in (err, put_host host' (put_world w st)))
      in case perr of
           Some err \<Rightarrow> (Return (no_requeue, Some err), st1)
         | None \<Rightarrow>
             (case InstallerRef (MachineSpec (sc_ByoMachine (scope st1))) of
                None \<Rightarrow> gate_and_attach C st1
              | Some ref \<Rightarrow>
                  (case createInstallerConfig C ref (scope st1) (world st1) of
                     (Panic m, w) \<Rightarrow> (Panic m, put_world w st1)
                   | (Return (Some err), w) \<Rightarrow> (Return (no_requeue, Some err), put_world w st1)
                   | (Return None, w) \<Rightarrow> gate_and_attach C (put_world w st1))))"

text \<open>
  The body of \<open>Reconcile\<close> after the patch helper has been made (lines 147 to 187); its state is
  the local machine, kept in the scope, and the world.
\<close>

definition reconcile_paused :: "('w, 'z) machine_client_scheme \<Rightarrow> 'w mstate \<Rightarrow> 'w mresult" where
  "reconcile_paused C st =
     (let st1 = (case sc_ByoHost (scope st) of
             None \<Rightarrow> st
           | Some host \<Rightarrow>
               let (err, host', w) = setPausedConditionForByoHost C True host (world st)
               in put_host host' (put_world w st))
      in (Return (no_requeue, None),
          upd_machine (machine_MarkFalse (libs C) BYOHostReady ClusterOrResourcePausedReason SeverityInfo) st1))"

definition reconcile_body ::
  "('w, 'z) machine_client_scheme \<Rightarrow> Cluster \<Rightarrow> Machine \<Rightarrow> ByoCluster \<Rightarrow> ByoMachine \<Rightarrow> 'w \<Rightarrow>
   (Result \<times> error option) outcome \<times> ByoMachine \<times> 'w \<times> Event list" where
  "reconcile_body C cluster machine byoCluster byoMachine w =
     (case FetchAttachedByoHost C (Name byoMachine) (Namespace byoMachine) w of
        (Panic m, w1) \<Rightarrow> (Panic m, byoMachine, w1, [])
      | (Return (Inl err), w1) \<Rightarrow> (Return (no_requeue, Some err), byoMachine, w1, [])
      | (Return (Inr refByoHost), w1) \<Rightarrow>
          (case newByoMachineScope C \<lparr>p_Client = True, p_Cluster = Some cluster, p_Machine = Some machine,
                  p_ByoCluster = Some byoCluster, p_ByoMachine = Some byoMachine, p_ByoHost = refByoHost\<rparr> of
             Inl err \<Rightarrow> (Return (no_requeue, Some err), byoMachine, w1, [])
           | Inr machineScope \<Rightarrow>
               (let st = \<lparr>scope = machineScope, world = w1, events = []\<rparr>;
                    (res, st') =
                      (if IsPaused (libs C) cluster (Annotations byoMachine) then reconcile_paused C st
                       else if being_deleted byoMachine then reconcileDelete C st
                       else reconcileNormal C st)
                in (res, sc_ByoMachine (scope st'), world st', events st'))))"

definition Reconcile ::
  "('w, 'z) machine_client_scheme \<Rightarrow> key \<Rightarrow> 'w \<Rightarrow> (Result \<times> error option) outcome \<times> 'w \<times> Event list" where
  "Reconcile C req w =
     (case getByoMachine C req w of
        (Inl err, w1) \<Rightarrow> (Return (no_requeue, if IsNotFound err then None else Some err), w1, [])
      | (Inr byoMachine, w1) \<Rightarrow>
     (case getOwnerMachine C (ObjectMeta.truncate byoMachine) w1 of
        (Inl err, w2) \<Rightarrow> (Return (no_requeue, Some err), w2, [])
      | (Inr None, w2) \<Rightarrow> (Return (no_requeue, None), w2, [])
      | (Inr (Some machine), w2) \<Rightarrow>
     (case getClusterFromMetadata C (ObjectMeta.truncate byoMachine) w2 of
        (Inl err, w3) \<Rightarrow> (Return (no_requeue, Some err), w3, [])
      | (Inr None, w3) \<Rightarrow> (Return (no_requeue, None), w3, [])
      | (Inr (Some cluster), w3) \<Rightarrow>
     (case InfrastructureRef cluster of
        None \<Rightarrow> (Panic ''nil pointer dereference'', w3, [])
      | Some infraRef \<Rightarrow>
     (case getByoCluster C (Namespace byoMachine, ref_Name infraRef) w3 of
        (Inl err, w4) \<Rightarrow> (Return (no_requeue, None), w4, [])
      | (Inr byoCluster, w4) \<Rightarrow>
          (let (res, byoMachine', w5, evs) = reconcile_body C cluster machine byoCluster byoMachine w4
           in case helperByoMachine C byoMachine of
                Some _ \<Rightarrow> (Panic ''nil pointer dereference'', w5, evs)
              | None \<Rightarrow>
                  (let (perr, w6) = patchByoMachine C byoMachine byoMachine' w5
                   in case res of
                        Panic m \<Rightarrow> (Panic m, w6, evs)
                      | Return (result, reterr) \<Rightarrow> (Return (result, defer_error reterr perr), w6, evs))))))))"

section \<open>Watches\<close>

definition ClusterToByoMachines ::
  "('w, 'z) machine_client_scheme \<Rightarrow> object \<Rightarrow> 'w \<Rightarrow> key list \<times> 'w" where
  "ClusterToByoMachines C obj w =
     (case obj of
        OCluster c \<Rightarrow>
          if being_deleted c then ([], w)
          else (case listByoMachines C (Namespace c) [(ClusterNameLabel, Name c)] w of
            (Inl _, w') \<Rightarrow> ([], w')
          | (Inr items, w') \<Rightarrow> (map obj_key items, w'))
      | _ \<Rightarrow> ([], w))"

definition ByoHostToByoMachineMapFunc ::
  "('w, 'z) machine_client_scheme \<Rightarrow> GroupVersionKind \<Rightarrow> object \<Rightarrow> key list" where
  "ByoHostToByoMachineMapFunc C gvk obj =
     (case obj of
        OHost h \<Rightarrow>
          (case MachineRef (HostStatus h) of
             None \<Rightarrow> []
           | Some ref \<Rightarrow>
               (let byomachineGVK = refGVK C ref
                in if (gvk_Group gvk, gvk_Kind gvk) \<noteq> (gvk_Group byomachineGVK, gvk_Kind byomachineGVK)
                   then [] else [ref_key ref]))
      | _ \<Rightarrow> [])"

section \<open>The state of a reconciliation\<close>

lemma mstate_frame [simp, frame]:
  "sc_ByoHost (scope (upd_machine f st)) = sc_ByoHost (scope st)"
  "sc_ByoMachine (scope (upd_machine f st)) = f (sc_ByoMachine (scope st))"
  "sc_Cluster (scope (upd_machine f st)) = sc_Cluster (scope st)"
  "sc_Machine (scope (upd_machine f st)) = sc_Machine (scope st)"
  "sc_ByoCluster (scope (upd_machine f st)) = sc_ByoCluster (scope st)"
  "world (upd_machine f st) = world st" "events (upd_machine f st) = events st"
  "scope (record_event e st) = scope st" "world (record_event e st) = world st"
  "scope (put_world w st) = scope st" "world (put_world w st) = w"
  "events (put_world w st) = events st" "world (put_host h st) = world st"
  "sc_ByoHost (scope (put_host h st)) = Some h" "events (put_host h st) = events st"
  "sc_ByoMachine (scope (put_host h st)) = sc_ByoMachine (scope st)"
  "sc_Cluster (scope (put_host h st)) = sc_Cluster (scope st)"
  "sc_Machine (scope (put_host h st)) = sc_Machine (scope st)"
  "sc_ByoCluster (scope (put_host h st)) = sc_ByoCluster (scope st)"
  by (simp_all add: upd_machine_def record_event_def put_world_def put_host_def)

lemma events_record_event [simp]: "events (record_event e st) = events st @ [e]"
  by (simp add: record_event_def)

section \<open>What a reservation changes\<close>

lemma reserved_host_frame [simp, frame]:
  "Name (reserved_host sc ds v h) = Name h"
  "Namespace (reserved_host sc ds v h) = Namespace h"
  "obj_key (reserved_host sc ds v h) = obj_key h"
  "InstallationSecret (HostSpec (reserved_host sc ds v h)) = InstallationSecret (HostSpec h)"
  "UninstallationSecret (HostSpec (reserved_host sc ds v h)) = UninstallationSecret (HostSpec h)"
  "host_GetConditions (reserved_host sc ds v h) = host_GetConditions h"
  "HostDetails (HostStatus (reserved_host sc ds v h)) = HostDetails (HostStatus h)"
  by (simp_all add: reserved_host_def Let_def obj_key_def host_GetConditions_def)

lemma reserved_host_MachineRef:
  "map_option ref_key (MachineRef (HostStatus (reserved_host sc ds v h))) = Some (obj_key (sc_ByoMachine sc))"
  by (simp add: reserved_host_def Let_def ref_key_def obj_key_def)

lemma reserved_host_Labels:
  "Labels (reserved_host sc ds v h) ClusterNameLabel \<noteq> None"
  "Labels (reserved_host sc ds v h) AttachedByoMachineLabel =
     Some (generateSafeLabelValue (Namespace (sc_ByoMachine sc)) (Name (sc_ByoMachine sc)))"
  "k \<noteq> ClusterNameLabel \<Longrightarrow> k \<noteq> AttachedByoMachineLabel \<Longrightarrow> Labels (reserved_host sc ds v h) k = Labels h k"
  by (simp_all add: reserved_host_def Let_def)

lemma reserved_host_BootstrapSecret:
  "map_option ref_key (BootstrapSecret (HostSpec (reserved_host sc ds v h))) =
   Some (Namespace (sc_ByoMachine sc), ds)"
  by (simp add: reserved_host_def Let_def ref_key_def)

lemma attach_found_host_ok:
  assumes "attach_found_host C host st = (Return (res, None), st')"
  obtains ds v w where
    "DataSecretName (sc_Machine (scope st)) = Some ds" "Version (sc_Machine (scope st)) = Some v"
    "patchByoHost C host (reserved_host (scope st) ds v host) (world st) = (None, w)"
    "st' = put_host (reserved_host (scope st) ds v host) (put_world w st)" "res = no_requeue"
  using assms by (auto simp: attach_found_host_def Let_def split: option.splits prod.splits)

text \<open>The host \<open>attachByoHost\<close> reserves, when there was none: it is one \<open>List\<close> returned.\<close>

lemma attachByoHost_ok:
  assumes none: "sc_ByoHost (scope st) = None"
    and att: "attachByoHost C st = (Return (res, None), st')"
  obtains sel host hs w where
    "(case Selector (MachineSpec (sc_ByoMachine (scope st))) of
        Some s \<Rightarrow> LabelSelectorAsSelector C s | None \<Rightarrow> Inr []) = Inr sel"
    "listByoHosts C (sel @ [DoesNotExist ClusterNameLabel])
       (Some (Namespace (sc_ByoMachine (scope st)))) (world st) = (Inr (host # hs), w)"
    "attach_found_host C host (put_world w st) = (Return (res, None), st')"
  using att none
  by (auto simp: attachByoHost_def Let_def split: sum.splits option.splits prod.splits list.splits)

lemma attach_found_host_err:
  assumes "attach_found_host C host st = (r, st')" "\<nexists>res. r = Return (res, None)"
  shows "scope st' = scope st"
  using assms by (auto simp: attach_found_host_def Let_def split: option.splits prod.splits)

text \<open>An unsuccessful attempt leaves the machine without a host.\<close>

lemma attachByoHost_err:
  assumes none: "sc_ByoHost (scope st) = None"
    and att: "attachByoHost C st = (r, st')" and bad: "\<nexists>res. r = Return (res, None)"
  shows "sc_ByoHost (scope st') = None"
  using att none bad
  by (auto simp: attachByoHost_def Let_def dest: attach_found_host_err
      split: sum.splits option.splits prod.splits list.splits)

section \<open>The provider ID and readiness\<close>

text \<open>\<open>util.RandomString(n)\<close> returns \<open>n\<close> lower-case letters and digits.\<close>

definition random_contract :: "('w, 'z) machine_client_scheme \<Rightarrow> bool" where
  "random_contract C \<longleftrightarrow>
     (\<forall>n w s w'. RandomString C n w = (s, w') \<longrightarrow> length s = n \<and> (\<forall>c\<in>set s. lower_alnum c))"

lemma lower_alnum_not_newline: "lower_alnum c \<Longrightarrow> c \<noteq> CHR 0x0A"
proof -
  have "\<not> lower_alnum (CHR 0x0A)" by code_simp
  then show "lower_alnum c \<Longrightarrow> c \<noteq> CHR 0x0A" by auto
qed

lemma matches_name_rexp: "matches (name_rexp name) name"
proof (induction name)
  case (Cons c name)
  have "matches (if c = CHR ''.'' then dot else Chars (\<lambda>x. x = c)) [c]"
    by (simp add: dot_def)
  from m_cat [OF this Cons.IH] show ?case by (simp add: name_rexp_def)
qed (simp add: name_rexp_def m_eps)

lemma matches_provider_rexp:
  assumes "sfx \<noteq> []" "\<forall>c\<in>set sfx. c \<noteq> CHR 0x0A"
  shows "matches (provider_rexp name) (ProviderIDPrefix @ name @ ''/'' @ sfx)"
  unfolding provider_rexp_def
  by (intro m_cat matches_name_rexp) (use assms in \<open>simp_all add: dot_def matches_rplus_Chars\<close>)

text \<open>A provider ID that is accepted or generated names the host, in the form the pattern asks for.\<close>

lemma generated_provider_id:
  assumes "random_contract C" and "RandomString C ProviderIDSuffixLength w = (sfx, w')"
  shows "MatchString (provider_rexp name) (ProviderIDPrefix @ name @ ''/'' @ sfx)"
proof (rule MatchString_whole [OF matches_provider_rexp])
  have sfx: "length sfx = ProviderIDSuffixLength" "\<forall>c\<in>set sfx. lower_alnum c"
    using assms unfolding random_contract_def by blast+
  then show "sfx \<noteq> []" by (auto simp: ProviderIDSuffixLength_def)
  show "\<forall>c\<in>set sfx. c \<noteq> CHR 0x0A"
    using sfx(2) lower_alnum_not_newline by blast
qed

lemma setNodeProviderID_ok:
  assumes R: "random_contract C"
    and ok: "setNodeProviderID C rc host w = ((pid, None), w')"
  shows "MatchString (provider_rexp (Name host)) pid"
proof -
  obtain n w1 where n: "getNode C rc (obj_key host) w = (Inr n, w1)"
    using ok by (auto simp: setNodeProviderID_def split: prod.splits sum.splits)
  show ?thesis
  proof (cases "NodeProviderID n = []")
    case False
    then show ?thesis using ok n by (simp add: setNodeProviderID_def split: if_splits)
  next
    case True
    obtain sfx w2 where s: "RandomString C ProviderIDSuffixLength w1 = (sfx, w2)" by fastforce
    then show ?thesis
      using ok n True generated_provider_id [OF R s] by (auto simp: setNodeProviderID_def Let_def split: option.splits prod.splits)
  qed
qed

text \<open>Either the machine is left as it was, or it is made ready with the node's provider ID.\<close>

lemma updateNodeProviderID_cases:
  assumes "updateNodeProviderID C host st = (r, st')"
  obtains (failed) "sc_ByoMachine (scope st') = sc_ByoMachine (scope st)"
      "sc_ByoHost (scope st') = sc_ByoHost (scope st)" "\<nexists>res. r = Return (res, None)"
  | (ready) rc pid w w' where "setNodeProviderID C rc host w = ((pid, None), w')"
      "r = Return (no_requeue, None)" "sc_ByoHost (scope st') = sc_ByoHost (scope st)"
      "sc_ByoMachine (scope st') = machine_MarkTrue (libs C) BYOHostReady
         ((sc_ByoMachine (scope st))\<lparr>MachineSpec := (MachineSpec (sc_ByoMachine (scope st)))\<lparr>ProviderID := pid\<rparr>,
            MachineStatus := (MachineStatus (sc_ByoMachine (scope st)))\<lparr>mach_Ready := True\<rparr>\<rparr>)"
proof (cases "getRemoteClient C (sc_ByoMachine (scope st)) (world st)")
  case (Pair c w1)
  show thesis
  proof (cases "\<exists>rc. c = Return (Inr rc)")
    case False
    then show thesis
      using assms Pair failed
      by (auto simp: updateNodeProviderID_def Let_def split: outcome.splits sum.splits)
  next
    case True
    then obtain rc where c: "c = Return (Inr rc)" by blast
    obtain pid e w2 where p: "setNodeProviderID C rc host w1 = ((pid, e), w2)"
      by (metis prod.exhaust)
    show thesis
    proof (cases e)
      case None
      then have "r = Return (no_requeue, None)" "st' = record_event (Event_of (sc_ByoMachine (scope st))
            EventTypeNormal ''NodeProvisionedSucceeded'' (''Provisioned Node '' @ Name host))
          (upd_machine (\<lambda>m. machine_MarkTrue (libs C) BYOHostReady
              (m\<lparr>MachineSpec := (MachineSpec m)\<lparr>ProviderID := pid\<rparr>,
                 MachineStatus := (MachineStatus m)\<lparr>mach_Ready := True\<rparr>\<rparr>)) (put_world w2 st))"
        using assms Pair c p by (simp_all add: updateNodeProviderID_def Let_def)
      then show thesis using ready [of rc w1 pid w2] p None by simp
    next
      case (Some err)
      then show thesis using assms Pair c p failed
        by (auto simp: updateNodeProviderID_def Let_def)
    qed
  qed
qed

text \<open>
  The contract of every step of the normal path: a machine that comes out ready either was ready
  before, or this step returned success, with a provider ID that names the host of the scope and
  with its condition true.
\<close>

definition ready_justified ::
  "('w, 'z) machine_client_scheme \<Rightarrow> 'w mstate \<Rightarrow> 'w mresult \<Rightarrow> bool" where
  "ready_justified C st out \<longleftrightarrow>
     mach_Ready (MachineStatus (sc_ByoMachine (scope (snd out)))) \<longrightarrow>
     mach_Ready (MachineStatus (sc_ByoMachine (scope st))) \<or>
     (fst out = Return (no_requeue, None) \<and>
      cnd_IsTrue (libs C) (machine_GetConditions (sc_ByoMachine (scope (snd out)))) BYOHostReady \<and>
      (\<exists>host. sc_ByoHost (scope (snd out)) = Some host \<and>
         MatchString (provider_rexp (Name host)) (ProviderID (MachineSpec (sc_ByoMachine (scope (snd out)))))))"

lemma ready_justified_keep:
  "mach_Ready (MachineStatus (sc_ByoMachine (scope st'))) = mach_Ready (MachineStatus (sc_ByoMachine (scope st)))
   \<Longrightarrow> ready_justified C st (r, st')"
  by (simp add: ready_justified_def)

lemma ready_justified_from:
  "mach_Ready (MachineStatus (sc_ByoMachine (scope st1))) = mach_Ready (MachineStatus (sc_ByoMachine (scope st)))
   \<Longrightarrow> ready_justified C st1 out \<Longrightarrow> ready_justified C st out"
  by (simp add: ready_justified_def)

lemma updateNodeProviderID_justified:
  assumes R: "random_contract C" and L: "conditions_contract (libs C)"
    and host: "sc_ByoHost (scope st) = Some host"
  shows "ready_justified C st (updateNodeProviderID C host st)"
proof (cases "updateNodeProviderID C host st")
  case (Pair r st')
  then show ?thesis
  proof (cases rule: updateNodeProviderID_cases)
    case failed
    then show ?thesis unfolding Pair by (intro ready_justified_keep) simp
  next
    case (ready rc pid w w')
    show ?thesis
      unfolding Pair ready_justified_def fst_conv snd_conv ready(2-4) host
      using setNodeProviderID_ok [OF R ready(1)] machine_cond.MarkTrue_IsTrue [OF L] by simp
  qed
qed

text \<open>The host hand-over: only the secret is set on the host.\<close>

lemma setInstallationSecret_frame [frame]:
  assumes "setInstallationSecretForByoHost C ref m host w = (r, host', w')"
  shows "host' = host \<or> (\<exists>s. host' = host\<lparr>HostSpec := (HostSpec host)\<lparr>InstallationSecret := Some s\<rparr>\<rparr>)"
  using assms by (auto simp: setInstallationSecretForByoHost_def Let_def
      split: prod.splits sum.splits outcome.splits)

lemma setUninstallationSecret_frame [frame]:
  assumes "setUninstallationSecretForByoHost C ref m host w = (r, host', w')"
  shows "host' = host \<or> (\<exists>s. host' = host\<lparr>HostSpec := (HostSpec host)\<lparr>UninstallationSecret := Some s\<rparr>\<rparr>)"
  using assms by (auto simp: setUninstallationSecretForByoHost_def Let_def
      split: prod.splits sum.splits outcome.splits)

lemma secret_step_frame [frame]:
  assumes "secret_step f missing host st = (r, host', st')" "sc_ByoHost (scope st) = Some host"
  shows "sc_ByoHost (scope st') = Some host'" "sc_ByoMachine (scope st') = sc_ByoMachine (scope st)"
  using assms by (auto simp: secret_step_def split: if_splits prod.splits)

lemma unless_requeued_cases:
  "P (unless_requeued r st k)" if "\<And>r. P (r, st)" and "P k"
  using that by (auto simp: unless_requeued_def split: outcome.splits prod.splits option.splits)

lemma provision_host_justified:
  assumes R: "random_contract C" and L: "conditions_contract (libs C)"
    and host: "sc_ByoHost (scope st) = Some host"
  shows "ready_justified C st (provision_host C host st)"
proof -
  define st1 where "st1 = (if mach_HostInfo (MachineStatus (sc_ByoMachine (scope st))) = empty_HostInfo
                then upd_machine (\<lambda>m. m\<lparr>MachineStatus := (MachineStatus m)
                       \<lparr>mach_HostInfo := HostDetails (HostStatus host)\<rparr>\<rparr>) st
                else st)"
  have h1: "sc_ByoHost (scope st1) = Some host"
    and m1: "mach_Ready (MachineStatus (sc_ByoMachine (scope st1))) = mach_Ready (MachineStatus (sc_ByoMachine (scope st)))"
    using host by (simp_all add: st1_def)
  note upd = updateNodeProviderID_justified [OF R L]
  show ?thesis
  proof (cases "InstallerRef (MachineSpec (sc_ByoMachine (scope st1)))")
    case None
    then show ?thesis
      using ready_justified_from [OF m1 upd [OF h1]] by (simp add: provision_host_def Let_def flip: st1_def)
  next
    case (Some ref)
    let ?m = "sc_ByoMachine (scope st1)"
    obtain r2 host2 st2 where s2: "secret_step (setInstallationSecretForByoHost C ref ?m)
        (InstallationSecret (HostSpec host) = None) host st1 = (r2, host2, st2)" by (rule prod_cases3)
    obtain r3 host3 st3 where s3: "secret_step (setUninstallationSecretForByoHost C ref ?m)
        (UninstallationSecret (HostSpec host2) = None) host2 st2 = (r3, host3, st3)" by (rule prod_cases3)
    note f2 = secret_step_frame [OF s2 h1]
    note f3 = secret_step_frame [OF s3 f2(1)]
    have "provision_host C host st =
        unless_requeued r2 st2 (unless_requeued r3 st3 (updateNodeProviderID C host3 st3))"
      using Some s2 s3 by (simp add: provision_host_def Let_def flip: st1_def)
    moreover have "ready_justified C st (updateNodeProviderID C host3 st3)"
      by (rule ready_justified_from [OF _ upd [OF f3(1)]]) (simp add: f2 f3 m1)
    ultimately show ?thesis
      by (auto intro!: unless_requeued_cases [where P = "ready_justified C st"] ready_justified_keep
          simp: f2 f3 m1)
  qed
qed

lemma attachByoHost_ready:
  assumes "attachByoHost C st = (r, st')"
  shows "mach_Ready (MachineStatus (sc_ByoMachine (scope st'))) =
         mach_Ready (MachineStatus (sc_ByoMachine (scope st)))"
  using assms
  by (auto simp: attachByoHost_def attach_found_host_def Let_def
      split: sum.splits option.splits prod.splits list.splits if_splits)

lemma gate_and_attach_justified:
  assumes R: "random_contract C" and L: "conditions_contract (libs C)"
  shows "ready_justified C st (gate_and_attach C st)"
  unfolding gate_and_attach_def Let_def
  by (auto intro!: ready_justified_keep ready_justified_from [OF _ provision_host_justified [OF R L]]
      dest: attachByoHost_ready split: prod.splits option.splits outcome.splits)

lemma reconcileNormal_justified:
  assumes R: "random_contract C" and L: "conditions_contract (libs C)"
  shows "ready_justified C st (reconcileNormal C st)"
  unfolding reconcileNormal_def Let_def
  by (auto intro!: ready_justified_keep ready_justified_from [OF _ gate_and_attach_justified [OF R L]]
      split: prod.splits option.splits outcome.splits)

end
