(* ===== verification/Reference_Client.thy ===== *)
theory Reference_Client
  imports Externals Go_Strings
begin

text \<open>
  A concrete instance of the third-party parameters: the utility functions on plain lists and
  maps, and an API client over an in-memory store that never fails except by \<open>NotFound\<close> and
  \<open>AlreadyExists\<close>.  The contracts of \<open>Externals\<close> hold for it, and the examples of the
  development run the program on it.
\<close>

section \<open>Utility functions\<close>

definition ref_mark :: "Condition \<Rightarrow> Condition list \<Rightarrow> Condition list" where
  "ref_mark c cs = c # filter (\<lambda>d. cond_Type d \<noteq> cond_Type c) cs"

definition ref_Get :: "Condition list \<Rightarrow> string \<Rightarrow> Condition option" where
  "ref_Get cs t = find (\<lambda>c. cond_Type c = t) cs"

definition ref_lib :: lib where
  "ref_lib =
     \<lparr>cnd_Get = ref_Get,
      cnd_IsTrue = (\<lambda>cs t. case ref_Get cs t of None \<Rightarrow> False | Some c \<Rightarrow> cond_Status c = ConditionTrue),
      cnd_GetReason = (\<lambda>cs t. case ref_Get cs t of None \<Rightarrow> [] | Some c \<Rightarrow> cond_Reason c),
      cnd_MarkTrue = (\<lambda>t. ref_mark \<lparr>cond_Type = t, cond_Status = ConditionTrue,
         cond_Severity = SeverityNone, cond_Reason = [], cond_Message = []\<rparr>),
      cnd_MarkFalse = (\<lambda>t r sv m. ref_mark \<lparr>cond_Type = t, cond_Status = ConditionFalse,
         cond_Severity = sv, cond_Reason = r, cond_Message = m\<rparr>),
      fin_Contains = (\<lambda>fs f. f \<in> set fs),
      fin_Add = (\<lambda>f fs. if f \<in> set fs then fs else fs @ [f]),
      fin_Remove = removeAll,
      ann_Add = (++),
      IsPaused = (\<lambda>c ann. ClusterPaused c \<or> ann PausedAnnotation \<noteq> None)\<rparr>"

lemma ref_Get_mark: "ref_Get (ref_mark c cs) t = (if t = cond_Type c then Some c else ref_Get cs t)"
proof -
  have "find (\<lambda>c. cond_Type c = t) (filter (\<lambda>d. cond_Type d \<noteq> u) cs) = find (\<lambda>c. cond_Type c = t) cs"
    if "t \<noteq> u" for u
    using that by (induction cs) auto
  then show ?thesis by (auto simp: ref_Get_def ref_mark_def)
qed

lemma ref_lib_contracts:
  "conditions_contract ref_lib" "finalizer_contract ref_lib"
  "annotations_contract ref_lib" "paused_contract ref_lib"
  by (auto simp: conditions_contract_def finalizer_contract_def annotations_contract_def
      paused_contract_def ref_lib_def ref_Get_mark split: option.splits)

section \<open>An in-memory store\<close>

record ref_world =
  rw_hosts :: "ByoHost list"
  rw_machines :: "ByoMachine list"
  rw_secrets :: "Secret list"
  rw_clusters :: "Cluster list"

text \<open>The four ways the store is read and written, on any kind of object.\<close>

definition store_get :: "'a ObjectMeta_scheme list \<Rightarrow> key \<Rightarrow> error + 'a ObjectMeta_scheme" where
  "store_get xs k = (case find (\<lambda>x. obj_key x = k) xs of None \<Rightarrow> Inl (NotFound (snd k)) | Some x \<Rightarrow> Inr x)"

definition store_has :: "'a ObjectMeta_scheme list \<Rightarrow> key \<Rightarrow> bool" where
  "store_has xs k = list_ex (\<lambda>x. obj_key x = k) xs"

definition store_put ::
  "'a ObjectMeta_scheme list \<Rightarrow> 'a ObjectMeta_scheme \<Rightarrow> error option \<times> 'a ObjectMeta_scheme list" where
  "store_put xs x =
     (if store_has xs (obj_key x)
      then (None, map (\<lambda>y. if obj_key y = obj_key x then x else y) xs)
      else (Some (NotFound (Name x)), xs))"

definition store_add ::
  "'a ObjectMeta_scheme list \<Rightarrow> 'a ObjectMeta_scheme \<Rightarrow> error option \<times> 'a ObjectMeta_scheme list" where
  "store_add xs x =
     (if store_has xs (obj_key x) then (Some (AlreadyExists (Name x)), xs) else (None, xs @ [x]))"

definition store_del ::
  "'a ObjectMeta_scheme list \<Rightarrow> key \<Rightarrow> error option \<times> 'a ObjectMeta_scheme list" where
  "store_del xs k =
     (if store_has xs k then (None, filter (\<lambda>x. obj_key x \<noteq> k) xs) else (Some (NotFound (snd k)), xs))"

definition ref_client :: "'x ref_world_scheme client" where
  "ref_client =
     \<lparr>libs = ref_lib,
      refGVK = (\<lambda>r. \<lparr>gvk_Group = before CHR ''/'' (ref_APIVersion r),
         gvk_Version = concat (tl (Split CHR ''/'' (ref_APIVersion r))), gvk_Kind = ref_Kind r\<rparr>),
      getByoHost = (\<lambda>k w. (store_get (rw_hosts w) k, w)),
      listByoHosts = (\<lambda>sel ns w. (Inr (filter (\<lambda>h. sel_matches sel (Labels h) \<and>
         (case ns of None \<Rightarrow> True | Some n \<Rightarrow> Namespace h = n)) (rw_hosts w)), w)),
      helperByoHost = (\<lambda>_. None),
      patchByoHost = (\<lambda>_ h w. let (e, hs) = store_put (rw_hosts w) h in (e, w\<lparr>rw_hosts := hs\<rparr>)),
      getByoMachine = (\<lambda>k w. (store_get (rw_machines w) k, w)),
      listByoMachines = (\<lambda>ns ls w. (Inr (filter (\<lambda>m. Namespace m = ns \<and>
         list_all (\<lambda>(k, v). Labels m k = Some v) ls) (rw_machines w)), w)),
      getSecret = (\<lambda>k w. (store_get (rw_secrets w) k, w)),
      createSecret = (\<lambda>s w. let (e, ss) = store_add (rw_secrets w) s in (e, w\<lparr>rw_secrets := ss\<rparr>)),
      updateSecret = (\<lambda>s w. let (e, ss) = store_put (rw_secrets w) s in (e, w\<lparr>rw_secrets := ss\<rparr>)),
      deleteSecret = (\<lambda>s w. let (e, ss) = store_del (rw_secrets w) (obj_key s) in (e, w\<lparr>rw_secrets := ss\<rparr>)),
      getClusterFromMetadata = (\<lambda>m w.
         case Labels m ClusterNameLabel of
           None \<Rightarrow> (Inl (ErrorString ''no cluster label''), w)
         | Some n \<Rightarrow> (case store_get (rw_clusters w) (Namespace m, n) of
             Inl e \<Rightarrow> (Inl e, w) | Inr c \<Rightarrow> (Inr (Some c), w)))\<rparr>"

lemma libs_ref_client [simp]: "libs ref_client = ref_lib"
  by (simp add: ref_client_def)

lemma ref_client_list_contract: "list_contract ref_client"
  by (auto simp: list_contract_def ref_client_def split: option.splits)

text \<open>Reading back what was written.\<close>

lemma store_get_put:
  assumes "store_put xs x = (None, ys)"
  shows "store_get ys k = (if k = obj_key x then Inr x else store_get xs k)"
proof -
  let ?ys = "map (\<lambda>y. if obj_key y = obj_key x then x else y) xs"
  have "find (\<lambda>y. obj_key y = k) ?ys = find (\<lambda>y. obj_key y = k) xs" if "k \<noteq> obj_key x"
    using that by (induction xs) auto
  moreover have "find (\<lambda>y. obj_key y = obj_key x) ?ys = Some x" if "\<exists>y\<in>set xs. obj_key y = obj_key x"
    using that by (induction xs) auto
  ultimately show ?thesis
    using assms by (auto simp: store_put_def store_get_def store_has_def list_ex_iff split: if_splits)
qed

lemma store_get_add:
  assumes "store_add xs x = (None, ys)"
  shows "store_get ys k = (if k = obj_key x then Inr x else store_get xs k)"
proof -
  have no: "\<not> store_has xs (obj_key x)" and ys: "ys = xs @ [x]"
    using assms by (auto simp: store_add_def split: if_splits)
  have "find P (xs @ [x]) = (case find P xs of None \<Rightarrow> if P x then Some x else None | Some y \<Rightarrow> Some y)" for P
    by (induction xs) auto
  moreover have "find (\<lambda>y. obj_key y = obj_key x) xs = None"
    using no by (auto simp: find_None_iff store_has_def list_ex_iff)
  ultimately show ?thesis by (auto simp: store_get_def ys split: option.splits)
qed

lemma store_get_other:
  assumes "k \<noteq> obj_key x"
  shows "store_put xs x = (e, ys) \<Longrightarrow> store_get ys k = store_get xs k"
    and "store_add xs x = (e, ys) \<Longrightarrow> store_get ys k = store_get xs k"
proof -
  show "store_get ys k = store_get xs k" if put: "store_put xs x = (e, ys)"
  proof (cases e)
    case None
    then show ?thesis using store_get_put put assms by metis
  next
    case (Some err)
    then show ?thesis using put by (auto simp: store_put_def split: if_splits)
  qed
  show "store_get ys k = store_get xs k" if add: "store_add xs x = (e, ys)"
  proof (cases e)
    case None
    then show ?thesis using store_get_add add assms by metis
  next
    case (Some err)
    then show ?thesis using add by (auto simp: store_add_def split: if_splits)
  qed
qed

section \<open>Objects to start from\<close>

definition empty_ref :: ObjectReference where
  "empty_ref = \<lparr>ref_Kind = [], ref_APIVersion = [], ref_Namespace = [], ref_Name = [], ref_UID = []\<rparr>"

definition new_meta :: "string \<Rightarrow> string \<Rightarrow> string \<Rightarrow> ObjectMeta" where
  "new_meta kind ns name =
     \<lparr>Kind = kind, APIVersion = ''infrastructure.cluster.x-k8s.io/v1beta1'', Name = name, Namespace = ns,
      UID = [], Labels = Map.empty, Annotations = Map.empty, Finalizers = [], OwnerReferences = [],
      DeletionTimestamp = None\<rparr>"

definition new_host :: "string \<Rightarrow> string \<Rightarrow> ByoHost" where
  "new_host ns name = ObjectMeta.extend (new_meta ''ByoHost'' ns name)
     (ByoHost.fields \<lparr>BootstrapSecret = None, InstallationSecret = None, UninstallationSecret = None\<rparr>
       \<lparr>MachineRef = None, host_Conditions = [],
        HostDetails = \<lparr>OSName = ''linux'', OSImage = ''Ubuntu 20.04.1 LTS'', Architecture = ''amd64''\<rparr>,
        Network = []\<rparr>)"

definition new_machine :: "string \<Rightarrow> string \<Rightarrow> string \<Rightarrow> ByoMachine" where
  "new_machine ns name cluster =
     (ObjectMeta.extend (new_meta ''ByoMachine'' ns name)
       (ByoMachine.fields \<lparr>Selector = None, ProviderID = [], InstallerRef = None\<rparr>
         \<lparr>mach_HostInfo = \<lparr>OSName = [], OSImage = [], Architecture = []\<rparr>, mach_Ready = False,
          mach_Conditions = []\<rparr>))\<lparr>Labels := [ClusterNameLabel \<mapsto> cluster]\<rparr>"

definition new_cluster :: "string \<Rightarrow> string \<Rightarrow> Cluster" where
  "new_cluster ns name = ObjectMeta.extend (new_meta ''Cluster'' ns name)
     (Cluster.fields True (Some (empty_ref\<lparr>ref_Namespace := ns, ref_Name := name\<rparr>)) ''10.0.0.1'' False)"

lemmas new_object_defs =
  new_meta_def new_host_def new_machine_def new_cluster_def empty_ref_def
  ObjectMeta.defs ByoHost.defs ByoMachine.defs Cluster.defs

end
