(* ===== verification/ByoMachine_Props.thy ===== *)
theory ByoMachine_Props
  imports ByoMachine_Ctl Reference_Client
begin

text \<open>
  The properties of the ByoMachine controller, and the examples that run it.  The first part
  extends the in-memory client by the calls of this controller; the second describes every write
  of the controller to a host (\<open>machine_writes\<close>) and shows that it makes no other; the third
  states the properties.
\<close>

section \<open>An in-memory client\<close>

record machine_world = ref_world +
  mw_byoclusters :: "ByoCluster list"
  mw_owners :: "Machine list"
  mw_objects :: "Unstructured list"
  mw_nodes :: "Node list"

fun json_at :: "json \<Rightarrow> string list \<Rightarrow> json option" where
  "json_at j [] = Some j"
| "json_at (JObj fs) (k # ks) = (case map_of fs k of None \<Rightarrow> None | Some j \<Rightarrow> json_at j ks)"
| "json_at _ (k # ks) = None"

definition json_str :: "json \<Rightarrow> string \<Rightarrow> string" where
  "json_str j k = (case json_at j [k] of Some (JStr s) \<Rightarrow> s | _ \<Rightarrow> [])"

definition ref_machine_client :: "'x machine_world_scheme machine_client" where
  "ref_machine_client = client.extend ref_client (machine_client.fields
     (\<lambda>_. None)
     (\<lambda>_ m w. let (e, ms) = store_put (rw_machines w) m in (e, w\<lparr>rw_machines := ms\<rparr>))
     (\<lambda>k w. (store_get (mw_byoclusters w) k, w))
     (\<lambda>m w. (case find (\<lambda>r. own_Kind r = ''Machine'') (OwnerReferences m) of
               None \<Rightarrow> Inr None
             | Some r \<Rightarrow> (case store_get (mw_owners w) (Namespace m, own_Name r) of
                 Inl e \<Rightarrow> Inl e | Inr mc \<Rightarrow> Inr (Some mc)), w))
     (\<lambda>r. case r of Equals _ v \<Rightarrow> if valid_label_value v then None else Some (ErrorString ''invalid value'')
          | _ \<Rightarrow> None)
     (\<lambda>s. Inr (map (\<lambda>(k, v). Equals k v) (MatchLabels s) @ MatchExpressions s))
     (\<lambda>m. \<lparr>own_APIVersion = APIVersion m, own_Kind = Kind m, own_Name = Name m, own_UID = UID m,
           own_Controller = Some True\<rparr>)
     (\<lambda>g k w. (case find (\<lambda>u. u_GVK u = g \<and> (u_Namespace u, u_Name u) = k) (mw_objects w) of
                 None \<Rightarrow> Inl (NotFound (snd k)) | Some u \<Rightarrow> Inr u, w))
     (\<lambda>u w. (None, w\<lparr>mw_objects := mw_objects w @ [u]\<rparr>))
     (\<lambda>i. Inr ((gt_Template i)\<lparr>u_Namespace := gt_Namespace i,
        u_GVK := (u_GVK (gt_Template i))\<lparr>gvk_Kind := RemoveAllStr ''Template'' (gvk_Kind (u_GVK (gt_Template i)))\<rparr>\<rparr>))
     (\<lambda>u. Inr (json_at (u_Object u) [''status'', ''ready''] = Some (JBool True)))
     (\<lambda>j ks. Inr (json_at j ks))
     (\<lambda>j. Inr \<lparr>ref_Kind = json_str j ''kind'', ref_APIVersion = json_str j ''apiVersion'',
               ref_Namespace = json_str j ''namespace'', ref_Name = json_str j ''name'', ref_UID = json_str j ''uid''\<rparr>)
     (\<lambda>_ w. (None, w))
     (\<lambda>_ k w. (case find (\<lambda>n. NodeName n = snd k) (mw_nodes w) of
                 None \<Rightarrow> Inl (NotFound (snd k)) | Some n \<Rightarrow> Inr n, w))
     (\<lambda>_. None)
     (\<lambda>_ _ n w. (None, w\<lparr>mw_nodes := map (\<lambda>n'. if NodeName n' = NodeName n then n else n') (mw_nodes w)\<rparr>))
     (\<lambda>n w. (replicate n CHR ''a'', w)))"

lemmas ref_machine_client_defs = ref_machine_client_def ref_client_def client.defs machine_client.defs

lemma libs_ref_machine_client [simp]: "libs ref_machine_client = ref_lib"
  by (simp add: ref_machine_client_defs)

lemma ref_machine_client_contracts:
  "list_contract ref_machine_client" "random_contract ref_machine_client"
proof -
  show "list_contract ref_machine_client"
    by (auto simp: list_contract_def ref_machine_client_defs split: option.splits)
  have "lower_alnum (CHR ''a'')" by code_simp
  then show "random_contract ref_machine_client"
    by (simp add: random_contract_def ref_machine_client_defs)
qed

section \<open>The writes of the controller to hosts\<close>

text \<open>
  The five changes the controller makes to a host.  Only a host without a cluster label is
  reserved, and only the host that carries this machine's label is changed otherwise.
\<close>

definition attached_to :: "ByoMachine \<Rightarrow> ByoHost \<Rightarrow> bool" where
  "attached_to m h \<longleftrightarrow> Labels h AttachedByoMachineLabel = Some (generateSafeLabelValue (Namespace m) (Name m))"

inductive machine_writes :: "ByoMachine \<Rightarrow> ByoHost \<Rightarrow> ByoHost \<Rightarrow> bool" for m where
  reserve: "Labels h ClusterNameLabel = None \<Longrightarrow> Namespace h = Namespace m \<Longrightarrow>
     obj_key (sc_ByoMachine sc) = obj_key m \<Longrightarrow> machine_writes m h (reserved_host sc ds v h)"
| release: "attached_to m h \<Longrightarrow> Annotations m' = Annotations m \<Longrightarrow> machine_writes m h (cleanup_marked m' h)"
| pause: "attached_to m h \<Longrightarrow>
     machine_writes m h (h\<lparr>Annotations := (Annotations h)(PausedAnnotation \<mapsto> [])\<rparr>)"
| resume: "attached_to m h \<Longrightarrow>
     machine_writes m h (h\<lparr>Annotations := (Annotations h)(PausedAnnotation := None)\<rparr>)"
| install: "attached_to m h \<Longrightarrow>
     machine_writes m h (h\<lparr>HostSpec := (HostSpec h)\<lparr>InstallationSecret := Some s\<rparr>\<rparr>)"
| uninstall: "attached_to m h \<Longrightarrow>
     machine_writes m h (h\<lparr>HostSpec := (HostSpec h)\<lparr>UninstallationSecret := Some s\<rparr>\<rparr>)"

text \<open>
  \<open>keeps C I J\<close>: \<open>J\<close> is a property of single hosts that every write of the controller keeps, and
  \<open>I\<close> a property of worlds in which every listed host has \<open>J\<close>; \<open>I\<close> is kept by a patch that
  takes a host with \<open>J\<close> to a host with \<open>J\<close>, and by every other call.
\<close>

definition keeps ::
  "('w, 'z) machine_client_scheme \<Rightarrow> ('w \<Rightarrow> bool) \<Rightarrow> (ByoHost \<Rightarrow> bool) \<Rightarrow> bool" where
  "keeps C I J \<longleftrightarrow>
     (\<forall>m b a. machine_writes m b a \<longrightarrow> J b \<longrightarrow> J a) \<and>
     (\<forall>s n w hs w'. I w \<longrightarrow> listByoHosts C s n w = (Inr hs, w') \<longrightarrow> (\<forall>h\<in>set hs. J h)) \<and>
     (\<forall>b a w. J b \<longrightarrow> J a \<longrightarrow> I w \<longrightarrow> I (snd (patchByoHost C b a w))) \<and>
     (\<forall>w. I w \<longrightarrow>
        (\<forall>k. I (snd (getByoMachine C k w))) \<and> (\<forall>s n. I (snd (listByoHosts C s n w))) \<and>
        (\<forall>m. I (snd (getClusterFromMetadata C m w))) \<and>
        (\<forall>b a. I (snd (patchByoMachine C b a w))) \<and> (\<forall>k. I (snd (getByoCluster C k w))) \<and>
        (\<forall>m. I (snd (getOwnerMachine C m w))) \<and> (\<forall>g k. I (snd (getUnstructured C g k w))) \<and>
        (\<forall>u. I (snd (createUnstructured C u w))) \<and> (\<forall>k. I (snd (TrackerGetClient C k w))) \<and>
        (\<forall>c k. I (snd (getNode C c k w))) \<and> (\<forall>c b a. I (snd (patchNode C c b a w))) \<and>
        (\<forall>n. I (snd (RandomString C n w))))"

lemma keeps_J: "keeps C I J \<Longrightarrow> machine_writes m b a \<Longrightarrow> J b \<Longrightarrow> J a"
  unfolding keeps_def by metis

lemma keeps_list: "keeps C I J \<Longrightarrow> I w \<Longrightarrow> listByoHosts C s n w = (Inr hs, w') \<Longrightarrow> h \<in> set hs \<Longrightarrow> J h"
  unfolding keeps_def by metis

lemma keepsD:
  assumes "keeps C I J" "I w"
  shows "patchByoHost C b a w = (e, w') \<Longrightarrow> J b \<Longrightarrow> J a \<Longrightarrow> I w'"
    and "getByoMachine C k w = (x1, w') \<Longrightarrow> I w'" and "listByoHosts C s n w = (x2, w') \<Longrightarrow> I w'"
    and "getClusterFromMetadata C m w = (x3, w') \<Longrightarrow> I w'"
    and "patchByoMachine C mb ma w = (x4, w') \<Longrightarrow> I w'" and "getByoCluster C k w = (x5, w') \<Longrightarrow> I w'"
    and "getOwnerMachine C m w = (x6, w') \<Longrightarrow> I w'" and "getUnstructured C g k w = (x7, w') \<Longrightarrow> I w'"
    and "createUnstructured C u w = (x8, w') \<Longrightarrow> I w'" and "TrackerGetClient C k w = (x9, w') \<Longrightarrow> I w'"
    and "getNode C c k w = (x10, w') \<Longrightarrow> I w'" and "patchNode C c nb na w = (x11, w') \<Longrightarrow> I w'"
    and "RandomString C l w = (x12, w') \<Longrightarrow> I w'"
  using assms unfolding keeps_def by (metis snd_conv)+

text \<open>The machine's own host, with the invariant; every write to it keeps both.\<close>

definition mine :: "(ByoHost \<Rightarrow> bool) \<Rightarrow> ByoMachine \<Rightarrow> ByoHost \<Rightarrow> bool" where
  "mine J m h \<longleftrightarrow> attached_to m h \<and> J h"

lemma attached_frame [simp]:
  "attached_to m (h\<lparr>Annotations := a\<rparr>) = attached_to m h"
  "attached_to m (h\<lparr>HostSpec := s\<rparr>) = attached_to m h"
  "attached_to m (cleanup_marked m' h) = attached_to m h"
  by (simp_all add: attached_to_def cleanup_marked_def Let_def)

lemma mine_writes:
  assumes "keeps C I J" "mine J m h"
  shows "mine J m (h\<lparr>Annotations := (Annotations h)(PausedAnnotation \<mapsto> [])\<rparr>)"
    and "mine J m (h\<lparr>Annotations := (Annotations h)(PausedAnnotation := None)\<rparr>)"
    and "mine J m (h\<lparr>HostSpec := (HostSpec h)\<lparr>InstallationSecret := Some s\<rparr>\<rparr>)"
    and "mine J m (h\<lparr>HostSpec := (HostSpec h)\<lparr>UninstallationSecret := Some s\<rparr>\<rparr>)"
    and "Annotations m' = Annotations m \<Longrightarrow> mine J m (cleanup_marked m' h)"
  using assms keeps_J [OF assms(1) machine_writes.pause [of m h]] keeps_J [OF assms(1) machine_writes.resume [of m h]]
    keeps_J [OF assms(1) machine_writes.install [of m h s]] keeps_J [OF assms(1) machine_writes.uninstall [of m h s]]
    keeps_J [OF assms(1) machine_writes.release [of m h m']]
  by (simp_all add: mine_def)

lemma mine_patch:
  assumes "keeps C I J" "I w" "patchByoHost C h h' w = (e, w')" "mine J m h" "mine J m h'"
  shows "I w'"
  using keepsD(1) [OF assms(1,2,3)] assms(4,5) by (simp add: mine_def)

text \<open>The invariant of a reconciliation of the machine \<open>m\<close>.\<close>

definition good :: "('w \<Rightarrow> bool) \<Rightarrow> (ByoHost \<Rightarrow> bool) \<Rightarrow> ByoMachine \<Rightarrow> 'w mstate \<Rightarrow> bool" where
  "good I J m st \<longleftrightarrow> I (world st) \<and>
     obj_key (sc_ByoMachine (scope st)) = obj_key m \<and> Annotations (sc_ByoMachine (scope st)) = Annotations m \<and>
     (\<forall>h. sc_ByoHost (scope st) = Some h \<longrightarrow> mine J m h)"

lemma good_simps [simp]:
  "good I J m (record_event e st) = good I J m st"
  "I w \<Longrightarrow> good I J m st \<Longrightarrow> good I J m (put_world w st)"
  "mine J m h \<Longrightarrow> good I J m st \<Longrightarrow> good I J m (put_host h st)"
  "good I J m st \<Longrightarrow> obj_key (f (sc_ByoMachine (scope st))) = obj_key m \<Longrightarrow>
     Annotations (f (sc_ByoMachine (scope st))) = Annotations m \<Longrightarrow> good I J m (upd_machine f st)"
  by (auto simp: good_def)

lemma good_MarkFalse [simp]:
  "good I J m st \<Longrightarrow> good I J m (upd_machine (machine_MarkFalse L t r sv) st)"
  by (auto simp: good_def obj_key_def)

lemma goodD:
  "good I J m st \<Longrightarrow> I (world st)"
  "good I J m st \<Longrightarrow> sc_ByoHost (scope st) = Some h \<Longrightarrow> mine J m h"
  by (simp_all add: good_def)

lemma setPaused_keeps:
  assumes K: "keeps C I J" and A: "annotations_contract (libs C)"
    and h: "mine J m h" "I w" and eq: "setPausedConditionForByoHost C p h w = (e, h', w')"
  shows "I w' \<and> mine J m h'"
  using eq h mine_writes [OF K h(1)]
  by (auto simp: setPausedConditionForByoHost_def Let_def A [unfolded annotations_contract_def]
      dest: mine_patch [OF K h(2) _ h(1)] split: option.splits if_splits prod.splits)

lemma markHostForCleanup_keeps:
  assumes K: "keeps C I J" and h: "mine J m h" "I w"
    and m: "Annotations m' = Annotations m"
    and eq: "markHostForCleanup C m' h w = (e, h', w')"
  shows "I w' \<and> mine J m h'"
  using eq h mine_writes(5) [OF K h(1) m]
  by (auto simp: markHostForCleanup_def Let_def dest: mine_patch [OF K h(2) _ h(1)] split: option.splits prod.splits)

lemma getInstallerConfigAndHelper_keeps:
  assumes K: "keeps C I J" and w: "I w" and eq: "getInstallerConfigAndHelper C ref m' h w = (r, w')"
  shows "I w'"
  using eq by (auto simp: getInstallerConfigAndHelper_def getInstallerConfigAndStatus_def
      getInstallerConfig_def Let_def dest: keepsD(8) [OF K w] split: prod.splits sum.splits if_splits option.splits)

lemma setInstallationSecret_keeps:
  assumes K: "keeps C I J" and h: "mine J m h" "I w"
    and eq: "setInstallationSecretForByoHost C ref m' h w = (r, h', w')"
  shows "I w' \<and> mine J m h'"
proof (cases "getInstallerConfigAndHelper C ref m' h w")
  case (Pair x w1)
  note I1 = getInstallerConfigAndHelper_keeps [OF K h(2) Pair]
  show ?thesis
    using eq Pair h I1 mine_writes(3) [OF K h(1)]
    by (auto simp: setInstallationSecretForByoHost_def Let_def dest: mine_patch [OF K I1 _ h(1)]
        split: sum.splits outcome.splits prod.splits)
qed

lemma setUninstallationSecret_keeps:
  assumes K: "keeps C I J" and h: "mine J m h" "I w"
    and eq: "setUninstallationSecretForByoHost C ref m' h w = (r, h', w')"
  shows "I w' \<and> mine J m h'"
proof (cases "getInstallerConfigAndHelper C ref m' h w")
  case (Pair x w1)
  note I1 = getInstallerConfigAndHelper_keeps [OF K h(2) Pair]
  show ?thesis
    using eq Pair h I1 mine_writes(4) [OF K h(1)]
    by (auto simp: setUninstallationSecretForByoHost_def Let_def dest: mine_patch [OF K I1 _ h(1)]
        split: sum.splits outcome.splits prod.splits)
qed

lemma createInstallerConfig_keeps:
  assumes K: "keeps C I J" and w: "I w" and eq: "createInstallerConfig C ref sc w = (r, w')"
  shows "I w'"
proof -
  obtain x w1 where 1: "getInstallerConfig C ref (sc_ByoMachine sc) w = (x, w1)" by fastforce
  have I1: "I w1" using 1 keepsD(8) [OF K w] by (auto simp: getInstallerConfig_def Let_def)
  obtain y w2 where 2: "getUnstructured C (refGVK C ref) (ref_key ref) w1 = (y, w2)" by fastforce
  have I2: "I w2" using keepsD(8) [OF K I1 2] .
  show ?thesis
    using eq 1 2 I1 I2 by (auto simp: createInstallerConfig_def Let_def dest: keepsD(9) [OF K I2]
        split: sum.splits if_splits option.splits prod.splits)
qed

lemma setNodeProviderID_keeps:
  assumes K: "keeps C I J" and w: "I w" and eq: "setNodeProviderID C rc h w = (r, w')"
  shows "I w'"
proof -
  obtain x w1 where 1: "getNode C rc (obj_key h) w = (x, w1)" by fastforce
  have I1: "I w1" using keepsD(11) [OF K w 1] .
  obtain y w2 where 2: "RandomString C ProviderIDSuffixLength w1 = (y, w2)" by fastforce
  have I2: "I w2" using keepsD(13) [OF K I1 2] .
  show ?thesis
    using eq 1 2 I1 by (auto simp: setNodeProviderID_def Let_def dest: keepsD(12) [OF K I2]
        split: sum.splits if_splits option.splits prod.splits)
qed

lemma getRemoteClient_keeps:
  assumes K: "keeps C I J" and w: "I w" and eq: "getRemoteClient C m' w = (r, w')"
  shows "I w'"
proof -
  obtain x w1 where 1: "getClusterFromMetadata C (ObjectMeta.truncate m') w = (x, w1)" by fastforce
  have I1: "I w1" using keepsD(4) [OF K w 1] .
  show ?thesis
    using eq 1 I1 by (auto simp: getRemoteClient_def dest: keepsD(10) [OF K I1]
        split: sum.splits option.splits prod.splits)
qed

lemma updateNodeProviderID_good:
  assumes K: "keeps C I J" and g: "good I J m st" and eq: "updateNodeProviderID C h st = (r, st')"
  shows "good I J m st'"
proof -
  obtain x w1 where 1: "getRemoteClient C (sc_ByoMachine (scope st)) (world st) = (x, w1)" by fastforce
  have I1: "I w1" using getRemoteClient_keeps [OF K goodD(1) [OF g] 1] .
  have ready: "good I J m (upd_machine (\<lambda>m. machine_MarkTrue L t
      (m\<lparr>MachineSpec := f (MachineSpec m), MachineStatus := s (MachineStatus m)\<rparr>)) (put_world w st))"
    if "I w" for L t f s w
    using g that by (auto simp: good_def obj_key_def)
  show ?thesis
    using eq 1 I1 g by (auto simp: updateNodeProviderID_def Let_def ready dest!: setNodeProviderID_keeps [OF K I1]
        split: outcome.splits sum.splits option.splits prod.splits)
qed

lemma secret_step_good:
  assumes f: "\<And>h w r h' w'. mine J m h \<Longrightarrow> I w \<Longrightarrow> f h w = (r, h', w') \<Longrightarrow> I w' \<and> mine J m h'"
    and g: "good I J m st" "mine J m h" and eq: "secret_step f missing h st = (r, h', st')"
  shows "good I J m st' \<and> mine J m h'"
  using eq g f [OF g(2) goodD(1) [OF g(1)]] by (auto simp: secret_step_def split: if_splits prod.splits)

lemma provision_host_good:
  assumes K: "keeps C I J" and g: "good I J m st" and h: "mine J m h"
    and eq: "provision_host C h st = (r, st')"
  shows "good I J m st'"
proof -
  define st1 where "st1 = (if mach_HostInfo (MachineStatus (sc_ByoMachine (scope st))) = empty_HostInfo
                then upd_machine (\<lambda>m. m\<lparr>MachineStatus := (MachineStatus m)
                       \<lparr>mach_HostInfo := HostDetails (HostStatus h)\<rparr>\<rparr>) st
                else st)"
  have g1: "good I J m st1" using g by (auto simp: st1_def good_def obj_key_def)
  show ?thesis
  proof (cases "InstallerRef (MachineSpec (sc_ByoMachine (scope st1)))")
    case None
    then show ?thesis
      using eq updateNodeProviderID_good [OF K g1] by (simp add: provision_host_def Let_def flip: st1_def)
  next
    case (Some ref)
    let ?m = "sc_ByoMachine (scope st1)"
    obtain r2 h2 st2 where s2: "secret_step (setInstallationSecretForByoHost C ref ?m)
        (InstallationSecret (HostSpec h) = None) h st1 = (r2, h2, st2)" by (rule prod_cases3)
    obtain r3 h3 st3 where s3: "secret_step (setUninstallationSecretForByoHost C ref ?m)
        (UninstallationSecret (HostSpec h2) = None) h2 st2 = (r3, h3, st3)" by (rule prod_cases3)
    have g2: "good I J m st2 \<and> mine J m h2"
      using secret_step_good [OF setInstallationSecret_keeps [OF K] g1 h s2] .
    have g3: "good I J m st3"
      using secret_step_good [OF setUninstallationSecret_keeps [OF K] conjunct1 [OF g2] conjunct2 [OF g2] s3] by simp
    have "good I J m (snd (updateNodeProviderID C h3 st3))"
      using updateNodeProviderID_good [OF K g3] by (metis prod.collapse)
    then have "good I J m (snd (unless_requeued r2 st2 (unless_requeued r3 st3 (updateNodeProviderID C h3 st3))))"
      using g2 g3 by (intro unless_requeued_cases [where P = "\<lambda>x. good I J m (snd x)"]) simp_all
    then show ?thesis
      using eq Some s2 s3 by (simp add: provision_host_def Let_def flip: st1_def)
  qed
qed

lemma attachByoHost_good:
  assumes K: "keeps C I J" and LC: "list_contract C" and g: "good I J m st"
    and eq: "attachByoHost C st = (r, st')"
  shows "good I J m st'"
proof -
  have w: "good I J m (put_world w' st)" "I w'" if "listByoHosts C s n (world st) = (x, w')" for s n x w'
    using keepsD(3) [OF K goodD(1) [OF g] that] g by simp_all
  have key: "obj_key (sc_ByoMachine (scope st)) = obj_key m" using g by (simp add: good_def)
  have found: "good I J m st'"
    if l: "listByoHosts C (sel @ [DoesNotExist ClusterNameLabel])
        (Some (Namespace (sc_ByoMachine (scope st)))) (world st) = (Inr (h # hs), w1)"
      and f: "attach_found_host C h (put_world w1 st) = (r, st')" for sel h hs w1
  proof -
    have "req_matches (DoesNotExist ClusterNameLabel) (Labels h)" "Namespace h = Namespace (sc_ByoMachine (scope st))"
      using list_contractD(1) [OF LC l, of h "DoesNotExist ClusterNameLabel"] list_contractD(2) [OF LC l, of h]
      by simp_all
    then have wr: "machine_writes m h (reserved_host (scope st) ds v h)" for ds v
      using key by (intro machine_writes.reserve) (simp_all add: obj_key_def)
    have J: "J h" using keeps_list [OF K goodD(1) [OF g] l, of h] by simp
    have att: "mine J m (reserved_host (scope st) ds v h)" for ds v
      using key keeps_J [OF K wr J] by (simp add: mine_def attached_to_def reserved_host_Labels obj_key_def)
    have Iw: "I w'" if "patchByoHost C h (reserved_host (scope st) ds v h) w1 = (e, w')" for ds v e w'
      using keepsD(1) [OF K w(2) [OF l] that J] att by (simp add: mine_def)
    show ?thesis
      using f w [OF l] g by (auto simp: attach_found_host_def Let_def att dest: Iw
          split: option.splits prod.splits)
  qed
  show ?thesis
    using eq g by (auto simp: attachByoHost_def Let_def intro: found found [of "[]", simplified] dest: w
        split: if_splits sum.splits option.splits prod.splits list.splits)
qed

lemma gate_and_attach_good:
  assumes K: "keeps C I J" and LC: "list_contract C" and g: "good I J m st"
    and eq: "gate_and_attach C st = (r, st')"
  shows "good I J m st'"
proof (cases "sc_ByoHost (scope st)")
  case (Some h)
  then show ?thesis
    using eq g provision_host_good [OF K g goodD(2) [OF g Some]]
    by (auto simp: gate_and_attach_def Let_def split: if_splits option.splits)
next
  case None
  obtain r1 st1 where 1: "attachByoHost C st = (r1, st1)" by fastforce
  have g1: "good I J m st1" using attachByoHost_good [OF K LC g 1] .
  have prov: "good I J m st'" if "provision_host C h (record_event e1 (record_event e2
        (upd_machine (machine_MarkFalse L t rs sv) st1))) = (r, st')" "sc_ByoHost (scope st1) = Some h"
    for h e1 e2 L t rs sv
    using provision_host_good [OF K _ goodD(2) [OF g1 that(2)] that(1)] g1 by simp
  show ?thesis
    using eq g g1 1 None
    by (auto simp: gate_and_attach_def Let_def dest: prov split: if_splits option.splits outcome.splits prod.splits)
qed

lemma reconcileNormal_good:
  assumes K: "keeps C I J" and LC: "list_contract C" and A: "annotations_contract (libs C)"
    and g: "good I J m st" and eq: "reconcileNormal C st = (r, st')"
  shows "good I J m st'"
proof -
  define st1 where "st1 = upd_machine (\<lambda>m. m\<lparr>Finalizers := fin_Add (libs C) MachineFinalizer (Finalizers m)\<rparr>) st"
  have g1: "good I J m st1" using g by (auto simp: st1_def good_def obj_key_def)
  define p where "p = (case sc_ByoHost (scope st1) of
             None \<Rightarrow> (None, st1)
           | Some host \<Rightarrow>
               let (err, host', w) = setPausedConditionForByoHost C False host (world st1)
               in (err, put_host host' (put_world w st1)))"
  obtain e st2 where p: "p = (e, st2)" by fastforce
  have g2: "good I J m st2"
    using p g1 setPaused_keeps [OF K A goodD(2) [OF g1] goodD(1) [OF g1]]
    by (auto simp: p_def Let_def split: option.splits prod.splits)
  have g3: "good I J m (put_world w' st2)" if "createInstallerConfig C ref sc (world st2) = (x, w')" for ref sc x w'
    using createInstallerConfig_keeps [OF K goodD(1) [OF g2] that] g2 by simp
  have "reconcileNormal C st = (case e of
           Some err \<Rightarrow> (Return (no_requeue, Some err), st2)
         | None \<Rightarrow>
             (case InstallerRef (MachineSpec (sc_ByoMachine (scope st2))) of
                None \<Rightarrow> gate_and_attach C st2
              | Some ref \<Rightarrow>
                  (case createInstallerConfig C ref (scope st2) (world st2) of
                     (Panic m, w) \<Rightarrow> (Panic m, put_world w st2)
                   | (Return (Some err), w) \<Rightarrow> (Return (no_requeue, Some err), put_world w st2)
                   | (Return None, w) \<Rightarrow> gate_and_attach C (put_world w st2))))"
    using p unfolding reconcileNormal_def p_def st1_def by (simp only: Let_def split_beta fst_conv snd_conv)
  then show ?thesis
    using eq g2 by (auto intro: gate_and_attach_good [OF K LC _ sym] dest: g3
        split: prod.splits option.splits outcome.splits)
qed

lemma reconcileDelete_good:
  assumes K: "keeps C I J" and g: "good I J m st" and eq: "reconcileDelete C st = (r, st')"
  shows "good I J m st'"
proof -
  have fin: "good I J m s \<Longrightarrow> good I J m (upd_machine (\<lambda>m. m\<lparr>Finalizers := f (Finalizers m)\<rparr>) s)" for s f
    by (auto simp: good_def obj_key_def)
  have ann: "Annotations (sc_ByoMachine (scope st)) = Annotations m" using g by (simp add: good_def)
  show ?thesis
    using eq g by (auto simp: reconcileDelete_def Let_def fin
        dest!: markHostForCleanup_keeps [OF K goodD(2) [OF g] goodD(1) [OF g] ann]
        split: option.splits outcome.splits prod.splits)
qed

lemma reconcile_paused_good:
  assumes K: "keeps C I J" and A: "annotations_contract (libs C)"
    and g: "good I J m st" and eq: "reconcile_paused C st = (r, st')"
  shows "good I J m st'"
  using eq g setPaused_keeps [OF K A goodD(2) [OF g] goodD(1) [OF g]]
  by (auto simp: reconcile_paused_def Let_def split: option.splits prod.splits)

lemma FetchAttachedByoHost_keeps:
  assumes K: "keeps C I J" and w: "I w" and eq: "FetchAttachedByoHost C n ns w = (r, w')"
  shows "I w'"
  using eq w by (auto simp: FetchAttachedByoHost_def Let_def dest: keepsD(3) [OF K w]
      split: option.splits prod.splits sum.splits list.splits)

lemma FetchAttachedByoHost_list:
  assumes eq: "FetchAttachedByoHost C n ns w = (Return (Inr (Some h)), w')"
  obtains hs where "listByoHosts C [Equals AttachedByoMachineLabel (generateSafeLabelValue ns n)] None w =
    (Inr (h # hs), w')"
  using eq by (auto simp: FetchAttachedByoHost_def Let_def split: option.splits prod.splits sum.splits list.splits)

lemma FetchAttachedByoHost_attached:
  assumes LC: "list_contract C"
    and eq: "FetchAttachedByoHost C (Name m) (Namespace m) w = (Return (Inr (Some h)), w')"
  shows "attached_to m h"
proof -
  obtain hs where "listByoHosts C [Equals AttachedByoMachineLabel (generateSafeLabelValue (Namespace m) (Name m))]
      None w = (Inr (h # hs), w')"
    using FetchAttachedByoHost_list [OF eq] .
  from list_contractD(1) [OF LC this, of h] show ?thesis by (fastforce simp: attached_to_def)
qed

lemma FetchAttachedByoHost_mine:
  assumes K: "keeps C I J" and LC: "list_contract C" and w: "I w"
    and eq: "FetchAttachedByoHost C (Name m) (Namespace m) w = (Return (Inr (Some h)), w')"
  shows "mine J m h"
  using FetchAttachedByoHost_attached [OF LC eq] keeps_list [OF K w, of _ _ _ _ h]
  by (auto simp: mine_def intro: FetchAttachedByoHost_list [OF eq])

lemma newByoMachineScope_ok:
  "newByoMachineScope C params = Inr sc \<Longrightarrow>
   p_Cluster params = Some (sc_Cluster sc) \<and> p_Machine params = Some (sc_Machine sc) \<and>
   p_ByoMachine params = Some (sc_ByoMachine sc) \<and> p_ByoCluster params = Some (sc_ByoCluster sc) \<and>
   sc_ByoHost sc = p_ByoHost params"
  by (auto simp: newByoMachineScope_def split: if_splits option.splits)

text \<open>The scope the body of \<open>Reconcile\<close> starts from, and the branch it takes.\<close>

lemma reconcile_body_cases:
  assumes "reconcile_body C cl mc bc m w = (r, m', w', evs)"
  obtains (early) x where "m' = m" "evs = []" "FetchAttachedByoHost C (Name m) (Namespace m) w = (x, w')"
        "\<nexists>res. r = Return (res, None)"
  | (run) h w1 st st' where "FetchAttachedByoHost C (Name m) (Namespace m) w = (Return (Inr h), w1)"
      "scope st = \<lparr>sc_Cluster = cl, sc_Machine = mc, sc_ByoCluster = bc, sc_ByoMachine = m, sc_ByoHost = h\<rparr>"
      "world st = w1" "m' = sc_ByoMachine (scope st')" "w' = world st'" "evs = events st'"
      "(r, st') = (if IsPaused (libs C) cl (Annotations m) then reconcile_paused C st
                   else if being_deleted m then reconcileDelete C st else reconcileNormal C st)"
proof -
  obtain x w1 where f: "FetchAttachedByoHost C (Name m) (Namespace m) w = (x, w1)" by fastforce
  let ?p = "\<lambda>h. \<lparr>p_Client = True, p_Cluster = Some cl, p_Machine = Some mc,
                  p_ByoCluster = Some bc, p_ByoMachine = Some m, p_ByoHost = h\<rparr>"
  consider (a) "\<nexists>h. x = Return (Inr h)" | (b) h e where "x = Return (Inr h)" "newByoMachineScope C (?p h) = Inl e"
    | (c) h sc where "x = Return (Inr h)" "newByoMachineScope C (?p h) = Inr sc"
    by (metis sum.exhaust_sel)
  then show thesis
  proof cases
    case a
    then show thesis using assms f early by (auto simp: reconcile_body_def split: outcome.splits sum.splits)
  next
    case b
    then show thesis using assms f early by (auto simp: reconcile_body_def)
  next
    case (c h sc)
    define st where "st = \<lparr>scope = sc, world = w1, events = []\<rparr>"
    define out where "out = (if IsPaused (libs C) cl (Annotations m) then reconcile_paused C st
                   else if being_deleted m then reconcileDelete C st else reconcileNormal C st)"
    have "sc = \<lparr>sc_Cluster = cl, sc_Machine = mc, sc_ByoCluster = bc, sc_ByoMachine = m, sc_ByoHost = h\<rparr>"
      using newByoMachineScope_ok [OF c(2)] by simp
    moreover have "(r, m', w', evs) = (fst out, sc_ByoMachine (scope (snd out)), world (snd out), events (snd out))"
      using assms f c unfolding out_def st_def by (simp add: reconcile_body_def Let_def split_beta)
    ultimately show thesis
      using c f by (intro run [of h w1 st "snd out"]) (auto simp: st_def out_def)
  qed
qed

lemma reconcile_body_keeps:
  assumes K: "keeps C I J" and LC: "list_contract C" and A: "annotations_contract (libs C)"
    and w: "I w" and eq: "reconcile_body C cl mc bc m w = (r, m', w', evs)"
  shows "I w'"
  using eq
proof (cases rule: reconcile_body_cases)
  case (early x)
  then show ?thesis using FetchAttachedByoHost_keeps [OF K w] by blast
next
  case (run h w1 st st')
  have "I w1" using FetchAttachedByoHost_keeps [OF K w run(1)] .
  then have g: "good I J m st"
    using run(1-3) FetchAttachedByoHost_mine [OF K LC w] by (auto simp: good_def)
  have "good I J m st'"
    using run(7) [symmetric] reconcile_paused_good [OF K A g] reconcileDelete_good [OF K g]
      reconcileNormal_good [OF K LC A g] by (auto split: if_splits)
  then show ?thesis using run(5) by (simp add: goodD)
qed

text \<open>The reads \<open>Reconcile\<close> makes before it has anything to do, and what happens then.\<close>

lemma Reconcile_cases:
  assumes K: "keeps C I J" and w: "I w" and eq: "Reconcile C req w = (r, w', evs)"
  obtains (early) "I w'" "evs = []"
  | (body) m mc cl bc w4 r' m' w5 where
      "I w4" "reconcile_body C cl mc bc m w4 = (r', m', w5, evs)"
      "(helperByoMachine C m \<noteq> None \<and> w' = w5) \<or> (\<exists>perr. patchByoMachine C m m' w5 = (perr, w'))"
proof -
  obtain x1 w1 where 1: "getByoMachine C req w = (x1, w1)" by fastforce
  have I1: "I w1" using keepsD(2) [OF K w 1] .
  show thesis
  proof (cases x1)
    case Inl
    then show thesis using early eq 1 I1 by (auto simp: Reconcile_def)
  next
    case (Inr m)
    obtain x2 w2 where 2: "getOwnerMachine C (ObjectMeta.truncate m) w1 = (x2, w2)" by fastforce
    have I2: "I w2" using keepsD(7) [OF K I1 2] .
    obtain x3 w3 where 3: "getClusterFromMetadata C (ObjectMeta.truncate m) w2 = (x3, w3)" by fastforce
    have I3: "I w3" using keepsD(4) [OF K I2 3] .
    show thesis
    proof (cases "\<exists>mc cl ir. x2 = Inr (Some mc) \<and> x3 = Inr (Some cl) \<and> InfrastructureRef cl = Some ir")
      case False
      then show thesis
        using early eq 1 2 3 Inr I2 I3 by (auto simp: Reconcile_def split: sum.splits option.splits)
    next
      case True
      then obtain mc cl ir where x: "x2 = Inr (Some mc)" "x3 = Inr (Some cl)" "InfrastructureRef cl = Some ir"
        by blast
      obtain x4 w4 where 4: "getByoCluster C (Namespace m, ref_Name ir) w3 = (x4, w4)" by fastforce
      have I4: "I w4" using keepsD(6) [OF K I3 4] .
      show thesis
      proof (cases x4)
        case Inl
        then show thesis using early eq 1 2 3 4 x I4 \<open>x1 = Inr m\<close> by (auto simp: Reconcile_def)
      next
        case (Inr bc)
        obtain r' m' w5 evs' where b: "reconcile_body C cl mc bc m w4 = (r', m', w5, evs')" by (metis prod.exhaust)
        have "evs' = evs"
          and "(helperByoMachine C m \<noteq> None \<and> w' = w5) \<or> (\<exists>perr. patchByoMachine C m m' w5 = (perr, w'))"
          using eq 1 2 3 4 x b Inr \<open>x1 = Inr m\<close>
          by (auto simp: Reconcile_def Let_def split: option.splits prod.splits outcome.splits)
        then show thesis using body [OF I4] b by blast
      qed
    qed
  qed
qed

section \<open>An example\<close>

definition ex_machine :: ByoMachine where
  "ex_machine = (new_machine ''default'' ''m1'' ''c1'')
     \<lparr>OwnerReferences := [\<lparr>own_APIVersion = ''cluster.x-k8s.io/v1beta1'', own_Kind = ''Machine'',
        own_Name = ''mc1'', own_UID = [], own_Controller = Some True\<rparr>]\<rparr>"

definition ex_owner :: Machine where
  "ex_owner = ObjectMeta.extend (new_meta ''Machine'' ''default'' ''mc1'')
     (Machine.fields (Some ''boot'') (Some ''v1.26.6+vmware.1''))"

definition ex_byocluster :: ByoCluster where
  "ex_byocluster = ObjectMeta.extend (new_meta ''ByoCluster'' ''default'' ''c1'')
     (ByoCluster.fields \<lparr>ControlPlaneEndpoint = \<lparr>Host = ''10.0.0.1'', Port = 6443\<rparr>,
         BundleLookupBaseRegistry = ''projects.registry.vmware.com''\<rparr>
       \<lparr>clus_Ready = True, clus_Conditions = [], FailureDomains = Map.empty\<rparr>)"

definition ex_world :: machine_world where
  "ex_world =
     \<lparr>rw_hosts = [(new_host ''default'' ''busy'')\<lparr>Labels := [ClusterNameLabel \<mapsto> ''c0'']\<rparr>,
                  new_host ''other'' ''host0'', new_host ''default'' ''host1''],
      rw_machines = [ex_machine], rw_secrets = [], rw_clusters = [new_cluster ''default'' ''c1''],
      mw_byoclusters = [ex_byocluster], mw_owners = [ex_owner], mw_objects = [],
      mw_nodes = [\<lparr>NodeName = ''host1'', NodeProviderID = []\<rparr>]\<rparr>"

definition ex_state :: "ByoHost option \<Rightarrow> machine_world mstate" where
  "ex_state h = \<lparr>scope = \<lparr>sc_Cluster = new_cluster ''default'' ''c1'', sc_Machine = ex_owner,
     sc_ByoCluster = ex_byocluster, sc_ByoMachine = ex_machine, sc_ByoHost = h\<rparr>, world = ex_world, events = []\<rparr>"

section \<open>Properties\<close>

text \<open>The conclusion of the property on reservations, as a predicate of the state before and after.\<close>

definition reserves_free_host ::
  "('w, 'z) machine_client_scheme \<Rightarrow> 'w mstate \<Rightarrow> 'w mstate \<Rightarrow> bool" where
  "reserves_free_host C st st' \<longleftrightarrow>
     (\<exists>host ds v w sel.
        Labels host ClusterNameLabel = None \<and>
        Namespace host = Namespace (sc_ByoMachine (scope st)) \<and>
        (case Selector (MachineSpec (sc_ByoMachine (scope st))) of
           None \<Rightarrow> sel = [] | Some s \<Rightarrow> LabelSelectorAsSelector C s = Inr sel) \<and> sel_matches sel (Labels host) \<and>
        DataSecretName (sc_Machine (scope st)) = Some ds \<and> Version (sc_Machine (scope st)) = Some v \<and>
        patchByoHost C host (reserved_host (scope st) ds v host) w = (None, world st') \<and>
        sc_ByoHost (scope st') = Some (reserved_host (scope st) ds v host) \<and>
        sc_ByoMachine (scope st') = sc_ByoMachine (scope st) \<and> events st' = events st)"

text \<open>
  C6. A successful \<open>attachByoHost\<close> for a machine without a host reserves a host of the machine's
  own namespace that carries no cluster label and matches the machine's label selector: the
  reservation (machine reference, cluster and machine labels, bootstrap secret, endpoint, version
  and registry annotations) has been patched to the API server without error and is the host of
  the scope.  It relies on \<open>List\<close> returning only what the selector and the namespace admit.
\<close>

theorem attachByoHost_reserves_free_host:
  assumes "list_contract C" and "sc_ByoHost (scope st) = None"
    and "attachByoHost C st = (Return (res, None), st')"
  shows "reserves_free_host C st st' \<and> res = no_requeue"
proof -
  obtain sel host hs w where
    sel: "(case Selector (MachineSpec (sc_ByoMachine (scope st))) of
        Some s \<Rightarrow> LabelSelectorAsSelector C s | None \<Rightarrow> Inr []) = Inr sel"
    and l: "listByoHosts C (sel @ [DoesNotExist ClusterNameLabel])
       (Some (Namespace (sc_ByoMachine (scope st)))) (world st) = (Inr (host # hs), w)"
    and f: "attach_found_host C host (put_world w st) = (Return (res, None), st')"
    using attachByoHost_ok [OF assms(2,3)] by metis
  have m: "\<And>r. r \<in> set (sel @ [DoesNotExist ClusterNameLabel]) \<Longrightarrow> req_matches r (Labels host)"
    and n: "Namespace host = Namespace (sc_ByoMachine (scope st))"
    using list_contractD [OF assms(1) l, of host] by simp_all
  from m [of "DoesNotExist ClusterNameLabel"] m
  have free: "Labels host ClusterNameLabel = None" and s: "sel_matches sel (Labels host)"
    by (simp_all add: sel_matches_def)
  from f obtain ds v w1 where "DataSecretName (sc_Machine (scope st)) = Some ds"
      "Version (sc_Machine (scope st)) = Some v"
      "patchByoHost C host (reserved_host (scope st) ds v host) w = (None, w1)"
      "st' = put_host (reserved_host (scope st) ds v host) (put_world w1 (put_world w st))" "res = no_requeue"
    by (rule attach_found_host_ok) simp_all
  then show ?thesis
    unfolding reserves_free_host_def using free n s sel by (force split: option.splits)
qed

theorem attachByoHost_reserves_free_host_witness:
  "reserves_free_host ref_machine_client (ex_state None) (snd (attachByoHost ref_machine_client (ex_state None)))"
proof -
  have "fst (attachByoHost ref_machine_client (ex_state None)) = Return (no_requeue, None)" by code_simp
  then have "attachByoHost ref_machine_client (ex_state None) =
      (Return (no_requeue, None), snd (attachByoHost ref_machine_client (ex_state None)))"
    by (metis prod.collapse)
  from attachByoHost_reserves_free_host [OF ref_machine_client_contracts(1) _ this]
  show ?thesis by (simp add: ex_state_def)
qed

text \<open>
  C12. A machine that has no host gets one only when the cluster's infrastructure is ready and the
  bootstrap data of its Machine is available: whatever \<open>reconcileNormal\<close> returns, an error or a
  panic included, a host in the scope afterwards means both conditions held.
\<close>

theorem reconcileNormal_attach_gate:
  assumes "sc_ByoHost (scope st) = None" and "reconcileNormal C st = (r, st')"
    and "sc_ByoHost (scope st') = Some host"
  shows "InfrastructureReady (sc_Cluster (scope st)) \<and> DataSecretName (sc_Machine (scope st)) \<noteq> None"
proof (rule ccontr)
  assume "\<not> ?thesis"
  then have closed: "sc_ByoHost (scope (snd (gate_and_attach C st1))) = sc_ByoHost (scope st1)"
    if "sc_Cluster (scope st1) = sc_Cluster (scope st)" "sc_Machine (scope st1) = sc_Machine (scope st)" for st1
    using that by (auto simp: gate_and_attach_def)
  have "sc_ByoHost (scope (snd (reconcileNormal C st))) = None"
    using assms(1) by (auto simp: reconcileNormal_def Let_def closed split: option.splits prod.splits outcome.splits)
  then show False using assms(2,3) by simp
qed

theorem reconcileNormal_attach_gate_witness:
  "InfrastructureReady (sc_Cluster (scope (ex_state None))) \<and> DataSecretName (sc_Machine (scope (ex_state None))) \<noteq> None"
proof -
  let ?out = "reconcileNormal ref_machine_client (ex_state None)"
  have "map_option Name (sc_ByoHost (scope (snd ?out))) = Some ''host1''" by code_simp
  then obtain h where "sc_ByoHost (scope (snd ?out)) = Some h" by auto
  from reconcileNormal_attach_gate [OF _ _ this, of "ex_state None" ref_machine_client "fst ?out"]
  show ?thesis by (simp add: ex_state_def)
qed

text \<open>The machine of the scope is handed on unchanged but for its own fields by deletion and pause.\<close>

lemma reconcileDelete_ready:
  assumes "reconcileDelete C st = (r, st')"
  shows "mach_Ready (MachineStatus (sc_ByoMachine (scope st'))) = mach_Ready (MachineStatus (sc_ByoMachine (scope st)))"
  using assms by (auto simp: reconcileDelete_def Let_def split: option.splits prod.splits outcome.splits)

lemma reconcile_paused_ready:
  assumes "reconcile_paused C st = (r, st')"
  shows "mach_Ready (MachineStatus (sc_ByoMachine (scope st'))) = mach_Ready (MachineStatus (sc_ByoMachine (scope st)))"
  using assms by (auto simp: reconcile_paused_def Let_def split: option.splits prod.splits)



text \<open>
  C11. Deleting a ByoMachine removes its finalizer only after its host has been marked for
  cleanup by a patch that succeeded; in every other case (a patch error, a panic) the machine
  is left as it was, finalizer included, so that the deletion is tried again.
\<close>

theorem reconcileDelete_releases_first:
  assumes "finalizer_contract (libs C)" and "reconcileDelete C st = (r, st')"
  shows "if r = Return (no_requeue, None)
    then set (Finalizers (sc_ByoMachine (scope st'))) = set (Finalizers (sc_ByoMachine (scope st))) - {MachineFinalizer} \<and>
      (case sc_ByoHost (scope st) of
         None \<Rightarrow> world st' = world st
       | Some host \<Rightarrow>
           patchByoHost C host (cleanup_marked (sc_ByoMachine (scope st)) host) (world st) = (None, world st') \<and>
           Annotations (cleanup_marked (sc_ByoMachine (scope st)) host) HostCleanupAnnotation = Some [])
    else sc_ByoMachine (scope st') = sc_ByoMachine (scope st)"
  using assms
  by (auto simp: reconcileDelete_def markHostForCleanup_def Let_def finalizer_contract_laws cleanup_marked_def
      split: option.splits prod.splits outcome.splits)

theorem reconcileDelete_releases_first_witness:
  "set (Finalizers (sc_ByoMachine (scope (snd (reconcileDelete ref_machine_client
     (ex_state (Some (new_host ''default'' ''host1'')))))))) = set (Finalizers ex_machine) - {MachineFinalizer}"
proof -
  let ?st = "ex_state (Some (new_host ''default'' ''host1''))"
  have "fst (reconcileDelete ref_machine_client ?st) = Return (no_requeue, None)" by code_simp
  moreover have "sc_ByoMachine (scope ?st) = ex_machine" by (simp add: ex_state_def)
  ultimately show ?thesis
    using reconcileDelete_releases_first [of ref_machine_client ?st _ "snd (reconcileDelete ref_machine_client ?st)",
        OF _ prod.collapse [symmetric]] ref_lib_contracts(2)
    by simp
qed

text \<open>
  The change that marks a host for cleanup: the cleanup annotation is set, the \<open>platform9\<close>
  cluster labels are dropped unless the machine says that an upgrade is in progress, and nothing
  else of the host is touched, in particular not its machine reference and not the labels that
  reserve it.
\<close>

theorem cleanup_marked_effect:
  "Annotations (cleanup_marked m h) = (Annotations h)(HostCleanupAnnotation \<mapsto> []) \<and>
   (\<forall>k. Labels (cleanup_marked m h) k =
      (if k \<in> {ClusterLabel, ClusterLabelCP} \<and> Annotations m UpgradeInProgressAnnotation \<noteq> Some ''true''
       then None else Labels h k)) \<and>
   HostSpec (cleanup_marked m h) = HostSpec h \<and> HostStatus (cleanup_marked m h) = HostStatus h \<and>
   obj_key (cleanup_marked m h) = obj_key h \<and>
   Labels (cleanup_marked m h) ClusterNameLabel = Labels h ClusterNameLabel \<and>
   Labels (cleanup_marked m h) AttachedByoMachineLabel = Labels h AttachedByoMachineLabel"
  by (auto simp: cleanup_marked_def Let_def obj_key_def)

text \<open>
  A host that is reserved says for which cluster and machine, and has bootstrap data: the
  invariant that the writes of the controller keep.
\<close>

definition reservation_ok :: "ByoHost \<Rightarrow> bool" where
  "reservation_ok h \<longleftrightarrow>
     (MachineRef (HostStatus h) \<noteq> None \<longrightarrow>
        Labels h ClusterNameLabel \<noteq> None \<and> Labels h AttachedByoMachineLabel \<noteq> None)"

lemma machine_writes_reservation_ok: "machine_writes m b a \<Longrightarrow> reservation_ok b \<Longrightarrow> reservation_ok a"
  by (induction rule: machine_writes.induct)
    (auto simp: reservation_ok_def reserved_host_Labels cleanup_marked_def Let_def)

lemma ref_client_keeps:
  assumes "\<And>m b a. machine_writes m b a \<Longrightarrow> J b \<Longrightarrow> J a"
  shows "keeps ref_machine_client (\<lambda>w. \<forall>h\<in>set (rw_hosts w). J h) J"
  using assms unfolding keeps_def
  by (auto simp: ref_machine_client_defs store_put_def split: option.splits sum.splits if_splits)

text \<open>
  C10. The ByoMachine controller writes to hosts only by \<open>machine_writes\<close>: it reserves a host
  without cluster label in the machine's namespace, and changes otherwise only the host that
  carries this machine's label.  So any invariant of single hosts that these six writes keep is
  kept by a whole \<open>Reconcile\<close>, whatever the API server answers and whether it returns, fails or
  panics.
\<close>

theorem Reconcile_keeps_host_invariant:
  assumes "keeps C I J" and "list_contract C" and "annotations_contract (libs C)"
    and "I w" and "Reconcile C req w = (r, w', evs)"
  shows "I w'"
  using assms(1,4,5)
proof (cases rule: Reconcile_cases)
  case early
  then show ?thesis by simp
next
  case (body m mc cl bc w4 r' m' w5)
  have "I w5" using reconcile_body_keeps [OF assms(1-3) body(1,2)] .
  then show ?thesis using body(3) keepsD(5) [OF assms(1)] by blast
qed

theorem Reconcile_keeps_host_invariant_witness:
  "list_all reservation_ok (rw_hosts (fst (snd (Reconcile ref_machine_client (''default'', ''m1'') ex_world))))"
proof -
  let ?out = "Reconcile ref_machine_client (''default'', ''m1'') ex_world"
  have K: "keeps ref_machine_client (\<lambda>w :: machine_world. \<forall>h\<in>set (rw_hosts w). reservation_ok h) reservation_ok"
    by (rule ref_client_keeps [OF machine_writes_reservation_ok])
  have "\<forall>h\<in>set (rw_hosts ex_world). reservation_ok h"
    by (simp add: ex_world_def reservation_ok_def new_object_defs)
  from Reconcile_keeps_host_invariant [OF K ref_machine_client_contracts(1) _ this,
      of "(''default'', ''m1'')" "fst ?out" "fst (snd ?out)" "snd (snd ?out)"]
  show ?thesis using ref_lib_contracts(3) by (simp add: list_all_iff)
qed



text \<open>\<open>labels.NewRequirement\<close> accepts a well-formed value.\<close>

definition requirement_contract :: "('w, 'z) machine_client_scheme \<Rightarrow> bool" where
  "requirement_contract C \<longleftrightarrow>
     (\<forall>v. valid_label_value v \<longrightarrow> NewRequirement C (Equals AttachedByoMachineLabel v) = None)"

text \<open>
  C14. Looking up the host of a machine whose names the API server admits never panics, although
  the error of the label requirement is ignored; and the host it finds carries the label of that
  machine.
\<close>

theorem FetchAttachedByoHost_safe:
  assumes "requirement_contract C" and "list_contract C"
    and "dns_label (Namespace byoMachine)" and "dns_subdomain (Name byoMachine)"
  shows "case FetchAttachedByoHost C (Name byoMachine) (Namespace byoMachine) w of
      (Panic _, _) \<Rightarrow> False
    | (Return (Inr (Some host)), _) \<Rightarrow> attached_to byoMachine host
    | (Return _, _) \<Rightarrow> True"
proof -
  have "NewRequirement C (Equals AttachedByoMachineLabel
      (generateSafeLabelValue (Namespace byoMachine) (Name byoMachine))) = None"
    using assms(1) generateSafeLabelValue_valid [OF dns_label_subdomain [OF assms(3)] assms(4)]
    by (simp add: requirement_contract_def)
  then have "fst (FetchAttachedByoHost C (Name byoMachine) (Namespace byoMachine) w) \<noteq> Panic m" for m
    by (auto simp: FetchAttachedByoHost_def Let_def split: prod.splits sum.splits list.splits)
  then show ?thesis
    using FetchAttachedByoHost_attached [OF assms(2)]
    by (force split: prod.splits outcome.splits sum.splits option.splits)
qed

theorem FetchAttachedByoHost_safe_witness:
  "case FetchAttachedByoHost ref_machine_client ''m1'' ''default''
      (ex_world\<lparr>rw_hosts := [(new_host ''default'' ''h'')\<lparr>Labels := [AttachedByoMachineLabel \<mapsto> ''default.m1'']\<rparr>]\<rparr>) of
      (Panic _, _) \<Rightarrow> False
    | (Return (Inr (Some host)), _) \<Rightarrow> attached_to ex_machine host
    | (Return _, _) \<Rightarrow> True"
proof -
  have R: "requirement_contract ref_machine_client"
    by (simp add: requirement_contract_def ref_machine_client_defs)
  have n: "Namespace ex_machine = ''default''" "Name ex_machine = ''m1''"
    by (simp_all add: ex_machine_def new_object_defs)
  have "dns_label (Namespace ex_machine)" "dns_subdomain (Name ex_machine)" by code_simp+
  from FetchAttachedByoHost_safe [OF R ref_machine_client_contracts(1) this] show ?thesis unfolding n .
qed

text \<open>
  While the cluster or the machine is paused, a reconciliation changes the host only by the
  paused annotation and the machine only by its condition; no host is reserved or released, no
  finalizer is added or removed, and the result is no error and no requeue.
\<close>

theorem reconcile_paused_effect:
  assumes "annotations_contract (libs C)" and "conditions_contract (libs C)"
    and "reconcile_paused C st = (r, st')"
  shows "r = Return (no_requeue, None) \<and> events st' = events st \<and>
    sc_ByoMachine (scope st') =
      machine_MarkFalse (libs C) BYOHostReady ClusterOrResourcePausedReason SeverityInfo (sc_ByoMachine (scope st)) \<and>
    Finalizers (sc_ByoMachine (scope st')) = Finalizers (sc_ByoMachine (scope st)) \<and>
    (case sc_ByoHost (scope st) of
       None \<Rightarrow> sc_ByoHost (scope st') = None \<and> world st' = world st
     | Some h \<Rightarrow> sc_ByoHost (scope st') \<in> {Some h, Some (h\<lparr>Annotations := (Annotations h)(PausedAnnotation \<mapsto> [])\<rparr>)} \<and>
         (world st' = world st \<or>
          world st' = snd (patchByoHost C h (h\<lparr>Annotations := (Annotations h)(PausedAnnotation \<mapsto> [])\<rparr>) (world st))))"
  using assms
  by (auto simp: reconcile_paused_def setPausedConditionForByoHost_def Let_def annotations_contract_def
      split: option.splits prod.splits)

theorem reconcile_paused_effect_witness:
  "Finalizers (sc_ByoMachine (scope (snd (reconcile_paused ref_machine_client
     (ex_state (Some (new_host ''default'' ''host1''))))))) = Finalizers ex_machine"
  using reconcile_paused_effect [of ref_machine_client "ex_state (Some (new_host ''default'' ''host1''))",
      OF _ _ prod.collapse [symmetric]] ref_lib_contracts(1,3)
  by (simp add: ex_state_def)

end
