(* ===== verification/Go_Os.thy ===== *)
theory Go_Os
  imports Go_Strings "HOL-Library.Word" "HOL-Library.AList"
begin

unbundle bit_operations_syntax

text \<open>
  What the agent uses of \<open>path/filepath\<close>, \<open>strconv\<close>, \<open>encoding/base64\<close>, \<open>os\<close> and \<open>os/user\<close>: cleaning of
  paths, parsing of unsigned numbers, base64 decoding, and a file system with regular files and
  directories.  A path is looked up by its cleaned form, so there are no symbolic links.  Which
  operations the kernel refuses on which path (permissions, input/output errors) is the field
  \<open>os_deny\<close> of the state.
\<close>

section \<open>Paths\<close>

fun clean_step :: "bool \<Rightarrow> string list \<Rightarrow> string \<Rightarrow> string list" where
  "clean_step rooted stack c =
     (if c = [] \<or> c = ''.'' then stack
      else if c \<noteq> ''..'' then c # stack
      else case stack of
        [] \<Rightarrow> if rooted then [] else [''..'']
      | c' # rest \<Rightarrow> if c' = ''..'' then ''..'' # stack else rest)"

definition Clean :: "string \<Rightarrow> string" where
  "Clean path =
     (let rooted = (path \<noteq> [] \<and> hd path = CHR ''/'');
          comps = rev (foldl (clean_step rooted) [] (Split CHR ''/'' path));
          body = Join [CHR ''/''] comps
      in if rooted then CHR ''/'' # body else if body = [] then ''.'' else body)"

text \<open>\<open>filepath.Dir\<close>: what is before the last separator, cleaned.\<close>

definition Dir :: "string \<Rightarrow> string" where
  "Dir path = Clean (rev (dropWhile (\<lambda>c. c \<noteq> CHR ''/'') (rev path)))"

definition Base :: "string \<Rightarrow> string" where
  "Base path = rev (takeWhile (\<lambda>c. c \<noteq> CHR ''/'') (rev path))"

text \<open>\<open>filepath.Join\<close>: the empty ones are dropped, the rest is cleaned.\<close>

definition filepath_Join :: "string list \<Rightarrow> string" where
  "filepath_Join elems =
     (case filter (\<lambda>e. e \<noteq> []) elems of [] \<Rightarrow> [] | es \<Rightarrow> Clean (Join [CHR ''/''] es))"

section \<open>Numbers\<close>

text \<open>\<open>strconv.ParseUint(s, base, bitSize)\<close> for a base of at most ten.\<close>

definition digit_val :: "int \<Rightarrow> char \<Rightarrow> int option" where
  "digit_val base c =
     (let n = of_char c in if 48 \<le> n \<and> n < 48 + base then Some (n - 48) else None)"

fun parse_digits :: "int \<Rightarrow> int \<Rightarrow> string \<Rightarrow> int option" where
  "parse_digits base acc [] = Some acc"
| "parse_digits base acc (c # cs) =
     (case digit_val base c of None \<Rightarrow> None | Some d \<Rightarrow> parse_digits base (acc * base + d) cs)"

definition ParseUint :: "string \<Rightarrow> int \<Rightarrow> nat \<Rightarrow> error + int" where
  "ParseUint s base bitSize =
     (if s = [] then Inl (ErrorString ''strconv.ParseUint: invalid syntax'')
      else case parse_digits base 0 s of
        None \<Rightarrow> Inl (ErrorString ''strconv.ParseUint: invalid syntax'')
      | Some n \<Rightarrow> if n < 2 ^ bitSize then Inr n else Inl (ErrorString ''strconv.ParseUint: value out of range''))"

lemma parse_digits_nonneg: "parse_digits base acc s = Some n \<Longrightarrow> 0 \<le> base \<Longrightarrow> 0 \<le> acc \<Longrightarrow> 0 \<le> n"
  by (induction base acc s rule: parse_digits.induct)
    (auto simp: digit_val_def Let_def split: option.splits if_splits)

lemma ParseUint_bound: "ParseUint s base bitSize = Inr n \<Longrightarrow> 0 \<le> base \<Longrightarrow> 0 \<le> n \<and> n < 2 ^ bitSize"
  by (auto simp: ParseUint_def dest: parse_digits_nonneg split: if_splits option.splits)

lemma parse_digits_append:
  "parse_digits base acc (xs @ ys) =
     (case parse_digits base acc xs of None \<Rightarrow> None | Some a \<Rightarrow> parse_digits base a ys)"
  by (induction base acc xs rule: parse_digits.induct) (auto split: option.splits)

lemma digit_val_char: "n < 10 \<Longrightarrow> digit_val 10 (char_of (48 + n)) = Some (int n)"
proof -
  assume n: "n < 10"
  then have "(of_char (char_of (48 + n)) :: nat) = 48 + n" by simp
  then have "(of_char (char_of (48 + n)) :: int) = 48 + int n"
    by (metis of_nat_add of_nat_numeral of_nat_of_char)
  with n show ?thesis by (simp add: digit_val_def Let_def)
qed

lemma parse_nat_digits: "parse_digits 10 0 (nat_digits n) = Some (int n)"
proof (induction n rule: nat_digits.induct)
  case (1 n)
  show ?case
  proof (cases "n < 10")
    case True
    then show ?thesis by (subst nat_digits.simps) (simp add: digit_val_char)
  next
    case False
    then have "nat_digits n = nat_digits (n div 10) @ [char_of (48 + n mod 10)]"
      by (subst nat_digits.simps) simp
    with 1 False show ?thesis by (simp add: parse_digits_append digit_val_char) arith
  qed
qed

text \<open>What \<open>%d\<close> prints is read back.\<close>

lemma ParseUint_Itoa: "0 \<le> i \<Longrightarrow> i < 2 ^ b \<Longrightarrow> ParseUint (Itoa i) 10 b = Inr i"
proof -
  assume i: "0 \<le> i" "i < 2 ^ b"
  have "nat_digits n \<noteq> []" for n by (subst nat_digits.simps) simp
  with i show ?thesis by (simp add: ParseUint_def Itoa_def parse_nat_digits)
qed

section \<open>Base64\<close>

definition b64_alphabet :: string where
  "b64_alphabet = ''ABCDEFGHIJKLMNOPQRSTUVWXYZabcdefghijklmnopqrstuvwxyz0123456789+/''"

fun index_of :: "'a \<Rightarrow> 'a list \<Rightarrow> nat option" where
  "index_of x [] = None"
| "index_of x (y # ys) = (if x = y then Some 0 else map_option Suc (index_of x ys))"

definition b64_val :: "char \<Rightarrow> nat option" where
  "b64_val c = index_of c b64_alphabet"

definition byte :: "nat \<Rightarrow> char" where
  "byte n = char_of (n mod 256)"

text \<open>
  \<open>base64.StdEncoding.DecodeString\<close>: newlines are skipped, the text is read in groups of four, the
  last of which may be padded; the bits a padded group has too many are ignored.
\<close>

fun b64_groups :: "string \<Rightarrow> string option" where
  "b64_groups [] = Some []"
| "b64_groups (a # b # c # d # rest) =
     (case (b64_val a, b64_val b) of
        (Some x, Some y) \<Rightarrow>
          (if c = CHR ''='' \<and> d = CHR ''='' \<and> rest = [] then Some [byte (x * 4 + y div 16)]
           else (case b64_val c of
             None \<Rightarrow> None
           | Some z \<Rightarrow>
               if d = CHR ''='' \<and> rest = []
               then Some [byte (x * 4 + y div 16), byte (y mod 16 * 16 + z div 4)]
               else (case (b64_val d, b64_groups rest) of
                 (Some v, Some out) \<Rightarrow>
                   Some (byte (x * 4 + y div 16) # byte (y mod 16 * 16 + z div 4) # byte (z mod 4 * 64 + v) # out)
               | _ \<Rightarrow> None)))
      | _ \<Rightarrow> None)"
| "b64_groups _ = None"

definition DecodeString :: "string \<Rightarrow> error + string" where
  "DecodeString s =
     (case b64_groups (filter (\<lambda>c. c \<noteq> CHR 0x0A \<and> c \<noteq> CHR 0x0D) s) of
        None \<Rightarrow> Inl (ErrorString ''illegal base64 data'')
      | Some out \<Rightarrow> Inr out)"

text \<open>The encoding it inverts.\<close>

definition b64_char :: "nat \<Rightarrow> char" where
  "b64_char n = b64_alphabet ! (n mod 64)"

fun EncodeToString :: "string \<Rightarrow> string" where
  "EncodeToString [] = []"
| "EncodeToString [a] =
     (let x = of_char a in [b64_char (x div 4), b64_char (x mod 4 * 16), CHR ''='', CHR ''=''])"
| "EncodeToString [a, b] =
     (let x = of_char a; y = of_char b
      in [b64_char (x div 4), b64_char (x mod 4 * 16 + y div 16), b64_char (y mod 16 * 4), CHR ''=''])"
| "EncodeToString (a # b # c # rest) =
     (let x = of_char a; y = of_char b; z = of_char c
      in b64_char (x div 4) # b64_char (x mod 4 * 16 + y div 16) # b64_char (y mod 16 * 4 + z div 64) #
         b64_char (z mod 64) # EncodeToString rest)"

lemma index_of_nth: "distinct xs \<Longrightarrow> i < length xs \<Longrightarrow> index_of (xs ! i) xs = Some i"
proof (induction xs arbitrary: i)
  case (Cons x xs)
  then show ?case by (cases i) auto
qed simp

lemma b64_alphabet_facts: "distinct b64_alphabet" "length b64_alphabet = 64"
  by code_simp+

lemma b64_val_char [simp]: "b64_val (b64_char n) = Some (n mod 64)"
  unfolding b64_val_def b64_char_def
  by (rule index_of_nth) (simp_all add: b64_alphabet_facts)

lemma b64_char_neq [simp]: "b64_char n \<noteq> CHR ''=''" "b64_char n \<noteq> CHR 0x0A" "b64_char n \<noteq> CHR 0x0D"
proof -
  have "b64_val (CHR ''='') = None" "b64_val (CHR 0x0A) = None" "b64_val (CHR 0x0D) = None" by code_simp+
  then show "b64_char n \<noteq> CHR ''=''" "b64_char n \<noteq> CHR 0x0A" "b64_char n \<noteq> CHR 0x0D"
    using b64_val_char by (metis option.distinct(1))+
qed

lemma filter_Encode: "filter (\<lambda>c. c \<noteq> CHR 0x0A \<and> c \<noteq> CHR 0x0D) (EncodeToString s) = EncodeToString s"
  by (induction s rule: EncodeToString.induct) (simp_all add: Let_def)

text \<open>Three bytes from four groups of six bits.\<close>

lemma hi_lo:
  fixes x y :: nat
  assumes "y < 256"
  shows "(x mod 4 * 16 + y div 16) div 16 = x mod 4" "(x mod 4 * 16 + y div 16) mod 16 = y div 16"
    and "(x mod 16 * 4 + y div 64) div 4 = x mod 16" "(x mod 16 * 4 + y div 64) mod 4 = y div 64"
  using assms by simp_all

lemma byte_parts:
  fixes x :: nat
  shows "x div 4 * 4 + x mod 4 = x" "x div 16 * 16 + x mod 16 = x" "x div 64 * 64 + x mod 64 = x"
  by simp_all

lemma sextets:
  fixes x y :: nat
  assumes "x < 256" "y < 256"
  shows "x div 4 mod 64 = x div 4" "(x mod 4 * 16 + y div 16) mod 64 = x mod 4 * 16 + y div 16"
    and "(x mod 16 * 4 + y div 64) mod 64 = x mod 16 * 4 + y div 64"
  using assms by (auto intro!: mod_less)

lemma top_bits:
  fixes y :: nat
  assumes "y < 256"
  shows "y div 16 mod 16 = y div 16" "y div 64 mod 4 = y div 64"
  using assms by (auto intro!: mod_less)

lemma b64_groups_Encode: "b64_groups (EncodeToString s) = Some s"
proof (induction s rule: EncodeToString.induct)
  case (2 a)
  have "of_char a mod 4 * 16 mod 64 = (of_char a mod 4 * 16 :: nat)" by simp
  then show ?case using sextets [of "of_char a" "of_char a", OF nat_of_char_less_256 nat_of_char_less_256] byte_parts [of "of_char a"]
    by (simp add: Let_def byte_def)
next
  case (3 a b)
  have "of_char b mod 16 * 4 mod 64 = (of_char b mod 16 * 4 :: nat)" by simp
  then show ?case
    using sextets [of "of_char a" "of_char b", OF nat_of_char_less_256 nat_of_char_less_256] byte_parts [of "of_char a"] byte_parts [of "of_char b"]
      hi_lo [of "of_char b" "of_char a", OF nat_of_char_less_256]
    by (simp add: Let_def byte_def)
next
  case (4 a b c rest)
  let ?x = "of_char a :: nat" and ?y = "of_char b :: nat" and ?z = "of_char c :: nat"
  note lt = nat_of_char_less_256
  have "b64_groups (EncodeToString (a # b # c # rest)) =
      Some (byte (?x div 4 * 4 + ?x mod 4) # byte (?y div 16 * 16 + ?y mod 16) #
            byte (?z div 64 * 64 + ?z mod 64) # rest)"
    using 4 by (simp add: Let_def sextets [OF lt lt] hi_lo [OF lt] top_bits [OF lt])
  then show ?case by (simp only: byte_parts) (simp add: byte_def)
qed simp

text \<open>Decoding inverts encoding.\<close>

lemma Decode_Encode [simp]: "DecodeString (EncodeToString s) = Inr s"
  by (simp add: DecodeString_def filter_Encode b64_groups_Encode)

section \<open>Files\<close>

record File =
  f_data :: string
  f_mode :: "32 word"
  f_owner :: "int \<times> int"

record os_state =
  os_files :: "(string \<times> File) list"
  os_dirs :: "string list"
  os_umask :: "32 word"
  os_deny :: "string \<Rightarrow> string \<Rightarrow> error option"
  os_users :: "string \<Rightarrow> (string \<times> string) option"

definition is_dir :: "os_state \<Rightarrow> string \<Rightarrow> bool" where
  "is_dir s p = (Clean p \<in> {''/'', ''.''} \<or> Clean p \<in> set (os_dirs s))"

definition file_at :: "os_state \<Rightarrow> string \<Rightarrow> File option" where
  "file_at s p = map_of (os_files s) (Clean p)"

definition put_file :: "string \<Rightarrow> File \<Rightarrow> os_state \<Rightarrow> os_state" where
  "put_file p f s = s\<lparr>os_files := AList.update (Clean p) f (os_files s)\<rparr>"

datatype stat = StatFile File | StatDir | StatNotExist | StatError error

definition Stat :: "os_state \<Rightarrow> string \<Rightarrow> stat" where
  "Stat s p =
     (case os_deny s ''stat'' (Clean p) of
        Some e \<Rightarrow> StatError e
      | None \<Rightarrow> (case file_at s p of
          Some f \<Rightarrow> StatFile f
        | None \<Rightarrow> if is_dir s p then StatDir else StatNotExist))"

text \<open>A path and the directories above it, the root excepted.\<close>

definition ancestors :: "string \<Rightarrow> string list" where
  "ancestors p =
     (let comps = Split CHR ''/'' p
      in filter (\<lambda>q. q \<noteq> []) (map (\<lambda>n. Join [CHR ''/''] (take n comps)) [1..<Suc (length comps)]))"

definition MkdirAll :: "string \<Rightarrow> os_state \<Rightarrow> error option \<times> os_state" where
  "MkdirAll p s =
     (if is_dir s p then (None, s)
      else case os_deny s ''mkdir'' (Clean p) of
        Some e \<Rightarrow> (Some e, s)
      | None \<Rightarrow>
          if list_ex (\<lambda>q. map_of (os_files s) q \<noteq> None) (ancestors (Clean p))
          then (Some (ErrorString (''mkdir '' @ p @ '': not a directory'')), s)
          else (None, s\<lparr>os_dirs := os_dirs s @ filter (\<lambda>q. q \<notin> set (os_dirs s)) (ancestors (Clean p))\<rparr>))"

text \<open>\<open>os.OpenFile\<close> with \<open>O_WRONLY|O_CREATE\<close>: the file as it is then, created when it is missing.\<close>

definition OpenFile :: "string \<Rightarrow> 32 word \<Rightarrow> os_state \<Rightarrow> (error + File) \<times> os_state" where
  "OpenFile p perm s =
     (case os_deny s ''open'' (Clean p) of
        Some e \<Rightarrow> (Inl e, s)
      | None \<Rightarrow>
          if is_dir s p then (Inl (ErrorString (''open '' @ p @ '': is a directory'')), s)
          else (case file_at s p of
            Some f \<Rightarrow> (Inr f, s)
          | None \<Rightarrow>
              if \<not> is_dir s (Dir (Clean p)) then (Inl (ErrorString (''open '' @ p @ '': no such file or directory'')), s)
              else let f = \<lparr>f_data = [], f_mode = perm AND NOT (os_umask s), f_owner = (0, 0)\<rparr>
                   in (Inr f, put_file p f s)))"

text \<open>A write at the start of the file overwrites what is there and keeps the rest.\<close>

definition write_data :: "bool \<Rightarrow> string \<Rightarrow> string \<Rightarrow> string" where
  "write_data app content old = (if app then old @ content else content @ drop (length content) old)"

definition deny_or :: "string \<Rightarrow> string \<Rightarrow> os_state \<Rightarrow> os_state \<Rightarrow> error option \<times> os_state" where
  "deny_or operation p s s' = (case os_deny s operation (Clean p) of Some e \<Rightarrow> (Some e, s) | None \<Rightarrow> (None, s'))"

text \<open>\<open>os.WriteFile\<close> truncates the file, or creates it, and writes the data; \<open>os.ReadFile\<close> reads it all.\<close>

definition truncate_file :: "string \<Rightarrow> 32 word \<Rightarrow> os_state \<Rightarrow> error option \<times> os_state" where
  "truncate_file p perm s =
     (case OpenFile p perm s of
        (Inl e, s1) \<Rightarrow> (Some e, s1)
      | (Inr f, s1) \<Rightarrow> (None, put_file p (f\<lparr>f_data := []\<rparr>) s1))"

definition WriteFile :: "string \<Rightarrow> string \<Rightarrow> 32 word \<Rightarrow> os_state \<Rightarrow> error option \<times> os_state" where
  "WriteFile p data perm s =
     (case truncate_file p perm s of
        (Some e, s1) \<Rightarrow> (Some e, s1)
      | (None, s1) \<Rightarrow>
          deny_or ''write'' p s1
            (case file_at s1 p of None \<Rightarrow> s1 | Some f \<Rightarrow> put_file p (f\<lparr>f_data := data\<rparr>) s1))"

definition os_ReadFile :: "string \<Rightarrow> os_state \<Rightarrow> error + string" where
  "os_ReadFile p s =
     (case os_deny s ''open'' (Clean p) of
        Some e \<Rightarrow> Inl e
      | None \<Rightarrow> (case file_at s p of
          Some f \<Rightarrow> Inr (f_data f)
        | None \<Rightarrow> Inl (if is_dir s p then ErrorString (''read '' @ p @ '': is a directory'')
                        else NotFound (''open '' @ p @ '': no such file or directory''))))"

text \<open>\<open>syscallMode\<close>: the permission bits, and the three special bits, of a \<open>fs.FileMode\<close>.\<close>

definition syscallMode :: "32 word \<Rightarrow> 32 word" where
  "syscallMode m = (m AND 0x1FF) OR (if bit m 23 then 0x800 else 0) OR (if bit m 22 then 0x400 else 0) OR
     (if bit m 20 then 0x200 else 0)"

definition os_Chmod :: "string \<Rightarrow> 32 word \<Rightarrow> os_state \<Rightarrow> error option \<times> os_state" where
  "os_Chmod p mode s =
     (case file_at s p of
        None \<Rightarrow> if is_dir s p then deny_or ''chmod'' p s s
                else (Some (NotFound (''chmod '' @ p @ '': no such file or directory'')), s)
      | Some f \<Rightarrow> deny_or ''chmod'' p s (put_file p (f\<lparr>f_mode := syscallMode mode\<rparr>) s))"

text \<open>\<open>os.Remove\<close>, \<open>os.RemoveAll\<close>, and \<open>filepath.Glob\<close> for a pattern whose directory is literal.\<close>

definition below :: "string \<Rightarrow> string \<Rightarrow> bool" where
  "below p q = (q = p \<or> HasPrefix q (p @ ''/''))"

definition Remove :: "string \<Rightarrow> os_state \<Rightarrow> error option \<times> os_state" where
  "Remove p s =
     (case file_at s p of
        Some _ \<Rightarrow> deny_or ''remove'' p s (s\<lparr>os_files := AList.delete (Clean p) (os_files s)\<rparr>)
      | None \<Rightarrow>
          if \<not> is_dir s p then (Some (ErrorString (''remove '' @ p @ '': no such file or directory'')), s)
          else if list_ex (\<lambda>q. below (Clean p) q \<and> q \<noteq> Clean p) (map fst (os_files s) @ os_dirs s)
          then (Some (ErrorString (''remove '' @ p @ '': directory not empty'')), s)
          else deny_or ''remove'' p s (s\<lparr>os_dirs := removeAll (Clean p) (os_dirs s)\<rparr>))"

definition RemoveAll :: "string \<Rightarrow> os_state \<Rightarrow> error option \<times> os_state" where
  "RemoveAll p s =
     deny_or ''remove'' p s (s\<lparr>os_files := filter (\<lambda>(q, _). \<not> below (Clean p) q) (os_files s),
                            os_dirs := filter (\<lambda>q. \<not> below (Clean p) q) (os_dirs s)\<rparr>)"

fun glob_match :: "string \<Rightarrow> string \<Rightarrow> bool" where
  "glob_match [] s = (s = [])"
| "glob_match (c # pat) [] = (c = CHR ''*'' \<and> glob_match pat [])"
| "glob_match (c # pat) (x # s) =
     (if c = CHR ''*'' then glob_match pat (x # s) \<or> glob_match (c # pat) s
      else if c = CHR ''?'' then glob_match pat s
      else c = x \<and> glob_match pat s)"

definition Glob :: "string \<Rightarrow> os_state \<Rightarrow> string list" where
  "Glob pattern s =
     filter (\<lambda>q. Dir q = Dir pattern \<and> glob_match (Base pattern) (Base q)) (map fst (os_files s) @ os_dirs s)"

section \<open>Facts on files\<close>

lemma file_at_put [simp]: "file_at (put_file p f s) q = (if Clean q = Clean p then Some f else file_at s q)"
  by (simp add: file_at_def put_file_def update_conv')

lemma put_file_frame [simp]:
  "os_dirs (put_file p f s) = os_dirs s" "is_dir (put_file p f s) q = is_dir s q"
  "os_deny (put_file p f s) = os_deny s" "os_users (put_file p f s) = os_users s"
  "os_umask (put_file p f s) = os_umask s"
  by (simp_all add: put_file_def is_dir_def)

lemma deny_or_cases:
  assumes "deny_or operation p s s' = (e, t)"
  shows "(e = None \<and> t = s') \<or> (e \<noteq> None \<and> t = s)"
  using assms by (auto simp: deny_or_def split: option.splits)

lemma MkdirAll_frame:
  "MkdirAll p s = (e, s') \<Longrightarrow> os_files s' = os_files s"
  by (auto simp: MkdirAll_def split: if_splits option.splits)

lemma ancestors_self: "p \<noteq> [] \<Longrightarrow> p \<in> set (ancestors p)"
  using Join_Split [of "CHR ''/''" p] Split_neq_Nil [of "CHR ''/''" p]
  by (auto simp flip: length_greater_0_conv simp: Suc_le_eq ancestors_def Let_def image_iff intro!: bexI [of _ "length (Split CHR ''/'' p)"])

lemma Clean_neq_Nil [simp]: "Clean p \<noteq> []"
  by (simp add: Clean_def Let_def)

text \<open>The last name of a path stays its last name.\<close>

lemma clean_step_parts: "set (clean_step rooted stack c) \<subseteq> insert c (insert ''..'' (set stack))"
  by (auto split: list.splits if_splits)

lemma foldl_clean_parts: "set (foldl (clean_step rooted) stack cs) \<subseteq> set cs \<union> insert ''..'' (set stack)"
proof (induction cs arbitrary: stack)
  case (Cons c cs)
  then show ?case using clean_step_parts [of rooted stack c] by (force simp del: clean_step.simps)
qed auto

lemma Clean_last:
  assumes "last (Split CHR ''/'' p) = x" and "x \<notin> {[], ''.'', ''..''}"
  shows "last (Split CHR ''/'' (Clean p)) = x"
proof -
  let ?rooted = "p \<noteq> [] \<and> hd p = CHR ''/''"
  obtain init where p: "Split CHR ''/'' p = init @ [x]"
    using assms(1) append_butlast_last_id [OF Split_neq_Nil] by metis
  define cs where "cs = rev (foldl (clean_step ?rooted) [] init)"
  have comps: "rev (foldl (clean_step ?rooted) [] (Split CHR ''/'' p)) = cs @ [x]"
    using assms(2) by (simp add: p cs_def)
  have "set cs \<subseteq> set (Split CHR ''/'' p) \<union> {''..''}"
    using foldl_clean_parts [of ?rooted "[]" init] by (auto simp: cs_def p)
  then have no: "\<forall>s\<in>set (cs @ [x]). CHR ''/'' \<notin> set s"
    using Split_parts_no_sep [of _ "CHR ''/''" p] p by (auto; fastforce)
  have body: "Split CHR ''/'' (Join [CHR ''/''] (cs @ [x])) = cs @ [x]" by (rule Split_Join [OF _ no]) simp
  then have "Join [CHR ''/''] (cs @ [x]) \<noteq> []" using assms(2) by (cases cs) auto
  then show ?thesis using body unfolding Clean_def Let_def comps by simp
qed

lemma filepath_Join_last:
  assumes "d \<noteq> []" and "x \<notin> {[], ''.'', ''..''}" and "CHR ''/'' \<notin> set x"
  shows "last (Split CHR ''/'' (Clean (filepath_Join [d, x]))) = x"
  using assms by (simp add: filepath_Join_def Clean_last last_Split_append)

lemma glob_match_star: "glob_match ''*'' s"
  by (induction s) simp_all

lemma MkdirAll_ok:
  assumes "MkdirAll p s = (None, s')"
  shows "is_dir s' p"
  using assms ancestors_self [OF Clean_neq_Nil, of p]
  by (auto simp: MkdirAll_def is_dir_def split: if_splits option.splits)

text \<open>What a successful \<open>WriteFile\<close> leaves: the data in the file, every other file as it was.\<close>

lemma WriteFile_file_at:
  assumes "WriteFile p data perm s = (None, s')"
  shows "\<exists>f. file_at s' p = Some f \<and> f_data f = data" and "Clean q \<noteq> Clean p \<Longrightarrow> file_at s' q = file_at s q"
    and "os_dirs s' = os_dirs s"
  using assms unfolding WriteFile_def truncate_file_def OpenFile_def deny_or_def
  by (auto simp: Let_def split: option.splits if_splits prod.splits sum.splits)

end
