(* ===== verification/Go_Gzip.thy ===== *)
theory Go_Gzip
  imports Go_Strings "HOL-Library.Word"
begin

text \<open>
  The reader of Go's \<open>compress/gzip\<close> and \<open>compress/flate\<close>, and \<open>GunzipData\<close> of \<open>common/utils.go\<close> on
  top of it.  The compressed data are a list of bits, least significant bit of each byte first; text
  that the reader refuses, or that ends too early, gives \<open>None\<close>.
\<close>

unbundle bit_operations_syntax

section \<open>Bits\<close>

definition byte_bits :: "char \<Rightarrow> bool list" where
  "byte_bits c = map (\<lambda>i. odd ((of_char c :: nat) div 2 ^ i)) [0..<8]"

definition bits_of :: "string \<Rightarrow> bool list" where
  "bits_of s = concat (map byte_bits s)"

fun bits_value :: "bool list \<Rightarrow> nat" where
  "bits_value [] = 0"
| "bits_value (b # bs) = of_bool b + 2 * bits_value bs"

definition take_bits :: "nat \<Rightarrow> bool list \<Rightarrow> (nat \<times> bool list) option" where
  "take_bits n bs = (if n \<le> length bs then Some (bits_value (take n bs), drop n bs) else None)"

fun take_bytes :: "nat \<Rightarrow> bool list \<Rightarrow> (string \<times> bool list) option" where
  "take_bytes 0 bs = Some ([], bs)"
| "take_bytes (Suc n) bs =
     (case take_bits 8 bs of
        None \<Rightarrow> None
      | Some (b, r) \<Rightarrow> (case take_bytes n r of None \<Rightarrow> None | Some (s, r') \<Rightarrow> Some (char_of b # s, r')))"

text \<open>The whole input is a number of bytes, so what is left of the current byte is known from the length.\<close>

definition align :: "bool list \<Rightarrow> bool list" where
  "align bs = drop (length bs mod 8) bs"

section \<open>Huffman codes\<close>

text \<open>The symbols that have a code, by the length of the code and then by number.\<close>

definition coded_symbols :: "nat list \<Rightarrow> (nat \<times> nat) list" where
  "coded_symbols lens =
     concat (map (\<lambda>l. map (Pair l) (filter (\<lambda>s. lens ! s = l) [0..<length lens])) [1..<16])"

fun assign_codes :: "nat \<Rightarrow> nat \<Rightarrow> (nat \<times> nat) list \<Rightarrow> ((nat \<times> nat) \<times> nat) list" where
  "assign_codes len code [] = []"
| "assign_codes len code ((l, s) # xs) =
     (let c = code * 2 ^ (l - len) in ((l, c), s) # assign_codes l (Suc c) xs)"

definition longest_code :: "nat list \<Rightarrow> nat" where
  "longest_code lens = foldr max lens 0"

text \<open>
  \<open>huffmanDecoder.init\<close>: a code must use all bit sequences; a single code of length one and no code at
  all are accepted too.
\<close>

definition complete_code :: "nat list \<Rightarrow> bool" where
  "complete_code lens =
     (let m = longest_code lens; used = sum_list (map (\<lambda>(l, _). 2 ^ (m - l) :: nat) (coded_symbols lens))
      in m = 0 \<or> used = 2 ^ m \<or> used = 1 \<and> m = 1)"

definition huffman_init :: "nat list \<Rightarrow> ((nat \<times> nat) \<times> nat) list option" where
  "huffman_init lens = (if complete_code lens then Some (assign_codes 0 0 (coded_symbols lens)) else None)"

fun huffSym :: "((nat \<times> nat) \<times> nat) list \<Rightarrow> nat \<Rightarrow> nat \<Rightarrow> bool list \<Rightarrow> (nat \<times> bool list) option" where
  "huffSym table n code [] = None"
| "huffSym table n code (b # bs) =
     (case map_of table (Suc n, 2 * code + of_bool b) of
        Some s \<Rightarrow> Some (s, bs)
      | None \<Rightarrow> if 15 \<le> Suc n then None else huffSym table (Suc n) (2 * code + of_bool b) bs)"

section \<open>Inflate\<close>

text \<open>The base of a length symbol and the number of its extra bits; and those of a distance symbol.\<close>

definition length_symbol :: "nat \<Rightarrow> (nat \<times> nat) option" where
  "length_symbol v =
     (if v < 265 then Some (v - 254, 0)
      else if v < 269 then Some (v * 2 - 519, 1)
      else if v < 273 then Some (v * 4 - 1057, 2)
      else if v < 277 then Some (v * 8 - 2149, 3)
      else if v < 281 then Some (v * 16 - 4365, 4)
      else if v < 285 then Some (v * 32 - 8861, 5)
      else if v < 286 then Some (258, 0)
      else None)"

definition distance_symbol :: "nat \<Rightarrow> (nat \<times> nat) option" where
  "distance_symbol d =
     (if d < 4 then Some (Suc d, 0)
      else if d < 30 then (let nb = (d - 2) div 2 in Some (2 ^ Suc nb + 1 + d mod 2 * 2 ^ nb, nb))
      else None)"

text \<open>What has been written, the latest byte first; a copy may overlap what it writes.\<close>

fun copy_back :: "nat \<Rightarrow> nat \<Rightarrow> string \<Rightarrow> string" where
  "copy_back 0 dist out = out"
| "copy_back (Suc n) dist out = copy_back n dist (out ! (dist - 1) # out)"

text \<open>The distance symbol, with the code of the block or, in a fixed block, in five bits.\<close>

definition read_distance_symbol :: "((nat \<times> nat) \<times> nat) list option \<Rightarrow> bool list \<Rightarrow> (nat \<times> bool list) option" where
  "read_distance_symbol dt bs =
     (case dt of
        Some table \<Rightarrow> huffSym table 0 0 bs
      | None \<Rightarrow> if 5 \<le> length bs then Some (bits_value (rev (take 5 bs)), drop 5 bs) else None)"

definition read_copy ::
  "nat \<Rightarrow> ((nat \<times> nat) \<times> nat) list option \<Rightarrow> bool list \<Rightarrow> string \<Rightarrow> (bool list \<times> string) option" where
  "read_copy v dt bs out =
     (case length_symbol v of
        None \<Rightarrow> None
      | Some (base, n) \<Rightarrow>
          (case take_bits n bs of
             None \<Rightarrow> None
           | Some (extra, r1) \<Rightarrow>
               (case read_distance_symbol dt r1 of
                  None \<Rightarrow> None
                | Some (d, r2) \<Rightarrow>
                    (case distance_symbol d of
                       None \<Rightarrow> None
                     | Some (dbase, dn) \<Rightarrow>
                         (case take_bits dn r2 of
                            None \<Rightarrow> None
                          | Some (dextra, r3) \<Rightarrow>
                              if length out < dbase + dextra then None
                              else Some (r3, copy_back (base + extra) (dbase + dextra) out))))))"

lemma take_bits_shorter: "take_bits n bs = Some (v, r) \<Longrightarrow> length bs = n + length r"
  by (auto simp: take_bits_def split: if_splits)

lemma huffSym_shorter: "huffSym t n c bs = Some (s, r) \<Longrightarrow> length r < length bs"
  by (induction t n c bs rule: huffSym.induct) (force split: option.splits if_splits)+

lemma read_distance_shorter: "read_distance_symbol dt bs = Some (s, r) \<Longrightarrow> length r < length bs"
  by (auto simp: read_distance_symbol_def dest: huffSym_shorter split: option.splits if_splits)

lemma read_copy_shorter: "read_copy v dt bs out = Some (r, out') \<Longrightarrow> length r \<le> length bs"
  by (fastforce simp: read_copy_def dest!: take_bits_shorter read_distance_shorter split: option.splits prod.splits if_splits)

text \<open>\<open>huffmanBlock\<close>: up to the symbol that ends the block.\<close>

function huffmanBlock ::
  "((nat \<times> nat) \<times> nat) list \<Rightarrow> ((nat \<times> nat) \<times> nat) list option \<Rightarrow> bool list \<Rightarrow> string \<Rightarrow> (bool list \<times> string) option" where
  "huffmanBlock lt dt bs out =
     (case huffSym lt 0 0 bs of
        None \<Rightarrow> None
      | Some (v, r) \<Rightarrow>
          if v < 256 then huffmanBlock lt dt r (char_of v # out)
          else if v = 256 then Some (r, out)
          else (case read_copy v dt r out of
            None \<Rightarrow> None
          | Some (r', out') \<Rightarrow> huffmanBlock lt dt r' out'))"
  by pat_completeness auto
termination
  by (relation "measure (\<lambda>(_, _, bs, _). length bs)") (auto dest!: huffSym_shorter read_copy_shorter)

declare huffmanBlock.simps [simp del]

definition fixed_lengths :: "nat list" where
  "fixed_lengths = replicate 144 8 @ replicate 112 9 @ replicate 24 7 @ replicate 8 8"

definition codeOrder :: "nat list" where
  "codeOrder = [16, 17, 18, 0, 8, 7, 9, 6, 10, 5, 11, 4, 12, 3, 13, 2, 14, 1, 15]"

text \<open>The lengths of the code for code lengths, three bits each.\<close>

fun read_code_lengths :: "nat list \<Rightarrow> nat list \<Rightarrow> bool list \<Rightarrow> (nat list \<times> bool list) option" where
  "read_code_lengths [] lens bs = Some (lens, bs)"
| "read_code_lengths (i # is) lens bs =
     (case take_bits 3 bs of None \<Rightarrow> None | Some (l, r) \<Rightarrow> read_code_lengths is (lens[i := l]) r)"

text \<open>The code lengths of the literals and distances, \<open>n\<close> in all, with runs of repeated lengths.\<close>

definition read_repeat :: "nat \<Rightarrow> nat list \<Rightarrow> bool list \<Rightarrow> (nat list \<times> bool list) option" where
  "read_repeat x lens bs =
     (if x = 16 then
        (if lens = [] then None
         else case take_bits 2 bs of None \<Rightarrow> None | Some (e, r) \<Rightarrow> Some (replicate (3 + e) (last lens), r))
      else if x = 17 then (case take_bits 3 bs of None \<Rightarrow> None | Some (e, r) \<Rightarrow> Some (replicate (3 + e) 0, r))
      else if x = 18 then (case take_bits 7 bs of None \<Rightarrow> None | Some (e, r) \<Rightarrow> Some (replicate (11 + e) 0, r))
      else Some ([x], bs))"

lemma read_repeat_shorter: "read_repeat x lens bs = Some (ls, r) \<Longrightarrow> length r \<le> length bs"
  by (auto simp: read_repeat_def dest!: take_bits_shorter split: if_splits option.splits)

function read_lengths ::
  "((nat \<times> nat) \<times> nat) list \<Rightarrow> nat \<Rightarrow> nat list \<Rightarrow> bool list \<Rightarrow> (nat list \<times> bool list) option" where
  "read_lengths ct n lens bs =
     (if n \<le> length lens then Some (lens, bs)
      else case huffSym ct 0 0 bs of
        None \<Rightarrow> None
      | Some (x, r) \<Rightarrow>
          (case read_repeat x lens r of
             None \<Rightarrow> None
           | Some (ls, r') \<Rightarrow> if n < length lens + length ls then None else read_lengths ct n (lens @ ls) r'))"
  by pat_completeness auto
termination
  by (relation "measure (\<lambda>(_, _, _, bs). length bs)") (auto dest!: huffSym_shorter read_repeat_shorter)

declare read_lengths.simps [simp del]

text \<open>\<open>readHuffman\<close>: the two codes of a dynamic block.\<close>

definition readHuffman ::
  "bool list \<Rightarrow> (((nat \<times> nat) \<times> nat) list \<times> ((nat \<times> nat) \<times> nat) list \<times> bool list) option" where
  "readHuffman bs =
     (case take_bits 5 bs of
        None \<Rightarrow> None
      | Some (hlit, r1) \<Rightarrow>
          if 286 < hlit + 257 then None
          else (case take_bits 5 r1 of
            None \<Rightarrow> None
          | Some (hdist, r2) \<Rightarrow>
              if 30 < hdist + 1 then None
              else (case take_bits 4 r2 of
                None \<Rightarrow> None
              | Some (hclen, r3) \<Rightarrow>
                  (case read_code_lengths (take (hclen + 4) codeOrder) (replicate 19 0) r3 of
                     None \<Rightarrow> None
                   | Some (clens, r4) \<Rightarrow>
                       (case huffman_init clens of
                          None \<Rightarrow> None
                        | Some ct \<Rightarrow>
                            (case read_lengths ct (hlit + 257 + (hdist + 1)) [] r4 of
                               None \<Rightarrow> None
                             | Some (lens, r5) \<Rightarrow>
                                 (case (huffman_init (take (hlit + 257) lens), huffman_init (drop (hlit + 257) lens)) of
                                    (Some lt, Some dt) \<Rightarrow> Some (lt, dt, r5)
                                  | _ \<Rightarrow> None)))))))"

text \<open>\<open>dataBlock\<close>: a stored block, byte aligned.\<close>

definition dataBlock :: "bool list \<Rightarrow> string \<Rightarrow> (bool list \<times> string) option" where
  "dataBlock bs out =
     (case take_bits 16 (align bs) of
        None \<Rightarrow> None
      | Some (n, r1) \<Rightarrow>
          (case take_bits 16 r1 of
             None \<Rightarrow> None
           | Some (nn, r2) \<Rightarrow>
               if n + nn \<noteq> 65535 then None
               else (case take_bytes n r2 of None \<Rightarrow> None | Some (s, r3) \<Rightarrow> Some (r3, rev s @ out))))"

text \<open>\<open>nextBlock\<close>: whether the block is the last one, and the block.\<close>

definition nextBlock :: "bool list \<Rightarrow> string \<Rightarrow> (bool \<times> bool list \<times> string) option" where
  "nextBlock bs out =
     (case take_bits 1 bs of
        None \<Rightarrow> None
      | Some (final, r0) \<Rightarrow>
          (case take_bits 2 r0 of
             None \<Rightarrow> None
           | Some (typ, r) \<Rightarrow>
               map_option (Pair (final = 1))
                 (if typ = 0 then dataBlock r out
                  else if typ = 1
                  then (case huffman_init fixed_lengths of None \<Rightarrow> None | Some lt \<Rightarrow> huffmanBlock lt None r out)
                  else if typ = 2
                  then (case readHuffman r of None \<Rightarrow> None | Some (lt, dt, r') \<Rightarrow> huffmanBlock lt (Some dt) r' out)
                  else None)))"

lemma huffmanBlock_shorter: "huffmanBlock lt dt bs out = Some (r, out') \<Longrightarrow> length r \<le> length bs"
proof (induction lt dt bs out rule: huffmanBlock.induct)
  case (1 lt dt bs out)
  note eq = "1.prems" [unfolded huffmanBlock.simps [of lt dt bs out]]
  obtain v q where h: "huffSym lt 0 0 bs = Some (v, q)" using eq by (auto split: option.splits)
  note len = huffSym_shorter [OF h]
  consider "v < 256" | "v = 256" | "256 < v" by linarith
  then show ?case
  proof cases
    assume v: "v < 256"
    then have "huffmanBlock lt dt q (char_of v # out) = Some (r, out')" using eq h by simp
    then show ?thesis using "1.IH"(1) [OF h refl v] len by simp
  next
    assume v: "256 < v"
    then obtain q' out2 where c: "read_copy v dt q out = Some (q', out2)" "huffmanBlock lt dt q' out2 = Some (r, out')"
      using eq h by (auto split: option.splits)
    then show ?thesis using "1.IH"(2) [OF h refl _ _ c(1) refl c(2)] v read_copy_shorter [OF c(1)] len by simp
  qed (use eq h len in simp)
qed

lemma take_bytes_shorter: "take_bytes n bs = Some (s, r) \<Longrightarrow> length r \<le> length bs"
  by (induction n arbitrary: bs s r) (fastforce dest!: take_bits_shorter split: option.splits prod.splits)+

lemma read_code_lengths_shorter: "read_code_lengths is lens bs = Some (ls, r) \<Longrightarrow> length r \<le> length bs"
  by (induction "is" lens bs arbitrary: ls r rule: read_code_lengths.induct) (fastforce dest!: take_bits_shorter split: option.splits prod.splits)+

lemma read_lengths_shorter: "read_lengths ct n lens bs = Some (ls, r) \<Longrightarrow> length r \<le> length bs"
proof (induction ct n lens bs rule: read_lengths.induct)
  case (1 ct n lens bs)
  note eq = "1.prems" [unfolded read_lengths.simps [of ct n lens bs]]
  show ?case
  proof (cases "n \<le> length lens")
    case False
    then obtain x q ls' q' where h: "huffSym ct 0 0 bs = Some (x, q)" "read_repeat x lens q = Some (ls', q')"
        "\<not> n < length lens + length ls'" "read_lengths ct n (lens @ ls') q' = Some (ls, r)"
      using eq by (auto split: option.splits if_splits)
    then show ?thesis using "1.IH" [OF False h(1) refl h(2) refl h(3,4)] huffSym_shorter [OF h(1)] read_repeat_shorter [OF h(2)] by simp
  qed (use eq in simp)
qed

lemma readHuffman_shorter: "readHuffman bs = Some (lt, dt, r) \<Longrightarrow> length r \<le> length bs"
  by (fastforce simp: readHuffman_def dest!: take_bits_shorter read_code_lengths_shorter read_lengths_shorter
      split: option.splits prod.splits if_splits)

lemma dataBlock_shorter: "dataBlock bs out = Some (r, out') \<Longrightarrow> length r \<le> length bs"
  by (fastforce simp: dataBlock_def align_def dest!: take_bits_shorter take_bytes_shorter split: option.splits prod.splits if_splits)

lemma nextBlock_shorter: "nextBlock bs out = Some (final, r, out') \<Longrightarrow> length r < length bs"
  by (fastforce simp: nextBlock_def dest!: take_bits_shorter dataBlock_shorter huffmanBlock_shorter readHuffman_shorter
      split: option.splits prod.splits if_splits)

function inflate :: "bool list \<Rightarrow> string \<Rightarrow> (bool list \<times> string) option" where
  "inflate bs out =
     (case nextBlock bs out of
        None \<Rightarrow> None
      | Some (final, r, out') \<Rightarrow> if final then Some (r, out') else inflate r out')"
  by pat_completeness auto
termination by (relation "measure (\<lambda>(bs, _). length bs)") (auto dest!: nextBlock_shorter)

declare inflate.simps [simp del]

section \<open>Gzip\<close>

text \<open>The IEEE checksum, bit by bit.\<close>

definition crc_bit :: "32 word \<Rightarrow> 32 word" where
  "crc_bit c = (if bit c 0 then drop_bit 1 c XOR 0xEDB88320 else drop_bit 1 c)"

definition crc_byte :: "32 word \<Rightarrow> char \<Rightarrow> 32 word" where
  "crc_byte c b = (crc_bit ^^ 8) (c XOR of_nat (of_char b))"

definition crc32 :: "string \<Rightarrow> 32 word" where
  "crc32 s = NOT (foldl crc_byte (NOT 0) s)"

text \<open>The number that bytes stand for, the first byte the lowest.\<close>

fun little_endian :: "string \<Rightarrow> nat" where
  "little_endian [] = 0"
| "little_endian (c # s) = of_char c + 256 * little_endian s"

text \<open>\<open>readString\<close>: up to a zero byte, which must be among the first 512.\<close>

fun readString :: "nat \<Rightarrow> string \<Rightarrow> string option" where
  "readString n [] = None"
| "readString n (c # s) = (if n = 0 then None else if c = CHR 0x00 then Some s else readString (n - 1) s)"

definition has_flag :: "nat \<Rightarrow> nat \<Rightarrow> bool" where
  "has_flag flags i = odd (flags div 2 ^ i)"

text \<open>The optional fields: extra data, file name, comment, and the checksum of what has been read of the header.\<close>

definition skip_extra :: "string \<Rightarrow> string option" where
  "skip_extra s =
     (if length s < 2 then None
      else let n = little_endian (take 2 s) in if length s < 2 + n then None else Some (drop (2 + n) s))"

definition header_fields :: "nat \<Rightarrow> string \<Rightarrow> string option" where
  "header_fields flags s =
     (case (if has_flag flags 2 then skip_extra s else Some s) of
        None \<Rightarrow> None
      | Some s1 \<Rightarrow>
          (case (if has_flag flags 3 then readString 512 s1 else Some s1) of
             None \<Rightarrow> None
           | Some s2 \<Rightarrow> if has_flag flags 4 then readString 512 s2 else Some s2))"

definition readHeader :: "string \<Rightarrow> string option" where
  "readHeader s =
     (if length s < 10 \<or> take 3 s \<noteq> [CHR 0x1F, CHR 0x8B, CHR 0x08] then None
      else let flags = of_char (s ! 3)
           in case header_fields flags (drop 10 s) of
                None \<Rightarrow> None
              | Some r \<Rightarrow>
                  if \<not> has_flag flags 1 then Some r
                  else if length r < 2 then None
                  else if little_endian (take 2 r) \<noteq> unat (crc32 (take (length s - length r) s)) mod 65536 then None
                  else Some (drop 2 r))"

text \<open>The bytes that are left after the compressed data; the bits of the last byte are dropped.\<close>

definition rest_bytes :: "bool list \<Rightarrow> string \<Rightarrow> string" where
  "rest_bytes bs s = drop (length s - length bs div 8) s"

text \<open>One member after another until the input ends; size and checksum are compared.\<close>

lemma readString_shorter: "readString n s = Some r \<Longrightarrow> length r < length s"
  by (induction n s rule: readString.induct) (auto split: if_splits)

lemma header_fields_shorter: "header_fields flags s = Some r \<Longrightarrow> length r \<le> length s"
  by (fastforce simp: header_fields_def skip_extra_def Let_def dest!: readString_shorter split: option.splits if_splits)

lemma readHeader_shorter: "readHeader s = Some r \<Longrightarrow> length r < length s"
  by (fastforce simp: readHeader_def Let_def dest!: header_fields_shorter split: option.splits if_splits)

function members :: "string \<Rightarrow> string option" where
  "members s =
     (case readHeader s of
        None \<Rightarrow> None
      | Some body \<Rightarrow>
          (case inflate (bits_of body) [] of
             None \<Rightarrow> None
           | Some (bs, out) \<Rightarrow>
               (let trailer = rest_bytes bs body; rest = drop 8 trailer
                in if length trailer < 8 then None
                   else if little_endian (take 4 trailer) \<noteq> unat (crc32 (rev out)) \<or>
                           little_endian (take 4 (drop 4 trailer)) \<noteq> length out mod 2 ^ 32 then None
                   else if rest = [] then Some (rev out)
                   else (case members rest of None \<Rightarrow> None | Some tail \<Rightarrow> Some (rev out @ tail)))))"
  by pat_completeness auto
termination
  by (relation "measure length") (auto simp: rest_bytes_def dest!: readHeader_shorter intro: le_less_trans [OF diff_le_self])

declare members.simps [simp del]

text \<open>\<open>err\<close> is the wording of the error for data that the reader refuses.\<close>

definition GunzipData :: "(string \<Rightarrow> error) \<Rightarrow> string \<Rightarrow> error + string" where
  "GunzipData err data = (case members data of None \<Rightarrow> Inl (err data) | Some s \<Rightarrow> Inr s)"

section \<open>A compressor\<close>

text \<open>The simplest encoder: stored blocks.\<close>

fun bytes_of :: "nat \<Rightarrow> nat \<Rightarrow> string" where
  "bytes_of 0 n = []"
| "bytes_of (Suc k) n = char_of (n mod 256) # bytes_of k (n div 256)"

definition stored_block :: "bool \<Rightarrow> string \<Rightarrow> string" where
  "stored_block final s =
     (if final then CHR 0x01 else CHR 0x00) # bytes_of 2 (length s) @ bytes_of 2 (65535 - length s) @ s"

function stored_blocks :: "string \<Rightarrow> string" where
  "stored_blocks s =
     (if length s \<le> 65535 then stored_block True s
      else stored_block False (take 65535 s) @ stored_blocks (drop 65535 s))"
  by pat_completeness auto
termination by (relation "measure length") auto

declare stored_blocks.simps [simp del]

definition gzip_stored :: "string \<Rightarrow> string" where
  "gzip_stored s = [CHR 0x1F, CHR 0x8B, CHR 0x08, CHR 0x00, CHR 0x00, CHR 0x00, CHR 0x00, CHR 0x00, CHR 0x00, CHR 0xFF] @
     stored_blocks s @ bytes_of 4 (unat (crc32 s)) @ bytes_of 4 (length s mod 2 ^ 32)"

section \<open>The round trip\<close>

lemma length_byte_bits [simp]: "length (byte_bits c) = 8"
  by (simp add: byte_bits_def)

lemma length_bits_of [simp]: "length (bits_of s) = 8 * length s"
  by (induction s) (simp_all add: bits_of_def)

lemma bits_of_simps [simp]: "bits_of [] = []" "bits_of (c # s) = byte_bits c @ bits_of s" "bits_of (s @ t) = bits_of s @ bits_of t"
  by (simp_all add: bits_of_def)

lemma bits_value_nat: "bits_value (map (\<lambda>i. odd (n div 2 ^ i)) [0..<k]) = n mod 2 ^ k"
proof (induction k arbitrary: n)
  case (Suc k)
  have "map (\<lambda>i. odd (n div 2 ^ i)) [0..<Suc k] = odd n # map (\<lambda>i. odd (n div 2 div 2 ^ i)) [0..<k]"
    unfolding map_upt_Suc by (simp add: div_mult2_eq)
  then have "bits_value (map (\<lambda>i. odd (n div 2 ^ i)) [0..<Suc k]) = of_bool (odd n) + 2 * (n div 2 mod 2 ^ k)"
    by (simp only: bits_value.simps Suc)
  also have "\<dots> = n mod 2 ^ Suc k" by (simp add: mod_mult2_eq odd_iff_mod_2_eq_one mod2_eq_if)
  finally show ?case .
qed simp

lemma byte_bits_value [simp]: "bits_value (byte_bits c) = of_char c"
proof -
  have "(of_char c :: nat) < 2 ^ 8" using nat_of_char_less_256 by simp
  then show ?thesis by (simp only: byte_bits_def bits_value_nat mod_less)
qed

lemma bits_value_append: "bits_value (bs @ cs) = bits_value bs + 2 ^ length bs * bits_value cs"
  by (induction bs) (simp_all add: algebra_simps)

lemma bits_value_bytes: "bits_value (bits_of s) = little_endian s"
  by (induction s) (simp_all add: bits_value_append)

lemma take_bits_bytes: "take_bits (8 * length s) (bits_of s @ r) = Some (little_endian s, r)"
  by (simp add: take_bits_def bits_value_bytes)

lemma take_bytes_bits: "take_bytes (length s) (bits_of s @ r) = Some (s, r)"
proof (induction s)
  case (Cons c s)
  have "take_bits 8 (byte_bits c @ bits_of s @ r) = Some (of_char c, bits_of s @ r)"
    using take_bits_bytes [of "[c]"] by simp
  then show ?case using Cons by simp
qed simp

lemma length_bytes_of [simp]: "length (bytes_of k n) = k"
  by (induction k arbitrary: n) simp_all

lemma little_endian_bytes_of: "little_endian (bytes_of k n) = n mod 256 ^ k"
proof (induction k arbitrary: n)
  case (Suc k)
  then show ?case by (simp add: mod_mult2_eq)
qed simp

lemma stored_header_bits:
  "byte_bits (if final then CHR 0x01 else CHR 0x00) = [final, False, False] @ replicate 5 False"
  by (cases final) (simp_all add: byte_bits_def, code_simp+)

lemma nextBlock_stored:
  assumes "length s \<le> 65535"
  shows "nextBlock (bits_of (stored_block final s @ r)) out = Some (final, bits_of r, rev s @ out)"
proof -
  let ?len = "bits_of (bytes_of 2 (length s))" and ?nlen = "bits_of (bytes_of 2 (65535 - length s))"
  let ?body = "?len @ ?nlen @ bits_of s @ bits_of r"
  have "length (replicate 5 False @ ?body) = 5 + 8 * (4 + length s + length r)" by simp
  then have "length (replicate 5 False @ ?body) mod 8 = 5" by presburger
  then have al: "align (replicate 5 False @ ?body) = ?body" by (simp only: align_def) simp
  have n: "take_bits 16 ?body = Some (length s, ?nlen @ bits_of s @ bits_of r)"
    using take_bits_bytes [of "bytes_of 2 (length s)" "?nlen @ bits_of s @ bits_of r"] assms
    by (simp add: little_endian_bytes_of)
  have nn: "take_bits 16 (?nlen @ bits_of s @ bits_of r) = Some (65535 - length s, bits_of s @ bits_of r)"
    using take_bits_bytes [of "bytes_of 2 (65535 - length s)" "bits_of s @ bits_of r"]
    by (simp add: little_endian_bytes_of)
  have "dataBlock (replicate 5 False @ ?body) out = Some (bits_of r, rev s @ out)"
    unfolding dataBlock_def al n using assms by (simp add: nn take_bytes_bits)
  then show ?thesis
    using assms by (simp add: nextBlock_def stored_block_def stored_header_bits take_bits_def)
qed

lemma inflate_stored: "inflate (bits_of (stored_blocks s @ r)) out = Some (bits_of r, rev s @ out)"
proof (induction s arbitrary: out rule: stored_blocks.induct)
  case (1 s)
  show ?case
  proof (cases "length s \<le> 65535")
    case True
    then show ?thesis using nextBlock_stored [OF True, of True r out]
      by (simp add: stored_blocks.simps [of s] inflate.simps [of "bits_of (stored_block True s) @ bits_of r"])
  next
    case False
    have "nextBlock (bits_of (stored_block False (take 65535 s) @ stored_blocks (drop 65535 s) @ r)) out =
        Some (False, bits_of (stored_blocks (drop 65535 s) @ r), rev (take 65535 s) @ out)"
      by (rule nextBlock_stored) simp
    moreover have "rev (drop 65535 s) @ rev (take 65535 s) = rev s" by (metis append_take_drop_id rev_append)
    ultimately show ?thesis using "1.IH" [OF False, of "rev (take 65535 s) @ out"] False
      by (simp add: stored_blocks.simps [of s] inflate.simps [of "bits_of (stored_block False (take 65535 s)) @ _"])
  qed
qed

lemma rest_bytes_suffix: "rest_bytes (bits_of t) (s @ t) = t"
  by (simp add: rest_bytes_def)

lemma members_stored: "members (gzip_stored s) = Some s"
proof -
  let ?t = "bytes_of 4 (unat (crc32 s)) @ bytes_of 4 (length s mod 2 ^ 32)"
  let ?b = "stored_blocks s @ ?t"
  have head: "readHeader (gzip_stored s) = Some ?b"
    by (simp add: readHeader_def gzip_stored_def header_fields_def has_flag_def)
  have "unat (crc32 s) < 2 ^ LENGTH(32)" by (rule unsigned_less)
  then have "unat (crc32 s) mod 256 ^ 4 = unat (crc32 s)" by simp
  then have le: "little_endian (take 4 ?t) = unat (crc32 s)" "little_endian (take 4 (drop 4 ?t)) = length s mod 2 ^ 32"
    by (simp_all add: little_endian_bytes_of)
  show ?thesis
    using inflate_stored [of s ?t "[]"] le rest_bytes_suffix [of ?t "stored_blocks s"]
    by (subst members.simps) (simp add: head Let_def)
qed

lemma GunzipData_stored: "GunzipData err (gzip_stored s) = Inr s"
  by (simp add: GunzipData_def members_stored)

end
