(* ===== verification/CloudInit.thy ===== *)
theory CloudInit
  imports Go_Os Go_Gzip
begin

text \<open>
  The execution of a cloud-init bootstrap script (\<open>agent/cloudinit\<close>): the script's files are
  written in order, then its commands are run in order, and the first error stops it.

  \<open>IFileWriter\<close>, \<open>ICmdRunner\<close> and \<open>ITemplateParser\<close> are the fields of the record \<open>executors\<close>; the
  contract of a file writer is the locale \<open>file_writer\<close>, and \<open>FileWriter\<close> is shown to have it.
  Parameters are \<open>yaml.Unmarshal\<close>, the template engine and the shell; \<open>gzip\<close> is the model of \<open>Go_Gzip\<close>.
\<close>

record Files =
  Path :: string
  Encoding :: string
  Owner :: string
  Permissions :: string
  Content :: string
  Append :: bool

record bootstrapConfig =
  FilesToWrite :: "Files list"
  CommandsToExecute :: "string list"

record 's executors =
  MkdirIfNotExists :: "string \<Rightarrow> 's \<Rightarrow> error option \<times> 's"
  WriteToFile :: "Files \<Rightarrow> 's \<Rightarrow> error option \<times> 's"
  RunCmd :: "string \<Rightarrow> 's \<Rightarrow> error option \<times> 's"
  ParseTemplate :: "string \<Rightarrow> error + string"

text \<open>\<open>CmdRunner\<close>: the command is one argument of a shell, whose error is returned as it is.\<close>

definition CmdRunner_RunCmd :: "(string \<Rightarrow> string list \<Rightarrow> 's \<Rightarrow> error option \<times> 's) \<Rightarrow> string \<Rightarrow> 's \<Rightarrow> error option \<times> 's" where
  "CmdRunner_RunCmd Run cmd s = (case Run ''/bin/bash'' [''-c'', cmd] s of (Some err, s1) \<Rightarrow> (Some err, s1) | (None, s1) \<Rightarrow> (None, s1))"

section \<open>Encodings\<close>

definition encodingBase64 :: string where
  "encodingBase64 = ''application/base64''"

definition parseEncodingScheme :: "string \<Rightarrow> string list" where
  "parseEncodingScheme e0 =
     (let e = TrimSpace (ToLower e0)
      in if e \<in> set [''gz+base64'', ''gzip+base64'', ''gz+b64'', ''gzip+b64'']
         then [encodingBase64, ''application/x-gzip'']
         else if e \<in> set [''base64'', ''b64''] then [encodingBase64]
         else [''text/plain''])"

fun decodeContent :: "(string \<Rightarrow> error + string) \<Rightarrow> string \<Rightarrow> string list \<Rightarrow> error + string" where
  "decodeContent gunzip content [] = Inr content"
| "decodeContent gunzip content (e # encodings) =
     (if e = encodingBase64 then
        (case DecodeString content of
           Inl err \<Rightarrow> Inl err
         | Inr rByte \<Rightarrow> decodeContent gunzip rByte encodings)
      else if e = ''application/x-gzip'' then
        (case gunzip content of
           Inl err \<Rightarrow> Inl err
         | Inr rByte \<Rightarrow> decodeContent gunzip rByte encodings)
      else if e = ''text/plain'' then decodeContent gunzip content encodings
      else Inl (ErrorString (''Unknown bootstrap data encoding: '' @ Quote content)))"

section \<open>Execution\<close>

text \<open>The calls made to the executors, in order; \<open>Execute\<close> returns them along with its error.\<close>

datatype action = Mkdir string | Write Files | Run string

text \<open>One file: its directory, decoding, template, and the write.\<close>

definition write_file ::
  "'s executors \<Rightarrow> (string \<Rightarrow> error + string) \<Rightarrow> Files \<Rightarrow> 's \<Rightarrow> error option \<times> 's \<times> action list" where
  "write_file se gunzip file s =
     (let directoryToCreate = Dir (Path file)
      in case MkdirIfNotExists se directoryToCreate s of
           (Some err, s1) \<Rightarrow>
             (Some (Wrapped (''Error creating the directory '' @ directoryToCreate) err), s1, [Mkdir directoryToCreate])
         | (None, s1) \<Rightarrow>
             (case decodeContent gunzip (Content file) (parseEncodingScheme (Encoding file)) of
                Inl err \<Rightarrow> (Some (Wrapped (''error decoding content for '' @ Path file) err), s1, [Mkdir directoryToCreate])
              | Inr content \<Rightarrow>
                  (case ParseTemplate se content of
                     Inl err \<Rightarrow>
                       (Some (Wrapped (''error parse template content for '' @ Path file) err), s1, [Mkdir directoryToCreate])
                   | Inr parsed \<Rightarrow>
                       (let file' = file\<lparr>Content := parsed\<rparr>
                        in case WriteToFile se file' s1 of
                             (Some err, s2) \<Rightarrow>
                               (Some (Wrapped (''Error writing the file '' @ Path file) err), s2,
                                [Mkdir directoryToCreate, Write file'])
                           | (None, s2) \<Rightarrow> (None, s2, [Mkdir directoryToCreate, Write file'])))))"

fun write_files ::
  "'s executors \<Rightarrow> (string \<Rightarrow> error + string) \<Rightarrow> Files list \<Rightarrow> 's \<Rightarrow> error option \<times> 's \<times> action list" where
  "write_files se gunzip [] s = (None, s, [])"
| "write_files se gunzip (f # fs) s =
     (case write_file se gunzip f s of
        (Some err, s1, tr) \<Rightarrow> (Some err, s1, tr)
      | (None, s1, tr) \<Rightarrow> (let (e, s2, tr') = write_files se gunzip fs s1 in (e, s2, tr @ tr')))"

fun run_cmds :: "'s executors \<Rightarrow> string list \<Rightarrow> 's \<Rightarrow> error option \<times> 's \<times> action list" where
  "run_cmds se [] s = (None, s, [])"
| "run_cmds se (cmd # cmds) s =
     (case RunCmd se cmd s of
        (Some err, s1) \<Rightarrow> (Some (Wrapped (''Error running the command '' @ cmd) err), s1, [Run cmd])
      | (None, s1) \<Rightarrow> (let (e, s2, tr) = run_cmds se cmds s1 in (e, s2, Run cmd # tr)))"

definition Execute ::
  "'s executors \<Rightarrow> (string \<Rightarrow> error + bootstrapConfig) \<Rightarrow> (string \<Rightarrow> error + string) \<Rightarrow> string \<Rightarrow> 's \<Rightarrow>
   error option \<times> 's \<times> action list" where
  "Execute se unmarshal gunzip bootstrapScript s =
     (case unmarshal bootstrapScript of
        Inl err \<Rightarrow> (Some (Wrapped (''error parsing write_files action: '' @ bootstrapScript) err), s, [])
      | Inr cloudInitData \<Rightarrow>
          (case write_files se gunzip (FilesToWrite cloudInitData) s of
             (Some err, s1, tr) \<Rightarrow> (Some err, s1, tr)
           | (None, s1, tr) \<Rightarrow>
               (let (e, s2, tr') = run_cmds se (CommandsToExecute cloudInitData) s1 in (e, s2, tr @ tr'))))"

section \<open>FileWriter\<close>

text \<open>Octal 0644.\<close>

definition filePermission :: "32 word" where
  "filePermission = 420"

definition FileWriter_MkdirIfNotExists :: "string \<Rightarrow> os_state \<Rightarrow> error option \<times> os_state" where
  "FileWriter_MkdirIfNotExists dirName s =
     (case Stat s dirName of
        StatNotExist \<Rightarrow> MkdirAll dirName s
      | StatError err \<Rightarrow> (Some err, s)
      | _ \<Rightarrow> (None, s))"

text \<open>The steps of \<open>WriteToFile\<close> after the file has been opened; each may end it with an error.\<close>

definition and_then :: "error option \<times> 's \<Rightarrow> ('s \<Rightarrow> error option \<times> 's) \<Rightarrow> error option \<times> 's" where
  "and_then r k = (case r of (Some e, s) \<Rightarrow> (Some e, s) | (None, s) \<Rightarrow> k s)"

definition upd_file :: "string \<Rightarrow> (File \<Rightarrow> File) \<Rightarrow> os_state \<Rightarrow> os_state" where
  "upd_file p g s = (case file_at s p of None \<Rightarrow> s | Some f \<Rightarrow> put_file p (g f) s)"

definition write_step :: "Files \<Rightarrow> os_state \<Rightarrow> error option \<times> os_state" where
  "write_step file s =
     deny_or ''write'' (Path file) s
       (upd_file (Path file) (\<lambda>f. f\<lparr>f_data := write_data (Append file) (Content file) (f_data f)\<rparr>) s)"

definition chmod_step :: "Files \<Rightarrow> os_state \<Rightarrow> error option \<times> os_state" where
  "chmod_step file s =
     (if Permissions file = [] then (None, s)
      else case ParseUint (Permissions file) 8 32 of
        Inl err \<Rightarrow> (Some (Wrapped (''Error parse the file permission '' @ Permissions file) err), s)
      | Inr fileMode \<Rightarrow>
          deny_or ''chmod'' (Path file) s
            (upd_file (Path file) (\<lambda>f. f\<lparr>f_mode := syscallMode (word_of_int fileMode)\<rparr>) s))"

definition chown_step :: "Files \<Rightarrow> os_state \<Rightarrow> error option \<times> os_state" where
  "chown_step file s =
     (if Owner file = [] then (None, s)
      else case Split CHR '':'' (Owner file) of
        [owner, _] \<Rightarrow>
          (case os_users s owner of
             None \<Rightarrow> (Some (Wrapped (''Error Lookup user '' @ owner) (ErrorString (''user: unknown user '' @ owner))), s)
           | Some (u, g) \<Rightarrow>
               (case (ParseUint u 10 32, ParseUint g 10 32) of
                  (Inl err, _) \<Rightarrow> (Some (Wrapped (''Error convert uid '' @ u) err), s)
                | (Inr _, Inl err) \<Rightarrow> (Some (Wrapped (''Error convert gid '' @ g) err), s)
                | (Inr uid, Inr gid) \<Rightarrow>
                    deny_or ''chown'' (Path file) s (upd_file (Path file) (\<lambda>f. f\<lparr>f_owner := (uid, gid)\<rparr>) s)))
      | _ \<Rightarrow> (Some (ErrorString (''invalid owner format '' @ [CHR 0x27] @ Owner file @ [CHR 0x27])), s))"

text \<open>
  \<open>os.IsExist\<close> is false of the nil error of a \<open>Stat\<close> that succeeds, so the mode for a new file is
  always \<open>filePermission\<close>.
\<close>

definition FileWriter_WriteToFile :: "Files \<Rightarrow> os_state \<Rightarrow> error option \<times> os_state" where
  "FileWriter_WriteToFile file s =
     (case OpenFile (Path file) filePermission s of
        (Inl err, s1) \<Rightarrow> (Some err, s1)
      | (Inr _, s1) \<Rightarrow>
          and_then (write_step file s1)
            (\<lambda>s2. and_then (chmod_step file s2)
              (\<lambda>s3. and_then (chown_step file s3)
                (\<lambda>s4. deny_or ''close'' (Path file) s4 s4))))"

section \<open>The contract of a file writer\<close>

locale file_writer =
  fixes mk_dir :: "string \<Rightarrow> 's \<Rightarrow> error option \<times> 's"
    and write_to :: "Files \<Rightarrow> 's \<Rightarrow> error option \<times> 's"
    and content :: "'s \<Rightarrow> string \<Rightarrow> string option"
    and same :: "string \<Rightarrow> string \<Rightarrow> bool"
  assumes mkdir_content: "mk_dir d s = (e, s') \<Longrightarrow> content s' p = content s p"
    and write_content: "write_to f s = (None, s') \<Longrightarrow>
      content s' (Path f) = Some (write_data (Append f) (Content f) (case content s (Path f) of None \<Rightarrow> [] | Some d \<Rightarrow> d))"
    and write_other: "write_to f s = (e, s') \<Longrightarrow> \<not> same p (Path f) \<Longrightarrow> content s' p = content s p"
begin

definition writes_by :: "'s executors \<Rightarrow> bool" where
  "writes_by se \<longleftrightarrow> MkdirIfNotExists se = mk_dir \<and> WriteToFile se = write_to"

lemma write_file_other:
  assumes "writes_by se" "write_file se gunzip f s = (e, s', tr)" "\<not> same p (Path f)"
  shows "content s' p = content s p"
proof -
  obtain e1 s1 where 1: "mk_dir (Dir (Path f)) s = (e1, s1)" by fastforce
  have w: "content s2 p = content s1 p" if "write_to (f\<lparr>Content := c\<rparr>) s1 = (e2, s2)" for c e2 s2
    using write_other [OF that] assms(3) by simp
  have se: "MkdirIfNotExists se = mk_dir" "WriteToFile se = write_to" using assms(1) by (simp_all add: writes_by_def)
  show ?thesis
    using assms(2) 1 mkdir_content [OF 1, of p]
    by (auto simp: write_file_def Let_def se dest!: w split: prod.splits option.splits sum.splits)
qed

lemma write_file_content:
  assumes "writes_by se" "write_file se gunzip f s = (None, s', tr)"
  obtains decoded parsed where
    "decodeContent gunzip (Content f) (parseEncodingScheme (Encoding f)) = Inr decoded"
    "ParseTemplate se decoded = Inr parsed"
    "content s' (Path f) = Some (write_data (Append f) parsed (case content s (Path f) of None \<Rightarrow> [] | Some d \<Rightarrow> d))"
proof -
  obtain s1 decoded parsed where 1: "mk_dir (Dir (Path f)) s = (None, s1)"
      "decodeContent gunzip (Content f) (parseEncodingScheme (Encoding f)) = Inr decoded"
      "ParseTemplate se decoded = Inr parsed" "write_to (f\<lparr>Content := parsed\<rparr>) s1 = (None, s')"
    using assms by (auto simp: writes_by_def write_file_def Let_def split: prod.splits option.splits sum.splits)
  show thesis
    using that [OF 1(2,3)] write_content [OF 1(4)] mkdir_content [OF 1(1), of "Path f"] by simp
qed

lemma write_files_other:
  assumes "writes_by se" "write_files se gunzip fs s = (e, s', tr)" "\<And>f. f \<in> set fs \<Longrightarrow> \<not> same p (Path f)"
  shows "content s' p = content s p"
  using assms(2,3)
proof (induction fs arbitrary: s e s' tr)
  case (Cons f fs)
  obtain e1 s1 tr1 where 1: "write_file se gunzip f s = (e1, s1, tr1)" by (rule prod_cases3)
  have "content s1 p = content s p" using write_file_other [OF assms(1) 1] Cons.prems(2) by simp
  then show ?case
    using Cons 1 by (auto split: option.splits prod.splits)
qed simp

lemma write_files_content:
  assumes "writes_by se" "write_files se gunzip fs s = (None, s', tr)" "f \<in> set fs"
    and "sorted_wrt (\<lambda>f g. \<not> same (Path f) (Path g) \<and> \<not> same (Path g) (Path f)) fs"
  shows "\<exists>decoded parsed. decodeContent gunzip (Content f) (parseEncodingScheme (Encoding f)) = Inr decoded \<and>
    ParseTemplate se decoded = Inr parsed \<and>
    content s' (Path f) = Some (write_data (Append f) parsed (case content s (Path f) of None \<Rightarrow> [] | Some d \<Rightarrow> d))"
  using assms(2-4)
proof (induction fs arbitrary: s s' tr)
  case (Cons g fs)
  obtain s1 tr1 tr2 where 1: "write_file se gunzip g s = (None, s1, tr1)"
    and 2: "write_files se gunzip fs s1 = (None, s', tr2)"
    using Cons.prems(1) by (auto split: option.splits prod.splits)
  show ?case
  proof (cases "f \<in> set fs")
    case True
    have "content s1 (Path f) = content s (Path f)"
      using write_file_other [OF assms(1) 1] True Cons.prems(3) by simp
    then show ?thesis using Cons.IH [OF 2 True] Cons.prems(3) by simp
  next
    case False
    then have "f = g" using Cons.prems(2) by simp
    moreover have "content s' (Path g) = content s1 (Path g)"
      using write_files_other [OF assms(1) 2] Cons.prems(3) by simp
    ultimately show ?thesis using write_file_content [OF assms(1) 1] by metis
  qed
qed simp

end

section \<open>FileWriter has the contract\<close>

definition file_content :: "os_state \<Rightarrow> string \<Rightarrow> string option" where
  "file_content s p = map_option f_data (file_at s p)"

definition same_file :: "string \<Rightarrow> string \<Rightarrow> bool" where
  "same_file p q = (Clean p = Clean q)"

text \<open>The steps after the open touch one file, and only the write touches its data.\<close>

lemma file_at_upd: "file_at (upd_file p g s) q = (if Clean q = Clean p then map_option g (file_at s p) else file_at s q)"
proof -
  have "Clean q = Clean p \<Longrightarrow> file_at s q = file_at s p" by (simp add: file_at_def)
  then show ?thesis by (auto simp: upd_file_def split: option.splits)
qed

lemma deny_or_upd:
  assumes "deny_or x p s (upd_file p g s) = (e, s')"
  shows "\<not> same_file q p \<Longrightarrow> file_content s' q = file_content s q"
    and "(\<And>f. f_data (g f) = f_data f) \<Longrightarrow> file_content s' p = file_content s p"
  using deny_or_cases [OF assms]
  by (auto simp: file_content_def same_file_def file_at_upd option.map_comp comp_def)

lemma chmod_step_content:
  assumes "chmod_step f s = (e, s')"
  shows "file_content s' q = file_content s q"
proof (cases "same_file q (Path f)")
  case True
  then have "file_content t q = file_content t (Path f)" for t
    by (simp add: file_content_def same_file_def file_at_def)
  then show ?thesis
    using assms by (auto simp: chmod_step_def split: if_splits sum.splits dest!: deny_or_upd(2))
next
  case False
  then show ?thesis
    using assms by (auto simp: chmod_step_def split: if_splits sum.splits dest!: deny_or_upd(1))
qed

lemma chown_step_content:
  assumes "chown_step f s = (e, s')"
  shows "file_content s' q = file_content s q"
proof (cases "same_file q (Path f)")
  case True
  then have "file_content t q = file_content t (Path f)" for t
    by (simp add: file_content_def same_file_def file_at_def)
  then show ?thesis
    using assms by (auto simp: chown_step_def split: if_splits sum.splits list.splits option.splits dest!: deny_or_upd(2))
next
  case False
  then show ?thesis
    using assms by (auto simp: chown_step_def split: if_splits sum.splits list.splits option.splits dest!: deny_or_upd(1))
qed

lemma OpenFile_content:
  assumes "OpenFile p perm s = (r, s1)"
  shows "\<not> same_file q p \<Longrightarrow> file_content s1 q = file_content s q"
    and "r = Inr f \<Longrightarrow> file_content s1 p = Some (case file_content s p of None \<Rightarrow> [] | Some d \<Rightarrow> d)"
  using assms
  by (auto simp: OpenFile_def file_content_def same_file_def Let_def split: option.splits if_splits)

lemma and_then_cases:
  assumes "and_then r k = (e, s')"
  obtains (stop) err where "r = (Some err, s')" "e = Some err" | (go) s1 where "r = (None, s1)" "k s1 = (e, s')"
  using assms by (auto simp: and_then_def split: prod.splits option.splits)

lemma after_write_content:
  assumes "and_then (chmod_step file s2) (\<lambda>s3. and_then (chown_step file s3) (\<lambda>s4. deny_or x p s4 s4)) = (e, s')"
  shows "file_content s' q = file_content s2 q"
  using assms
  by (elim and_then_cases) (auto dest!: chmod_step_content [where q = q] chown_step_content [where q = q] deny_or_cases)

lemma FileWriter_write_other:
  assumes "FileWriter_WriteToFile file s = (e, s')" "\<not> same_file q (Path file)"
  shows "file_content s' q = file_content s q"
proof -
  obtain r s1 where 1: "OpenFile (Path file) filePermission s = (r, s1)" by fastforce
  have "file_content s1 q = file_content s q" using OpenFile_content(1) [OF 1 assms(2)] .
  moreover have "file_content s2 q = file_content s1 q" if "write_step file s1 = (e2, s2)" for e2 s2
    using deny_or_upd(1) [OF that [unfolded write_step_def] assms(2)] .
  ultimately show ?thesis
    using assms(1) 1
    by (auto simp: FileWriter_WriteToFile_def split: sum.splits
        elim!: and_then_cases [where r = "write_step file s1"] dest!: after_write_content [where q = q])
qed

lemma FileWriter_write_content:
  assumes "FileWriter_WriteToFile file s = (None, s')"
  shows "file_content s' (Path file) = Some (write_data (Append file) (Content file)
    (case file_content s (Path file) of None \<Rightarrow> [] | Some d \<Rightarrow> d))"
proof -
  obtain f s1 s2 where 1: "OpenFile (Path file) filePermission s = (Inr f, s1)"
    and 2: "write_step file s1 = (None, s2)"
    and 3: "file_content s' (Path file) = file_content s2 (Path file)"
    using assms
    by (auto simp: FileWriter_WriteToFile_def split: prod.splits sum.splits
        elim!: and_then_cases [where r = "write_step file _"] dest!: after_write_content [where q = "Path file"])
  have "file_content s1 (Path file) = Some (case file_content s (Path file) of None \<Rightarrow> [] | Some d \<Rightarrow> d)"
    using OpenFile_content(2) [OF 1 refl] .
  moreover have "s2 = upd_file (Path file) (\<lambda>f. f\<lparr>f_data := write_data (Append file) (Content file) (f_data f)\<rparr>) s1"
    using deny_or_cases [OF 2 [unfolded write_step_def]] by simp
  ultimately show ?thesis
    using 3 by (auto simp: file_content_def file_at_upd)
qed

interpretation fw: file_writer FileWriter_MkdirIfNotExists FileWriter_WriteToFile file_content same_file
proof unfold_locales
  fix d s e s' p
  assume "FileWriter_MkdirIfNotExists d s = (e, s')"
  then have "os_files s' = os_files s"
    by (auto simp: FileWriter_MkdirIfNotExists_def dest: MkdirAll_frame split: stat.splits)
  then show "file_content s' p = file_content s p" by (simp add: file_content_def file_at_def)
qed (simp_all add: FileWriter_write_other FileWriter_write_content)

section \<open>Properties\<close>

fun written_paths :: "action list \<Rightarrow> string list" where
  "written_paths [] = []"
| "written_paths (Write f # tr) = Path f # written_paths tr"
| "written_paths (Mkdir d # tr) = written_paths tr"
| "written_paths (Run c # tr) = written_paths tr"

fun commands_run :: "action list \<Rightarrow> string list" where
  "commands_run [] = []"
| "commands_run (Run c # tr) = c # commands_run tr"
| "commands_run (Write f # tr) = commands_run tr"
| "commands_run (Mkdir d # tr) = commands_run tr"

lemma trace_append [simp]:
  "written_paths (tr @ tr') = written_paths tr @ written_paths tr'"
  "commands_run (tr @ tr') = commands_run tr @ commands_run tr'"
  by (induction tr rule: written_paths.induct) simp_all

lemma write_file_trace:
  assumes "write_file se gunzip f s = (e, s', tr)"
  shows "commands_run tr = []" "prefix (written_paths tr) [Path f]" "e = None \<Longrightarrow> written_paths tr = [Path f]"
  using assms by (auto simp: write_file_def Let_def split: prod.splits option.splits sum.splits)

lemma write_files_trace:
  assumes "write_files se gunzip fs s = (e, s', tr)"
  shows "commands_run tr = [] \<and> prefix (written_paths tr) (map Path fs) \<and>
    (e = None \<longrightarrow> written_paths tr = map Path fs)"
  using assms
proof (induction fs arbitrary: s e s' tr)
  case (Cons f fs)
  obtain e1 s1 tr1 where 1: "write_file se gunzip f s = (e1, s1, tr1)" by (rule prod_cases3)
  obtain e2 s2 tr2 where 2: "write_files se gunzip fs s1 = (e2, s2, tr2)" by (rule prod_cases3)
  show ?case
    using Cons.prems 1 2 write_file_trace [OF 1] Cons.IH [OF 2]
    by (cases e1) (auto simp: prefix_Cons)
qed simp

lemma run_cmds_trace:
  assumes "run_cmds se cmds s = (e, s', tr)"
  shows "written_paths tr = [] \<and> prefix (commands_run tr) cmds \<and> (e = None \<longrightarrow> commands_run tr = cmds)"
  using assms
proof (induction cmds arbitrary: s e s' tr)
  case (Cons c cmds)
  obtain e1 s1 where 1: "RunCmd se c s = (e1, s1)" by fastforce
  obtain e2 s2 tr2 where 2: "run_cmds se cmds s1 = (e2, s2, tr2)" by (rule prod_cases3)
  show ?case using Cons.prems 1 2 Cons.IH [OF 2] by (cases e1) auto
qed simp


text \<open>An operating system to run it on, and a shell whose commands all succeed.\<close>

definition ex_os :: os_state where
  "ex_os = \<lparr>os_files = [(''/etc/motd'', \<lparr>f_data = ''old contents'', f_mode = 420, f_owner = (0, 0)\<rparr>)],
     os_dirs = [''/etc''], os_umask = 18, os_deny = (\<lambda>_ _. None), os_users = [''root'' \<mapsto> (''0'', ''0'')]\<rparr>"

definition os_executors :: "os_state executors" where
  "os_executors = \<lparr>MkdirIfNotExists = FileWriter_MkdirIfNotExists, WriteToFile = FileWriter_WriteToFile,
     RunCmd = (\<lambda>_ s. (None, s)), ParseTemplate = Inr\<rparr>"

definition ex_script :: bootstrapConfig where
  "ex_script = \<lparr>FilesToWrite = [\<lparr>Path = ''/run/kubeadm/kubeadm.yaml'', Encoding = '' B64 '', Owner = ''root:root'',
     Permissions = ''0640'', Content = ''aGVsbG8='', Append = False\<rparr>], CommandsToExecute = [''kubeadm join'']\<rparr>"


text \<open>
  C29. After a bootstrap script whose files are all different has written its files, each of them
  holds its content, decoded as its encoding asks and with the template applied, appended to the
  old content or written over it from the start.
\<close>

theorem written_files_content:
  assumes "write_files (os_executors\<lparr>ParseTemplate := template\<rparr>) gunzip fs s = (None, s', tr)"
    and "sorted_wrt (\<lambda>f g. \<not> same_file (Path f) (Path g)) fs" and "f \<in> set fs"
  shows "\<exists>decoded parsed. decodeContent gunzip (Content f) (parseEncodingScheme (Encoding f)) = Inr decoded \<and>
    template decoded = Inr parsed \<and>
    file_content s' (Path f) =
      Some (write_data (Append f) parsed (case file_content s (Path f) of None \<Rightarrow> [] | Some d \<Rightarrow> d))"
proof -
  have "fw.writes_by (os_executors\<lparr>ParseTemplate := template\<rparr>)" by (simp add: fw.writes_by_def os_executors_def)
  moreover have "sorted_wrt (\<lambda>f g. \<not> same_file (Path f) (Path g) \<and> \<not> same_file (Path g) (Path f)) fs"
    using assms(2) by (rule sorted_wrt_mono_rel [rotated]) (auto simp: same_file_def)
  ultimately show ?thesis using fw.write_files_content [OF _ assms(1,3)] by simp
qed

theorem written_files_content_witness:
  "file_content (fst (snd (write_files (os_executors\<lparr>ParseTemplate := Inr\<rparr>) Inr (FilesToWrite ex_script) ex_os)))
     ''/run/kubeadm/kubeadm.yaml'' = Some ''hello''"
proof -
  let ?out = "write_files (os_executors\<lparr>ParseTemplate := Inr\<rparr>) Inr (FilesToWrite ex_script) ex_os"
  let ?f = "hd (FilesToWrite ex_script)"
  have "fst ?out = None" by code_simp
  then have out: "?out = (None, fst (snd ?out), snd (snd ?out))" by (metis prod.collapse)
  have "sorted_wrt (\<lambda>f g. \<not> same_file (Path f) (Path g)) (FilesToWrite ex_script)" "?f \<in> set (FilesToWrite ex_script)"
    by (simp_all add: ex_script_def)
  from written_files_content [OF out this]
  obtain decoded parsed where "decodeContent Inr (Content ?f) (parseEncodingScheme (Encoding ?f)) = Inr decoded"
      "Inr decoded = (Inr parsed :: error + string)"
      "file_content (fst (snd ?out)) (Path ?f) =
        Some (write_data (Append ?f) parsed (case file_content ex_os (Path ?f) of None \<Rightarrow> [] | Some d \<Rightarrow> d))" by blast
  moreover have "decodeContent Inr (Content ?f) (parseEncodingScheme (Encoding ?f)) = Inr ''hello''"
    "file_content ex_os (Path ?f) = None" by code_simp+
  ultimately show ?thesis by (simp add: ex_script_def write_data_def)
qed

text \<open>
  \<open>WriteToFile\<close> does not truncate: without \<open>Append\<close> it overwrites the start of an existing
  file and leaves what was behind it, so the file holds exactly the new content only if the old
  one was not longer.
\<close>

theorem WriteToFile_keeps_old_tail:
  assumes "FileWriter_WriteToFile file s = (None, s')" and "\<not> Append file"
    and "file_content s (Path file) = Some old"
  shows "file_content s' (Path file) = Some (Content file @ drop (length (Content file)) old) \<and>
    (file_content s' (Path file) = Some (Content file) \<longleftrightarrow> length old \<le> length (Content file))"
  using fw.write_content [OF assms(1)] assms(2,3) by (simp add: write_data_def)

theorem WriteToFile_keeps_old_tail_witness:
  "file_content (snd (FileWriter_WriteToFile \<lparr>Path = ''/etc/motd'', Encoding = [], Owner = [], Permissions = [],
      Content = ''new'', Append = False\<rparr> ex_os)) ''/etc/motd'' = Some ''new contents''"
proof -
  let ?f = "\<lparr>Path = ''/etc/motd'', Encoding = [], Owner = [], Permissions = [], Content = ''new'', Append = False\<rparr>"
  have "fst (FileWriter_WriteToFile ?f ex_os) = None" by code_simp
  then have "FileWriter_WriteToFile ?f ex_os = (None, snd (FileWriter_WriteToFile ?f ex_os))" by (metis prod.collapse)
  moreover have "file_content ex_os (Path ?f) = Some ''old contents''" by code_simp
  ultimately show ?thesis
    using WriteToFile_keeps_old_tail [of ?f ex_os _ "''old contents''"] by simp
qed

text \<open>
  C31. The encodings of \<open>write_files\<close> are decoded to what was encoded: base64, and gzip inside
  base64, for every spelling of the scheme; any other scheme leaves the content as it is.  The
  compression may be any that the gzip reader inverts.
\<close>

theorem decodeContent_inverts:
  assumes "\<And>x. members (gz x) = Some x"
  shows "decodeContent (GunzipData err)
     (let e = TrimSpace (ToLower scheme)
      in if e \<in> {''gz+base64'', ''gzip+base64'', ''gz+b64'', ''gzip+b64''} then EncodeToString (gz x)
         else if e \<in> {''base64'', ''b64''} then EncodeToString x else x)
     (parseEncodingScheme scheme) = Inr x"
  using assms by (auto simp: parseEncodingScheme_def Let_def encodingBase64_def GunzipData_def)

theorem decodeContent_inverts_witness:
  "decodeContent (GunzipData (\<lambda>_. ErrorString ''gzip: invalid header'')) (EncodeToString (gzip_stored ''hello''))
     (parseEncodingScheme '' GZ+B64 '') = Inr ''hello''"
proof -
  have "TrimSpace (ToLower '' GZ+B64 '') = ''gz+b64''" by code_simp
  then show ?thesis
    using decodeContent_inverts [of gzip_stored "\<lambda>_. ErrorString ''gzip: invalid header''" "'' GZ+B64 ''" "''hello''"]
      members_stored by simp
qed

end
