(* ===== verification/Host_Agent.thy ===== *)
theory Host_Agent
  imports CloudInit Reference_Client
begin

text \<open>
  The host agent's reconciler (\<open>agent/reconciler/host_reconciler.go\<close>).  It installs the Kubernetes
  components and bootstraps the node when the host has been reserved, and cleans the host up when
  the manager has marked it.

  The state of a reconciliation is the local copy of the ByoHost, the API world, the operating
  system, the events recorded and the actions taken on the host so far (shell commands, and the
  calls cloud-init makes).  \<open>agent\<close> extends the API client by the fields of \<open>HostReconciler\<close> and by
  the third-party code: YAML, gzip, the template engine, and kube-vip's network configuration.
\<close>

record 'w agent = "'w client" +
  SkipK8sInstallation :: bool
  DownloadPath :: string
  Executors :: "os_state executors"
  Unmarshal :: "string \<Rightarrow> error + bootstrapConfig"
  GzipError :: "string \<Rightarrow> error"
  ApplyTemplate :: "strmap \<Rightarrow> string \<Rightarrow> error + string"
  DefaultNetworkInterfaceName :: string
  VipNewConfig :: "string \<Rightarrow> string \<Rightarrow> os_state \<Rightarrow> error option"
  VipDeleteIP :: "string \<Rightarrow> os_state \<Rightarrow> error option \<times> os_state"

record 'w astate =
  a_host :: ByoHost
  a_api :: 'w
  a_os :: os_state
  a_events :: "Event list"
  a_trace :: "action list"

definition bootstrapSentinelFile :: string where
  "bootstrapSentinelFile = ''/run/cluster-api/bootstrap-success.complete''"

definition KubeadmResetCommand :: string where
  "KubeadmResetCommand = ''kubeadm reset --force''"

definition add_event :: "EventType \<Rightarrow> string \<Rightarrow> string \<Rightarrow> 'w astate \<Rightarrow> 'w astate" where
  "add_event ty reason msg st = st\<lparr>a_events := a_events st @ [Event_of (a_host st) ty reason msg]\<rparr>"

definition upd_host :: "(ByoHost \<Rightarrow> ByoHost) \<Rightarrow> 'w astate \<Rightarrow> 'w astate" where
  "upd_host f st = st\<lparr>a_host := f (a_host st)\<rparr>"

text \<open>The type of the steps: an error or none, and the state they leave.\<close>

type_synonym 'w step = "'w astate \<Rightarrow> error option \<times> 'w astate"

section \<open>Commands and files\<close>

definition run_cmd :: "('w, 'z) agent_scheme \<Rightarrow> string \<Rightarrow> 'w step" where
  "run_cmd A cmd st =
     (let (err, s) = RunCmd (Executors A) cmd (a_os st)
      in (err, st\<lparr>a_os := s, a_trace := a_trace st @ [Run cmd]\<rparr>))"

definition resetNode :: "('w, 'z) agent_scheme \<Rightarrow> 'w step" where
  "resetNode A st =
     (case run_cmd A KubeadmResetCommand st of
        (Some err, st1) \<Rightarrow>
          (Some (Wrapped ''failed to exec kubeadm reset'' err),
           add_event EventTypeWarning ''ResetK8sNodeFailed'' ''k8s Node Reset failed'' st1)
      | (None, st1) \<Rightarrow>
          (None, add_event EventTypeNormal ''ResetK8sNodeSucceeded'' ''k8s Node Reset completed'' st1))"

fun remove_all :: "string list \<Rightarrow> os_state \<Rightarrow> error option \<times> os_state" where
  "remove_all [] s = (None, s)"
| "remove_all (item # items) s =
     (case RemoveAll item s of (Some err, s1) \<Rightarrow> (Some err, s1) | (None, s1) \<Rightarrow> remove_all items s1)"

definition RemoveGlob :: "string \<Rightarrow> os_state \<Rightarrow> error option \<times> os_state" where
  "RemoveGlob path s = remove_all (Glob path s) s"

fun clean_dirs :: "string list \<Rightarrow> os_state \<Rightarrow> error list \<times> os_state" where
  "clean_dirs [] s = ([], s)"
| "clean_dirs (dir # dirs) s =
     (let (err, s1) = RemoveGlob dir s; (errs, s2) = clean_dirs dirs s1
      in (case err of None \<Rightarrow> errs | Some e \<Rightarrow> e # errs, s2))"

text \<open>
  Every directory is tried, and the errors are joined into one.  The joined errors come from the
  operating system, so only their text matters.
\<close>

definition cleank8sdirectories :: "os_state \<Rightarrow> error option \<times> os_state" where
  "cleank8sdirectories s =
     (case clean_dirs [''/run/kubeadm/*'', ''/etc/cni/net.d/*''] s of
        ([], s1) \<Rightarrow> (None, s1)
      | (e # es, s1) \<Rightarrow>
          (Some (Wrapped ''not all k8s directories are cleaned up''
             (foldl (\<lambda>err e. ErrorString (Error err @ ''; '' @ Error e @ '' error'')) e es)), s1))"

definition removeSentinelFile :: "'w step" where
  "removeSentinelFile st =
     (case Stat (a_os st) bootstrapSentinelFile of
        StatNotExist \<Rightarrow> (None, st)
      | _ \<Rightarrow>
          (case Remove bootstrapSentinelFile (a_os st) of
             (Some err, s) \<Rightarrow>
               (Some (Wrapped (''failed to delete sentinel file '' @ bootstrapSentinelFile) err), st\<lparr>a_os := s\<rparr>)
           | (None, s) \<Rightarrow> (None, st\<lparr>a_os := s\<rparr>)))"

definition deleteEndpointIP :: "('w, 'z) agent_scheme \<Rightarrow> 'w step" where
  "deleteEndpointIP A st =
     (case Annotations (a_host st) EndPointIPAnnotation of
        None \<Rightarrow> (None, st)
      | Some IP \<Rightarrow>
          (case VipNewConfig A IP (DefaultNetworkInterfaceName A) (a_os st) of
             Some _ \<Rightarrow> (None, st)
           | None \<Rightarrow> (let (err, s) = VipDeleteIP A IP (a_os st) in (err, st\<lparr>a_os := s\<rparr>))))"

section \<open>Scripts\<close>

definition getBootstrapScript ::
  "('w, 'z) agent_scheme \<Rightarrow> string \<Rightarrow> string \<Rightarrow> 'w \<Rightarrow> (error + string) \<times> 'w" where
  "getBootstrapScript A dataSecretName namespace w =
     (case getSecret A (namespace, dataSecretName) w of
        (Inl err, w1) \<Rightarrow> (Inl err, w1)
      | (Inr secret, w1) \<Rightarrow>
          (Inr (case SecretData secret ''value'' of None \<Rightarrow> [] | Some v \<Rightarrow> v), w1))"

definition parseScript :: "('w, 'z) agent_scheme \<Rightarrow> string \<Rightarrow> error + string" where
  "parseScript A script =
     (case ApplyTemplate A [''BundleDownloadPath'' \<mapsto> DownloadPath A] script of
        Inl _ \<Rightarrow> Inl (ErrorString ''unable to apply install parsed template to the data object'')
      | Inr data \<Rightarrow> Inr data)"

definition executeInstallerController :: "('w, 'z) agent_scheme \<Rightarrow> 'w step" where
  "executeInstallerController A st =
     (case InstallationSecret (HostSpec (a_host st)) of
        None \<Rightarrow> (Some (ErrorString (''InstallationSecret not found in ByoHost '' @ Name (a_host st))), st)
      | Some ref \<Rightarrow>
     (case getSecret A (ref_key ref) (a_api st) of
        (Inl err, w1) \<Rightarrow>
          (Some err, add_event EventTypeWarning ''ReadInstallationSecretFailed''
             (''install script '' @ ref_Name ref @ '' not found'') (st\<lparr>a_api := w1\<rparr>))
      | (Inr secret, w1) \<Rightarrow>
     (let st1 = st\<lparr>a_api := w1\<rparr> in
      case SecretData secret ''install'' of
        None \<Rightarrow> (Some (ErrorString (''install script not found in secret '' @ Name secret)), st1)
      | Some installScript \<Rightarrow>
     (case parseScript A installScript of
        Inl err \<Rightarrow> (Some err, st1)
      | Inr script \<Rightarrow>
     (case run_cmd A script st1 of
        (Some err, st2) \<Rightarrow>
          (Some err,
           upd_host (host_MarkFalse (libs A) K8sComponentsInstallationSucceeded
               K8sComponentsInstallationFailedReason SeverityInfo)
             (add_event EventTypeWarning ''InstallScriptExecutionFailed'' ''install script execution failed'' st2))
      | (None, st2) \<Rightarrow> (None, st2))))))"

definition bootstrapK8sNode :: "('w, 'z) agent_scheme \<Rightarrow> string \<Rightarrow> 'w step" where
  "bootstrapK8sNode A bootstrapScript st =
     (let (err, s, tr) = Execute (Executors A) (Unmarshal A) (GunzipData (GzipError A)) bootstrapScript (a_os st)
      in (err, st\<lparr>a_os := s, a_trace := a_trace st @ tr\<rparr>))"

section \<open>The normal path\<close>

text \<open>The installation part of \<open>reconcileNormal\<close>: \<open>Inl\<close> is a return, with this error.\<close>

definition ensure_installed :: "('w, 'z) agent_scheme \<Rightarrow> 'w astate \<Rightarrow> (error option + unit) \<times> 'w astate" where
  "ensure_installed A st =
     (if SkipK8sInstallation A then (Inr (), st)
      else if \<not> host_IsTrue (libs A) (a_host st) K8sComponentsInstallationSucceeded then
        (if InstallationSecret (HostSpec (a_host st)) = None then
           (Inl None, upd_host (host_MarkFalse (libs A) K8sComponentsInstallationSucceeded
              K8sInstallationSecretUnavailableReason SeverityInfo) st)
         else case executeInstallerController A st of
           (Some err, st1) \<Rightarrow> (Inl (Some err), st1)
         | (None, st1) \<Rightarrow>
             (Inr (), upd_host (host_MarkTrue (libs A) K8sComponentsInstallationSucceeded)
                (add_event EventTypeNormal ''InstallScriptExecutionSucceeded'' ''install script executed'' st1)))
      else (Inr (), st))"

text \<open>The bootstrap part: directories are cleaned, then the script is executed.\<close>

definition clean_and_bootstrap :: "('w, 'z) agent_scheme \<Rightarrow> string \<Rightarrow> 'w step" where
  "clean_and_bootstrap A bootstrapScript st =
     (case cleank8sdirectories (a_os st) of
        (Some err, s) \<Rightarrow>
          (Some err,
           upd_host (host_MarkFalse (libs A) K8sNodeBootstrapSucceeded CleanK8sDirectoriesFailedReason SeverityError)
             (add_event EventTypeWarning ''CleanK8sDirectoriesFailed'' ''clean k8s directories failed''
               (st\<lparr>a_os := s\<rparr>)))
      | (None, s) \<Rightarrow>
          (case bootstrapK8sNode A bootstrapScript (st\<lparr>a_os := s\<rparr>) of
             (Some err, st1) \<Rightarrow>
               (let (_, st2) = resetNode A
                      (add_event EventTypeWarning ''BootstrapK8sNodeFailed'' ''k8s Node Bootstrap failed'' st1)
                in (Some err,
                    upd_host (host_MarkFalse (libs A) K8sNodeBootstrapSucceeded
                      CloudInitExecutionFailedReason SeverityError) st2))
           | (None, st1) \<Rightarrow>
               (None,
                upd_host (host_MarkTrue (libs A) K8sNodeBootstrapSucceeded)
                  (add_event EventTypeNormal ''BootstrapK8sNodeSucceeded'' ''k8s Node Bootstraped'' st1))))"

definition reconcileNormal :: "('w, 'z) agent_scheme \<Rightarrow> 'w step" where
  "reconcileNormal A st =
     (if MachineRef (HostStatus (a_host st)) = None then
        (None, upd_host (host_MarkFalse (libs A) K8sNodeBootstrapSucceeded WaitingForMachineRefReason SeverityInfo) st)
      else case BootstrapSecret (HostSpec (a_host st)) of
        None \<Rightarrow>
          (None, upd_host (host_MarkFalse (libs A) K8sNodeBootstrapSucceeded
             BootstrapDataSecretUnavailableReason SeverityInfo) st)
      | Some ref \<Rightarrow>
          if host_IsTrue (libs A) (a_host st) K8sNodeBootstrapSucceeded then (None, st)
          else (case getBootstrapScript A (ref_Name ref) (ref_Namespace ref) (a_api st) of
            (Inl err, w) \<Rightarrow>
              (Some err, add_event EventTypeWarning ''ReadBootstrapSecretFailed''
                 (''bootstrap secret '' @ ref_Name ref @ '' not found'') (st\<lparr>a_api := w\<rparr>))
          | (Inr bootstrapScript, w) \<Rightarrow>
              (case ensure_installed A (st\<lparr>a_api := w\<rparr>) of
                 (Inl err, st1) \<Rightarrow> (err, st1)
               | (Inr _, st1) \<Rightarrow> clean_and_bootstrap A bootstrapScript st1)))"

definition reconcileDelete :: "'w step" where
  "reconcileDelete st = (None, st)"

section \<open>Cleanup\<close>

definition removeAnnotations :: "ByoHost \<Rightarrow> ByoHost" where
  "removeAnnotations byoHost =
     byoHost\<lparr>HostStatus := (HostStatus byoHost)\<lparr>MachineRef := None\<rparr>,
             HostSpec := (HostSpec byoHost)\<lparr>BootstrapSecret := None\<rparr>,
             Labels := (Labels byoHost)(ClusterNameLabel := None, AttachedByoMachineLabel := None),
             Annotations := (Annotations byoHost)(EndPointIPAnnotation := None, HostCleanupAnnotation := None,
                K8sVersionAnnotation := None, BundleLookupBaseRegistryAnnotation := None)\<rparr>"

text \<open>The first guard of \<open>hostCleanUp\<close>: reset, only if the components were installed.\<close>

definition reset_if_installed :: "('w, 'z) agent_scheme \<Rightarrow> 'w step" where
  "reset_if_installed A st =
     (case cnd_Get (libs A) (host_GetConditions (a_host st)) K8sComponentsInstallationSucceeded of
        Some c \<Rightarrow>
          if cond_Status c = ConditionTrue then
            (case resetNode A st of
               (Some err, st1) \<Rightarrow> (Some err, st1)
             | (None, st1) \<Rightarrow>
                 (None, upd_host (host_MarkFalse (libs A) K8sComponentsInstallationSucceeded
                    K8sNodeAbsentReason SeverityInfo) st1))
          else (None, st)
      | None \<Rightarrow> (None, st))"

text \<open>The second guard: the uninstall script, only if there is one.\<close>

definition uninstall_if_set :: "('w, 'z) agent_scheme \<Rightarrow> 'w step" where
  "uninstall_if_set A st =
     (case UninstallationSecret (HostSpec (a_host st)) of
        None \<Rightarrow> (None, st)
      | Some ref \<Rightarrow>
     (if SkipK8sInstallation A then (None, st)
      else case getSecret A (ref_key ref) (a_api st) of
        (Inl err, w1) \<Rightarrow>
          (Some err, add_event EventTypeWarning ''ReadUninstallationSecretFailed''
             (''uninstallation secret '' @ ref_Name ref @ '' not found'') (st\<lparr>a_api := w1\<rparr>))
      | (Inr secret, w1) \<Rightarrow>
     (let st1 = st\<lparr>a_api := w1\<rparr> in
      case SecretData secret ''uninstall'' of
        None \<Rightarrow> (Some (ErrorString (''uninstall script not found in secret '' @ Name secret)), st1)
      | Some uninstallScript \<Rightarrow>
     (case parseScript A uninstallScript of
        Inl err \<Rightarrow> (Some err, st1)
      | Inr script \<Rightarrow>
     (case run_cmd A script st1 of
        (Some err, st2) \<Rightarrow>
          (Some err, add_event EventTypeWarning ''UninstallScriptExecutionFailed''
             ''uninstall script execution failed'' st2)
      | (None, st2) \<Rightarrow> (None, st2))))))"

definition mark_absent :: "('w, 'z) agent_scheme \<Rightarrow> 'w astate \<Rightarrow> 'w astate" where
  "mark_absent A = upd_host (host_MarkFalse (libs A) K8sNodeBootstrapSucceeded K8sNodeAbsentReason SeverityInfo)"

text \<open>The work on the host itself (lines 250 to 308), then the release of its reservation.\<close>

definition clean_host :: "('w, 'z) agent_scheme \<Rightarrow> 'w step" where
  "clean_host A st =
     and_then (reset_if_installed A st) (\<lambda>st1.
     and_then (uninstall_if_set A st1) (\<lambda>st2.
     and_then (removeSentinelFile (mark_absent A st2)) (\<lambda>st3.
       deleteEndpointIP A st3)))"

definition hostCleanUp :: "('w, 'z) agent_scheme \<Rightarrow> 'w step" where
  "hostCleanUp A st =
     and_then (clean_host A st) (\<lambda>st4.
       (None, mark_absent A
          (upd_host (\<lambda>h. removeAnnotations (h\<lparr>HostSpec := (HostSpec h)\<lparr>InstallationSecret := None\<rparr>\<rparr>)) st4)))"

section \<open>Reconcile\<close>

definition reconcile_host :: "('w, 'z) agent_scheme \<Rightarrow> 'w step" where
  "reconcile_host A st =
     (if Annotations (a_host st) HostCleanupAnnotation \<noteq> None then hostCleanUp A st
      else if being_deleted (a_host st) then reconcileDelete st
      else reconcileNormal A st)"

definition Reconcile ::
  "('w, 'z) agent_scheme \<Rightarrow> key \<Rightarrow> 'w \<Rightarrow> os_state \<Rightarrow>
   (Result \<times> error option) outcome \<times> 'w \<times> os_state \<times> Event list \<times> action list" where
  "Reconcile A req w s =
     (case getByoHost A req w of
        (Inl err, w1) \<Rightarrow> (Return (no_requeue, Some err), w1, s, [], [])
      | (Inr byoHost, w1) \<Rightarrow>
          (let (reterr, st) = reconcile_host A
                 \<lparr>a_host = byoHost, a_api = w1, a_os = s, a_events = [], a_trace = []\<rparr>
           in case helperByoHost A byoHost of
                Some _ \<Rightarrow> (Panic ''nil pointer dereference'', a_api st, a_os st, a_events st, a_trace st)
              | None \<Rightarrow>
                  (let (err, w2) = patchByoHost A byoHost (a_host st) (a_api st)
                   in (Return (no_requeue, defer_error reterr err), w2, a_os st, a_events st, a_trace st))))"

section \<open>What the steps leave unchanged\<close>

lemma astate_frame [simp, frame]:
  "a_host (upd_host f st) = f (a_host st)" "a_api (upd_host f st) = a_api st" "a_os (upd_host f st) = a_os st"
  "a_trace (upd_host f st) = a_trace st" "a_events (upd_host f st) = a_events st"
  "a_host (add_event t r m st) = a_host st" "a_api (add_event t r m st) = a_api st"
  "a_os (add_event t r m st) = a_os st" "a_trace (add_event t r m st) = a_trace st"
  by (simp_all add: upd_host_def add_event_def)

text \<open>Two hosts that differ in their conditions only.\<close>

definition same_but_conditions :: "ByoHost \<Rightarrow> ByoHost \<Rightarrow> bool" where
  "same_but_conditions h h' \<longleftrightarrow> (\<exists>cs. h' = host_SetConditions cs h)"

lemma same_but_conditions_refl [simp, intro]: "same_but_conditions h h"
  unfolding same_but_conditions_def by (metis host_cond.set_get)

lemma same_but_conditions_Mark [simp, intro]:
  "same_but_conditions h h' \<Longrightarrow> same_but_conditions h (host_MarkTrue L t h')"
  "same_but_conditions h h' \<Longrightarrow> same_but_conditions h (host_MarkFalse L t r sv h')"
  unfolding same_but_conditions_def MarkTrue_def MarkFalse_def by (metis host_cond.set_set)+

lemma same_but_conditions_trans [trans]:
  "same_but_conditions a b \<Longrightarrow> same_but_conditions b c \<Longrightarrow> same_but_conditions a c"
  unfolding same_but_conditions_def by (metis host_cond.set_set)

lemma same_but_conditionsD:
  assumes "same_but_conditions h h'"
  shows "HostSpec h' = HostSpec h" "MachineRef (HostStatus h') = MachineRef (HostStatus h)"
    "Labels h' = Labels h" "Annotations h' = Annotations h" "obj_key h' = obj_key h"
    "DeletionTimestamp h' = DeletionTimestamp h"
  using assms by (auto simp: same_but_conditions_def)

lemma run_cmd_eq:
  "run_cmd A cmd st = (e, st') \<Longrightarrow>
   \<exists>s. RunCmd (Executors A) cmd (a_os st) = (e, s) \<and> st' = st\<lparr>a_os := s, a_trace := a_trace st @ [Run cmd]\<rparr>"
  by (auto simp: run_cmd_def split: prod.splits)

lemma resetNode_frame:
  assumes "resetNode A st = (e, st')"
  shows "a_host st' = a_host st \<and> a_api st' = a_api st \<and> a_trace st' = a_trace st @ [Run KubeadmResetCommand]"
  using assms by (auto simp: resetNode_def dest!: run_cmd_eq split: prod.splits option.splits)

lemma executeInstaller_frame:
  assumes "executeInstallerController A st = (e, st')"
  shows "same_but_conditions (a_host st) (a_host st')"
  using assms
  by (auto simp: executeInstallerController_def Let_def dest!: run_cmd_eq
      split: option.splits prod.splits sum.splits)

lemma ensure_installed_frame:
  assumes "ensure_installed A st = (r, st')"
  shows "same_but_conditions (a_host st) (a_host st')"
  using assms
  by (auto simp: ensure_installed_def dest!: executeInstaller_frame split: if_splits option.splits prod.splits)

lemma bootstrapK8sNode_frame:
  assumes "bootstrapK8sNode A script st = (e, st')"
  shows "a_host st' = a_host st \<and> a_api st' = a_api st"
  using assms by (auto simp: bootstrapK8sNode_def Let_def split: prod.splits)

lemma clean_and_bootstrap_frame:
  assumes "clean_and_bootstrap A script st = (e, st')"
  shows "same_but_conditions (a_host st) (a_host st')"
  using assms
  by (auto simp: clean_and_bootstrap_def Let_def dest!: bootstrapK8sNode_frame resetNode_frame
      split: option.splits prod.splits)

lemma reconcileNormal_frame:
  assumes "reconcileNormal A st = (e, st')"
  shows "same_but_conditions (a_host st) (a_host st')"
proof -
  have ens: "same_but_conditions (a_host st) (a_host st1)" if "ensure_installed A (st\<lparr>a_api := w\<rparr>) = (r, st1)" for w r st1
    using ensure_installed_frame [OF that] by simp
  show ?thesis
    using assms
    by (auto simp: reconcileNormal_def dest!: ens
        intro: same_but_conditions_trans [OF _ clean_and_bootstrap_frame]
        split: if_splits option.splits prod.splits sum.splits unit.splits)
qed

lemma reset_if_installed_frame:
  assumes "reset_if_installed A st = (e, st')"
  shows "same_but_conditions (a_host st) (a_host st')"
  using assms
  by (auto simp: reset_if_installed_def dest!: resetNode_frame split: option.splits prod.splits if_splits)

lemma uninstall_if_set_frame:
  assumes "uninstall_if_set A st = (e, st')"
  shows "a_host st' = a_host st"
  using assms
  by (auto simp: uninstall_if_set_def Let_def dest!: run_cmd_eq split: option.splits prod.splits sum.splits if_splits)

lemma removeSentinelFile_frame:
  assumes "removeSentinelFile st = (e, st')"
  shows "a_host st' = a_host st \<and> a_api st' = a_api st \<and> a_trace st' = a_trace st"
  using assms by (auto simp: removeSentinelFile_def split: stat.splits option.splits prod.splits)

lemma deleteEndpointIP_frame:
  assumes "deleteEndpointIP A st = (e, st')"
  shows "a_host st' = a_host st \<and> a_api st' = a_api st \<and> a_trace st' = a_trace st"
  using assms by (auto simp: deleteEndpointIP_def Let_def split: option.splits prod.splits)

text \<open>An invariant of a chain of steps is one of each step.\<close>

lemma and_then_invariant:
  assumes "and_then r k = (e, s')" and "\<And>e1 s1. r = (e1, s1) \<Longrightarrow> P s1"
    and "\<And>s1 e2 s2. P s1 \<Longrightarrow> k s1 = (e2, s2) \<Longrightarrow> P s2"
  shows "P s'"
  using assms(1) by (rule and_then_cases) (use assms(2,3) in blast)+

lemma clean_host_frame:
  assumes "clean_host A st = (e, st')"
  shows "same_but_conditions (a_host st) (a_host st')"
  using assms unfolding clean_host_def
  by (elim and_then_invariant [where P = "\<lambda>st'. same_but_conditions (a_host st) (a_host st')"])
    (auto simp: mark_absent_def dest!: uninstall_if_set_frame removeSentinelFile_frame deleteEndpointIP_frame
      intro: reset_if_installed_frame)

text \<open>The host a completed cleanup leaves.\<close>

definition released :: "('w, 'z) agent_scheme \<Rightarrow> ByoHost \<Rightarrow> ByoHost" where
  "released A h = host_MarkFalse (libs A) K8sNodeBootstrapSucceeded K8sNodeAbsentReason SeverityInfo
     (removeAnnotations (h\<lparr>HostSpec := (HostSpec h)\<lparr>InstallationSecret := None\<rparr>\<rparr>))"

lemma hostCleanUp_cases:
  assumes "hostCleanUp A st = (e, st')"
  obtains (failed) err where "e = Some err" "clean_host A st = (Some err, st')"
      "same_but_conditions (a_host st) (a_host st')"
  | (finished) st1 where "e = None" "clean_host A st = (None, st1)" "same_but_conditions (a_host st) (a_host st1)"
      "a_host st' = released A (a_host st1)" "a_trace st' = a_trace st1" "a_api st' = a_api st1" "a_os st' = a_os st1"
  using assms unfolding hostCleanUp_def
  by (rule and_then_cases) (auto simp: mark_absent_def released_def dest: clean_host_frame)

section \<open>Conditions and commands\<close>

lemma host_Mark_conditions:
  assumes L: "conditions_contract L"
  shows "host_IsTrue L (host_MarkTrue L t h) t" "\<not> host_IsTrue L (host_MarkFalse L t r sv h) t"
    "t' \<noteq> t \<Longrightarrow> host_IsTrue L (host_MarkTrue L t h) t' = host_IsTrue L h t'"
    "t' \<noteq> t \<Longrightarrow> host_IsTrue L (host_MarkFalse L t r sv h) t' = host_IsTrue L h t'"
  using host_cond.MarkTrue_IsTrue [OF L] host_cond.MarkFalse_reason [OF L]
    host_cond.MarkTrue_other [OF L] host_cond.MarkFalse_other [OF L] by auto

lemma reset_if_installed_effect:
  assumes L: "conditions_contract (libs A)" and eq: "reset_if_installed A st = (e, st')"
  shows "a_trace st' = a_trace st @
      (if host_IsTrue (libs A) (a_host st) K8sComponentsInstallationSucceeded then [Run KubeadmResetCommand] else [])"
    and "e = None \<Longrightarrow> \<not> host_IsTrue (libs A) (a_host st') K8sComponentsInstallationSucceeded"
    and "e \<noteq> None \<Longrightarrow> a_host st' = a_host st"
  using eq
  by (auto simp: reset_if_installed_def cnd_IsTrue_iff [OF L] host_Mark_conditions(2) [OF L, unfolded cnd_IsTrue_iff [OF L], simplified]
      dest!: resetNode_frame split: option.splits if_splits prod.splits)

lemma uninstall_if_set_effect:
  assumes "uninstall_if_set A st = (e, st')"
  shows "\<exists>scripts. a_trace st' = a_trace st @ map Run scripts \<and> length scripts \<le> 1 \<and>
    (SkipK8sInstallation A \<or> UninstallationSecret (HostSpec (a_host st)) = None \<longrightarrow> scripts = [])"
proof -
  consider "a_trace st' = a_trace st"
    | s where "a_trace st' = a_trace st @ [Run s]" "\<not> SkipK8sInstallation A"
        "UninstallationSecret (HostSpec (a_host st)) \<noteq> None"
    using assms
    by (auto simp: uninstall_if_set_def Let_def dest!: run_cmd_eq split: option.splits prod.splits sum.splits if_splits)
  then show ?thesis
  proof cases
    case 1
    then show ?thesis by (intro exI [of _ "[]"]) simp
  next
    case (2 s)
    then show ?thesis by (intro exI [of _ "[s]"]) simp
  qed
qed

lemma clean_host_effect:
  assumes L: "conditions_contract (libs A)" and eq: "clean_host A st = (e, st')"
  shows "\<exists>scripts. a_trace st' = a_trace st @
      (if host_IsTrue (libs A) (a_host st) K8sComponentsInstallationSucceeded then [Run KubeadmResetCommand] else []) @
      map Run scripts \<and> length scripts \<le> 1 \<and>
    (SkipK8sInstallation A \<or> UninstallationSecret (HostSpec (a_host st)) = None \<longrightarrow> scripts = []) \<and>
    (host_IsTrue (libs A) (a_host st') K8sComponentsInstallationSucceeded \<longrightarrow>
       host_IsTrue (libs A) (a_host st) K8sComponentsInstallationSucceeded \<and> e \<noteq> None \<and> scripts = [])"
proof -
  let ?inst = K8sComponentsInstallationSucceeded
  obtain e1 st1 where 1: "reset_if_installed A st = (e1, st1)" by fastforce
  note r = reset_if_installed_effect [OF L 1] and f = same_but_conditionsD(1) [OF reset_if_installed_frame [OF 1]]
  show ?thesis
  proof (cases e1)
    case (Some err)
    then have "e = Some err" "st' = st1" using eq 1 by (auto simp: clean_host_def and_then_def)
    then show ?thesis using r(1) r(3) Some by (intro exI [of _ "[]"]) auto
  next
    case None
    obtain e2 st2 where 2: "uninstall_if_set A st1 = (e2, st2)" by fastforce
    obtain scripts where sc: "a_trace st2 = a_trace st1 @ map Run scripts" "length scripts \<le> 1"
        "SkipK8sInstallation A \<or> UninstallationSecret (HostSpec (a_host st)) = None \<longrightarrow> scripts = []"
      using uninstall_if_set_effect [OF 2] f by auto
    have "a_trace st' = a_trace st2 \<and> (a_host st' = a_host st2 \<or> a_host st' = a_host (mark_absent A st2))"
      using eq 1 2 None
      by (auto simp: clean_host_def and_then_def mark_absent_def dest!: removeSentinelFile_frame deleteEndpointIP_frame
          split: option.splits prod.splits)
    moreover have "\<not> host_IsTrue (libs A) (a_host st2) ?inst"
      using r(2) [OF None] uninstall_if_set_frame [OF 2] by simp
    ultimately show ?thesis
      using r(1) sc host_Mark_conditions(4) [OF L, of ?inst K8sNodeBootstrapSucceeded]
      by (intro exI [of _ scripts]) (auto simp: mark_absent_def)
  qed
qed

lemma executeInstaller_ok:
  assumes "executeInstallerController A st = (None, st')"
  shows "a_host st' = a_host st" "\<exists>script. a_trace st' = a_trace st @ [Run script]"
  using assms
  by (auto simp: executeInstallerController_def Let_def dest!: run_cmd_eq
      split: option.splits prod.splits sum.splits)

lemma ensure_installed_ok:
  assumes L: "conditions_contract (libs A)" and eq: "ensure_installed A st = (Inr (), st')"
  shows "SkipK8sInstallation A \<or> host_IsTrue (libs A) (a_host st') K8sComponentsInstallationSucceeded"
    and "\<exists>scripts. a_trace st' = a_trace st @ map Run scripts \<and> length scripts \<le> 1"
    and "host_IsTrue (libs A) (a_host st') K8sNodeBootstrapSucceeded = host_IsTrue (libs A) (a_host st) K8sNodeBootstrapSucceeded"
proof -
  let ?inst = K8sComponentsInstallationSucceeded
  consider (same) "st' = st" "SkipK8sInstallation A \<or> host_IsTrue (libs A) (a_host st) ?inst"
    | (ran) st1 where "executeInstallerController A st = (None, st1)" "a_trace st' = a_trace st1"
        "a_host st' = host_MarkTrue (libs A) ?inst (a_host st1)"
    using eq by (auto simp: ensure_installed_def split: if_splits prod.splits option.splits)
  then have "(SkipK8sInstallation A \<or> host_IsTrue (libs A) (a_host st') ?inst) \<and>
      (\<exists>scripts. a_trace st' = a_trace st @ map Run scripts \<and> length scripts \<le> 1) \<and>
      host_IsTrue (libs A) (a_host st') K8sNodeBootstrapSucceeded = host_IsTrue (libs A) (a_host st) K8sNodeBootstrapSucceeded"
  proof cases
    case same
    then show ?thesis by (auto intro: exI [of _ "[]"])
  next
    case (ran st1)
    then obtain script where "a_trace st' = a_trace st @ map Run [script]" using executeInstaller_ok [OF ran(1)] by auto
    then show ?thesis
      using ran executeInstaller_ok(1) [OF ran(1)] host_Mark_conditions(1,3) [OF L] by (fastforce intro: exI [of _ "[script]"])
  qed
  then show "SkipK8sInstallation A \<or> host_IsTrue (libs A) (a_host st') ?inst"
    "\<exists>scripts. a_trace st' = a_trace st @ map Run scripts \<and> length scripts \<le> 1"
    "host_IsTrue (libs A) (a_host st') K8sNodeBootstrapSucceeded = host_IsTrue (libs A) (a_host st) K8sNodeBootstrapSucceeded"
    by blast+
qed

lemma clean_and_bootstrap_effect:
  assumes L: "conditions_contract (libs A)" and eq: "clean_and_bootstrap A script st = (e, st')"
  shows "host_IsTrue (libs A) (a_host st') K8sNodeBootstrapSucceeded \<longleftrightarrow> e = None"
    and "host_IsTrue (libs A) (a_host st') K8sComponentsInstallationSucceeded =
         host_IsTrue (libs A) (a_host st) K8sComponentsInstallationSucceeded"
    and "e = None \<Longrightarrow> \<exists>s s' tr. Execute (Executors A) (Unmarshal A) (GunzipData (GzipError A)) script s = (None, s', tr) \<and>
      a_trace st' = a_trace st @ tr"
proof -
  let ?boot = K8sNodeBootstrapSucceeded and ?inst = K8sComponentsInstallationSucceeded
  obtain e1 s1 where 1: "cleank8sdirectories (a_os st) = (e1, s1)" by fastforce
  obtain e2 s2 tr where 2: "Execute (Executors A) (Unmarshal A) (GunzipData (GzipError A)) script s1 = (e2, s2, tr)" by (rule prod_cases3)
  note mark = host_Mark_conditions [OF L]
  have *: "(host_IsTrue (libs A) (a_host st') ?boot \<longleftrightarrow> e = None) \<and>
      host_IsTrue (libs A) (a_host st') ?inst = host_IsTrue (libs A) (a_host st) ?inst \<and>
      (e = None \<longrightarrow> e2 = None \<and> a_trace st' = a_trace st @ tr)"
    using eq 1 2
    by (cases e1; cases e2)
      (auto simp: clean_and_bootstrap_def bootstrapK8sNode_def Let_def mark dest!: resetNode_frame split: prod.splits)
  then show "host_IsTrue (libs A) (a_host st') ?boot \<longleftrightarrow> e = None"
    "host_IsTrue (libs A) (a_host st') ?inst = host_IsTrue (libs A) (a_host st) ?inst" by blast+
  show "\<exists>s s' tr. Execute (Executors A) (Unmarshal A) (GunzipData (GzipError A)) script s = (None, s', tr) \<and> a_trace st' = a_trace st @ tr"
    if "e = None" using * 2 that by blast
qed

section \<open>An example\<close>

definition ref_agent :: "'x ref_world_scheme agent" where
  "ref_agent = client.extend ref_client (agent.fields False ''/var/lib/byoh/bundles'' os_executors
     (\<lambda>_. Inr ex_script) (\<lambda>_. ErrorString ''gzip: invalid header'') (\<lambda>_ s. Inr s) ''eth0'' (\<lambda>_ _ _. None) (\<lambda>_ s. (None, s)))"

lemmas ref_agent_defs = ref_agent_def ref_client_def client.defs agent.defs

lemma libs_ref_agent [simp]: "libs ref_agent = ref_lib"
  by (simp add: ref_agent_defs)

definition secret_of :: "string \<Rightarrow> (string \<times> string) list \<Rightarrow> Secret" where
  "secret_of name kvs = ObjectMeta.extend (new_meta ''Secret'' ''default'' name) (Secret.fields [] (map_of kvs))"

definition ref_to :: "string \<Rightarrow> ObjectReference" where
  "ref_to name = empty_ref\<lparr>ref_Namespace := ''default'', ref_Name := name\<rparr>"

definition reserved_example :: ByoHost where
  "reserved_example = (new_host ''default'' ''host1'')
     \<lparr>HostStatus := (HostStatus (new_host ''default'' ''host1''))\<lparr>MachineRef := Some (ref_to ''m1'')\<rparr>,
      HostSpec := \<lparr>BootstrapSecret = Some (ref_to ''boot''), InstallationSecret = Some (ref_to ''byoh-install-m1''),
                   UninstallationSecret = Some (ref_to ''byoh-uninstall-m1'')\<rparr>,
      Labels := [ClusterNameLabel \<mapsto> ''c1'', AttachedByoMachineLabel \<mapsto> ''default.m1'']\<rparr>"

definition agent_world :: "ByoHost \<Rightarrow> ref_world" where
  "agent_world h = \<lparr>rw_hosts = [h], rw_machines = [],
     rw_secrets = [secret_of ''boot'' [(''value'', ''#cloud-config'')],
                   secret_of ''byoh-install-m1'' [(''install'', ''install.sh'')],
                   secret_of ''byoh-uninstall-m1'' [(''uninstall'', ''uninstall.sh'')]],
     rw_clusters = []\<rparr>"

definition agent_state :: "ByoHost \<Rightarrow> ref_world astate" where
  "agent_state h = \<lparr>a_host = h, a_api = agent_world h, a_os = ex_os, a_events = [], a_trace = []\<rparr>"

definition bootstrapped_example :: ByoHost where
  "bootstrapped_example = (host_MarkTrue ref_lib K8sComponentsInstallationSucceeded
     (host_MarkTrue ref_lib K8sNodeBootstrapSucceeded reserved_example))\<lparr>Annotations := [HostCleanupAnnotation \<mapsto> []]\<rparr>"

lemma ex_bootstrap:
  "fst (reconcileNormal ref_agent (agent_state reserved_example)) = None"
  "commands_run (a_trace (snd (reconcileNormal ref_agent (agent_state reserved_example)))) = [''install.sh'', ''kubeadm join'']"
  by code_simp+

lemma ex_cleanup:
  "fst (hostCleanUp ref_agent (agent_state bootstrapped_example)) = None"
  "commands_run (a_trace (snd (hostCleanUp ref_agent (agent_state bootstrapped_example)))) =
     [''kubeadm reset --force'', ''uninstall.sh'']"
  by code_simp+

section \<open>Properties\<close>

text \<open>
  C21. A cleanup that succeeds gives the host back: it has no machine reference, no bootstrap and
  no installation secret, neither the cluster label nor the machine label, none of the four
  annotations of the reservation, and both conditions are not true, the bootstrap condition with
  the reason that there is no node.  Its key and its uninstallation secret, which the manager
  removes, are as before.
\<close>

theorem hostCleanUp_releases:
  assumes "conditions_contract (libs A)" and "hostCleanUp A st = (None, st')"
  shows "MachineRef (HostStatus (a_host st')) = None \<and>
    HostSpec (a_host st') = \<lparr>BootstrapSecret = None, InstallationSecret = None,
      UninstallationSecret = UninstallationSecret (HostSpec (a_host st))\<rparr> \<and>
    Labels (a_host st') = (Labels (a_host st))(ClusterNameLabel := None, AttachedByoMachineLabel := None) \<and>
    Annotations (a_host st') = (Annotations (a_host st))(EndPointIPAnnotation := None, HostCleanupAnnotation := None,
      K8sVersionAnnotation := None, BundleLookupBaseRegistryAnnotation := None) \<and>
    \<not> host_IsTrue (libs A) (a_host st') K8sComponentsInstallationSucceeded \<and>
    \<not> host_IsTrue (libs A) (a_host st') K8sNodeBootstrapSucceeded \<and>
    cnd_GetReason (libs A) (host_GetConditions (a_host st')) K8sNodeBootstrapSucceeded = K8sNodeAbsentReason \<and>
    obj_key (a_host st') = obj_key (a_host st)"
  using assms(2)
proof (cases rule: hostCleanUp_cases)
  case (finished st1)
  note f = same_but_conditionsD [OF finished(3)]
  have "\<not> host_IsTrue (libs A) (a_host st1) K8sComponentsInstallationSucceeded"
    using clean_host_effect [OF assms(1) finished(2)] by auto
  moreover have "host_GetConditions (removeAnnotations (h\<lparr>HostSpec := x\<rparr>)) = host_GetConditions h" for h x
    by (simp add: removeAnnotations_def host_GetConditions_def)
  ultimately show ?thesis
    using finished(4) f host_Mark_conditions [OF assms(1)] host_cond.MarkFalse_reason [OF assms(1)]
    by (simp add: released_def) (simp add: removeAnnotations_def obj_key_def)
qed simp

theorem hostCleanUp_releases_witness:
  "MachineRef (HostStatus (a_host (snd (hostCleanUp ref_agent (agent_state bootstrapped_example))))) = None"
  using hostCleanUp_releases [of ref_agent "agent_state bootstrapped_example" "snd (hostCleanUp ref_agent (agent_state bootstrapped_example))"]
    ex_cleanup(1) ref_lib_contracts(1) by (metis libs_ref_agent prod.collapse)

text \<open>
  A cleanup that fails leaves the reservation and the cleanup mark as they were: only the
  conditions of the host may have changed, so the next reconciliation tries the cleanup again.
\<close>

theorem hostCleanUp_failure_keeps_reservation:
  assumes "hostCleanUp A st = (Some err, st')"
  shows "MachineRef (HostStatus (a_host st')) = MachineRef (HostStatus (a_host st)) \<and>
    HostSpec (a_host st') = HostSpec (a_host st) \<and> Labels (a_host st') = Labels (a_host st) \<and>
    Annotations (a_host st') = Annotations (a_host st) \<and> obj_key (a_host st') = obj_key (a_host st)"
  using assms by (cases rule: hostCleanUp_cases) (auto dest: same_but_conditionsD)

theorem hostCleanUp_failure_keeps_reservation_witness:
  "MachineRef (HostStatus (a_host (snd (hostCleanUp ref_agent
     ((agent_state bootstrapped_example)\<lparr>a_api := (agent_world bootstrapped_example)\<lparr>rw_secrets := []\<rparr>\<rparr>))))) =
   Some (ref_to ''m1'')"
proof -
  let ?st = "(agent_state bootstrapped_example)\<lparr>a_api := (agent_world bootstrapped_example)\<lparr>rw_secrets := []\<rparr>\<rparr>"
  have "fst (hostCleanUp ref_agent ?st) = Some (NotFound ''byoh-uninstall-m1'')" by code_simp
  then have "hostCleanUp ref_agent ?st = (Some (NotFound ''byoh-uninstall-m1''), snd (hostCleanUp ref_agent ?st))"
    by (metis prod.collapse)
  from hostCleanUp_failure_keeps_reservation [OF this] show ?thesis
    by (simp add: agent_state_def bootstrapped_example_def reserved_example_def)
qed

text \<open>
  The commands of a cleanup: \<open>kubeadm reset\<close> first, exactly when the components are marked
  installed, then at most one uninstall script, and that only when there is an uninstallation
  secret and installation is not skipped.  Once the reset has succeeded the host is no longer
  marked installed, whatever happens afterwards, so a retry does not reset again.
\<close>

theorem hostCleanUp_commands:
  assumes "conditions_contract (libs A)" and "hostCleanUp A st = (e, st')"
  shows "\<exists>scripts. a_trace st' = a_trace st @
      (if host_IsTrue (libs A) (a_host st) K8sComponentsInstallationSucceeded then [Run KubeadmResetCommand] else []) @
      map Run scripts \<and> length scripts \<le> 1 \<and>
    (SkipK8sInstallation A \<or> UninstallationSecret (HostSpec (a_host st)) = None \<longrightarrow> scripts = []) \<and>
    (host_IsTrue (libs A) (a_host st') K8sComponentsInstallationSucceeded \<longrightarrow> e \<noteq> None \<and> scripts = [])"
  using assms(2)
proof (cases rule: hostCleanUp_cases)
  case (failed err)
  from clean_host_effect [OF assms(1) failed(2)] show ?thesis
    using failed(1) by (elim exE, intro exI) auto
next
  case (finished st1)
  have "host_GetConditions (removeAnnotations (h\<lparr>HostSpec := x\<rparr>)) = host_GetConditions h" for h x
    by (simp add: removeAnnotations_def host_GetConditions_def)
  then have "host_IsTrue (libs A) (a_host st') K8sComponentsInstallationSucceeded =
      host_IsTrue (libs A) (a_host st1) K8sComponentsInstallationSucceeded"
    using finished(4) host_Mark_conditions(4) [OF assms(1)] by (simp add: released_def)
  with clean_host_effect [OF assms(1) finished(2)] show ?thesis
    using finished(1,5) by (elim exE, intro exI) auto
qed

theorem hostCleanUp_commands_witness:
  "\<exists>scripts. a_trace (snd (hostCleanUp ref_agent (agent_state bootstrapped_example))) =
     [Run KubeadmResetCommand] @ map Run scripts \<and> length scripts \<le> 1"
proof -
  have "host_IsTrue ref_lib (a_host (agent_state bootstrapped_example)) K8sComponentsInstallationSucceeded"
    "a_trace (agent_state bootstrapped_example) = []" by code_simp+
  then show ?thesis
    using hostCleanUp_commands [of ref_agent "agent_state bootstrapped_example",
        OF _ prod.collapse [symmetric]] ref_lib_contracts(1)
    by fastforce
qed



text \<open>
  The agent touches neither the host's operating system nor the API for a host that is not
  reserved or has no bootstrap data; it only records why it waits.
\<close>

theorem reconcileNormal_waits:
  assumes "MachineRef (HostStatus (a_host st)) = None \<or> BootstrapSecret (HostSpec (a_host st)) = None"
  shows "\<exists>reason. reconcileNormal A st =
      (None, upd_host (host_MarkFalse (libs A) K8sNodeBootstrapSucceeded reason SeverityInfo) st) \<and>
    reason \<in> {WaitingForMachineRefReason, BootstrapDataSecretUnavailableReason}"
  using assms by (auto simp: reconcileNormal_def)

theorem reconcileNormal_waits_witness:
  "\<exists>reason. reconcileNormal ref_agent (agent_state (new_host ''default'' ''host1'')) =
     (None, upd_host (host_MarkFalse ref_lib K8sNodeBootstrapSucceeded reason SeverityInfo)
        (agent_state (new_host ''default'' ''host1'')))"
  using reconcileNormal_waits [of "agent_state (new_host ''default'' ''host1'')" ref_agent]
  by (auto simp: agent_state_def new_object_defs)

text \<open>
  With installation skipped the agent never runs \<open>kubeadm reset\<close> on the node it bootstrapped:
  no reconciliation marks the components installed, and the cleanup of a host on which they are
  not marked installed runs no command at all, although the reservation is given back.
\<close>

theorem skip_installation_never_resets:
  assumes "conditions_contract (libs A)" and "SkipK8sInstallation A"
    and "\<not> host_IsTrue (libs A) (a_host st) K8sComponentsInstallationSucceeded"
    and "reconcile_host A st = (e, st')"
  shows "\<not> host_IsTrue (libs A) (a_host st') K8sComponentsInstallationSucceeded \<and>
    (Annotations (a_host st) HostCleanupAnnotation \<noteq> None \<longrightarrow> a_trace st' = a_trace st)"
proof (cases "Annotations (a_host st) HostCleanupAnnotation = None")
  case True
  note L = assms(1)
  have "\<not> host_IsTrue (libs A) (a_host st') K8sComponentsInstallationSucceeded"
    if "reconcileNormal A st = (e, st')"
    using that assms(2,3)
    by (auto simp: reconcileNormal_def ensure_installed_def host_Mark_conditions(4) [OF L]
        clean_and_bootstrap_effect(2) [OF L]
        split: if_splits option.splits prod.splits sum.splits)
  then show ?thesis
    using assms(3,4) True by (auto simp: reconcile_host_def reconcileDelete_def split: if_splits)
next
  case False
  then have h: "hostCleanUp A st = (e, st')" using assms(4) by (simp add: reconcile_host_def)
  then show ?thesis
  proof (cases rule: hostCleanUp_cases)
    case (failed err)
    then show ?thesis using clean_host_effect [OF assms(1) failed(2)] assms(2,3) by auto
  next
    case (finished st1)
    have "host_GetConditions (removeAnnotations (h\<lparr>HostSpec := x\<rparr>)) = host_GetConditions h" for h x
      by (simp add: removeAnnotations_def host_GetConditions_def)
    then show ?thesis
      using clean_host_effect [OF assms(1) finished(2)] assms(2,3) finished host_Mark_conditions(4) [OF assms(1)]
      by (auto simp: released_def)
  qed
qed

definition skipped_example :: ByoHost where
  "skipped_example = (host_MarkTrue ref_lib K8sNodeBootstrapSucceeded reserved_example)
     \<lparr>Annotations := [HostCleanupAnnotation \<mapsto> []]\<rparr>"

theorem skip_installation_never_resets_witness:
  "a_trace (snd (reconcile_host (ref_agent\<lparr>SkipK8sInstallation := True\<rparr>) (agent_state skipped_example))) = []"
proof -
  let ?A = "ref_agent\<lparr>SkipK8sInstallation := True\<rparr> :: ref_world agent"
  have L: "libs ?A = ref_lib" by (simp add: ref_agent_defs)
  have "\<not> host_IsTrue ref_lib (a_host (agent_state skipped_example)) K8sComponentsInstallationSucceeded" by code_simp
  then show ?thesis
    using skip_installation_never_resets [of ?A "agent_state skipped_example", OF _ _ _ prod.collapse [symmetric]]
      ref_lib_contracts(1) L
    by (simp add: agent_state_def skipped_example_def)
qed

text \<open>The two kinds of write the agent makes to its host.\<close>

definition agent_writes :: "('w, 'z) agent_scheme \<Rightarrow> ByoHost \<Rightarrow> ByoHost \<Rightarrow> bool" where
  "agent_writes A b a \<longleftrightarrow>
     same_but_conditions b a \<or>
     (Annotations b HostCleanupAnnotation \<noteq> None \<and> (\<exists>h. same_but_conditions b h \<and> a = released A h))"

lemma reconcile_host_writes:
  assumes "reconcile_host A st = (e, st')"
  shows "agent_writes A (a_host st) (a_host st')"
proof (cases "Annotations (a_host st) HostCleanupAnnotation = None")
  case True
  then show ?thesis
    using assms reconcileNormal_frame
    by (auto simp: reconcile_host_def reconcileDelete_def agent_writes_def split: if_splits)
next
  case False
  then have "hostCleanUp A st = (e, st')" using assms by (simp add: reconcile_host_def)
  then show ?thesis by (cases rule: hostCleanUp_cases) (use False in \<open>auto simp: agent_writes_def\<close>)
qed

text \<open>
  A reconciliation of the agent writes its host once, at the end, and on every path: either
  only the conditions differ from what it read, or the host was marked for cleanup and the write
  releases it.  The error returned is the body's, or else the patch's.
\<close>

theorem Reconcile_patches_once:
  assumes "getByoHost A req w = (Inr byoHost, w1)" and "helperByoHost A byoHost = None"
  shows "\<exists>st err perr w2. agent_writes A byoHost (a_host st) \<and>
    reconcile_host A \<lparr>a_host = byoHost, a_api = w1, a_os = s, a_events = [], a_trace = []\<rparr> = (err, st) \<and>
    patchByoHost A byoHost (a_host st) (a_api st) = (perr, w2) \<and>
    Reconcile A req w s = (Return (no_requeue, defer_error err perr), w2, a_os st, a_events st, a_trace st)"
proof -
  obtain err st where 1: "reconcile_host A \<lparr>a_host = byoHost, a_api = w1, a_os = s, a_events = [], a_trace = []\<rparr> = (err, st)"
    by fastforce
  obtain perr w2 where 2: "patchByoHost A byoHost (a_host st) (a_api st) = (perr, w2)" by fastforce
  show ?thesis
    using assms 1 2 reconcile_host_writes [OF 1]
    by (intro exI [of _ st] exI [of _ err] exI [of _ perr] exI [of _ w2]) (simp add: Reconcile_def Let_def)
qed

theorem Reconcile_patches_once_witness:
  "\<exists>st err perr w2. agent_writes (ref_agent :: ref_world agent) bootstrapped_example (a_host st) \<and>
     Reconcile ref_agent (''default'', ''host1'') (agent_world bootstrapped_example) ex_os =
       (Return (no_requeue, defer_error err perr), w2, a_os (st :: ref_world astate), a_events st, a_trace st)"
proof -
  let ?w = "agent_world bootstrapped_example"
  have "getByoHost ref_agent (''default'', ''host1'') ?w = (Inr bootstrapped_example, ?w)"
    by (simp add: ref_agent_defs agent_world_def store_get_def bootstrapped_example_def reserved_example_def
        new_object_defs obj_key_def MarkTrue_def host_SetConditions_def)
  moreover have "helperByoHost (ref_agent :: ref_world agent) bootstrapped_example = None" by (simp add: ref_agent_defs)
  ultimately show ?thesis using Reconcile_patches_once [of ref_agent _ ?w bootstrapped_example ?w ex_os] by blast
qed

end
