(* ===== verification/ByoHost_Ctl.thy ===== *)
theory ByoHost_Ctl
  imports Reference_Client
begin

text \<open>
  The ByoHost controller of the manager (\<open>controllers/infrastructure/byohost_controller.go\<close>).  It
  deletes the uninstallation secret of a host that has been cleaned up, and clears the host's
  reference to it.
\<close>

definition cleaned_up :: "ByoHost \<Rightarrow> bool" where
  "cleaned_up byoHost \<longleftrightarrow> UninstallationSecret (HostSpec byoHost) \<noteq> None \<and>
     MachineRef (HostStatus byoHost) = None \<and> Annotations byoHost HostCleanupAnnotation = None"

definition clear_uninstallation :: "ByoHost \<Rightarrow> ByoHost" where
  "clear_uninstallation byoHost = byoHost\<lparr>HostSpec := (HostSpec byoHost)\<lparr>UninstallationSecret := None\<rparr>\<rparr>"

text \<open>The secret is gone, or was not there: \<open>Inl\<close> is the error to return.\<close>

definition delete_uninstallation_secret ::
  "('w, 'z) client_scheme \<Rightarrow> ObjectReference \<Rightarrow> 'w \<Rightarrow> error option \<times> 'w" where
  "delete_uninstallation_secret C ref w =
     (case getSecret C (ref_key ref) w of
        (Inl err, w1) \<Rightarrow> (if IsNotFound err then None else Some err, w1)
      | (Inr secret, w1) \<Rightarrow>
          (case deleteSecret C secret w1 of
             (None, w2) \<Rightarrow> (None, w2)
           | (Some delErr, w2) \<Rightarrow>
               (if IsNotFound delErr then None
                else Some (Wrapped (''failed to delete uninstallation secret '' @ Name secret) delErr), w2)))"

definition Reconcile ::
  "('w, 'z) client_scheme \<Rightarrow> key \<Rightarrow> 'w \<Rightarrow> (Result \<times> error option) \<times> 'w" where
  "Reconcile C req w =
     (case getByoHost C req w of
        (Inl err, w1) \<Rightarrow> ((no_requeue, if IsNotFound err then None else Some err), w1)
      | (Inr byoHost, w1) \<Rightarrow>
          (case UninstallationSecret (HostSpec byoHost) of
             None \<Rightarrow> ((no_requeue, None), w1)
           | Some ref \<Rightarrow>
               if MachineRef (HostStatus byoHost) = None \<and> Annotations byoHost HostCleanupAnnotation = None then
                 (case delete_uninstallation_secret C ref w1 of
                    (Some err, w2) \<Rightarrow> ((no_requeue, Some err), w2)
                  | (None, w2) \<Rightarrow>
                      (case helperByoHost C byoHost of
                         Some patchErr \<Rightarrow> ((no_requeue, Some patchErr), w2)
                       | None \<Rightarrow>
                           (case patchByoHost C byoHost (clear_uninstallation byoHost) w2 of
                              (Some patchErr, w3) \<Rightarrow>
                                ((no_requeue,
                                  Some (Wrapped ''failed to clear uninstallationSecret reference on ByoHost'' patchErr)), w3)
                            | (None, w3) \<Rightarrow> ((no_requeue, None), w3))))
               else ((no_requeue, None), w1)))"

section \<open>Properties\<close>

text \<open>\<open>absent C k w\<close>: at this moment no secret has the key \<open>k\<close>.\<close>

definition secret_store :: "('w, 'z) client_scheme \<Rightarrow> ('w \<Rightarrow> key \<Rightarrow> bool) \<Rightarrow> bool" where
  "secret_store C absent \<longleftrightarrow>
     (\<forall>k w err w'. getSecret C k w = (Inl err, w') \<longrightarrow> IsNotFound err \<longrightarrow> absent w' k) \<and>
     (\<forall>k w s w'. getSecret C k w = (Inr s, w') \<longrightarrow> obj_key s = k) \<and>
     (\<forall>s w w'. deleteSecret C s w = (None, w') \<longrightarrow> absent w' (obj_key s)) \<and>
     (\<forall>s w err w'. deleteSecret C s w = (Some err, w') \<longrightarrow> IsNotFound err \<longrightarrow> absent w' (obj_key s)) \<and>
     (\<forall>b a w e w' k. patchByoHost C b a w = (e, w') \<longrightarrow> absent w k \<longrightarrow> absent w' k)"

lemma secret_storeD:
  assumes "secret_store C absent"
  shows "getSecret C k w = (Inl err, w') \<Longrightarrow> IsNotFound err \<Longrightarrow> absent w' k"
    and "getSecret C k w = (Inr s, w') \<Longrightarrow> obj_key s = k"
    and "deleteSecret C s w = (e, w') \<Longrightarrow> e = None \<or> e = Some err \<and> IsNotFound err \<Longrightarrow> absent w' (obj_key s)"
  using assms unfolding secret_store_def by metis+

lemma delete_uninstallation_secret_absent:
  assumes S: "secret_store C absent" and eq: "delete_uninstallation_secret C ref w = (None, w')"
  shows "absent w' (ref_key ref)"
proof (cases "getSecret C (ref_key ref) w")
  case (Pair r w1)
  show ?thesis
  proof (cases r)
    case (Inl err)
    then show ?thesis
      using eq Pair secret_storeD(1) [OF S] by (auto simp: delete_uninstallation_secret_def split: if_splits)
  next
    case (Inr secret)
    obtain e w2 where d: "deleteSecret C secret w1 = (e, w2)" by fastforce
    have "obj_key secret = ref_key ref" using secret_storeD(2) [OF S] Pair Inr by simp
    then show ?thesis
      using eq Pair Inr d secret_storeD(3) [OF S d]
      by (auto simp: delete_uninstallation_secret_def split: if_splits option.splits)
  qed
qed

text \<open>
  C30. A reconciliation that has something to do and returns no error leaves neither the secret nor
  the reference: the uninstallation secret is absent and the patch that clears the reference
  succeeded.  A secret that someone else has deleted in the meantime is no error.
\<close>

theorem Reconcile_removes_secret:
  assumes "secret_store C absent" and "getByoHost C req w = (Inr byoHost, w1)" and "cleaned_up byoHost"
    and "UninstallationSecret (HostSpec byoHost) = Some ref" and "Reconcile C req w = ((res, None), w')"
  shows "absent w' (ref_key ref) \<and> (\<exists>w2. patchByoHost C byoHost (clear_uninstallation byoHost) w2 = (None, w')) \<and>
    res = no_requeue"
proof -
  obtain e w2 where d: "delete_uninstallation_secret C ref w1 = (e, w2)" by fastforce
  have "e = None" and p: "patchByoHost C byoHost (clear_uninstallation byoHost) w2 = (None, w')" and "res = no_requeue"
    using assms(2-5) d by (auto simp: Reconcile_def cleaned_up_def split: option.splits prod.splits)
  then have "absent w2 (ref_key ref)" using delete_uninstallation_secret_absent [OF assms(1)] d by simp
  then show ?thesis using p \<open>res = no_requeue\<close> assms(1) unfolding secret_store_def by metis
qed

text \<open>
  A host that is reserved, or still marked for cleanup, or has no uninstallation secret is
  left alone: nothing is deleted and nothing is written, so the secret is there for the agent's
  uninstall script until the agent has finished.
\<close>

theorem Reconcile_leaves_uncleaned:
  assumes "getByoHost C req w = (Inr byoHost, w1)" and "\<not> cleaned_up byoHost"
  shows "Reconcile C req w = ((no_requeue, None), w1)"
  using assms by (auto simp: Reconcile_def cleaned_up_def split: option.splits)

definition ex_host_world :: "ByoHost \<Rightarrow> ref_world" where
  "ex_host_world h = \<lparr>rw_hosts = [h], rw_machines = [],
     rw_secrets = [ObjectMeta.extend (new_meta ''Secret'' ''default'' ''byoh-uninstall-m1'') (Secret.fields [] Map.empty)],
     rw_clusters = []\<rparr>"

definition ex_cleaned_host :: ByoHost where
  "ex_cleaned_host = (new_host ''default'' ''host1'')\<lparr>HostSpec := \<lparr>BootstrapSecret = None, InstallationSecret = None,
     UninstallationSecret = Some (empty_ref\<lparr>ref_Namespace := ''default'', ref_Name := ''byoh-uninstall-m1''\<rparr>)\<rparr>\<rparr>"

definition ref_absent :: "'x ref_world_scheme \<Rightarrow> key \<Rightarrow> bool" where
  "ref_absent w k = (\<not> store_has (rw_secrets w) k)"

lemma ref_client_secret_store: "secret_store ref_client ref_absent"
  by (auto simp: secret_store_def ref_client_def ref_absent_def store_get_def store_has_def store_del_def
      store_put_def Let_def list_ex_iff find_None_iff_all dest: find_Some_in_set
      split: option.splits if_splits)

theorem Reconcile_removes_secret_witness:
  "ref_absent (snd (Reconcile ref_client (''default'', ''host1'') (ex_host_world ex_cleaned_host)))
     (''default'', ''byoh-uninstall-m1'')"
proof -
  let ?out = "Reconcile ref_client (''default'', ''host1'') (ex_host_world ex_cleaned_host)"
  let ?ref = "empty_ref\<lparr>ref_Namespace := ''default'', ref_Name := ''byoh-uninstall-m1''\<rparr>"
  have "fst ?out = (no_requeue, None)" by code_simp
  then have out: "?out = ((no_requeue, None), snd ?out)" by (metis prod.collapse)
  have h: "getByoHost ref_client (''default'', ''host1'') (ex_host_world ex_cleaned_host) =
      (Inr ex_cleaned_host, ex_host_world ex_cleaned_host)"
    by (simp add: ref_client_def ex_host_world_def ex_cleaned_host_def store_get_def obj_key_def new_object_defs)
  have "cleaned_up ex_cleaned_host" "UninstallationSecret (HostSpec ex_cleaned_host) = Some ?ref"
    by (simp_all add: cleaned_up_def ex_cleaned_host_def new_object_defs)
  from Reconcile_removes_secret [OF ref_client_secret_store h this out] show ?thesis
    by (simp add: ref_key_def empty_ref_def)
qed

theorem Reconcile_leaves_uncleaned_witness:
  "Reconcile ref_client (''default'', ''host1'') (ex_host_world (new_host ''default'' ''host1'')) =
     ((no_requeue, None), ex_host_world (new_host ''default'' ''host1''))"
proof -
  have "getByoHost ref_client (''default'', ''host1'') (ex_host_world (new_host ''default'' ''host1'')) =
      (Inr (new_host ''default'' ''host1''), ex_host_world (new_host ''default'' ''host1''))"
    by (simp add: ref_client_def ex_host_world_def store_get_def obj_key_def new_object_defs)
  moreover have "\<not> cleaned_up (new_host ''default'' ''host1'')" by (simp add: cleaned_up_def new_object_defs)
  ultimately show ?thesis by (rule Reconcile_leaves_uncleaned)
qed

end
