(* ===== verification/Installer.thy ===== *)
theory Installer
  imports Go_Strings Go_Regexp Go_Os
begin

text \<open>
  The installer package (\<open>installer/\<close>): the registry of supported operating systems, the address of
  a bundle, and the scripts that install and uninstall it.

  The registry's map is a HOL map from an operating-system bundle to the list of its Kubernetes
  versions; the order of Go's map iteration is not specified, and the code only looks at whether
  the list is empty.  The template engine (\<open>html/template\<close>) and the two embedded templates are the
  fields of \<open>templates\<close>, which \<open>Installer_Scripts\<close> instantiates with the engine and the files.
\<close>

section \<open>Errors and bundle addresses\<close>

definition ErrOsK8sNotSupported :: error where
  "ErrOsK8sNotSupported = ErrorString ''No k8s support for OS''"

definition ErrInstallerCreation :: string where
  "ErrInstallerCreation = ''Error creating installer''"

record bundleDownloader =
  bundleType :: string
  repoAddr :: string
  downloadPath :: string

definition NewBundleDownloader :: "string \<Rightarrow> string \<Rightarrow> string \<Rightarrow> bundleDownloader" where
  "NewBundleDownloader bt repo path = \<lparr>bundleType = bt, repoAddr = repo, downloadPath = path\<rparr>"

definition getBundlePathWithRepo :: "bundleDownloader \<Rightarrow> string" where
  "getBundlePathWithRepo bd = filepath_Join [downloadPath bd, ReplaceChar CHR ''/'' CHR ''.'' (repoAddr bd)]"

definition GetBundleDirPath :: "bundleDownloader \<Rightarrow> string \<Rightarrow> string" where
  "GetBundleDirPath bd k8sVersion =
     filepath_Join [getBundlePathWithRepo bd, bundleType bd] @ ''-'' @ k8sVersion"

definition GetBundleName :: "string \<Rightarrow> string" where
  "GetBundleName normalizedOsVersion = ToLower (''byoh-bundle-'' @ normalizedOsVersion @ ''_k8s'')"

definition GetBundleAddr :: "bundleDownloader \<Rightarrow> string \<Rightarrow> string \<Rightarrow> string" where
  "GetBundleAddr bd normalizedOsVersion k8sVersion =
     repoAddr bd @ ''/'' @ GetBundleName normalizedOsVersion @ '':'' @ k8sVersion"

section \<open>The registry\<close>

record registry =
  osk8sInstallerMap :: "string \<rightharpoonup> string list"
  filterOSBundleList :: "(string \<times> string) list"
  filterK8sBundleList :: "string list"

definition newRegistry :: registry where
  "newRegistry = \<lparr>osk8sInstallerMap = Map.empty, filterOSBundleList = [], filterK8sBundleList = []\<rparr>"

definition AddBundleInstaller :: "string \<Rightarrow> string \<Rightarrow> registry \<Rightarrow> registry outcome" where
  "AddBundleInstaller os k8sVer r =
     (let versions = (case osk8sInstallerMap r os of None \<Rightarrow> [] | Some vs \<Rightarrow> vs)
      in if k8sVer \<in> set versions then Panic (os @ '' '' @ k8sVer @ '' already exists'')
         else Return (r\<lparr>osk8sInstallerMap := (osk8sInstallerMap r)(os \<mapsto> versions @ [k8sVer])\<rparr>))"

definition AddOsFilter :: "string \<Rightarrow> string \<Rightarrow> registry \<Rightarrow> registry" where
  "AddOsFilter osFilter osBundle r = r\<lparr>filterOSBundleList := filterOSBundleList r @ [(osFilter, osBundle)]\<rparr>"

definition AddK8sFilter :: "string \<Rightarrow> registry \<Rightarrow> registry" where
  "AddK8sFilter k8sFilter r = r\<lparr>filterK8sBundleList := filterK8sBundleList r @ [k8sFilter]\<rparr>"

definition ListOS :: "registry \<Rightarrow> string list \<times> string list" where
  "ListOS r = (map fst (filterOSBundleList r), map snd (filterOSBundleList r))"

definition ResolveOsToOsBundle :: "registry \<Rightarrow> string \<Rightarrow> string" where
  "ResolveOsToOsBundle r os =
     (case find (\<lambda>(osFilter, _). MatchString (compile osFilter) os) (filterOSBundleList r) of
        None \<Rightarrow> [] | Some (_, osBundle) \<Rightarrow> osBundle)"

definition ListK8s :: "registry \<Rightarrow> string \<Rightarrow> string list" where
  "ListK8s r osBundleHost =
     (case osk8sInstallerMap r osBundleHost of
        Some k8sMap \<Rightarrow> k8sMap
      | None \<Rightarrow>
          (case osk8sInstallerMap r (ResolveOsToOsBundle r osBundleHost) of None \<Rightarrow> [] | Some k8sMap \<Rightarrow> k8sMap))"

definition linuxDistro20_04 :: string where
  "linuxDistro20_04 = ''Ubuntu_20.04.1_x86-64''"

definition linuxDistro22_04 :: string where
  "linuxDistro22_04 = ''Ubuntu_22.04_x86-64''"

definition bind_outcome :: "'a outcome \<Rightarrow> ('a \<Rightarrow> 'b outcome) \<Rightarrow> 'b outcome" where
  "bind_outcome x f = (case x of Return a \<Rightarrow> f a | Panic m \<Rightarrow> Panic m)"

definition GetSupportedRegistry :: "registry outcome" where
  "GetSupportedRegistry =
     bind_outcome (AddBundleInstaller linuxDistro20_04 ''v1.31.*'' newRegistry) (\<lambda>reg.
     bind_outcome (AddBundleInstaller linuxDistro22_04 ''v1.31.*'' reg) (\<lambda>reg.
       Return (AddOsFilter ''Ubuntu_22.04.*_x86-64'' linuxDistro22_04
         (AddOsFilter ''Ubuntu_20.04.*_x86-64'' linuxDistro20_04
           (AddK8sFilter ''v1.31.*'' reg)))))"

section \<open>The scripts\<close>

datatype tvalue = TStr string | TBool bool

record templates =
  installTemplate :: string
  uninstallTemplate :: string
  parseTemplate :: "string \<Rightarrow> error option"
  executeTemplate :: "string \<Rightarrow> (string \<rightharpoonup> tvalue) \<Rightarrow> error + string"

record BaseUbuntuInstaller =
  base_install :: string
  base_uninstall :: string

definition ImgpkgVersion :: string where
  "ImgpkgVersion = ''v0.36.4''"

definition installer_data :: "string \<Rightarrow> string \<Rightarrow> string \<Rightarrow> bool \<Rightarrow> (string \<rightharpoonup> tvalue)" where
  "installer_data arch bundleAddrs containerdConfig skipKernelModuleCleanup =
     [''BundleAddrs'' \<mapsto> TStr bundleAddrs, ''Arch'' \<mapsto> TStr arch, ''ImgpkgVersion'' \<mapsto> TStr ImgpkgVersion,
      ''ContainerdConfig'' \<mapsto> TStr containerdConfig, ''BundleDownloadPath'' \<mapsto> TStr ''/var/lib/byoh/bundles'',
      ''SkipKernelModuleCleanup'' \<mapsto> TBool skipKernelModuleCleanup]"

definition NewBaseUbuntuInstaller ::
  "templates \<Rightarrow> string \<Rightarrow> string \<Rightarrow> string \<Rightarrow> bool \<Rightarrow> error + BaseUbuntuInstaller" where
  "NewBaseUbuntuInstaller T arch bundleAddrs containerdConfig skipKernelModuleCleanup =
     (let data = installer_data arch bundleAddrs containerdConfig skipKernelModuleCleanup
      in if installTemplate T = [] then
           Inl (ErrorString ''install template is empty - template file may be missing'')
         else if uninstallTemplate T = [] then
           Inl (ErrorString ''uninstall template is empty - template file may be missing'')
         else case parseTemplate T (installTemplate T) of
           Some err \<Rightarrow> Inl (ErrorString (''failed to parse install template: '' @ Error err))
         | None \<Rightarrow> (case parseTemplate T (uninstallTemplate T) of
             Some err \<Rightarrow> Inl (ErrorString (''failed to parse uninstall template: '' @ Error err))
           | None \<Rightarrow> (case executeTemplate T (installTemplate T) data of
               Inl err \<Rightarrow> Inl (ErrorString (''failed to execute install template: '' @ Error err))
             | Inr install \<Rightarrow> (case executeTemplate T (uninstallTemplate T) data of
                 Inl err \<Rightarrow> Inl (ErrorString (''failed to execute uninstall template: '' @ Error err))
               | Inr uninstall \<Rightarrow> Inr \<lparr>base_install = install, base_uninstall = uninstall\<rparr>))))"

definition systemdCgroupConfig :: string where
  "systemdCgroupConfig = ''sed -i s/SystemdCgroup'' @ [CHR 0x5C] @ '' ='' @ [CHR 0x5C] @ '' false/SystemdCgroup'' @
     [CHR 0x5C] @ '' ='' @ [CHR 0x5C] @ '' true/ /etc/containerd/config.toml''"

text \<open>\<open>K8sInstaller\<close> and its two implementations.\<close>

datatype K8sInstaller = Ubuntu20_04Installer BaseUbuntuInstaller | Ubuntu22_04Installer BaseUbuntuInstaller

definition Base_Install :: "BaseUbuntuInstaller \<Rightarrow> string" where
  [simp]: "Base_Install s = base_install s"

definition Base_Uninstall :: "BaseUbuntuInstaller \<Rightarrow> string" where
  [simp]: "Base_Uninstall s = base_uninstall s"

definition Ubuntu20_04_Install :: "BaseUbuntuInstaller \<Rightarrow> string" where
  [simp]: "Ubuntu20_04_Install base = Base_Install base"

definition Ubuntu20_04_Uninstall :: "BaseUbuntuInstaller \<Rightarrow> string" where
  [simp]: "Ubuntu20_04_Uninstall base = Base_Uninstall base"

definition Ubuntu22_04_Install :: "BaseUbuntuInstaller \<Rightarrow> string" where
  [simp]: "Ubuntu22_04_Install base = Base_Install base"

definition Ubuntu22_04_Uninstall :: "BaseUbuntuInstaller \<Rightarrow> string" where
  [simp]: "Ubuntu22_04_Uninstall base = Base_Uninstall base"

fun Install :: "K8sInstaller \<Rightarrow> string" where
  "Install (Ubuntu20_04Installer base) = Ubuntu20_04_Install base"
| "Install (Ubuntu22_04Installer base) = Ubuntu22_04_Install base"

fun Uninstall :: "K8sInstaller \<Rightarrow> string" where
  "Uninstall (Ubuntu20_04Installer base) = Ubuntu20_04_Uninstall base"
| "Uninstall (Ubuntu22_04Installer base) = Ubuntu22_04_Uninstall base"

definition NewUbuntu20_04Installer :: "templates \<Rightarrow> string \<Rightarrow> string \<Rightarrow> bool \<Rightarrow> error + K8sInstaller" where
  "NewUbuntu20_04Installer T arch bundleAddrs skip =
     (case NewBaseUbuntuInstaller T arch bundleAddrs [] skip of
        Inl err \<Rightarrow> Inl err | Inr base \<Rightarrow> Inr (Ubuntu20_04Installer base))"

definition NewUbuntu22_04Installer :: "templates \<Rightarrow> string \<Rightarrow> string \<Rightarrow> bool \<Rightarrow> error + K8sInstaller" where
  "NewUbuntu22_04Installer T arch bundleAddrs skip =
     (case NewBaseUbuntuInstaller T arch bundleAddrs systemdCgroupConfig skip of
        Inl err \<Rightarrow> Inl err | Inr base \<Rightarrow> Inr (Ubuntu22_04Installer base))"

definition archOldNameMap :: "string \<rightharpoonup> string" where
  "archOldNameMap = [''amd64'' \<mapsto> ''x86-64'']"

definition os_arch :: "string \<Rightarrow> string \<Rightarrow> string" where
  "os_arch osDist arch =
     ReplaceChar CHR '' '' CHR ''_'' osDist @ ''_'' @ (case archOldNameMap arch of None \<Rightarrow> arch | Some old \<Rightarrow> old)"

definition NewInstaller ::
  "templates \<Rightarrow> string \<Rightarrow> string \<Rightarrow> string \<Rightarrow> bundleDownloader \<Rightarrow> bool \<Rightarrow> (error + K8sInstaller) outcome" where
  "NewInstaller T osDist arch k8sVersion downloader skipKernelModuleCleanup =
     (let osArch = os_arch osDist arch
      in bind_outcome GetSupportedRegistry (\<lambda>reg.
           if ListK8s reg osArch = [] then Return (Inl ErrOsK8sNotSupported)
           else let osbundle = ResolveOsToOsBundle reg osArch;
                    addrs = GetBundleAddr downloader osbundle k8sVersion;
                    installer = (if Contains osbundle ''Ubuntu_22.04''
                                 then NewUbuntu22_04Installer T arch addrs skipKernelModuleCleanup
                                 else NewUbuntu20_04Installer T arch addrs skipKernelModuleCleanup)
                in Return (case installer of
                     Inl err \<Rightarrow> Inl (Wrapped ErrInstallerCreation err)
                   | Inr i \<Rightarrow> Inr i)))"

section \<open>The interface of the registry\<close>

text \<open>
  What \<open>NewInstaller\<close> relies on: a non-empty list of versions means that the operating system
  resolves to a bundle, and a bundle that something resolves to has versions itself.
\<close>

locale os_registry =
  fixes list_k8s :: "string \<Rightarrow> string list" and resolve :: "string \<Rightarrow> string"
  assumes listed_resolves: "list_k8s os \<noteq> [] \<longleftrightarrow> resolve os \<noteq> []"
    and resolved_listed: "resolve os \<noteq> [] \<Longrightarrow> list_k8s (resolve os) \<noteq> []"
begin

lemma bundle_resolves: "list_k8s os \<noteq> [] \<Longrightarrow> resolve (resolve os) \<noteq> []"
  using listed_resolves resolved_listed by blast

lemma unsupported_iff: "list_k8s os = [] \<longleftrightarrow> resolve os = []"
  using listed_resolves by blast

end

definition supported_registry :: registry where
  "supported_registry =
     \<lparr>osk8sInstallerMap = [linuxDistro20_04 \<mapsto> [''v1.31.*''], linuxDistro22_04 \<mapsto> [''v1.31.*'']],
      filterOSBundleList = [(''Ubuntu_20.04.*_x86-64'', linuxDistro20_04), (''Ubuntu_22.04.*_x86-64'', linuxDistro22_04)],
      filterK8sBundleList = [''v1.31.*'']\<rparr>"

lemma distros_neq [simp]: "linuxDistro20_04 \<noteq> linuxDistro22_04" "linuxDistro22_04 \<noteq> linuxDistro20_04"
    "linuxDistro20_04 \<noteq> []" "linuxDistro22_04 \<noteq> []"
  by (simp_all add: linuxDistro20_04_def linuxDistro22_04_def)

lemma GetSupportedRegistry_eq: "GetSupportedRegistry = Return supported_registry"
  by (simp add: GetSupportedRegistry_def supported_registry_def AddBundleInstaller_def newRegistry_def Let_def
      bind_outcome_def AddOsFilter_def AddK8sFilter_def)

definition is_20_04 :: "string \<Rightarrow> bool" where
  "is_20_04 os = MatchString (compile ''Ubuntu_20.04.*_x86-64'') os"

definition is_22_04 :: "string \<Rightarrow> bool" where
  "is_22_04 os = MatchString (compile ''Ubuntu_22.04.*_x86-64'') os"

lemma resolve_supported:
  "ResolveOsToOsBundle supported_registry os =
     (if is_20_04 os then linuxDistro20_04 else if is_22_04 os then linuxDistro22_04 else [])"
  by (simp add: ResolveOsToOsBundle_def supported_registry_def is_20_04_def is_22_04_def)

lemma bundles_match: "is_20_04 linuxDistro20_04" "is_22_04 linuxDistro22_04" "\<not> is_20_04 linuxDistro22_04"
  by code_simp+

lemma list_supported:
  "ListK8s supported_registry os = (if is_20_04 os \<or> is_22_04 os then [''v1.31.*''] else [])"
proof (cases "os = linuxDistro20_04 \<or> os = linuxDistro22_04")
  case True
  then show ?thesis using bundles_match by (auto simp: ListK8s_def supported_registry_def)
next
  case False
  then have "osk8sInstallerMap supported_registry os = None" by (simp add: supported_registry_def)
  then show ?thesis
    by (simp add: ListK8s_def resolve_supported) (simp add: supported_registry_def linuxDistro20_04_def linuxDistro22_04_def)
qed

interpretation reg: os_registry "ListK8s supported_registry" "ResolveOsToOsBundle supported_registry"
  by unfold_locales (auto simp: list_supported resolve_supported bundles_match)

section \<open>The interface of an installer\<close>

text \<open>Every implementation renders both templates with the same data, up to its containerd setting.\<close>

locale k8s_installer =
  fixes new :: "templates \<Rightarrow> string \<Rightarrow> string \<Rightarrow> bool \<Rightarrow> error + K8sInstaller" and containerdConfig :: string
  assumes new_scripts: "new T arch addrs skip = Inr i \<Longrightarrow>
      executeTemplate T (installTemplate T) (installer_data arch addrs containerdConfig skip) = Inr (Install i) \<and>
      executeTemplate T (uninstallTemplate T) (installer_data arch addrs containerdConfig skip) = Inr (Uninstall i)"
    and new_total: "installTemplate T \<noteq> [] \<Longrightarrow> uninstallTemplate T \<noteq> [] \<Longrightarrow> (\<And>t. parseTemplate T t = None) \<Longrightarrow>
      (\<And>t d. \<exists>s. executeTemplate T t d = Inr s) \<Longrightarrow> \<exists>i. new T arch addrs skip = Inr i"
begin

lemma scripts_agree:
  "new T arch addrs skip = Inr i \<Longrightarrow> new T arch addrs skip = Inr j \<Longrightarrow> Install i = Install j \<and> Uninstall i = Uninstall j"
  by simp

lemma script_of_template:
  "new T arch addrs skip = Inr i \<Longrightarrow>
   \<exists>d. d ''BundleAddrs'' = Some (TStr addrs) \<and> d ''ContainerdConfig'' = Some (TStr containerdConfig) \<and>
     d ''SkipKernelModuleCleanup'' = Some (TBool skip) \<and>
     executeTemplate T (installTemplate T) d = Inr (Install i) \<and> executeTemplate T (uninstallTemplate T) d = Inr (Uninstall i)"
  using new_scripts by (intro exI [of _ "installer_data arch addrs containerdConfig skip"]) (simp add: installer_data_def)

end

lemma NewBase_scripts:
  "NewBaseUbuntuInstaller T arch addrs cfg skip = Inr b \<Longrightarrow>
   executeTemplate T (installTemplate T) (installer_data arch addrs cfg skip) = Inr (base_install b) \<and>
   executeTemplate T (uninstallTemplate T) (installer_data arch addrs cfg skip) = Inr (base_uninstall b)"
  by (auto simp: NewBaseUbuntuInstaller_def Let_def split: if_splits option.splits sum.splits)

lemma NewBase_total:
  assumes "installTemplate T \<noteq> []" "uninstallTemplate T \<noteq> []" "\<And>t. parseTemplate T t = None"
    and "\<And>t d. \<exists>s. executeTemplate T t d = Inr s"
  shows "\<exists>b. NewBaseUbuntuInstaller T arch addrs cfg skip = Inr b"
proof -
  let ?d = "installer_data arch addrs cfg skip"
  obtain a b where "executeTemplate T (installTemplate T) ?d = Inr a" "executeTemplate T (uninstallTemplate T) ?d = Inr b"
    using assms(4) by meson
  then show ?thesis using assms(1-3) by (simp add: NewBaseUbuntuInstaller_def Let_def)
qed

interpretation u20: k8s_installer NewUbuntu20_04Installer "[]"
proof unfold_locales
  fix T :: templates and arch addrs skip
  assume "installTemplate T \<noteq> []" "uninstallTemplate T \<noteq> []" "\<And>t. parseTemplate T t = None"
    "\<And>t d. \<exists>s. executeTemplate T t d = Inr s"
  from NewBase_total [OF this] obtain b where "NewBaseUbuntuInstaller T arch addrs [] skip = Inr b" by blast
  then show "\<exists>i. NewUbuntu20_04Installer T arch addrs skip = Inr i" by (simp add: NewUbuntu20_04Installer_def)
qed (auto simp: NewUbuntu20_04Installer_def dest: NewBase_scripts split: sum.splits)

interpretation u22: k8s_installer NewUbuntu22_04Installer systemdCgroupConfig
proof unfold_locales
  fix T :: templates and arch addrs skip
  assume "installTemplate T \<noteq> []" "uninstallTemplate T \<noteq> []" "\<And>t. parseTemplate T t = None"
    "\<And>t d. \<exists>s. executeTemplate T t d = Inr s"
  from NewBase_total [OF this] obtain b where "NewBaseUbuntuInstaller T arch addrs systemdCgroupConfig skip = Inr b" by blast
  then show "\<exists>i. NewUbuntu22_04Installer T arch addrs skip = Inr i" by (simp add: NewUbuntu22_04Installer_def)
qed (auto simp: NewUbuntu22_04Installer_def dest: NewBase_scripts split: sum.splits)

section \<open>Properties\<close>

definition wrap_installer :: "error + K8sInstaller \<Rightarrow> error + K8sInstaller" where
  "wrap_installer r = (case r of Inl err \<Rightarrow> Inl (Wrapped ErrInstallerCreation err) | Inr i \<Rightarrow> Inr i)"

lemma Contains_22: "\<not> Contains linuxDistro20_04 ''Ubuntu_22.04''" "Contains linuxDistro22_04 ''Ubuntu_22.04''"
  by code_simp+

text \<open>
  \<open>NewInstaller\<close> never panics and decides by the operating system alone: Ubuntu 20.04 and 22.04
  images get their own installer with the address of their own bundle at the requested version,
  every other image gets the error that it is not supported, and which Kubernetes versions the
  registry lists does not matter beyond that.
\<close>

theorem NewInstaller_by_os:
  "NewInstaller T osDist arch k8sVersion d skip = Return
     (if is_20_04 (os_arch osDist arch)
      then wrap_installer (NewUbuntu20_04Installer T arch (GetBundleAddr d linuxDistro20_04 k8sVersion) skip)
      else if is_22_04 (os_arch osDist arch)
      then wrap_installer (NewUbuntu22_04Installer T arch (GetBundleAddr d linuxDistro22_04 k8sVersion) skip)
      else Inl ErrOsK8sNotSupported)"
  by (simp add: NewInstaller_def GetSupportedRegistry_eq bind_outcome_def list_supported resolve_supported Let_def
      wrap_installer_def Contains_22)

lemma matches_compile_star:
  assumes "matches (compile cs) v" "\<forall>c\<in>set u. c \<noteq> CHR 0x0A"
  shows "matches (compile (CHR ''.'' # CHR ''*'' # cs)) (u @ v)"
  using assms by (auto simp: atom_def dot_def matches_Star_Chars intro!: m_cat)

lemma matches_compile_lit:
  assumes "matches (compile (d # cs)) v" "d \<noteq> CHR ''*''" "d \<noteq> CHR ''+''" "x = c \<or> c = CHR ''.'' \<and> x \<noteq> CHR 0x0A"
    "c \<noteq> CHR 0x0A"
  shows "matches (compile (c # d # cs)) (x # v)"
proof -
  have "matches (atom c) [x]" using assms(4,5) by (auto simp: atom_def dot_def)
  from m_cat [OF this assms(1)] show ?thesis using assms(2,3) by simp
qed

text \<open>
  The scripts that are stored for a machine whose image is an Ubuntu 20.04 or 22.04 on amd64
  are the two embedded templates, rendered with the bundle's address, with the containerd setting
  of that release and with the kernel-module choice of the manager.
\<close>

theorem NewInstaller_scripts:
  assumes "NewInstaller T osDist arch k8sVersion d skip = Return (Inr i)"
  shows "\<exists>data bundle cfg.
    (bundle = linuxDistro20_04 \<and> cfg = [] \<and> is_20_04 (os_arch osDist arch) \<or>
     bundle = linuxDistro22_04 \<and> cfg = systemdCgroupConfig \<and> is_22_04 (os_arch osDist arch)) \<and>
    data ''BundleAddrs'' = Some (TStr (GetBundleAddr d bundle k8sVersion)) \<and>
    data ''ContainerdConfig'' = Some (TStr cfg) \<and> data ''SkipKernelModuleCleanup'' = Some (TBool skip) \<and>
    executeTemplate T (installTemplate T) data = Inr (Install i) \<and>
    executeTemplate T (uninstallTemplate T) data = Inr (Uninstall i)"
proof -
  have "is_20_04 (os_arch osDist arch) \<and>
      NewUbuntu20_04Installer T arch (GetBundleAddr d linuxDistro20_04 k8sVersion) skip = Inr i \<or>
    is_22_04 (os_arch osDist arch) \<and>
      NewUbuntu22_04Installer T arch (GetBundleAddr d linuxDistro22_04 k8sVersion) skip = Inr i"
    using assms
    by (auto simp: NewInstaller_def GetSupportedRegistry_eq bind_outcome_def list_supported resolve_supported Let_def
        Contains_22 split: if_splits sum.splits)
  then show ?thesis
    using u20.script_of_template [of T arch _ skip i] u22.script_of_template [of T arch _ skip i] by (metis (full_types))
qed

definition ex_templates :: templates where
  "ex_templates = \<lparr>installTemplate = ''I'', uninstallTemplate = ''U'', parseTemplate = (\<lambda>_. None),
     executeTemplate = (\<lambda>t d. Inr (t @ (case d ''BundleAddrs'' of Some (TStr a) \<Rightarrow> a | _ \<Rightarrow> [])))\<rparr>"

theorem NewInstaller_scripts_witness:
  "\<exists>i data. NewInstaller ex_templates ''Ubuntu 20.04.6 LTS'' ''amd64'' ''v1.31.2''
      (NewBundleDownloader ''k8s'' ''quay.io/platform9'' []) False = Return (Inr i) \<and>
    executeTemplate ex_templates (installTemplate ex_templates) data = Inr (Install i)"
proof -
  let ?r = "NewInstaller ex_templates ''Ubuntu 20.04.6 LTS'' ''amd64'' ''v1.31.2''
      (NewBundleDownloader ''k8s'' ''quay.io/platform9'' []) False"
  let ?i = "Ubuntu20_04Installer \<lparr>base_install = ''Iquay.io/platform9/byoh-bundle-ubuntu_20.04.1_x86-64_k8s:v1.31.2'',
      base_uninstall = ''Uquay.io/platform9/byoh-bundle-ubuntu_20.04.1_x86-64_k8s:v1.31.2''\<rparr>"
  have "?r = Return (Inr ?i)" by code_simp
  with NewInstaller_scripts [OF this] show ?thesis by blast
qed

text \<open>
  The download path has no influence on the scripts: whatever path the downloader is given,
  the template is rendered with the fixed path \<open>/var/lib/byoh/bundles\<close>.
\<close>

theorem NewInstaller_ignores_download_path:
  "NewInstaller T osDist arch k8sVersion (d\<lparr>downloadPath := p\<rparr>) skip = NewInstaller T osDist arch k8sVersion d skip \<and>
   installer_data arch addrs cfg skip ''BundleDownloadPath'' = Some (TStr ''/var/lib/byoh/bundles'')"
proof -
  have eq: "GetBundleAddr (d\<lparr>downloadPath := p\<rparr>) = GetBundleAddr d" by (simp add: fun_eq_iff GetBundleAddr_def)
  show ?thesis unfolding NewInstaller_def eq by (simp add: installer_data_def)
qed

lemma supported_image:
  assumes "\<forall>c\<in>set rest. c \<noteq> CHR 0x0A"
  shows "is_20_04 (os_arch (''Ubuntu 20.04'' @ rest) ''amd64'')" "is_22_04 (os_arch (''Ubuntu 22.04'' @ rest) ''amd64'')"
proof -
  let ?mid = "ReplaceChar CHR '' '' CHR ''_'' rest"
  have "accepts (compile ''_x86-64'') ''_x86-64''" by code_simp
  then have tail: "matches (compile ''_x86-64'') ''_x86-64''" by (simp only: accepts_iff_matches)
  have "\<forall>c\<in>set ?mid. c \<noteq> CHR 0x0A" using assms by (auto simp: ReplaceChar_def)
  note st = matches_compile_star [OF tail this]
  have u20: "matches (compile ''Ubuntu_20.04.*_x86-64'') (''Ubuntu_20.04'' @ ?mid @ ''_x86-64'')"
    unfolding append_Cons append_Nil
    by (rule matches_compile_lit, rule matches_compile_lit, rule matches_compile_lit, rule matches_compile_lit,
        rule matches_compile_lit, rule matches_compile_lit, rule matches_compile_lit, rule matches_compile_lit,
        rule matches_compile_lit, rule matches_compile_lit, rule matches_compile_lit, rule matches_compile_lit,
        rule st [unfolded append_Cons append_Nil]) simp_all
  have u22: "matches (compile ''Ubuntu_22.04.*_x86-64'') (''Ubuntu_22.04'' @ ?mid @ ''_x86-64'')"
    unfolding append_Cons append_Nil
    by (rule matches_compile_lit, rule matches_compile_lit, rule matches_compile_lit, rule matches_compile_lit,
        rule matches_compile_lit, rule matches_compile_lit, rule matches_compile_lit, rule matches_compile_lit,
        rule matches_compile_lit, rule matches_compile_lit, rule matches_compile_lit, rule matches_compile_lit,
        rule st [unfolded append_Cons append_Nil]) simp_all
  have "os_arch (''Ubuntu 20.04'' @ rest) ''amd64'' = ''Ubuntu_20.04'' @ ?mid @ ''_x86-64''"
    "os_arch (''Ubuntu 22.04'' @ rest) ''amd64'' = ''Ubuntu_22.04'' @ ?mid @ ''_x86-64''"
    by (simp_all add: os_arch_def archOldNameMap_def ReplaceChar_def)
  then show "is_20_04 (os_arch (''Ubuntu 20.04'' @ rest) ''amd64'')" "is_22_04 (os_arch (''Ubuntu 22.04'' @ rest) ''amd64'')"
    using MatchString_whole [OF u20] MatchString_whole [OF u22] by (simp_all only: is_20_04_def is_22_04_def)
qed

end
