(* ===== verification/InstallerConfig_Ctl.thy ===== *)
theory InstallerConfig_Ctl
  imports Installer Reference_Client
begin

text \<open>
  The K8sInstallerConfig controller (\<open>controllers/infrastructure/k8sinstallerconfig_controller.go\<close>): when
  the machine that owns a configuration waits for it, the install and uninstall scripts for the
  machine's operating system are made and stored in two secrets, and the configuration becomes
  ready.  The state of a reconciliation is the local copy of the configuration and the world.
\<close>

record 'w config_client = "'w client" +
  getK8sInstallerConfig :: "key \<Rightarrow> 'w \<Rightarrow> (error + K8sInstallerConfig) \<times> 'w"
  listK8sInstallerConfigs :: "string \<Rightarrow> 'w \<Rightarrow> (error + K8sInstallerConfig list) \<times> 'w"
  helperConfig :: "K8sInstallerConfig \<Rightarrow> error option"
  patchConfig :: "K8sInstallerConfig \<Rightarrow> K8sInstallerConfig \<Rightarrow> 'w \<Rightarrow> error option \<times> 'w"
  ParseGroup :: "string \<Rightarrow> error + string"
  ScriptTemplates :: templates
  SkipKernelModuleCleanup :: bool

definition GroupVersion_Group :: string where
  "GroupVersion_Group = ''infrastructure.cluster.x-k8s.io''"

definition GroupVersion_String :: string where
  "GroupVersion_String = ''infrastructure.cluster.x-k8s.io/v1beta1''"

definition ClusterSecretType :: string where
  "ClusterSecretType = ''cluster.x-k8s.io/secret''"

section \<open>The owner\<close>

definition GetByoMachineByName ::
  "('w, 'z) client_scheme \<Rightarrow> string \<Rightarrow> string \<Rightarrow> 'w \<Rightarrow> (error + ByoMachine) \<times> 'w" where
  "GetByoMachineByName C namespace name w = getByoMachine C (namespace, name) w"

fun owner_machine ::
  "('w, 'z) config_client_scheme \<Rightarrow> string \<Rightarrow> OwnerReference list \<Rightarrow> 'w \<Rightarrow> (error + ByoMachine option) \<times> 'w" where
  "owner_machine C namespace [] w = (Inr None, w)"
| "owner_machine C namespace (ref # refs) w =
     (case ParseGroup C (own_APIVersion ref) of
        Inl err \<Rightarrow> (Inl err, w)
      | Inr g \<Rightarrow>
          if own_Kind ref = ''ByoMachine'' \<and> g = GroupVersion_Group then
            (case GetByoMachineByName C namespace (own_Name ref) w of
               (Inl err, w1) \<Rightarrow> (Inl err, w1)
             | (Inr m, w1) \<Rightarrow> (Inr (Some m), w1))
          else owner_machine C namespace refs w)"

definition GetOwnerByoMachine ::
  "('w, 'z) config_client_scheme \<Rightarrow> 'a ObjectMeta_scheme \<Rightarrow> 'w \<Rightarrow> (error + ByoMachine option) \<times> 'w" where
  "GetOwnerByoMachine C obj w = owner_machine C (Namespace obj) (OwnerReferences obj) w"

definition hasOwnerReferenceFrom :: "'a ObjectMeta_scheme \<Rightarrow> 'b ObjectMeta_scheme \<Rightarrow> bool" where
  "hasOwnerReferenceFrom obj owner =
     list_ex (\<lambda>r. own_Kind r = Kind owner \<and> own_Name r = Name owner) (OwnerReferences obj)"

definition ByoMachineToK8sInstallerConfigMapFunc ::
  "('w, 'z) config_client_scheme \<Rightarrow> object \<Rightarrow> 'w \<Rightarrow> key list outcome \<times> 'w" where
  "ByoMachineToK8sInstallerConfigMapFunc C obj w =
     (case obj of
        OMachine m0 \<Rightarrow>
          (let m = m0\<lparr>Kind := ''ByoMachine'', APIVersion := GroupVersion_String\<rparr>
           in case InstallerRef (MachineSpec m) of
                None \<Rightarrow> (Return [], w)
              | Some ref \<Rightarrow>
                  if refGVK C ref = \<lparr>gvk_Group = GroupVersion_Group, gvk_Version = ''v1beta1'',
                                     gvk_Kind = ''K8sInstallerConfigTemplate''\<rparr>
                  then (case listK8sInstallerConfigs C (Namespace m) w of
                          (Inl _, w1) \<Rightarrow> (Return [], w1)
                        | (Inr items, w1) \<Rightarrow>
                            (Return (map obj_key (filter (\<lambda>config. hasOwnerReferenceFrom config m) items)), w1))
                  else (Return [], w))
      | _ \<Rightarrow> (Panic ''Expected a ByoMachine'', w))"

section \<open>Storing the scripts\<close>

definition bare_meta :: "string \<Rightarrow> string \<Rightarrow> strmap \<Rightarrow> OwnerReference list \<Rightarrow> ObjectMeta" where
  "bare_meta ns name lbls owners =
     \<lparr>Kind = [], APIVersion = [], Name = name, Namespace = ns, UID = [], Labels = lbls, Annotations = Map.empty,
      Finalizers = [], OwnerReferences = owners, DeletionTimestamp = None\<rparr>"

definition installSecret_of :: "K8sInstallerConfig \<Rightarrow> Cluster \<Rightarrow> string \<Rightarrow> Secret" where
  "installSecret_of config cluster install =
     ObjectMeta.extend
       (bare_meta (Namespace config) (''byoh-install-'' @ Name config) [ClusterNameLabel \<mapsto> Name cluster]
          [\<lparr>own_APIVersion = GroupVersion_String, own_Kind = Kind config, own_Name = Name config,
            own_UID = UID config, own_Controller = Some True\<rparr>])
       (Secret.fields ClusterSecretType [''install'' \<mapsto> install])"

definition uninstallSecret_of :: "K8sInstallerConfig \<Rightarrow> Cluster \<Rightarrow> string \<Rightarrow> Secret" where
  "uninstallSecret_of config cluster uninstall =
     ObjectMeta.extend
       (bare_meta (Namespace config) (''byoh-uninstall-'' @ Name config) [ClusterNameLabel \<mapsto> Name cluster] [])
       (Secret.fields ClusterSecretType [''uninstall'' \<mapsto> uninstall])"

text \<open>Create, or update when the secret exists already.\<close>

definition create_or_update ::
  "('w, 'z) client_scheme \<Rightarrow> string \<Rightarrow> K8sInstallerConfig \<Rightarrow> Secret \<Rightarrow> 'w \<Rightarrow> error option \<times> 'w" where
  "create_or_update C what config secret w =
     (let suffix_msg = '' secret for K8sInstallerConfig '' @ Namespace config @ ''/'' @ Name config
      in case createSecret C secret w of
           (None, w1) \<Rightarrow> (None, w1)
         | (Some err, w1) \<Rightarrow>
             if \<not> IsAlreadyExists err then (Some (Wrapped (''failed to create '' @ what @ suffix_msg) err), w1)
             else (case updateSecret C secret w1 of
               (None, w2) \<Rightarrow> (None, w2)
             | (Some err, w2) \<Rightarrow> (Some (Wrapped (''failed to update '' @ what @ suffix_msg) err), w2)))"

definition secret_ref :: "Secret \<Rightarrow> ObjectReference" where
  "secret_ref s = \<lparr>ref_Kind = Kind s, ref_APIVersion = [], ref_Namespace = Namespace s, ref_Name = Name s, ref_UID = []\<rparr>"

definition storeInstallationData ::
  "('w, 'z) client_scheme \<Rightarrow> Cluster \<Rightarrow> string \<Rightarrow> string \<Rightarrow> K8sInstallerConfig \<Rightarrow> 'w \<Rightarrow>
   error option \<times> K8sInstallerConfig \<times> 'w" where
  "storeInstallationData C cluster install uninstall config w =
     (let installSecret = installSecret_of config cluster install;
          uninstallSecret = uninstallSecret_of config cluster uninstall
      in case create_or_update C ''installation'' config installSecret w of
           (Some err, w1) \<Rightarrow> (Some err, config, w1)
         | (None, w1) \<Rightarrow>
             (let config1 = config\<lparr>ConfigStatus := (ConfigStatus config)
                    \<lparr>cfg_InstallationSecret := Some (secret_ref installSecret)\<rparr>\<rparr>
              in case create_or_update C ''uninstallation'' config uninstallSecret w1 of
                   (Some err, w2) \<Rightarrow> (Some err, config1, w2)
                 | (None, w2) \<Rightarrow>
                     (None, config1\<lparr>ConfigStatus := (ConfigStatus config1)
                        \<lparr>cfg_UninstallationSecret := Some (secret_ref uninstallSecret), cfg_Ready := True\<rparr>\<rparr>, w2)))"

section \<open>Reconcile\<close>

definition reconcileNormal ::
  "('w, 'z) config_client_scheme \<Rightarrow> Cluster \<Rightarrow> ByoMachine \<Rightarrow> K8sInstallerConfig \<Rightarrow> 'w \<Rightarrow>
   (Result \<times> error option) outcome \<times> K8sInstallerConfig \<times> 'w" where
  "reconcileNormal C cluster byoMachine config w =
     (let k8sVersion = (case Annotations config K8sVersionAnnotation of None \<Rightarrow> [] | Some v \<Rightarrow> v);
          downloader = NewBundleDownloader (BundleType (ConfigSpec config)) (BundleRepo (ConfigSpec config))
            ''{{.BUNDLE_DOWNLOAD_PATH}}'';
          hostInfo = mach_HostInfo (MachineStatus byoMachine)
      in case NewInstaller (ScriptTemplates C) (OSImage hostInfo) (Architecture hostInfo) k8sVersion downloader
               (SkipKernelModuleCleanup C) of
           Panic m \<Rightarrow> (Panic m, config, w)
         | Return (Inl err) \<Rightarrow> (Return (no_requeue, Some err), config, w)
         | Return (Inr installerObj) \<Rightarrow>
             (let (err, config', w') =
                    storeInstallationData C cluster (Install installerObj) (Uninstall installerObj) config w
              in (Return (no_requeue, err), config', w')))"

definition reconcileDelete :: "('w, 'z) client_scheme \<Rightarrow> K8sInstallerConfig \<Rightarrow> K8sInstallerConfig" where
  "reconcileDelete C config =
     config\<lparr>Finalizers := fin_Remove (libs C) K8sInstallerConfigFinalizer (Finalizers config)\<rparr>"

definition ensure_finalizer :: "('w, 'z) client_scheme \<Rightarrow> K8sInstallerConfig \<Rightarrow> K8sInstallerConfig" where
  "ensure_finalizer C config =
     (if fin_Contains (libs C) (Finalizers config) K8sInstallerConfigFinalizer then config
      else config\<lparr>Finalizers := fin_Add (libs C) K8sInstallerConfigFinalizer (Finalizers config)\<rparr>)"

text \<open>The body after the helper has been made (lines 102 to 148).\<close>

definition reconcile_config ::
  "('w, 'z) config_client_scheme \<Rightarrow> ByoMachine option \<Rightarrow> K8sInstallerConfig \<Rightarrow> 'w \<Rightarrow>
   (Result \<times> error option) outcome \<times> K8sInstallerConfig \<times> 'w" where
  "reconcile_config C owner config0 w =
     (let config = ensure_finalizer C config0
      in if being_deleted config then (Return (no_requeue, None), reconcileDelete C config, w)
         else case owner of
           None \<Rightarrow> (Return (no_requeue, None), config, w)
         | Some byoMachine \<Rightarrow>
             (case getClusterFromMetadata C (ObjectMeta.truncate byoMachine) w of
                (Inl err, w1) \<Rightarrow> (Return (no_requeue, Some err), config, w1)
              | (Inr None, w1) \<Rightarrow> (Panic ''nil pointer dereference'', config, w1)
              | (Inr (Some cluster), w1) \<Rightarrow>
                  if IsPaused (libs C) cluster (Annotations config) then (Return (no_requeue, None), config, w1)
                  else if cnd_GetReason (libs C) (machine_GetConditions byoMachine) BYOHostReady
                            \<noteq> InstallationSecretNotAvailableReason
                  then (Return (no_requeue, None), config, w1)
                  else if cfg_Ready (ConfigStatus config) then (Return (no_requeue, None), config, w1)
                  else reconcileNormal C cluster byoMachine config w1))"

definition Reconcile ::
  "('w, 'z) config_client_scheme \<Rightarrow> key \<Rightarrow> 'w \<Rightarrow> (Result \<times> error option) outcome \<times> 'w" where
  "Reconcile C req w =
     (case getK8sInstallerConfig C req w of
        (Inl err, w1) \<Rightarrow> (Return (no_requeue, if IsNotFound err then None else Some err), w1)
      | (Inr config, w1) \<Rightarrow>
          (case GetOwnerByoMachine C config w1 of
             (owner, w2) \<Rightarrow>
               (case (case owner of Inl err \<Rightarrow> if IsNotFound err then None else Some err | Inr _ \<Rightarrow> None) of
                  Some err \<Rightarrow> (Return (no_requeue, Some err), w2)
                | None \<Rightarrow>
                    (case helperConfig C config of
                       Some err \<Rightarrow> (Return (no_requeue, Some err), w2)
                     | None \<Rightarrow>
                         (let (res, config', w3) =
                                reconcile_config C (case owner of Inl _ \<Rightarrow> None | Inr m \<Rightarrow> m) config w2;
                              (perr, w4) = patchConfig C config config' w3
                          in (case res of
                                Panic m \<Rightarrow> Panic m
                              | Return (result, reterr) \<Rightarrow> Return (result, defer_error reterr perr), w4))))))"

section \<open>What the client promises about secrets\<close>

text \<open>
  \<open>holds w s\<close>: at this moment the store has the secret \<open>s\<close>.  A create or update that succeeds
  stores its argument; writing one secret, with or without success, keeps those with other keys.
\<close>

definition secret_writes :: "('w, 'z) client_scheme \<Rightarrow> ('w \<Rightarrow> Secret \<Rightarrow> bool) \<Rightarrow> bool" where
  "secret_writes C holds \<longleftrightarrow>
     (\<forall>s w w'. createSecret C s w = (None, w') \<longrightarrow> holds w' s) \<and>
     (\<forall>s w w'. updateSecret C s w = (None, w') \<longrightarrow> holds w' s) \<and>
     (\<forall>s t w e w'. createSecret C s w = (e, w') \<longrightarrow> obj_key t \<noteq> obj_key s \<longrightarrow> holds w t \<longrightarrow> holds w' t) \<and>
     (\<forall>s t w e w'. updateSecret C s w = (e, w') \<longrightarrow> obj_key t \<noteq> obj_key s \<longrightarrow> holds w t \<longrightarrow> holds w' t)"

lemma create_or_update_holds:
  assumes S: "secret_writes C holds" and eq: "create_or_update C what config s w = (e, w')"
  shows "e = None \<Longrightarrow> holds w' s" and "obj_key t \<noteq> obj_key s \<Longrightarrow> holds w t \<Longrightarrow> holds w' t"
proof -
  obtain e1 w1 where c: "createSecret C s w = (e1, w1)" by fastforce
  obtain e2 w2 where u: "updateSecret C s w1 = (e2, w2)" by fastforce
  have keep: "holds w1 t" "holds w2 t" if "obj_key t \<noteq> obj_key s" "holds w t"
    using S c u that unfolding secret_writes_def by metis+
  have stored: "e1 = None \<Longrightarrow> holds w1 s" "e2 = None \<Longrightarrow> holds w2 s"
    using S c u unfolding secret_writes_def by metis+
  show "e = None \<Longrightarrow> holds w' s"
    using eq stored unfolding create_or_update_def c by (auto simp: u Let_def split: option.splits if_splits)
  show "obj_key t \<noteq> obj_key s \<Longrightarrow> holds w t \<Longrightarrow> holds w' t"
    using eq keep unfolding create_or_update_def c by (auto simp: u Let_def split: option.splits if_splits)
qed

lemma secret_of_simps [simp]:
  "obj_key (installSecret_of config cluster s) = (Namespace config, ''byoh-install-'' @ Name config)"
  "obj_key (uninstallSecret_of config cluster s) = (Namespace config, ''byoh-uninstall-'' @ Name config)"
  "ref_key (secret_ref t) = obj_key t"
  by (simp_all add: installSecret_of_def uninstallSecret_of_def secret_ref_def ref_key_def obj_key_def
      bare_meta_def ObjectMeta.defs Secret.defs)

section \<open>The status\<close>

text \<open>A ready configuration names its two secrets.\<close>

definition config_ok :: "K8sInstallerConfig \<Rightarrow> bool" where
  "config_ok config \<longleftrightarrow> cfg_Ready (ConfigStatus config) \<longrightarrow>
     map_option ref_key (cfg_InstallationSecret (ConfigStatus config)) =
       Some (Namespace config, ''byoh-install-'' @ Name config) \<and>
     map_option ref_key (cfg_UninstallationSecret (ConfigStatus config)) =
       Some (Namespace config, ''byoh-uninstall-'' @ Name config)"

lemma storeInstallationData_error:
  assumes "storeInstallationData C cluster i u config w = (Some err, config', w')"
  shows "cfg_Ready (ConfigStatus config') = cfg_Ready (ConfigStatus config)"
  using assms by (auto simp: storeInstallationData_def Let_def split: prod.splits option.splits)

lemma storeInstallationData_done:
  assumes S: "secret_writes C holds"
    and eq: "storeInstallationData C cluster i u config w = (None, config', w')"
  shows "holds w' (installSecret_of config cluster i)" and "holds w' (uninstallSecret_of config cluster u)"
    and "ConfigStatus config' = (ConfigStatus config)
      \<lparr>cfg_InstallationSecret := Some (secret_ref (installSecret_of config cluster i)),
       cfg_UninstallationSecret := Some (secret_ref (uninstallSecret_of config cluster u)), cfg_Ready := True\<rparr>"
proof -
  let ?i = "installSecret_of config cluster i" and ?u = "uninstallSecret_of config cluster u"
  obtain w1 where 1: "create_or_update C ''installation'' config ?i w = (None, w1)"
    and 2: "create_or_update C ''uninstallation'' config ?u w1 = (None, w')"
    and st: "ConfigStatus config' = (ConfigStatus config)
      \<lparr>cfg_InstallationSecret := Some (secret_ref ?i), cfg_UninstallationSecret := Some (secret_ref ?u), cfg_Ready := True\<rparr>"
    using eq by (auto simp: storeInstallationData_def Let_def split: prod.splits option.splits)
  have "holds w1 ?i" using create_or_update_holds(1) [OF S 1] by simp
  then show "holds w' ?i" using create_or_update_holds(2) [OF S 2, of ?i] by simp
  show "holds w' ?u" using create_or_update_holds(1) [OF S 2] by simp
  show "ConfigStatus config' = (ConfigStatus config)
      \<lparr>cfg_InstallationSecret := Some (secret_ref ?i), cfg_UninstallationSecret := Some (secret_ref ?u), cfg_Ready := True\<rparr>"
    by (rule st)
qed

lemma storeInstallationData_frame [frame]:
  assumes "storeInstallationData C cluster i u config w = (e, config', w')"
  shows "Name config' = Name config \<and> Namespace config' = Namespace config \<and> Finalizers config' = Finalizers config"
  using assms by (auto simp: storeInstallationData_def Let_def split: prod.splits option.splits)

lemma ensure_finalizer_frame [simp]:
  "ConfigStatus (ensure_finalizer C config) = ConfigStatus config"
  "Name (ensure_finalizer C config) = Name config" "Namespace (ensure_finalizer C config) = Namespace config"
  "DeletionTimestamp (ensure_finalizer C config) = DeletionTimestamp config"
  "being_deleted (ensure_finalizer C config) = being_deleted config"
  "Annotations (ensure_finalizer C config) = Annotations config"
  "installSecret_of (ensure_finalizer C config) = installSecret_of config"
  "uninstallSecret_of (ensure_finalizer C config) = uninstallSecret_of config"
  by (simp_all add: ensure_finalizer_def being_deleted_def installSecret_of_def uninstallSecret_of_def fun_eq_iff)

text \<open>The two ways a reconciliation ends: the scripts are stored, or the status is as it was.\<close>

lemma reconcile_config_cases:
  assumes "reconcile_config C owner config w = (res, config', w')"
  obtains (same) "ConfigStatus config' = ConfigStatus config" "Name config' = Name config"
      "Namespace config' = Namespace config"
  | (store) byoMachine cluster installerObj err w1 where "\<not> being_deleted config" "owner = Some byoMachine"
      "getClusterFromMetadata C (ObjectMeta.truncate byoMachine) w = (Inr (Some cluster), w1)"
      "\<not> IsPaused (libs C) cluster (Annotations config)"
      "cnd_GetReason (libs C) (machine_GetConditions byoMachine) BYOHostReady = InstallationSecretNotAvailableReason"
      "\<not> cfg_Ready (ConfigStatus config)" "res = Return (no_requeue, err)"
      "NewInstaller (ScriptTemplates C) (OSImage (mach_HostInfo (MachineStatus byoMachine)))
         (Architecture (mach_HostInfo (MachineStatus byoMachine)))
         (case Annotations config K8sVersionAnnotation of None \<Rightarrow> [] | Some v \<Rightarrow> v)
         (NewBundleDownloader (BundleType (ConfigSpec config)) (BundleRepo (ConfigSpec config))
            ''{{.BUNDLE_DOWNLOAD_PATH}}'') (SkipKernelModuleCleanup C) = Return (Inr installerObj)"
      "storeInstallationData C cluster (Install installerObj) (Uninstall installerObj) (ensure_finalizer C config) w1 =
         (err, config', w')"
proof (cases "ConfigStatus config' = ConfigStatus config \<and> Name config' = Name config \<and> Namespace config' = Namespace config")
  case True
  then show ?thesis by (intro same) auto
next
  case False
  have spec: "ConfigSpec (ensure_finalizer C config) = ConfigSpec config" by (simp add: ensure_finalizer_def)
  have del: "ConfigStatus (reconcileDelete C c) = ConfigStatus c \<and> Name (reconcileDelete C c) = Name c \<and>
      Namespace (reconcileDelete C c) = Namespace c" for c
    by (simp add: reconcileDelete_def)
  have nd: "\<not> being_deleted config"
    using assms False del by (auto simp: reconcile_config_def Let_def)
  then obtain m where m: "owner = Some m"
    using assms False by (cases owner) (auto simp: reconcile_config_def Let_def)
  obtain r w1 where g: "getClusterFromMetadata C (ObjectMeta.truncate m) w = (r, w1)" by fastforce
  obtain cluster where r: "r = Inr (Some cluster)"
    using assms False nd by (cases r) (auto simp: reconcile_config_def Let_def m g split: option.splits)
  have gates: "\<not> IsPaused (libs C) cluster (Annotations config)"
      "cnd_GetReason (libs C) (machine_GetConditions m) BYOHostReady = InstallationSecretNotAvailableReason"
      "\<not> cfg_Ready (ConfigStatus config)"
    using assms False nd by (auto simp: reconcile_config_def Let_def m g r split: if_splits)
  then have n: "reconcileNormal C cluster m (ensure_finalizer C config) w1 = (res, config', w')"
    using assms nd by (simp add: reconcile_config_def Let_def m g r)
  show ?thesis
    using n False store [OF nd m g [unfolded r] gates]
    by (auto simp: reconcileNormal_def Let_def spec split: outcome.splits sum.splits prod.splits)
qed

text \<open>
  A configuration that is being deleted is released: the finalizer is gone from the object
  the patch sends, the status is as it was, and no secret is read or written.
\<close>

lemma config_deletion_releases:
  assumes "finalizer_contract (libs C)" and "being_deleted config"
  shows "\<exists>config'. reconcile_config C owner config w = (Return (no_requeue, None), config', w) \<and>
    set (Finalizers config') = set (Finalizers config) - {K8sInstallerConfigFinalizer} \<and>
    ConfigStatus config' = ConfigStatus config"
  using assms by (auto simp: reconcile_config_def Let_def reconcileDelete_def ensure_finalizer_def being_deleted_def ext_laws)

section \<open>Properties\<close>

text \<open>
  C23. A configuration becomes ready only when both secrets are in the store: if a reconciliation
  turns \<open>Status.Ready\<close> on, its owner machine was waiting for the installation secret, an installer
  exists for that machine's host, and the store has the install secret with the installer's
  install script and the uninstall secret with its uninstall script, under the keys that the
  configuration's status now refers to.
\<close>

theorem config_ready_means_stored:
  assumes "secret_writes C holds" and "reconcile_config C owner config w = (res, config', w')"
    and "\<not> cfg_Ready (ConfigStatus config)" and "cfg_Ready (ConfigStatus config')"
  shows "\<exists>byoMachine cluster installerObj k8sVersion downloader.
    owner = Some byoMachine \<and>
    cnd_GetReason (libs C) (machine_GetConditions byoMachine) BYOHostReady = InstallationSecretNotAvailableReason \<and>
    NewInstaller (ScriptTemplates C) (OSImage (mach_HostInfo (MachineStatus byoMachine)))
      (Architecture (mach_HostInfo (MachineStatus byoMachine))) k8sVersion downloader (SkipKernelModuleCleanup C) =
      Return (Inr installerObj) \<and>
    holds w' (installSecret_of config cluster (Install installerObj)) \<and>
    holds w' (uninstallSecret_of config cluster (Uninstall installerObj)) \<and>
    cfg_InstallationSecret (ConfigStatus config') =
      Some (secret_ref (installSecret_of config cluster (Install installerObj))) \<and>
    cfg_UninstallationSecret (ConfigStatus config') =
      Some (secret_ref (uninstallSecret_of config cluster (Uninstall installerObj)))"
  using assms(2)
proof (cases rule: reconcile_config_cases)
  case same
  then show ?thesis using assms(3,4) by simp
next
  case (store byoMachine cluster installerObj err w1)
  have "err = None"
    using storeInstallationData_error store(9) assms(3,4) by (cases err) fastforce+
  then show ?thesis
    using store(2,5,8) storeInstallationData_done [OF assms(1) store(9) [unfolded \<open>err = None\<close>]] by fastforce
qed

text \<open>
  C24. The status invariant: a ready configuration refers to the two secrets named after it, and
  every reconciliation keeps this, whatever fails, and never takes readiness back.
\<close>

theorem config_status_invariant:
  assumes "config_ok config" and "reconcile_config C owner config w = (res, config', w')"
  shows "config_ok config' \<and> (cfg_Ready (ConfigStatus config) \<longrightarrow> ConfigStatus config' = ConfigStatus config)"
  using assms(2)
proof (cases rule: reconcile_config_cases)
  case same
  then show ?thesis using assms(1) by (simp add: config_ok_def)
next
  case (store byoMachine cluster installerObj err w1)
  have frame: "Name config' = Name config" "Namespace config' = Namespace config"
    using storeInstallationData_frame [OF store(9)] by simp_all
  show ?thesis
  proof (cases err)
    case None
    have "secret_writes C (\<lambda>_ _. True)" by (simp add: secret_writes_def)
    from storeInstallationData_done(3) [OF this store(9) [unfolded None]] show ?thesis
      using store(6) frame by (simp add: config_ok_def)
  next
    case (Some e)
    then show ?thesis
      using storeInstallationData_error store(6,9) by (fastforce simp: config_ok_def)
  qed
qed

section \<open>A run\<close>

record config_world = ref_world +
  cw_configs :: "K8sInstallerConfig list"

definition ref_config_client :: "'x config_world_scheme config_client" where
  "ref_config_client = client.extend ref_client (config_client.fields
     (\<lambda>k w. (store_get (cw_configs w) k, w))
     (\<lambda>ns w. (Inr (filter (\<lambda>c. Namespace c = ns) (cw_configs w)), w))
     (\<lambda>_. None)
     (\<lambda>_ c w. let (e, cs) = store_put (cw_configs w) c in (e, w\<lparr>cw_configs := cs\<rparr>))
     (\<lambda>v. Inr (before CHR ''/'' v))
     ex_templates False)"

definition ex_config :: K8sInstallerConfig where
  "ex_config = (ObjectMeta.extend (new_meta ''K8sInstallerConfig'' ''default'' ''cfg'')
     (K8sInstallerConfig.fields \<lparr>BundleRepo = ''quay.io/platform9'', BundleType = ''k8s''\<rparr>
       \<lparr>cfg_Ready = False, cfg_InstallationSecret = None, cfg_UninstallationSecret = None\<rparr>))
     \<lparr>Annotations := [K8sVersionAnnotation \<mapsto> ''v1.31.2''],
      OwnerReferences := [\<lparr>own_APIVersion = GroupVersion_String, own_Kind = ''ByoMachine'', own_Name = ''m1'',
        own_UID = [], own_Controller = Some True\<rparr>]\<rparr>"

definition ex_waiting_machine :: ByoMachine where
  "ex_waiting_machine = machine_MarkFalse ref_lib BYOHostReady InstallationSecretNotAvailableReason SeverityInfo
     ((new_machine ''default'' ''m1'' ''c1'')\<lparr>MachineStatus := \<lparr>mach_HostInfo =
        \<lparr>OSName = ''linux'', OSImage = ''Ubuntu 20.04.1 LTS'', Architecture = ''amd64''\<rparr>, mach_Ready = False,
        mach_Conditions = []\<rparr>\<rparr>)"

definition ex_config_world :: config_world where
  "ex_config_world = \<lparr>rw_hosts = [], rw_machines = [ex_waiting_machine], rw_secrets = [],
     rw_clusters = [new_cluster ''default'' ''c1''], cw_configs = [ex_config]\<rparr>"

definition ref_holds :: "'x ref_world_scheme \<Rightarrow> Secret \<Rightarrow> bool" where
  "ref_holds w s = (store_get (rw_secrets w) (obj_key s) = Inr s)"

lemma ref_client_secret_writes: "secret_writes ref_config_client ref_holds"
  unfolding secret_writes_def
  by (auto simp: ref_config_client_def ref_client_def client.defs config_client.defs ref_holds_def
      store_get_put store_get_add dest: store_get_other [rotated] split: prod.splits)

theorem config_ready_means_stored_witness:
  "case reconcile_config ref_config_client (Some ex_waiting_machine) ex_config ex_config_world of
     (res, config', w') \<Rightarrow>
       \<exists>cluster installerObj. ref_holds w' (installSecret_of ex_config cluster (Install installerObj)) \<and>
         ref_holds w' (uninstallSecret_of ex_config cluster (Uninstall installerObj))"
proof -
  let ?out = "reconcile_config ref_config_client (Some ex_waiting_machine) ex_config ex_config_world"
  obtain res config' w' where out: "?out = (res, config', w')" by (metis prod.collapse)
  have "cfg_Ready (ConfigStatus (fst (snd ?out)))" by code_simp
  then have r: "cfg_Ready (ConfigStatus config')" by (simp add: out)
  have n: "\<not> cfg_Ready (ConfigStatus ex_config)" by code_simp
  from config_ready_means_stored [OF ref_client_secret_writes out n r] show ?thesis
    unfolding out by auto
qed

theorem config_status_invariant_witness:
  "config_ok (fst (snd (reconcile_config ref_config_client (Some ex_waiting_machine) ex_config ex_config_world)))"
proof -
  have "config_ok ex_config" by code_simp
  from config_status_invariant [OF this] show ?thesis by (metis prod.collapse)
qed

text \<open>The whole reconciliation on this world: both secrets are created and the configuration is patched.\<close>

lemma Reconcile_run:
  "(case Reconcile ref_config_client (''default'', ''cfg'') ex_config_world of
      (r, w') \<Rightarrow> (r, map Name (rw_secrets w'), map (cfg_Ready \<circ> ConfigStatus) (cw_configs w'),
                 map Finalizers (cw_configs w'))) =
   (Return (no_requeue, None), [''byoh-install-cfg'', ''byoh-uninstall-cfg''], [True], [[K8sInstallerConfigFinalizer]])"
  by code_simp

end
