(* ===== verification/ByoCluster_Ctl.thy ===== *)
theory ByoCluster_Ctl
  imports Reference_Client
begin

text \<open>
  The ByoCluster controller (\<open>controllers/infrastructure/byocluster_controller.go\<close>): it keeps a
  finalizer on the cluster until its machines are gone, fills in the default port of the control
  plane endpoint and reports the infrastructure ready.  The local copy of the cluster is passed
  through the handlers and patched when \<open>Reconcile\<close> returns.
\<close>

record 'w cluster_client = "'w client" +
  getByoCluster :: "key \<Rightarrow> 'w \<Rightarrow> (error + ByoCluster) \<times> 'w"
  getOwnerCluster :: "ObjectMeta \<Rightarrow> 'w \<Rightarrow> (error + Cluster option) \<times> 'w"
  helperByoCluster :: "ByoCluster \<Rightarrow> error option"
  sendByoCluster :: "ByoCluster \<Rightarrow> ByoCluster \<Rightarrow> 'w \<Rightarrow> error option \<times> 'w"
  SetSummary :: "bool \<Rightarrow> Condition list \<Rightarrow> Condition list"
  GVKString :: "string \<Rightarrow> string \<Rightarrow> string"

definition DefaultAPIEndpointPort :: "32 word" where
  "DefaultAPIEndpointPort = 6443"

definition patchByoCluster ::
  "('w, 'z) cluster_client_scheme \<Rightarrow> ByoCluster \<Rightarrow> ByoCluster \<Rightarrow> 'w \<Rightarrow> error option \<times> ByoCluster \<times> 'w" where
  "patchByoCluster C before_c byoCluster w =
     (let summarised = cluster_SetConditions
            (SetSummary C (\<not> being_deleted byoCluster) (cluster_GetConditions byoCluster)) byoCluster;
          (err, w') = sendByoCluster C before_c summarised w
      in (err, summarised, w'))"

definition GetByoMachinesInCluster ::
  "('w, 'z) client_scheme \<Rightarrow> string \<Rightarrow> string \<Rightarrow> 'w \<Rightarrow> (error + ByoMachine list) \<times> 'w" where
  "GetByoMachinesInCluster C namespace clusterName w =
     listByoMachines C namespace [(ClusterNameLabel, clusterName)] w"

definition reconcileDelete ::
  "('w, 'z) client_scheme \<Rightarrow> ByoCluster \<Rightarrow> 'w \<Rightarrow> (Result \<times> error option) \<times> ByoCluster \<times> 'w" where
  "reconcileDelete C byoCluster w =
     (case GetByoMachinesInCluster C (Namespace byoCluster) (Name byoCluster) w of
        (Inl err, w1) \<Rightarrow>
          ((no_requeue, Some (Wrapped (''unable to list ByoMachines part of ByoCluster '' @ Namespace byoCluster @
              ''/'' @ Name byoCluster) err)), byoCluster, w1)
      | (Inr byoMachines, w1) \<Rightarrow>
          if length byoMachines > 0 then ((requeue_after (10 * Second), None), byoCluster, w1)
          else ((no_requeue, None),
                byoCluster\<lparr>Finalizers := fin_Remove (libs C) ClusterFinalizer (Finalizers byoCluster)\<rparr>, w1))"

definition reconcileNormal ::
  "('w, 'z) client_scheme \<Rightarrow> ByoCluster \<Rightarrow> (Result \<times> error option) \<times> ByoCluster" where
  "reconcileNormal C byoCluster =
     (let c1 = byoCluster\<lparr>Finalizers := fin_Add (libs C) ClusterFinalizer (Finalizers byoCluster)\<rparr>;
          endpoint = ControlPlaneEndpoint (ClusterSpec c1);
          c2 = (if Port endpoint = 0
                then c1\<lparr>ClusterSpec := (ClusterSpec c1)
                       \<lparr>ControlPlaneEndpoint := endpoint\<lparr>Port := DefaultAPIEndpointPort\<rparr>\<rparr>\<rparr>
                else c1)
      in ((no_requeue, None), c2\<lparr>ClusterStatus := (ClusterStatus c2)\<lparr>clus_Ready := True\<rparr>\<rparr>))"

definition reconcile_cluster ::
  "('w, 'z) client_scheme \<Rightarrow> ByoCluster \<Rightarrow> 'w \<Rightarrow> (Result \<times> error option) \<times> ByoCluster \<times> 'w" where
  "reconcile_cluster C byoCluster w =
     (if being_deleted byoCluster then reconcileDelete C byoCluster w
      else let (res, c) = reconcileNormal C byoCluster in (res, c, w))"

definition Reconcile ::
  "('w, 'z) cluster_client_scheme \<Rightarrow> key \<Rightarrow> 'w \<Rightarrow> (Result \<times> error option) \<times> 'w" where
  "Reconcile C req w =
     (case getByoCluster C req w of
        (Inl err, w1) \<Rightarrow> ((no_requeue, if IsNotFound err then None else Some err), w1)
      | (Inr byoCluster, w1) \<Rightarrow>
          (case getOwnerCluster C (ObjectMeta.truncate byoCluster) w1 of
             (Inl err, w2) \<Rightarrow> ((no_requeue, Some err), w2)
           | (Inr None, w2) \<Rightarrow> ((no_requeue, None), w2)
           | (Inr (Some cluster), w2) \<Rightarrow>
               if IsPaused (libs C) cluster (Annotations byoCluster) then ((no_requeue, None), w2)
               else (case helperByoCluster C byoCluster of
                 Some err \<Rightarrow>
                   ((no_requeue, Some (Wrapped (''failed to init patch helper for '' @
                       GVKString C (APIVersion byoCluster) (Kind byoCluster) @ '' '' @ Namespace byoCluster @ ''/'' @
                       Name byoCluster) err)), w2)
               | None \<Rightarrow>
                   (let ((result, reterr), byoCluster', w3) = reconcile_cluster C byoCluster w2;
                        (perr, _, w4) = patchByoCluster C byoCluster byoCluster' w3
                    in ((result, defer_error reterr perr), w4)))))"

section \<open>A cluster that is not being deleted\<close>

text \<open>The infrastructure is reported ready, with the finalizer and an endpoint port that is set.\<close>

lemma reconcileNormal_ready:
  assumes "finalizer_contract (libs C)"
  shows "\<exists>c. reconcileNormal C byoCluster = ((no_requeue, None), c) \<and> clus_Ready (ClusterStatus c) \<and>
    ClusterFinalizer \<in> set (Finalizers c) \<and> Port (ControlPlaneEndpoint (ClusterSpec c)) \<noteq> 0 \<and>
    Host (ControlPlaneEndpoint (ClusterSpec c)) = Host (ControlPlaneEndpoint (ClusterSpec byoCluster))"
  using assms by (auto simp: reconcileNormal_def Let_def DefaultAPIEndpointPort_def ext_laws)

text \<open>A port the user has chosen is kept.\<close>

lemma reconcileNormal_keeps_port:
  "Port (ControlPlaneEndpoint (ClusterSpec byoCluster)) \<noteq> 0 \<Longrightarrow>
   ClusterSpec (snd (reconcileNormal C byoCluster)) = ClusterSpec byoCluster"
  by (simp add: reconcileNormal_def Let_def)

section \<open>The deferred patch\<close>

lemma cluster_SetConditions_frame [simp, frame]:
  "Finalizers (cluster_SetConditions cs c) = Finalizers c"
  "ClusterSpec (cluster_SetConditions cs c) = ClusterSpec c"
  "clus_Ready (ClusterStatus (cluster_SetConditions cs c)) = clus_Ready (ClusterStatus c)"
  by (simp_all add: cluster_SetConditions_def)

text \<open>A reconciliation that gets past its early returns sends one patch: what it sends, and what it returns.\<close>

lemma Reconcile_sends:
  assumes "getByoCluster C req w = (Inr byoCluster, w1)"
    and "getOwnerCluster C (ObjectMeta.truncate byoCluster) w1 = (Inr (Some cluster), w2)"
    and "\<not> IsPaused (libs C) cluster (Annotations byoCluster)" and "helperByoCluster C byoCluster = None"
    and "reconcile_cluster C byoCluster w2 = ((result, reterr), c, w3)"
  obtains after_c perr w4 where "sendByoCluster C byoCluster after_c w3 = (perr, w4)"
    "Finalizers after_c = Finalizers c" "ClusterSpec after_c = ClusterSpec c"
    "clus_Ready (ClusterStatus after_c) = clus_Ready (ClusterStatus c)"
    "Reconcile C req w = ((result, defer_error reterr perr), w4)"
proof -
  let ?s = "cluster_SetConditions (SetSummary C (\<not> being_deleted c) (cluster_GetConditions c)) c"
  obtain perr w4 where send: "sendByoCluster C byoCluster ?s w3 = (perr, w4)" by fastforce
  show thesis
    by (rule that [OF send]) (simp_all add: Reconcile_def patchByoCluster_def Let_def assms send)
qed

section \<open>Deletion\<close>

text \<open>\<open>List\<close> returns the machines of the namespace that carry the labels.\<close>

definition machine_list :: "('w, 'z) client_scheme \<Rightarrow> ('w \<Rightarrow> ByoMachine list) \<Rightarrow> bool" where
  "machine_list C machines \<longleftrightarrow>
     (\<forall>ns ls w. listByoMachines C ns ls w =
        (Inr (filter (\<lambda>m. Namespace m = ns \<and> list_all (\<lambda>(k, v). Labels m k = Some v) ls) (machines w)), w))"

lemma reconcileDelete_finalizer:
  assumes "finalizer_contract (libs C)" and "machine_list C machines"
  shows "\<exists>res c. reconcileDelete C byoCluster w = ((res, None), c, w) \<and>
    set (Finalizers c) = (if \<exists>m\<in>set (machines w). Namespace m = Namespace byoCluster \<and>
         Labels m ClusterNameLabel = Some (Name byoCluster)
       then set (Finalizers byoCluster) else set (Finalizers byoCluster) - {ClusterFinalizer}) \<and>
    (c = byoCluster \<longrightarrow> ClusterFinalizer \<in> set (Finalizers byoCluster) \<longrightarrow> res = requeue_after (10 * Second))"
proof -
  let ?ms = "filter (\<lambda>m. Namespace m = Namespace byoCluster \<and> Labels m ClusterNameLabel = Some (Name byoCluster)) (machines w)"
  have l: "GetByoMachinesInCluster C (Namespace byoCluster) (Name byoCluster) w = (Inr ?ms, w)"
    using assms(2) by (simp add: GetByoMachinesInCluster_def machine_list_def)
  have "(?ms \<noteq> []) = (\<exists>m\<in>set (machines w). Namespace m = Namespace byoCluster \<and>
      Labels m ClusterNameLabel = Some (Name byoCluster))"
    by (auto simp: filter_empty_conv)
  moreover have "fin_Remove (libs C) ClusterFinalizer (Finalizers byoCluster) \<noteq> Finalizers byoCluster"
    if "ClusterFinalizer \<in> set (Finalizers byoCluster)"
    using that finalizer_contract_laws(3) [OF assms(1)] by (metis Diff_iff singletonI)
  ultimately show ?thesis
    by (cases "?ms = []") (auto simp: reconcileDelete_def l finalizer_contract_laws(3) [OF assms(1)]
        dest: arg_cong [of _ _ Finalizers])
qed


section \<open>A run\<close>

record cluster_world = ref_world +
  cw_byoclusters :: "ByoCluster list"

definition ref_cluster_client :: "'x cluster_world_scheme cluster_client" where
  "ref_cluster_client = client.extend ref_client (cluster_client.fields
     (\<lambda>k w. (store_get (cw_byoclusters w) k, w))
     (\<lambda>m w. (case find (\<lambda>r. own_Kind r = ''Cluster'') (OwnerReferences m) of
               None \<Rightarrow> Inr None
             | Some r \<Rightarrow> (case store_get (rw_clusters w) (Namespace m, own_Name r) of
                 Inl e \<Rightarrow> Inl e | Inr c \<Rightarrow> Inr (Some c)), w))
     (\<lambda>_. None)
     (\<lambda>_ c w. let (e, cs) = store_put (cw_byoclusters w) c in (e, w\<lparr>cw_byoclusters := cs\<rparr>))
     (\<lambda>_ cs. cs)
     (\<lambda>v k. v @ '', Kind='' @ k))"

definition ex_deleted_cluster :: ByoCluster where
  "ex_deleted_cluster = (ObjectMeta.extend (new_meta ''ByoCluster'' ''default'' ''c1-infra'')
     (ByoCluster.fields \<lparr>ControlPlaneEndpoint = \<lparr>Host = ''10.0.0.1'', Port = 0\<rparr>, BundleLookupBaseRegistry = []\<rparr>
       \<lparr>clus_Ready = True, clus_Conditions = [], FailureDomains = Map.empty\<rparr>))
     \<lparr>OwnerReferences := [\<lparr>own_APIVersion = ''cluster.x-k8s.io/v1beta1'', own_Kind = ''Cluster'', own_Name = ''c1'',
        own_UID = [], own_Controller = Some True\<rparr>],
      DeletionTimestamp := Some 1, Finalizers := [ClusterFinalizer]\<rparr>"

definition ex_cluster_world :: cluster_world where
  "ex_cluster_world = \<lparr>rw_hosts = [], rw_machines = [new_machine ''default'' ''m1'' ''c1''], rw_secrets = [],
     rw_clusters = [new_cluster ''default'' ''c1''], cw_byoclusters = [ex_deleted_cluster]\<rparr>"

lemma ref_machine_list: "machine_list ref_cluster_client rw_machines"
  by (simp add: machine_list_def ref_cluster_client_def ref_client_def client.defs cluster_client.defs)

lemma libs_ref_cluster_client [simp]: "libs ref_cluster_client = ref_lib"
  by (simp add: ref_cluster_client_def ref_client_def client.defs cluster_client.defs)


end
