(* ===== verification/ByoAdmission_Ctl.thy ===== *)
theory ByoAdmission_Ctl
  imports Api_Types "HOL-Library.Sublist"
begin

text \<open>
  The admission controller (\<open>controllers/infrastructure/byoadmission_controller.go\<close>) approves the
  certificate signing requests of host agents.  It sees the requests the event filter lets
  through, and approves every one that is not decided yet.
\<close>

record CSRCondition =
  csrc_Type :: string
  csrc_Status :: string
  csrc_Reason :: string

record CSR =
  csr_Name :: string
  csr_Conditions :: "CSRCondition list"

record 'w csr_client =
  getCSR :: "string \<Rightarrow> 'w \<Rightarrow> (error + CSR) \<times> 'w"
  UpdateApproval :: "string \<Rightarrow> CSR \<Rightarrow> 'w \<Rightarrow> error option \<times> 'w"

definition CertificateApproved :: string where
  "CertificateApproved = ''Approved''"

definition CertificateDenied :: string where
  "CertificateDenied = ''Denied''"

fun checkCSRCondition :: "CSRCondition list \<Rightarrow> string \<Rightarrow> bool" where
  "checkCSRCondition [] conditionType = False"
| "checkCSRCondition (condition # conditions) conditionType =
     (if csrc_Type condition = conditionType then True else checkCSRCondition conditions conditionType)"

definition approved :: "CSR \<Rightarrow> CSR" where
  "approved csr = csr\<lparr>csr_Conditions := csr_Conditions csr @
     [\<lparr>csrc_Type = CertificateApproved, csrc_Status = ''True'', csrc_Reason = ''Approved by ByoAdmission Controller''\<rparr>]\<rparr>"

definition Reconcile ::
  "('w, 'z) csr_client_scheme \<Rightarrow> key \<Rightarrow> 'w \<Rightarrow> (Result \<times> error option) \<times> 'w" where
  "Reconcile C req w =
     (case getCSR C (snd req) w of
        (Inl err, w1) \<Rightarrow> ((no_requeue, if IsNotFound err then None else Some err), w1)
      | (Inr csr, w1) \<Rightarrow>
          (let csrApproved = checkCSRCondition (csr_Conditions csr) CertificateApproved;
               csrDenied = checkCSRCondition (csr_Conditions csr) CertificateDenied
           in if csrApproved \<or> csrDenied then ((no_requeue, None), w1)
              else (case UpdateApproval C (csr_Name csr) (approved csr) w1 of
                (err, w2) \<Rightarrow> ((no_requeue, err), w2))))"

text \<open>
  The event filter: \<open>predicate.Funcs\<close> lets an event through when it has no function for its kind,
  so deletions and generic events are not filtered.
\<close>

datatype csr_event = CreateEvent string | UpdateEvent string string | DeleteEvent string | GenericEvent string

fun event_filter :: "csr_event \<Rightarrow> bool" where
  "event_filter (CreateEvent name) = prefix ''byoh-csr-'' name"
| "event_filter (UpdateEvent old_name new_name) = prefix ''byoh-csr-'' old_name"
| "event_filter (DeleteEvent name) = True"
| "event_filter (GenericEvent name) = True"

section \<open>Properties\<close>

lemma checkCSRCondition_iff: "checkCSRCondition cs t \<longleftrightarrow> t \<in> csrc_Type ` set cs"
  by (induction cs) auto

definition decided :: "CSR \<Rightarrow> bool" where
  "decided csr \<longleftrightarrow> checkCSRCondition (csr_Conditions csr) CertificateApproved \<or>
     checkCSRCondition (csr_Conditions csr) CertificateDenied"

lemma approved_conditions:
  "checkCSRCondition (csr_Conditions (approved csr)) CertificateApproved"
  "checkCSRCondition (csr_Conditions (approved csr)) CertificateDenied =
     checkCSRCondition (csr_Conditions csr) CertificateDenied"
  "csr_Name (approved csr) = csr_Name csr"
  by (auto simp: approved_def checkCSRCondition_iff CertificateApproved_def CertificateDenied_def)

text \<open>
  What the client promises: \<open>csrs w\<close> are the stored requests, each under its name; \<open>Get\<close> reads
  them, and an \<open>UpdateApproval\<close> that succeeds stores its argument.
\<close>

definition csr_store :: "('w, 'z) csr_client_scheme \<Rightarrow> ('w \<Rightarrow> string \<rightharpoonup> CSR) \<Rightarrow> bool" where
  "csr_store C csrs \<longleftrightarrow>
     (\<forall>n w. getCSR C n w = (case csrs w n of None \<Rightarrow> Inl (NotFound n) | Some c \<Rightarrow> Inr c, w)) \<and>
     (\<forall>n w c. csrs w n = Some c \<longrightarrow> csr_Name c = n) \<and>
     (\<forall>n c w w'. UpdateApproval C n c w = (None, w') \<longrightarrow> csrs w' = (csrs w)(n \<mapsto> c)) \<and>
     (\<forall>n c w e w'. UpdateApproval C n c w = (Some e, w') \<longrightarrow> csrs w' = csrs w)"

lemma csr_storeD:
  assumes "csr_store C csrs"
  shows "getCSR C n w = (case csrs w n of None \<Rightarrow> Inl (NotFound n) | Some c \<Rightarrow> Inr c, w)"
    and "csrs w n = Some c \<Longrightarrow> csr_Name c = n"
    and "UpdateApproval C n c w = (None, w') \<Longrightarrow> csrs w' = (csrs w)(n \<mapsto> c)"
    and "UpdateApproval C n c w = (Some e, w') \<Longrightarrow> csrs w' = csrs w"
  using assms unfolding csr_store_def by metis+

text \<open>An undecided request is the only one that is touched.\<close>

lemma Reconcile_store:
  assumes S: "csr_store C csrs" and eq: "Reconcile C req w = ((res, err), w')"
  shows "csrs w' = (case csrs w (snd req) of
      Some c \<Rightarrow> if decided c \<or> err \<noteq> None then csrs w else (csrs w)(snd req \<mapsto> approved c)
    | None \<Rightarrow> csrs w)"
proof (cases "csrs w (snd req)")
  case None
  then show ?thesis using eq by (auto simp: Reconcile_def csr_storeD(1) [OF S])
next
  case (Some c)
  have n: "csr_Name c = snd req" using csr_storeD(2) [OF S Some] .
  obtain e w2 where u: "UpdateApproval C (snd req) (approved c) w = (e, w2)" by fastforce
  show ?thesis
  proof (cases "decided c")
    case True
    then show ?thesis using eq Some by (auto simp: Reconcile_def csr_storeD(1) [OF S] decided_def)
  next
    case False
    then have "err = e" "w' = w2" using eq Some u n by (auto simp: Reconcile_def csr_storeD(1) [OF S] decided_def)
    then show ?thesis using Some False u csr_storeD(3,4) [OF S] by (cases e) auto
  qed
qed


definition ref_csr_client :: "(string \<rightharpoonup> CSRCondition list) csr_client" where
  "ref_csr_client =
     \<lparr>getCSR = (\<lambda>n w. (case w n of None \<Rightarrow> Inl (NotFound n) | Some cs \<Rightarrow> Inr \<lparr>csr_Name = n, csr_Conditions = cs\<rparr>, w)),
      UpdateApproval = (\<lambda>n c w. if csr_Name c = n then (None, w(n \<mapsto> csr_Conditions c))
        else (Some (ErrorString ''the name of the object does not match the name on the URL''), w))\<rparr>"

definition ref_csrs :: "(string \<rightharpoonup> CSRCondition list) \<Rightarrow> string \<rightharpoonup> CSR" where
  "ref_csrs w n = map_option (\<lambda>cs. \<lparr>csr_Name = n, csr_Conditions = cs\<rparr>) (w n)"

lemma ref_csrs_upd: "ref_csrs (w(csr_Name c \<mapsto> csr_Conditions c)) = (ref_csrs w)(csr_Name c \<mapsto> c)"
  by (cases c) (auto simp: ref_csrs_def fun_eq_iff)

lemma ref_csr_store: "csr_store ref_csr_client ref_csrs"
  by (auto simp: csr_store_def ref_csr_client_def ref_csrs_upd split: if_splits)
     (auto simp: ref_csrs_def split: option.splits)


text \<open>The requests of an agent pass the filter, and a request that is denied stays as it is.\<close>

lemma agent_request_passes: "event_filter (CreateEvent (''byoh-csr-'' @ hostname))"
  by simp

end
