(* ===== verification/Bootstrap_Token.thy ===== *)
theory Bootstrap_Token
  imports Go_Os Reference_Client
begin

text \<open>
  Bootstrap kubeconfigs: the token and the secret and kubeconfig made from it
  (\<open>common/bootstraptoken/token.go\<close>), the controller that fills in a BootstrapKubeconfig
  (\<open>controllers/infrastructure/bootstrapkubeconfig_controller.go\<close>), and the webhook that validates
  one (\<open>apis/infrastructure/v1beta1/bootstrapkubeconfig_webhook.go\<close>).
\<close>

section \<open>Tokens\<close>

definition DefaultClusterName :: string where
  "DefaultClusterName = ''default-cluster''"

definition DefaultContext :: string where
  "DefaultContext = ''default-context''"

definition DefaultNamespace :: string where
  "DefaultNamespace = ''default''"

definition DefaultAuth :: string where
  "DefaultAuth = ''default-auth''"

definition BootstrapTokenDescription :: string where
  "BootstrapTokenDescription = ''Token generated by cluster-api-provider-bringyourownhost''"

definition BootstrapTokenExtraGroups :: string where
  "BootstrapTokenExtraGroups = ''system:bootstrappers:byoh''"

text \<open>The kubeconfig of \<open>k8s.io/client-go/tools/clientcmd/api\<close>, as far as it is filled in.\<close>

record KCluster =
  kc_Server :: string
  kc_InsecureSkipTLSVerify :: bool
  kc_CertificateAuthority :: string
  kc_CertificateAuthorityData :: string

record KAuthInfo =
  ka_Token :: string
  ka_ClientCertificateData :: string
  ka_ClientKeyData :: string

record KContext =
  kx_Cluster :: string
  kx_AuthInfo :: string
  kx_Namespace :: string

record KConfig =
  Clusters :: "string \<rightharpoonup> KCluster"
  AuthInfos :: "string \<rightharpoonup> KAuthInfo"
  Contexts :: "string \<rightharpoonup> KContext"
  CurrentContext :: string

text \<open>
  The token API of \<open>k8s.io/cluster-bootstrap\<close>: the pattern of a token and the submatches it gives
  (none when the text does not match), the name of a token's secret, the keys of its data.
\<close>

record token_api =
  BootstrapTokenPattern :: string
  FindStringSubmatch :: "string \<Rightarrow> string list"
  BootstrapTokenSecretName :: "string \<Rightarrow> string"
  BootstrapTokenIDKey :: string
  BootstrapTokenSecretKey :: string
  BootstrapTokenExpirationKey :: string
  BootstrapTokenUsageSigningKey :: string
  BootstrapTokenUsageAuthentication :: string
  BootstrapTokenDescriptionKey :: string
  BootstrapTokenExtraGroupsKey :: string
  SecretTypeBootstrapToken :: string
  NamespaceSystem :: string

definition GetTokenIDSecretFromBootstrapToken ::
  "'z token_api_scheme \<Rightarrow> string \<Rightarrow> error + string \<times> string" where
  "GetTokenIDSecretFromBootstrapToken T tokenStr =
     (let substrs = FindStringSubmatch T tokenStr
      in if length substrs \<noteq> 3
         then Inl (ErrorString (''the bootstrap token '' @ Quote tokenStr @ '' was not of the form '' @
                Quote (BootstrapTokenPattern T)))
         else Inr (substrs ! 1, substrs ! 2))"

text \<open>\<open>expiration\<close> is the time \<open>now + ttl\<close> in the format of RFC 3339.\<close>

definition GenerateSecretFromBootstrapToken ::
  "'z token_api_scheme \<Rightarrow> string \<Rightarrow> string \<Rightarrow> error + Secret" where
  "GenerateSecretFromBootstrapToken T tokenStr expiration =
     (case GetTokenIDSecretFromBootstrapToken T tokenStr of
        Inl err \<Rightarrow> Inl err
      | Inr (tokenID, tokenSecret) \<Rightarrow>
          Inr (ObjectMeta.extend
            \<lparr>Kind = [], APIVersion = [], Name = BootstrapTokenSecretName T tokenID, Namespace = NamespaceSystem T,
             UID = [], Labels = Map.empty, Annotations = Map.empty, Finalizers = [], OwnerReferences = [],
             DeletionTimestamp = None\<rparr>
            (Secret.fields (SecretTypeBootstrapToken T)
              [BootstrapTokenIDKey T \<mapsto> tokenID,
               BootstrapTokenSecretKey T \<mapsto> tokenSecret,
               BootstrapTokenExpirationKey T \<mapsto> expiration,
               BootstrapTokenUsageSigningKey T \<mapsto> ''true'',
               BootstrapTokenUsageAuthentication T \<mapsto> ''true'',
               BootstrapTokenDescriptionKey T \<mapsto> BootstrapTokenDescription,
               BootstrapTokenExtraGroupsKey T \<mapsto> BootstrapTokenExtraGroups])))"

definition GenerateBootstrapKubeconfigFromBootstrapToken ::
  "'z token_api_scheme \<Rightarrow> string \<Rightarrow> BootstrapKubeconfig \<Rightarrow> error + KConfig" where
  "GenerateBootstrapKubeconfigFromBootstrapToken T tokenStr bk =
     (case GetTokenIDSecretFromBootstrapToken T tokenStr of
        Inl err \<Rightarrow> Inl err
      | Inr (tokenID, tokenSecret) \<Rightarrow>
          Inr \<lparr>Clusters = [DefaultClusterName \<mapsto>
                 \<lparr>kc_Server = APIServer (BKSpec bk), kc_InsecureSkipTLSVerify = InsecureSkipTLSVerify (BKSpec bk),
                  kc_CertificateAuthority = [], kc_CertificateAuthorityData = CertificateAuthorityData (BKSpec bk)\<rparr>],
               AuthInfos = [DefaultAuth \<mapsto>
                 \<lparr>ka_Token = tokenID @ ''.'' @ tokenSecret, ka_ClientCertificateData = [], ka_ClientKeyData = []\<rparr>],
               Contexts = [DefaultContext \<mapsto>
                 \<lparr>kx_Cluster = DefaultClusterName, kx_AuthInfo = DefaultAuth, kx_Namespace = DefaultNamespace\<rparr>],
               CurrentContext = DefaultContext\<rparr>)"

section \<open>The controller\<close>

record 'w bk_client = "'w client" +
  tokens :: token_api
  getBootstrapKubeconfig :: "key \<Rightarrow> 'w \<Rightarrow> (error + BootstrapKubeconfig) \<times> 'w"
  GenerateBootstrapToken :: "'w \<Rightarrow> (error + string) \<times> 'w"
  FormatExpiration :: "Duration \<Rightarrow> 'w \<Rightarrow> string"
  EncodeConfig :: "KConfig \<Rightarrow> error + string"
  helperBK :: "BootstrapKubeconfig \<Rightarrow> error option"
  patchBK :: "BootstrapKubeconfig \<Rightarrow> BootstrapKubeconfig \<Rightarrow> 'w \<Rightarrow> error option \<times> 'w"

definition ttl :: Duration where
  "ttl = 60 * Second * 30"

text \<open>
  From the kubeconfig to its text: the authority data, base64 in the specification, is decoded
  in the cluster entry before the kubeconfig is encoded (lines 77 to 87).  A missing entry would be
  a nil pointer.
\<close>

definition decode_ca :: "KConfig \<Rightarrow> (error + KConfig) outcome" where
  "decode_ca config =
     (case Clusters config DefaultClusterName of
        None \<Rightarrow> Panic ''nil pointer dereference''
      | Some c \<Rightarrow>
          (case DecodeString (kc_CertificateAuthorityData c) of
             Inl err \<Rightarrow> Return (Inl err)
           | Inr decodedCAData \<Rightarrow>
               Return (Inr (config\<lparr>Clusters := (Clusters config)
                 (DefaultClusterName \<mapsto> c\<lparr>kc_CertificateAuthorityData := decodedCAData\<rparr>)\<rparr>))))"

definition Reconcile ::
  "('w, 'z) bk_client_scheme \<Rightarrow> key \<Rightarrow> 'w \<Rightarrow> (Result \<times> error option) outcome \<times> 'w" where
  "Reconcile C req w =
     (case getBootstrapKubeconfig C req w of
        (Inl err, w1) \<Rightarrow> (Return (no_requeue, if IsNotFound err then None else Some err), w1)
      | (Inr bk, w1) \<Rightarrow>
          if BootstrapKubeconfigData (BKStatus bk) \<noteq> None then (Return (no_requeue, None), w1)
          else (case GenerateBootstrapToken C w1 of
            (Inl err, w2) \<Rightarrow> (Return (no_requeue, Some err), w2)
          | (Inr tokenStr, w2) \<Rightarrow>
              (case GenerateSecretFromBootstrapToken (tokens C) tokenStr (FormatExpiration C ttl w2) of
                 Inl err \<Rightarrow> (Return (no_requeue, Some err), w2)
               | Inr secret \<Rightarrow>
                   (case createSecret C secret w2 of
                      (Some err, w3) \<Rightarrow> (Return (no_requeue, Some err), w3)
                    | (None, w3) \<Rightarrow>
                        (case GenerateBootstrapKubeconfigFromBootstrapToken (tokens C) tokenStr bk of
                           Inl err \<Rightarrow> (Return (no_requeue, Some err), w3)
                         | Inr config \<Rightarrow>
                             (case decode_ca config of
                                Panic m \<Rightarrow> (Panic m, w3)
                              | Return (Inl err) \<Rightarrow> (Return (no_requeue, Some err), w3)
                              | Return (Inr config') \<Rightarrow>
                                  (case EncodeConfig C config' of
                                     Inl err \<Rightarrow> (Return (no_requeue, Some err), w3)
                                   | Inr text \<Rightarrow>
                                       (case helperBK C bk of
                                          Some err \<Rightarrow> (Return (no_requeue, Some err), w3)
                                        | None \<Rightarrow>
                                            (let (err, w4) = patchBK C bk
                                                   (bk\<lparr>BKStatus := (BKStatus bk)\<lparr>BootstrapKubeconfigData := Some text\<rparr>\<rparr>) w3
                                             in (Return (no_requeue, err), w4))))))))))"

section \<open>The webhook\<close>

text \<open>What the code reads of a parsed URL, and the two parsers of the standard library it calls.\<close>

record url =
  url_Scheme :: string
  url_Host :: string
  url_Port :: string

record parsers =
  ParseURL :: "string \<Rightarrow> error + url"
  DecodePEM :: "string \<Rightarrow> string option"

definition APIServerURLScheme :: string where
  "APIServerURLScheme = ''https''"

definition Invalid :: "string \<Rightarrow> string \<Rightarrow> string \<Rightarrow> error" where
  "Invalid path v detail = ErrorString (path @ '': Invalid value: '' @ Quote v @ '': '' @ detail)"

definition isURLValid :: "url \<Rightarrow> bool" where
  "isURLValid u = (if url_Host u = [] \<or> url_Scheme u \<noteq> APIServerURLScheme \<or> url_Port u = [] then False else True)"

definition validateAPIServer :: "parsers \<Rightarrow> BootstrapKubeconfig \<Rightarrow> error option" where
  "validateAPIServer P r =
     (let s = APIServer (BKSpec r)
      in if s = [] then Some (Invalid ''spec.apiserver'' s ''APIServer field cannot be empty'')
         else case ParseURL P s of
           Inl _ \<Rightarrow> Some (Invalid ''spec.apiserver'' s ''APIServer URL is not valid'')
         | Inr parsedURL \<Rightarrow>
             if \<not> isURLValid parsedURL
             then Some (Invalid ''spec.apiserver'' s ''APIServer is not of the format https://hostname:port'')
             else None)"

definition validateCAData :: "parsers \<Rightarrow> BootstrapKubeconfig \<Rightarrow> error option" where
  "validateCAData P r =
     (let s = CertificateAuthorityData (BKSpec r)
      in if s = [] then Some (Invalid ''spec.caData'' s ''CertificateAuthorityData field cannot be empty'')
         else case DecodeString s of
           Inl _ \<Rightarrow> Some (Invalid ''spec.caData'' s ''cannot base64 decode CertificateAuthorityData'')
         | Inr decodedCAData \<Rightarrow>
             if DecodePEM P decodedCAData = None
             then Some (Invalid ''spec.caData'' s ''CertificateAuthorityData is not PEM encoded'')
             else None)"

definition ValidateCreate :: "parsers \<Rightarrow> BootstrapKubeconfig \<Rightarrow> error option" where
  "ValidateCreate P r =
     (case validateAPIServer P r of Some err \<Rightarrow> Some err
      | None \<Rightarrow> (case validateCAData P r of Some err \<Rightarrow> Some err | None \<Rightarrow> None))"

definition ValidateUpdate :: "parsers \<Rightarrow> BootstrapKubeconfig \<Rightarrow> BootstrapKubeconfig \<Rightarrow> error option" where
  "ValidateUpdate P old r =
     (case validateAPIServer P r of Some err \<Rightarrow> Some err
      | None \<Rightarrow> (case validateCAData P r of Some err \<Rightarrow> Some err | None \<Rightarrow> None))"

definition ValidateDelete :: "BootstrapKubeconfig \<Rightarrow> error option" where
  "ValidateDelete r = None"

section \<open>Properties\<close>

text \<open>
  The token API: a token is an identifier and a secret around a dot, both submatches of the
  pattern, and the keys of the secret's data are different names.
\<close>

definition token_contract :: "'z token_api_scheme \<Rightarrow> bool" where
  "token_contract T \<longleftrightarrow>
     (\<forall>s i t. FindStringSubmatch T s = [s, i, t] \<longrightarrow> s = i @ ''.'' @ t) \<and>
     (\<forall>s. FindStringSubmatch T s = [] \<or> (\<exists>i t. FindStringSubmatch T s = [s, i, t])) \<and>
     distinct [BootstrapTokenIDKey T, BootstrapTokenSecretKey T, BootstrapTokenExpirationKey T,
       BootstrapTokenUsageSigningKey T, BootstrapTokenUsageAuthentication T, BootstrapTokenDescriptionKey T,
       BootstrapTokenExtraGroupsKey T]"

lemma GetTokenIDSecret_Inr:
  assumes "token_contract T" and "GetTokenIDSecretFromBootstrapToken T s = Inr (i, t)"
  shows "s = i @ ''.'' @ t"
proof -
  have "FindStringSubmatch T s \<noteq> []"
    using assms(2) by (auto simp: GetTokenIDSecretFromBootstrapToken_def)
  then obtain i' t' where "FindStringSubmatch T s = [s, i', t']" "s = i' @ ''.'' @ t'"
    using assms(1) unfolding token_contract_def by blast
  then show ?thesis using assms(2) by (simp add: GetTokenIDSecretFromBootstrapToken_def)
qed

text \<open>The kubeconfig a client uses: the cluster and the credentials of its current context.\<close>

definition current_token :: "KConfig \<Rightarrow> string option" where
  "current_token k = (case Contexts k (CurrentContext k) of
      None \<Rightarrow> None | Some x \<Rightarrow> map_option ka_Token (AuthInfos k (kx_AuthInfo x)))"

definition current_cluster :: "KConfig \<Rightarrow> KCluster option" where
  "current_cluster k = (case Contexts k (CurrentContext k) of
      None \<Rightarrow> None | Some x \<Rightarrow> Clusters k (kx_Cluster x))"

definition token_in :: "'z token_api_scheme \<Rightarrow> Secret \<Rightarrow> string option" where
  "token_in T s = (case (SecretData s (BootstrapTokenIDKey T), SecretData s (BootstrapTokenSecretKey T)) of
      (Some i, Some t) \<Rightarrow> Some (i @ ''.'' @ t) | _ \<Rightarrow> None)"

lemma secret_and_kubeconfig_agree:
  assumes T: "token_contract T" and s: "GenerateSecretFromBootstrapToken T tokenStr e = Inr secret"
    and k: "GenerateBootstrapKubeconfigFromBootstrapToken T tokenStr bk = Inr config"
  shows "token_in T secret = Some tokenStr" and "current_token config = Some tokenStr"
    and "current_cluster config = Some \<lparr>kc_Server = APIServer (BKSpec bk),
      kc_InsecureSkipTLSVerify = InsecureSkipTLSVerify (BKSpec bk), kc_CertificateAuthority = [],
      kc_CertificateAuthorityData = CertificateAuthorityData (BKSpec bk)\<rparr>"
proof -
  obtain i t where g: "GetTokenIDSecretFromBootstrapToken T tokenStr = Inr (i, t)"
    using s by (auto simp: GenerateSecretFromBootstrapToken_def split: sum.splits prod.splits)
  have tok: "tokenStr = i @ ''.'' @ t" by (rule GetTokenIDSecret_Inr [OF T g])
  show "token_in T secret = Some tokenStr"
    unfolding tok using s T
    by (auto simp: GenerateSecretFromBootstrapToken_def g token_in_def token_contract_def ObjectMeta.defs Secret.defs)
  have "current_token config = Some (i @ ''.'' @ t)"
    using k by (auto simp: GenerateBootstrapKubeconfigFromBootstrapToken_def g current_token_def)
  then show "current_token config = Some tokenStr" by (simp add: tok)
  show "current_cluster config = Some \<lparr>kc_Server = APIServer (BKSpec bk),
      kc_InsecureSkipTLSVerify = InsecureSkipTLSVerify (BKSpec bk), kc_CertificateAuthority = [],
      kc_CertificateAuthorityData = CertificateAuthorityData (BKSpec bk)\<rparr>"
    using k by (auto simp: GenerateBootstrapKubeconfigFromBootstrapToken_def g current_cluster_def)
qed

lemma decode_ca_current:
  assumes "decode_ca config = Return (Inr config')" and "current_cluster config = Some c"
    and "CurrentContext config = DefaultContext"
    and "Contexts config DefaultContext = Some x" and "kx_Cluster x = DefaultClusterName"
  shows "current_token config' = current_token config" and
    "\<exists>ca. DecodeString (kc_CertificateAuthorityData c) = Inr ca \<and>
      current_cluster config' = Some (c\<lparr>kc_CertificateAuthorityData := ca\<rparr>)"
  using assms by (auto simp: decode_ca_def current_token_def current_cluster_def split: option.splits sum.splits)

text \<open>A reconciliation that has something to do and succeeds went through all its steps.\<close>

lemma Reconcile_success:
  assumes "getBootstrapKubeconfig C req w = (Inr bk, w1)" and "BootstrapKubeconfigData (BKStatus bk) = None"
    and "Reconcile C req w = (Return (res, None), w')"
  obtains tokenStr w2 secret w3 config config' data where "GenerateBootstrapToken C w1 = (Inr tokenStr, w2)"
    "GenerateSecretFromBootstrapToken (tokens C) tokenStr (FormatExpiration C ttl w2) = Inr secret"
    "createSecret C secret w2 = (None, w3)"
    "GenerateBootstrapKubeconfigFromBootstrapToken (tokens C) tokenStr bk = Inr config"
    "decode_ca config = Return (Inr config')" "EncodeConfig C config' = Inr data"
    "patchBK C bk (bk\<lparr>BKStatus := (BKStatus bk)\<lparr>BootstrapKubeconfigData := Some data\<rparr>\<rparr>) w3 = (None, w')"
proof -
  obtain r w2 where g: "GenerateBootstrapToken C w1 = (r, w2)" by fastforce
  obtain tokenStr where r: "r = Inr tokenStr"
    using assms g by (cases r) (auto simp: Reconcile_def)
  obtain secret where s: "GenerateSecretFromBootstrapToken (tokens C) tokenStr (FormatExpiration C ttl w2) = Inr secret"
    using assms g r by (cases "GenerateSecretFromBootstrapToken (tokens C) tokenStr (FormatExpiration C ttl w2)")
      (auto simp: Reconcile_def)
  obtain e w3 where c: "createSecret C secret w2 = (e, w3)" by fastforce
  have e: "e = None" using assms g r s c by (cases e) (auto simp: Reconcile_def)
  obtain config where k: "GenerateBootstrapKubeconfigFromBootstrapToken (tokens C) tokenStr bk = Inr config"
    using assms g r s c e by (cases "GenerateBootstrapKubeconfigFromBootstrapToken (tokens C) tokenStr bk")
      (auto simp: Reconcile_def)
  note run = assms(3) [unfolded Reconcile_def assms(1) prod.case sum.case assms(2) g r s c e k option.case]
  obtain config' where d: "decode_ca config = Return (Inr config')"
    using run by (auto split: outcome.splits sum.splits)
  obtain data where t: "EncodeConfig C config' = Inr data"
    using run d by (cases "EncodeConfig C config'") auto
  have "patchBK C bk (bk\<lparr>BKStatus := (BKStatus bk)\<lparr>BootstrapKubeconfigData := Some data\<rparr>\<rparr>) w3 = (None, w')"
    using run d t by (auto simp: Let_def split: option.splits prod.splits)
  then show thesis using that g r s c e k d t by blast
qed

text \<open>
  C34. The kubeconfig that is published works with the secret that was stored: its current context
  names credentials whose token is the one in the bootstrap token secret created before, and a
  cluster with the server of the specification and its authority data, base64 decoded.
\<close>

theorem bootstrap_kubeconfig_usable:
  assumes "token_contract (tokens C)" and "getBootstrapKubeconfig C req w = (Inr bk, w1)"
    and "BootstrapKubeconfigData (BKStatus bk) = None" and "Reconcile C req w = (Return (res, None), w')"
  shows "\<exists>secret w2 w3 config data ca. createSecret C secret w2 = (None, w3) \<and> EncodeConfig C config = Inr data \<and>
    patchBK C bk (bk\<lparr>BKStatus := (BKStatus bk)\<lparr>BootstrapKubeconfigData := Some data\<rparr>\<rparr>) w3 = (None, w') \<and>
    current_token config = token_in (tokens C) secret \<and> token_in (tokens C) secret \<noteq> None \<and>
    DecodeString (CertificateAuthorityData (BKSpec bk)) = Inr ca \<and>
    map_option kc_CertificateAuthorityData (current_cluster config) = Some ca \<and>
    map_option kc_Server (current_cluster config) = Some (APIServer (BKSpec bk))"
proof -
  obtain tokenStr w2 secret w3 config0 config data where "GenerateBootstrapToken C w1 = (Inr tokenStr, w2)"
    and s: "GenerateSecretFromBootstrapToken (tokens C) tokenStr (FormatExpiration C ttl w2) = Inr secret"
    and c: "createSecret C secret w2 = (None, w3)"
    and k: "GenerateBootstrapKubeconfigFromBootstrapToken (tokens C) tokenStr bk = Inr config0"
    and d: "decode_ca config0 = Return (Inr config)" and t: "EncodeConfig C config = Inr data"
    and p: "patchBK C bk (bk\<lparr>BKStatus := (BKStatus bk)\<lparr>BootstrapKubeconfigData := Some data\<rparr>\<rparr>) w3 = (None, w')"
    by (rule Reconcile_success [OF assms(2-4)])
  note agree = secret_and_kubeconfig_agree [OF assms(1) s k]
  obtain x where cx: "CurrentContext config0 = DefaultContext" "Contexts config0 DefaultContext = Some x"
      "kx_Cluster x = DefaultClusterName"
    using k by (auto simp: GenerateBootstrapKubeconfigFromBootstrapToken_def split: sum.splits prod.splits)
  obtain ca where "DecodeString (CertificateAuthorityData (BKSpec bk)) = Inr ca"
      "map_option kc_CertificateAuthorityData (current_cluster config) = Some ca"
      "map_option kc_Server (current_cluster config) = Some (APIServer (BKSpec bk))"
    using decode_ca_current(2) [OF d agree(3) cx] by auto
  moreover have "current_token config = Some tokenStr"
    using decode_ca_current(1) [OF d agree(3) cx] agree(2) by simp
  ultimately show ?thesis
    using agree(1) c t p
    by - (rule exI [of _ secret], rule exI [of _ w2], rule exI [of _ w3], rule exI [of _ config],
      rule exI [of _ data], rule exI [of _ ca], simp)
qed

text \<open>
  C35. What the webhook has accepted the controller can process: no panic and no decoding error is
  left, so once the token's secret is stored the only way to end without publishing the kubeconfig
  is a failure of the encoder, of the patch helper or of the API server.
\<close>

theorem accepted_kubeconfig_processed:
  assumes "ValidateCreate P bk = None" and "getBootstrapKubeconfig C req w = (Inr bk, w1)"
    and "BootstrapKubeconfigData (BKStatus bk) = None" and "GenerateBootstrapToken C w1 = (Inr tokenStr, w2)"
    and "GenerateSecretFromBootstrapToken (tokens C) tokenStr (FormatExpiration C ttl w2) = Inr secret"
    and "createSecret C secret w2 = (None, w3)" and "helperBK C bk = None"
  shows "\<exists>config. Reconcile C req w = (case EncodeConfig C config of
      Inl err \<Rightarrow> (Return (no_requeue, Some err), w3)
    | Inr data \<Rightarrow> (let (err, w4) = patchBK C bk (bk\<lparr>BKStatus := (BKStatus bk)\<lparr>BootstrapKubeconfigData := Some data\<rparr>\<rparr>) w3
        in (Return (no_requeue, err), w4)))"
proof -
  obtain i t where g: "GetTokenIDSecretFromBootstrapToken (tokens C) tokenStr = Inr (i, t)"
    using assms(5) by (auto simp: GenerateSecretFromBootstrapToken_def split: sum.splits prod.splits)
  obtain ca where ca: "DecodeString (CertificateAuthorityData (BKSpec bk)) = Inr ca"
    using assms(1) by (auto simp: ValidateCreate_def validateCAData_def Let_def split: option.splits if_splits sum.splits)
  obtain config where k: "GenerateBootstrapKubeconfigFromBootstrapToken (tokens C) tokenStr bk = Inr config"
    by (simp add: GenerateBootstrapKubeconfigFromBootstrapToken_def g)
  then obtain config' where d: "decode_ca config = Return (Inr config')"
    using ca by (auto simp: GenerateBootstrapKubeconfigFromBootstrapToken_def g decode_ca_def)
  show ?thesis
    using assms(2-7) k d by (intro exI [of _ config']) (auto simp: Reconcile_def split: sum.splits)
qed

section \<open>A run\<close>

definition lower_alnum_char :: "char \<Rightarrow> bool" where
  "lower_alnum_char c = (c \<in> set ''abcdefghijklmnopqrstuvwxyz0123456789'')"

definition ref_token_api :: token_api where
  "ref_token_api = \<lparr>BootstrapTokenPattern = ''([a-z0-9]{6})[.]([a-z0-9]{16})'',
     FindStringSubmatch = (\<lambda>s. let i = take 6 s; t = drop 7 s
        in if s = i @ ''.'' @ t \<and> length t = 16 \<and> list_all lower_alnum_char (i @ t) then [s, i, t] else []),
     BootstrapTokenSecretName = (\<lambda>i. ''bootstrap-token-'' @ i), BootstrapTokenIDKey = ''token-id'',
     BootstrapTokenSecretKey = ''token-secret'', BootstrapTokenExpirationKey = ''expiration'',
     BootstrapTokenUsageSigningKey = ''usage-bootstrap-signing'',
     BootstrapTokenUsageAuthentication = ''usage-bootstrap-authentication'',
     BootstrapTokenDescriptionKey = ''description'', BootstrapTokenExtraGroupsKey = ''auth-extra-groups'',
     SecretTypeBootstrapToken = ''bootstrap.kubernetes.io/token'', NamespaceSystem = ''kube-system''\<rparr>"

lemma ref_token_contract: "token_contract ref_token_api"
  by (auto simp: token_contract_def ref_token_api_def Let_def)

record bk_world = ref_world +
  bw_kubeconfigs :: "BootstrapKubeconfig list"

definition ref_bk_client :: "'x bk_world_scheme bk_client" where
  "ref_bk_client = client.extend ref_client (bk_client.fields ref_token_api
     (\<lambda>k w. (store_get (bw_kubeconfigs w) k, w))
     (\<lambda>w. (Inr ''abcdef.0123456789abcdef'', w))
     (\<lambda>_ _. ''2026-01-01T00:00:00Z'')
     (\<lambda>k. case current_token k of None \<Rightarrow> Inl (ErrorString ''no token'') | Some t \<Rightarrow> Inr t)
     (\<lambda>_. None)
     (\<lambda>_ k w. let (e, ks) = store_put (bw_kubeconfigs w) k in (e, w\<lparr>bw_kubeconfigs := ks\<rparr>)))"

definition ex_bk :: BootstrapKubeconfig where
  "ex_bk = ObjectMeta.extend (new_meta ''BootstrapKubeconfig'' ''default'' ''bk'')
     (BootstrapKubeconfig.fields \<lparr>APIServer = ''https://10.0.0.1:6443'', InsecureSkipTLSVerify = False,
        CertificateAuthorityData = ''QQ==''\<rparr> \<lparr>BootstrapKubeconfigData = None\<rparr>)"

definition ex_bk_world :: bk_world where
  "ex_bk_world = \<lparr>rw_hosts = [], rw_machines = [], rw_secrets = [], rw_clusters = [], bw_kubeconfigs = [ex_bk]\<rparr>"

definition ex_parsers :: parsers where
  "ex_parsers = \<lparr>ParseURL = (\<lambda>_. Inr \<lparr>url_Scheme = ''https'', url_Host = ''10.0.0.1:6443'', url_Port = ''6443''\<rparr>),
     DecodePEM = (\<lambda>s. if s = [] then None else Some s)\<rparr>"

lemma ex_bk_get:
  "getBootstrapKubeconfig ref_bk_client (''default'', ''bk'') ex_bk_world = (Inr ex_bk, ex_bk_world)"
  "BootstrapKubeconfigData (BKStatus ex_bk) = None" "tokens ref_bk_client = ref_token_api"
  by (simp_all add: ref_bk_client_def ref_client_def client.defs bk_client.defs ex_bk_world_def ex_bk_def store_get_def
      new_object_defs BootstrapKubeconfig.defs obj_key_def)

theorem bootstrap_kubeconfig_usable_witness:
  "\<exists>secret config. token_in ref_token_api secret \<noteq> None \<and> current_token config = token_in ref_token_api secret \<and>
     map_option kc_CertificateAuthorityData (current_cluster config) = Some ''A''"
proof -
  let ?out = "Reconcile ref_bk_client (''default'', ''bk'') ex_bk_world"
  have "fst ?out = Return (no_requeue, None)" by code_simp
  then have out: "?out = (Return (no_requeue, None), snd ?out)" by (metis prod.collapse)
  have ca: "CertificateAuthorityData (BKSpec ex_bk) = ''QQ==''"
    by (simp add: ex_bk_def new_object_defs BootstrapKubeconfig.defs)
  have tc: "token_contract (tokens ref_bk_client)" by (simp add: ex_bk_get(3) ref_token_contract)
  have dec: "DecodeString ''QQ=='' = Inr ''A''" by code_simp
  from bootstrap_kubeconfig_usable [OF tc ex_bk_get(1,2) out, unfolded ex_bk_get(3) ca dec]
  obtain secret config c' where "current_token config = token_in ref_token_api secret"
      "token_in ref_token_api secret \<noteq> None" "Inr ''A'' = (Inr c' :: error + string)"
      "map_option kc_CertificateAuthorityData (current_cluster config) = Some c'"
    by (elim exE conjE)
  then show ?thesis by (intro exI [of _ secret] exI [of _ config]) simp
qed

theorem accepted_kubeconfig_processed_witness:
  "ValidateCreate ex_parsers ex_bk = None \<and>
   (\<exists>config w3. Reconcile ref_bk_client (''default'', ''bk'') ex_bk_world = (case EncodeConfig (ref_bk_client :: bk_world bk_client) config of
      Inl err \<Rightarrow> (Return (no_requeue, Some err), w3)
    | Inr data \<Rightarrow> (let (err, w4) = patchBK ref_bk_client ex_bk
          (ex_bk\<lparr>BKStatus := (BKStatus ex_bk)\<lparr>BootstrapKubeconfigData := Some data\<rparr>\<rparr>) w3
        in (Return (no_requeue, err), w4))))"
proof -
  have v: "ValidateCreate ex_parsers ex_bk = None" by code_simp
  have g: "GenerateBootstrapToken ref_bk_client w = (Inr ''abcdef.0123456789abcdef'', w)"
      "FormatExpiration ref_bk_client d w = ''2026-01-01T00:00:00Z''" "helperBK ref_bk_client b = None" for w d b
    by (simp_all add: ref_bk_client_def ref_client_def client.defs bk_client.defs)
  obtain i t where "GetTokenIDSecretFromBootstrapToken ref_token_api ''abcdef.0123456789abcdef'' = Inr (i, t)"
    by (simp add: GetTokenIDSecretFromBootstrapToken_def ref_token_api_def lower_alnum_char_def Let_def)
  then obtain s where s: "GenerateSecretFromBootstrapToken ref_token_api ''abcdef.0123456789abcdef'' ''2026-01-01T00:00:00Z'' = Inr s"
    by (simp add: GenerateSecretFromBootstrapToken_def)
  obtain w3 where c: "createSecret ref_bk_client s ex_bk_world = (None, w3)"
    by (simp add: ref_bk_client_def ref_client_def client.defs bk_client.defs ex_bk_world_def store_add_def store_has_def)
  have s': "GenerateSecretFromBootstrapToken (tokens ref_bk_client) ''abcdef.0123456789abcdef''
      (FormatExpiration ref_bk_client ttl ex_bk_world) = Inr s"
    using s by (simp add: ex_bk_get(3) g(2))
  show ?thesis
    using accepted_kubeconfig_processed [OF v ex_bk_get(1,2) g(1) s' c g(3)] v by blast
qed

end
