(* ===== verification/ByoHost_Webhook.thy ===== *)
theory ByoHost_Webhook
  imports Reference_Client Go_Regexp
begin

text \<open>
  The validating webhook for ByoHosts (\<open>apis/infrastructure/v1beta1/byohost_webhook.go\<close>).  The
  decoder of the admission package is a parameter, from the raw object to a ByoHost.
\<close>

datatype Operation = Create | Update | Delete | Connect

record 'r Request =
  req_Operation :: Operation
  req_Username :: string
  req_Object :: 'r
  req_OldObject :: 'r

datatype Response = Allowed string | Denied string | Errored nat error

record ('r, 'w) validator = "'w client" +
  Decode :: "'r Request \<Rightarrow> error + ByoHost"
  DecodeRaw :: "'r \<Rightarrow> error + ByoHost"

definition StatusBadRequest :: nat where
  "StatusBadRequest = 400"

definition kaapiManagerServiceAccount :: string where
  "kaapiManagerServiceAccount = ''system:serviceaccount:kaapi:byoh-controller-manager''"

definition byohSystemManagerServiceAccount :: string where
  "byohSystemManagerServiceAccount = ''system:serviceaccount:byoh-system:byoh-controller-manager''"

definition managerServiceAccounts :: "string list" where
  "managerServiceAccounts = [kaapiManagerServiceAccount, byohSystemManagerServiceAccount]"

definition letter :: "char \<Rightarrow> bool" where
  "letter c \<longleftrightarrow> c \<in> set ''abcdefghijklmnopqrstuvwxyzABCDEFGHIJKLMNOPQRSTUVWXYZ''"

definition digit :: "char \<Rightarrow> bool" where
  "digit c \<longleftrightarrow> c \<in> set ''0123456789''"

text \<open>The pattern \<^verbatim>\<open>^[a-zA-Z0-9._%+-]+@[a-zA-Z0-9.-]+\.[a-zA-Z]{2,}$\<close>; it is anchored at both ends.\<close>

definition emailLikeUserRegex :: rexp where
  "emailLikeUserRegex =
     Cat (rplus (Chars (\<lambda>c. letter c \<or> digit c \<or> c \<in> set ''._%+-'')))
       (Cat (lit ''@'') (Cat (rplus (Chars (\<lambda>c. letter c \<or> digit c \<or> c \<in> set ''.-'')))
         (Cat (lit ''.'') (Cat (Chars letter) (rplus (Chars letter))))))"

definition handleCreateUpdate :: "('r, 'w, 'z) validator_scheme \<Rightarrow> 'r Request \<Rightarrow> Response" where
  "handleCreateUpdate V req =
     (case Decode V req of
        Inl err \<Rightarrow> Errored StatusBadRequest err
      | Inr byoHost \<Rightarrow>
          (let userName = req_Username req
           in if userName \<in> set managerServiceAccounts then Allowed []
              else if accepts emailLikeUserRegex userName then Allowed []
              else if length (Split CHR '':'' userName) < 2
              then Denied (userName @ '' is not a valid agent username'')
              else Allowed []))"

definition handleDelete :: "('r, 'w, 'z) validator_scheme \<Rightarrow> 'r Request \<Rightarrow> 'w \<Rightarrow> Response \<times> 'w" where
  "handleDelete V req w =
     (case DecodeRaw V (req_OldObject req) of
        Inl err \<Rightarrow> (Errored StatusBadRequest err, w)
      | Inr byoHost \<Rightarrow>
          (case MachineRef (HostStatus byoHost) of
             None \<Rightarrow> (Allowed [], w)
           | Some ref \<Rightarrow>
               (case getByoMachine V (Namespace byoHost, ref_Name ref) w of
                  (Inl err, w1) \<Rightarrow>
                    (if IsNotFound err then Allowed [] else Denied ''cannot delete ByoHost when byomachine exists'', w1)
                | (Inr _, w1) \<Rightarrow> (Denied ''cannot delete ByoHost when MachineRef is assigned'', w1))))"

definition Handle :: "('r, 'w, 'z) validator_scheme \<Rightarrow> 'r Request \<Rightarrow> 'w \<Rightarrow> Response \<times> 'w" where
  "Handle V req w =
     (case req_Operation req of
        Create \<Rightarrow> (handleCreateUpdate V req, w)
      | Update \<Rightarrow> (handleCreateUpdate V req, w)
      | Delete \<Rightarrow> handleDelete V req w
      | Connect \<Rightarrow> (Allowed [], w))"

section \<open>Properties\<close>

fun is_allowed :: "Response \<Rightarrow> bool" where
  "is_allowed (Allowed _) = True"
| "is_allowed (Denied _) = False"
| "is_allowed (Errored _ _) = False"

text \<open>An email-like name has an at sign and no colon.\<close>

lemma email_like_chars:
  assumes "accepts emailLikeUserRegex s"
  shows "CHR ''@'' \<in> set s \<and> CHR '':'' \<notin> set s"
proof -
  have no: "\<not> letter CHR '':''" "\<not> digit CHR '':''" "CHR '':'' \<notin> set ''._%+-''" "CHR '':'' \<notin> set ''.-''"
    by (simp_all add: letter_def digit_def)
  let ?local = "Chars (\<lambda>c. letter c \<or> digit c \<or> c \<in> set ''._%+-'')"
  let ?domain = "Chars (\<lambda>c. letter c \<or> digit c \<or> c \<in> set ''.-'')"
  from assms obtain a b c d where s: "s = a @ ''@'' @ b @ ''.'' @ c @ d" and "matches (rplus ?local) a"
      "matches (rplus ?domain) b" "matches (Chars letter) c" "matches (rplus (Chars letter)) d"
    unfolding accepts_iff_matches emailLikeUserRegex_def matches_simps(4) matches_lit by blast
  then have "\<forall>x\<in>set a. letter x \<or> digit x \<or> x \<in> set ''._%+-''" "\<forall>x\<in>set b. letter x \<or> digit x \<or> x \<in> set ''.-''"
      "\<forall>x\<in>set c. letter x" "\<forall>x\<in>set d. letter x"
    unfolding matches_rplus_Chars by auto
  then have "CHR '':'' \<notin> set a" "CHR '':'' \<notin> set b" "CHR '':'' \<notin> set c" "CHR '':'' \<notin> set d"
    using no by blast+
  then show ?thesis by (simp add: s)
qed


text \<open>
  Who may create or update a ByoHost: for an object that decodes, the answer is a function of
  the user's name alone.  A manager account, an email-like name and any name with a colon are
  allowed, every other name is denied, and the host that is written plays no part: an agent's
  request for another agent's host is allowed.
\<close>

theorem create_update_by_user:
  assumes "req_Operation req \<in> {Create, Update}" and "Decode V req = Inr byoHost"
  shows "is_allowed (fst (Handle V req w)) \<longleftrightarrow>
    CHR '':'' \<in> set (req_Username req) \<or> matches emailLikeUserRegex (req_Username req)"
proof -
  have "CHR '':'' \<in> set s" if "s \<in> set managerServiceAccounts" for s
    using that by (auto simp: managerServiceAccounts_def kaapiManagerServiceAccount_def byohSystemManagerServiceAccount_def)
  moreover have "length (Split CHR '':'' s) < 2 \<longleftrightarrow> CHR '':'' \<notin> set s" for s
    by (simp add: length_Split count_list_0_iff)
  ultimately show ?thesis
    using assms by (auto simp: Handle_def handleCreateUpdate_def Let_def accepts_iff_matches split: if_splits)
qed

section \<open>Requests\<close>

definition ref_validator :: "(ByoHost, 'x ref_world_scheme) validator" where
  "ref_validator = client.extend ref_client (validator.fields (\<lambda>r. Inr (req_Object r)) Inr)"

definition ex_reserved :: ByoHost where
  "ex_reserved = (new_host ''default'' ''host1'')\<lparr>HostStatus := (HostStatus (new_host ''default'' ''host1''))
     \<lparr>MachineRef := Some (empty_ref\<lparr>ref_Namespace := ''default'', ref_Name := ''m1''\<rparr>)\<rparr>\<rparr>"

definition ex_request :: "Operation \<Rightarrow> string \<Rightarrow> ByoHost Request" where
  "ex_request op user = \<lparr>req_Operation = op, req_Username = user, req_Object = ex_reserved, req_OldObject = ex_reserved\<rparr>"

definition ex_hook_world :: "ByoMachine list \<Rightarrow> ref_world" where
  "ex_hook_world ms = \<lparr>rw_hosts = [ex_reserved], rw_machines = ms, rw_secrets = [], rw_clusters = []\<rparr>"

lemma ref_validator_decodes:
  "DecodeRaw ref_validator h = Inr h" "Decode ref_validator r = Inr (req_Object r)"
  by (simp_all add: ref_validator_def ref_client_def client.defs validator.defs)


theorem create_update_by_user_witness:
  "is_allowed (fst (Handle ref_validator (ex_request Update ''byoh:host:host2'') (ex_hook_world []))) \<and>
   \<not> is_allowed (fst (Handle ref_validator (ex_request Update ''host1'') (ex_hook_world [])))"
proof -
  have op: "req_Operation (ex_request Update u) \<in> {Create, Update}" "req_Username (ex_request Update u) = u" for u
    by (simp_all add: ex_request_def)
  have "\<not> matches emailLikeUserRegex ''host1''"
    using email_like_chars [of "''host1''"] by (auto simp: accepts_iff_matches)
  moreover have "is_allowed (fst (Handle ref_validator (ex_request Update u) w)) \<longleftrightarrow>
      CHR '':'' \<in> set u \<or> matches emailLikeUserRegex u" for u and w :: ref_world
    using create_update_by_user [OF op(1) ref_validator_decodes(2), of u w] by (simp add: op(2))
  ultimately show ?thesis by simp
qed

end
