(* ===== verification/Registration.thy ===== *)
theory Registration
  imports Go_Os Bootstrap_Token Reference_Client
begin

text \<open>
  The registration of a host by its agent: \<open>agent/registration/host_registrar.go\<close> makes or updates
  the ByoHost object, \<open>agent/registration/csr.go\<close> obtains a client certificate with a bootstrap
  kubeconfig.  The network interfaces, the contents of the files that are read, and the
  certificate machinery of client-go are parameters.
\<close>

section \<open>Network and platform\<close>

datatype net_addr = IPNet string string | IPAddr string string | OtherAddr string

text \<open>The text of the IP of an address (\<open>nil\<close> prints as \<open><nil>\<close>) and of the address.\<close>

fun addr_ip :: "net_addr \<Rightarrow> string" where
  "addr_ip (IPNet ip _) = ip"
| "addr_ip (IPAddr ip _) = ip"
| "addr_ip (OtherAddr _) = ''<nil>''"

fun addr_String :: "net_addr \<Rightarrow> string" where
  "addr_String (IPNet _ s) = s"
| "addr_String (IPAddr _ s) = s"
| "addr_String (OtherAddr s) = s"

record iface =
  if_Name :: string
  if_Flags :: "32 word"
  if_HardwareAddr :: string
  if_Addrs :: "error + net_addr list"

datatype read_result = ReadOk string | ReadNotExist error | ReadError error

record host_env =
  DiscoverInterface :: "error + string"
  Interfaces :: "error + iface list"
  GOARCH :: string
  GOOS :: string
  ReadFile :: "string \<Rightarrow> read_result"

definition FlagUp :: "32 word" where
  "FlagUp = 1"

text \<open>The loop over the addresses of an interface; \<open>dflt\<close> is \<open>hr.ByoHostInfo.DefaultNetworkInterfaceName\<close>.\<close>

fun scan_addrs :: "string \<Rightarrow> net_addr list \<Rightarrow> NetworkStatus \<Rightarrow> string \<Rightarrow> NetworkStatus \<times> string" where
  "scan_addrs defaultIP [] ns dflt = (ns, dflt)"
| "scan_addrs defaultIP (a # addrs) ns dflt =
     (let (ns1, dflt1) = (if addr_ip a = defaultIP then (ns\<lparr>IsDefault := True\<rparr>, NetworkInterfaceName ns) else (ns, dflt))
      in scan_addrs defaultIP addrs (ns1\<lparr>IPAddrs := IPAddrs ns1 @ [addr_String a]\<rparr>) dflt1)"

fun scan_ifaces :: "string \<Rightarrow> iface list \<Rightarrow> string \<Rightarrow> NetworkStatus list \<times> string" where
  "scan_ifaces defaultIP [] dflt = ([], dflt)"
| "scan_ifaces defaultIP (i # ifaces) dflt =
     (case if_Addrs i of
        Inl _ \<Rightarrow> scan_ifaces defaultIP ifaces dflt
      | Inr addrs \<Rightarrow>
          (let (ns, dflt1) = scan_addrs defaultIP addrs
                 \<lparr>Connected = (if and (if_Flags i) FlagUp > 0 then True else False), IPAddrs = [],
                  MACAddr = if_HardwareAddr i, NetworkInterfaceName = if_Name i, IsDefault = False\<rparr> dflt;
               (rest, dflt2) = scan_ifaces defaultIP ifaces dflt1
           in (ns # rest, dflt2)))"

definition GetNetworkStatus :: "'z host_env_scheme \<Rightarrow> string \<Rightarrow> NetworkStatus list \<times> string" where
  "GetNetworkStatus E dflt =
     (case DiscoverInterface E of
        Inl _ \<Rightarrow> ([], dflt)
      | Inr defaultIP \<Rightarrow>
          (case Interfaces E of
             Inl _ \<Rightarrow> ([], dflt)
           | Inr ifaces \<Rightarrow> scan_ifaces defaultIP ifaces dflt))"

text \<open>
  The pattern \<^verbatim>\<open>(PRETTY_NAME)=(.*)\<close>: the second group of its first match is what follows the first
  occurrence of the literal up to the end of the line.
\<close>

fun after_first :: "string \<Rightarrow> string \<Rightarrow> string option" where
  "after_first pat [] = (if pat = [] then Some [] else None)"
| "after_first pat (c # cs) =
     (if take (length pat) (c # cs) = pat then Some (drop (length pat) (c # cs)) else after_first pat cs)"

definition Trim :: "char \<Rightarrow> string \<Rightarrow> string" where
  "Trim c s = rev (dropWhile (\<lambda>x. x = c) (rev (dropWhile (\<lambda>x. x = c) s)))"

definition pretty_name :: "string \<Rightarrow> string" where
  "pretty_name s =
     (case after_first ''PRETTY_NAME='' s of
        Some rest \<Rightarrow> Trim CHR 0x22 (takeWhile (\<lambda>c. c \<noteq> CHR 0x0A) rest)
      | None \<Rightarrow> ''Unknown'')"

definition getOperatingSystem :: "(string \<Rightarrow> read_result) \<Rightarrow> error + string" where
  "getOperatingSystem f =
     (let r = (case f ''/etc/os-release'' of ReadNotExist _ \<Rightarrow> f ''/usr/lib/os-release'' | other \<Rightarrow> other)
      in case r of
           ReadOk bytes \<Rightarrow> Inr (pretty_name bytes)
         | ReadNotExist err \<Rightarrow> Inl (ErrorString (''error opening file : '' @ Error err))
         | ReadError err \<Rightarrow> Inl (ErrorString (''error opening file : '' @ Error err)))"

definition getHostInfo :: "'z host_env_scheme \<Rightarrow> HostInfo \<times> error option" where
  "getHostInfo E =
     (let hostInfo = \<lparr>OSName = GOOS E, OSImage = [], Architecture = GOARCH E\<rparr>
      in case getOperatingSystem (ReadFile E) of
           Inl err \<Rightarrow> (hostInfo, Some (Wrapped ''failed to get host operating system image'' err))
         | Inr distribution \<Rightarrow> (hostInfo\<lparr>OSImage := distribution\<rparr>, None))"

section \<open>Register\<close>

record 'w registrar = "'w client" +
  createByoHost :: "ByoHost \<Rightarrow> 'w \<Rightarrow> (error + ByoHost) \<times> 'w"

text \<open>Both return the default interface name that the registrar remembers, whatever else happens.\<close>

definition UpdateHost ::
  "('w, 'z) registrar_scheme \<Rightarrow> 'y host_env_scheme \<Rightarrow> ByoHost \<Rightarrow> string \<Rightarrow> 'w \<Rightarrow> error option \<times> string \<times> 'w" where
  "UpdateHost C E byoHost dflt w =
     (case helperByoHost C byoHost of
        Some err \<Rightarrow> (Some err, dflt, w)
      | None \<Rightarrow>
          (let (network, dflt') = GetNetworkStatus E dflt;
               host1 = byoHost\<lparr>HostStatus := (HostStatus byoHost)\<lparr>Network := network\<rparr>\<rparr>;
               (details, err) = getHostInfo E;
               host2 = host1\<lparr>HostStatus := (HostStatus host1)\<lparr>HostDetails := details\<rparr>\<rparr>
           in case err of
                Some e \<Rightarrow> (Some e, dflt', w)
              | None \<Rightarrow> (let (perr, w') = patchByoHost C byoHost host2 w in (perr, dflt', w'))))"

definition new_ByoHost :: "string \<Rightarrow> string \<Rightarrow> strmap \<Rightarrow> ByoHost" where
  "new_ByoHost hostName namespace hostLabels =
     ObjectMeta.extend
       \<lparr>Kind = ''ByoHost'', APIVersion = ''infrastructure.cluster.x-k8s.io/v1beta1'', Name = hostName,
        Namespace = namespace, UID = [], Labels = hostLabels, Annotations = Map.empty, Finalizers = [],
        OwnerReferences = [], DeletionTimestamp = None\<rparr>
       (ByoHost.fields \<lparr>BootstrapSecret = None, InstallationSecret = None, UninstallationSecret = None\<rparr>
         \<lparr>MachineRef = None, host_Conditions = [],
          HostDetails = \<lparr>OSName = [], OSImage = [], Architecture = []\<rparr>, Network = []\<rparr>)"

definition Register ::
  "('w, 'z) registrar_scheme \<Rightarrow> 'y host_env_scheme \<Rightarrow> string \<Rightarrow> string \<Rightarrow> strmap \<Rightarrow> string \<Rightarrow> 'w \<Rightarrow>
   error option \<times> string \<times> 'w" where
  "Register C E hostName namespace hostLabels dflt w =
     (case getByoHost C (namespace, hostName) w of
        (Inr byoHost, w1) \<Rightarrow> UpdateHost C E byoHost dflt w1
      | (Inl err, w1) \<Rightarrow>
          if \<not> IsNotFound err then (Some err, dflt, w1)
          else (case createByoHost C (new_ByoHost hostName namespace hostLabels) w1 of
            (Inl err, w2) \<Rightarrow> (Some err, dflt, w2)
          | (Inr byoHost, w2) \<Rightarrow> UpdateHost C E byoHost dflt w2))"

section \<open>The client certificate\<close>

definition ExpirationSeconds :: int where
  "ExpirationSeconds = 86400 * 365"

definition ByohCSROrg :: string where
  "ByohCSROrg = ''byoh:hosts''"

text \<open>The two formats have one verb \<open>%s\<close> at their end.\<close>

definition ByohCSRCN :: "string \<Rightarrow> string" where
  "ByohCSRCN hostname = ''byoh:host:'' @ hostname"

definition ByohCSRName :: "string \<Rightarrow> string" where
  "ByohCSRName hostname = ''byoh-csr-'' @ hostname"

definition TmpPrivateKey :: string where
  "TmpPrivateKey = ''byoh-client.key.tmp''"

definition DefaultConfigPath :: string where
  "DefaultConfigPath = ''.byoh/config''"

definition CSRApprovalTimeout :: Duration where
  "CSRApprovalTimeout = 3600 * Second"

record rest_config =
  rc_Host :: string
  rc_Insecure :: bool
  rc_CAFile :: string
  rc_CAData :: string
  rc_CertData :: string

record csr_template =
  CommonName :: string
  Organization :: "string list"

record 'w cert_env =
  NewForConfig :: "rest_config \<Rightarrow> error option"
  LoadRules :: "string \<Rightarrow> 'w \<Rightarrow> (error + KConfig) \<times> 'w"
  NonInteractiveConfig :: "KConfig \<Rightarrow> string \<Rightarrow> string \<Rightarrow> 'w \<Rightarrow> (error + rest_config) \<times> 'w"
  LoadOrGenerateKeyFile :: "string \<Rightarrow> 'w \<Rightarrow> (error + string) \<times> 'w"
  ParsePrivateKeyPEM :: "string \<Rightarrow> error + string"
  CreateCertificateRequest :: "csr_template \<Rightarrow> string \<Rightarrow> 'w \<Rightarrow> (error + string) \<times> 'w"
  EncodePEM :: "string \<Rightarrow> string \<Rightarrow> string"
  RequestCertificate :: "string \<Rightarrow> string \<Rightarrow> string \<Rightarrow> 64 word \<Rightarrow> string list \<Rightarrow> string \<Rightarrow> 'w \<Rightarrow>
    (error + string \<times> string) \<times> 'w"
  WaitForCertificate :: "Duration \<Rightarrow> string \<Rightarrow> string \<Rightarrow> 'w \<Rightarrow> (error + string) \<times> 'w"
  WriteKubeconfig :: "KConfig \<Rightarrow> string \<Rightarrow> 'w \<Rightarrow> error option \<times> 'w"
  RemoveFile :: "string \<Rightarrow> 'w \<Rightarrow> error option \<times> 'w"
  ConfigPath :: string
  UserHomeDir :: "error + string"

definition GetBYOHConfigPath :: "('w, 'z) cert_env_scheme \<Rightarrow> string" where
  "GetBYOHConfigPath E =
     (if ConfigPath E \<noteq> [] then ConfigPath E
      else case UserHomeDir E of
        Inl _ \<Rightarrow> DefaultConfigPath
      | Inr homeDir \<Rightarrow> filepath_Join [homeDir, DefaultConfigPath])"

text \<open>
  Loading rules are their explicit path: \<open>LoadRules\<close> is their \<open>Load\<close>, and \<open>NonInteractiveConfig\<close> flattens
  a configuration for a context, with the rules and no overrides.
\<close>

definition LoadRESTClientConfig :: "('w, 'z) cert_env_scheme \<Rightarrow> string \<Rightarrow> 'w \<Rightarrow> (error + rest_config) \<times> 'w" where
  "LoadRESTClientConfig E kubeconfigPath w =
     (case LoadRules E kubeconfigPath w of
        (Inl err, w1) \<Rightarrow> (Inl err, w1)
      | (Inr loadedConfig, w1) \<Rightarrow> NonInteractiveConfig E loadedConfig (CurrentContext loadedConfig) kubeconfigPath w1)"

record ByohCSR =
  bootstrapClientConfig :: rest_config
  PrivateKey :: string
  configPath :: string
  expiryDuration :: "64 word"

text \<open>\<open>time.Duration(expiryDurationInSeconds) * time.Second\<close> in 64 bits.\<close>

definition NewByohCSR :: "('w, 'z) cert_env_scheme \<Rightarrow> rest_config \<Rightarrow> 64 word \<Rightarrow> error + ByohCSR" where
  "NewByohCSR E config expiryDurationInSeconds =
     (case NewForConfig E config of
        Some err \<Rightarrow> Inl err
      | None \<Rightarrow> Inr \<lparr>bootstrapClientConfig = config, PrivateKey = [], configPath = GetBYOHConfigPath E,
                 expiryDuration = expiryDurationInSeconds * word_of_int Second\<rparr>)"

definition generateCSR ::
  "('w, 'z) cert_env_scheme \<Rightarrow> string \<Rightarrow> string \<Rightarrow> 'w \<Rightarrow> (error + string) \<times> 'w" where
  "generateCSR E hostname privKey w =
     (case CreateCertificateRequest E \<lparr>CommonName = ByohCSRCN hostname, Organization = [ByohCSROrg]\<rparr> privKey w of
        (Inl err, w1) \<Rightarrow> (Inl err, w1)
      | (Inr csrData, w1) \<Rightarrow> (Inr (EncodePEM E ''CERTIFICATE REQUEST'' csrData), w1))"

definition RequestBYOHClientCert ::
  "('w, 'z) cert_env_scheme \<Rightarrow> string \<Rightarrow> ByohCSR \<Rightarrow> 'w \<Rightarrow> (error + string \<times> string) \<times> ByohCSR \<times> 'w" where
  "RequestBYOHClientCert E hostname bcsr w =
     (if hostname = [] then (Inl (ErrorString ''hostname is not valid''), bcsr, w)
      else case LoadOrGenerateKeyFile E TmpPrivateKey w of
        (Inl err, w1) \<Rightarrow> (Inl err, bcsr, w1)
      | (Inr keyData, w1) \<Rightarrow>
          (case ParsePrivateKeyPEM E keyData of
             Inl err \<Rightarrow> (Inl (ErrorString (''invalid private key for certificate request: '' @ Error err)), bcsr, w1)
           | Inr privateKey \<Rightarrow>
               (let bcsr1 = bcsr\<lparr>PrivateKey := keyData\<rparr>
                in case generateCSR E hostname privateKey w1 of
                     (Inl err, w2) \<Rightarrow>
                       (Inl (ErrorString (''error generating csr '' @ hostname @ '', err='' @ Error err)), bcsr1, w2)
                   | (Inr csrData, w2) \<Rightarrow>
                       (case RequestCertificate E csrData (ByohCSRName hostname)
                               ''kubernetes.io/kube-apiserver-client'' (expiryDuration bcsr1) [''client auth''] privateKey w2 of
                          (Inl err, w3) \<Rightarrow> (Inl err, bcsr1, w3)
                        | (Inr req, w3) \<Rightarrow> (Inr req, bcsr1, w3)))))"

definition bootstrapped_config :: "rest_config \<Rightarrow> string \<Rightarrow> string \<Rightarrow> KConfig" where
  "bootstrapped_config config certData keyData =
     \<lparr>Clusters = [''default-cluster'' \<mapsto>
        \<lparr>kc_Server = rc_Host config, kc_InsecureSkipTLSVerify = rc_Insecure config,
         kc_CertificateAuthority = rc_CAFile config,
         kc_CertificateAuthorityData = (if rc_CAFile config = [] then rc_CAData config else [])\<rparr>],
      AuthInfos = [''default-auth'' \<mapsto>
        \<lparr>ka_Token = [], ka_ClientCertificateData = certData, ka_ClientKeyData = keyData\<rparr>],
      Contexts = [''default-context'' \<mapsto>
        \<lparr>kx_Cluster = ''default-cluster'', kx_AuthInfo = ''default-auth'', kx_Namespace = ''default''\<rparr>],
      CurrentContext = ''default-context''\<rparr>"

definition writeKubeconfigFromBootstrapping ::
  "('w, 'z) cert_env_scheme \<Rightarrow> rest_config \<Rightarrow> string \<Rightarrow> string \<Rightarrow> string \<Rightarrow> 'w \<Rightarrow> error option \<times> 'w" where
  "writeKubeconfigFromBootstrapping E config kubeconfigPath certData keyData w =
     WriteKubeconfig E (bootstrapped_config config certData keyData) kubeconfigPath w"

definition BootstrapKubeconfig ::
  "('w, 'z) cert_env_scheme \<Rightarrow> string \<Rightarrow> ByohCSR \<Rightarrow> 'w \<Rightarrow> error option \<times> ByohCSR \<times> 'w" where
  "BootstrapKubeconfig E hostName bcsr w =
     (case RequestBYOHClientCert E hostName bcsr w of
        (Inl err, bcsr1, w1) \<Rightarrow> (Some err, bcsr1, w1)
      | (Inr (reqName, reqUID), bcsr1, w1) \<Rightarrow>
          (case WaitForCertificate E CSRApprovalTimeout reqName reqUID w1 of
             (Inl err, w2) \<Rightarrow> (Some err, bcsr1, w2)
           | (Inr certData, w2) \<Rightarrow>
               (case writeKubeconfigFromBootstrapping E (bootstrapClientConfig bcsr1) (configPath bcsr1) certData
                       (PrivateKey bcsr1) w2 of
                  (Some err, w3) \<Rightarrow> (Some err, bcsr1, w3)
                | (None, w3) \<Rightarrow> (let (_, w4) = RemoveFile E TmpPrivateKey w3 in (None, bcsr1, w4)))))"

section \<open>The network status\<close>

lemma scan_addrs_spec:
  "scan_addrs ip addrs ns dflt =
     (ns\<lparr>IPAddrs := IPAddrs ns @ map addr_String addrs,
         IsDefault := IsDefault ns \<or> (\<exists>a\<in>set addrs. addr_ip a = ip)\<rparr>,
      if \<exists>a\<in>set addrs. addr_ip a = ip then NetworkInterfaceName ns else dflt)"
  by (induction addrs arbitrary: ns dflt) auto

lemma scan_ifaces_default:
  "snd (scan_ifaces ip ifaces dflt) =
     (case filter IsDefault (fst (scan_ifaces ip ifaces dflt)) of
        [] \<Rightarrow> dflt | ds \<Rightarrow> NetworkInterfaceName (last ds))"
proof (induction ifaces arbitrary: dflt)
  case (Cons i ifaces)
  show ?case
  proof (cases "if_Addrs i")
    case (Inr addrs)
    let ?d = "if \<exists>a\<in>set addrs. addr_ip a = ip then if_Name i else dflt"
    obtain rest d2 where r: "scan_ifaces ip ifaces ?d = (rest, d2)" by fastforce
    have "d2 = (case filter IsDefault rest of [] \<Rightarrow> ?d | ds \<Rightarrow> NetworkInterfaceName (last ds))"
      using Cons [of ?d] by (simp only: r fst_conv snd_conv)
    moreover have "scan_ifaces ip (i # ifaces) dflt =
        (\<lparr>Connected = (if and (if_Flags i) FlagUp > 0 then True else False), IPAddrs = map addr_String addrs,
          MACAddr = if_HardwareAddr i, NetworkInterfaceName = if_Name i,
          IsDefault = (\<exists>a\<in>set addrs. addr_ip a = ip)\<rparr> # rest, d2)"
      using Inr r by (cases "\<exists>a\<in>set addrs. addr_ip a = ip") (simp_all add: scan_addrs_spec Let_def)
    ultimately show ?thesis
      by (cases "\<exists>a\<in>set addrs. addr_ip a = ip"; cases "filter IsDefault rest") simp_all
  qed (use Cons in simp)
qed simp

text \<open>Every address of every readable interface is reported, in order.\<close>

lemma scan_ifaces_addrs:
  "map IPAddrs (fst (scan_ifaces ip ifaces dflt)) =
     [map addr_String addrs. Inr addrs \<leftarrow> map if_Addrs ifaces]"
  by (induction ifaces arbitrary: dflt) (simp_all add: scan_addrs_spec Let_def case_prod_unfold split: sum.splits)

text \<open>The interface the registrar remembers as default is the last one that the status reports as default.\<close>

lemma GetNetworkStatus_default:
  "snd (GetNetworkStatus E dflt) =
     (case filter IsDefault (fst (GetNetworkStatus E dflt)) of
        [] \<Rightarrow> dflt | ds \<Rightarrow> NetworkInterfaceName (last ds))"
  by (simp add: GetNetworkStatus_def scan_ifaces_default split: sum.splits)

section \<open>The image name\<close>

lemma after_first_at:
  assumes "pat \<noteq> []" and "\<not> sublist pat (u @ butlast pat)"
  shows "after_first pat (u @ pat @ v) = Some v"
  using assms
proof (induction u)
  case Nil
  then show ?case by (cases pat) auto
next
  case (Cons c u)
  have "take (length pat) (c # u @ pat @ v) \<noteq> pat"
  proof
    assume t: "take (length pat) (c # u @ pat @ v) = pat"
    have "take (length pat) (c # u @ pat @ v) = take (length pat) (c # u @ butlast pat)"
      using Cons.prems(1) by (cases pat rule: rev_cases) (auto simp: take_Cons' min_def)
    then have "prefix pat (c # u @ butlast pat)" using t by (metis take_is_prefix)
    then show False using Cons.prems(2) by (metis append_Cons prefix_imp_sublist)
  qed
  moreover have "\<not> sublist pat (u @ butlast pat)"
    using Cons.prems(2) by (metis append_Cons sublist_Cons_right)
  ultimately show ?case using Cons by simp
qed

section \<open>Properties\<close>

definition same_but_platform :: "ByoHost \<Rightarrow> ByoHost \<Rightarrow> bool" where
  "same_but_platform h h' \<longleftrightarrow>
     (\<exists>net det. h' = h\<lparr>HostStatus := (HostStatus h)\<lparr>Network := net, HostDetails := det\<rparr>\<rparr>)"

lemma same_but_platform_frame [frame]:
  assumes "same_but_platform h h'"
  shows "HostSpec h' = HostSpec h \<and> MachineRef (HostStatus h') = MachineRef (HostStatus h) \<and> Labels h' = Labels h \<and>
    Annotations h' = Annotations h \<and> obj_key h' = obj_key h"
  using assms by (auto simp: same_but_platform_def obj_key_def)

lemma UpdateHost_writes:
  assumes "UpdateHost C E h dflt w = (e, dflt', w')"
  shows "(e \<noteq> None \<and> w' = w) \<or> (\<exists>h'. same_but_platform h h' \<and> patchByoHost C h h' w = (e, w'))"
  using assms unfolding UpdateHost_def same_but_platform_def
  by (auto simp: Let_def split: option.splits prod.splits)

text \<open>
  C33. A restart of the agent does not touch a reservation: when the host's object exists,
  registration sends at most one patch, which changes the network status and the platform details
  and nothing else; the machine reference, the secrets, the labels and the annotations are those
  the object had, whatever labels the agent was started with.
\<close>

theorem restart_keeps_reservation:
  assumes "getByoHost C (namespace, hostName) w = (Inr h, w1)"
    and "Register C E hostName namespace hostLabels dflt w = (e, dflt', w')"
  shows "(e \<noteq> None \<and> w' = w1) \<or>
    (\<exists>h'. patchByoHost C h h' w1 = (e, w') \<and> same_but_platform h h' \<and> HostSpec h' = HostSpec h \<and>
      MachineRef (HostStatus h') = MachineRef (HostStatus h) \<and> Labels h' = Labels h \<and> Annotations h' = Annotations h)"
proof -
  have "UpdateHost C E h dflt w1 = (e, dflt', w')" using assms by (simp add: Register_def)
  from UpdateHost_writes [OF this] show ?thesis using same_but_platform_frame by blast
qed

text \<open>
  C40. The lifetime asked for a certificate: the conversion of the flag's seconds to a duration is
  exact exactly for values of at most 9223372036 seconds (292 years) in absolute value; a larger
  value wraps around in 64 bits.
\<close>

theorem certificate_lifetime_exact_iff:
  assumes "NewByohCSR E config s = Inr b"
  shows "sint (expiryDuration b) = sint s * Second \<longleftrightarrow> \<bar>sint s\<bar> \<le> 9223372036"
proof -
  have d: "expiryDuration b = s * word_of_int Second"
    using assms by (auto simp: NewByohCSR_def split: option.splits)
  have "sint (word_of_int Second :: 64 word) = Second"
    unfolding Second_def by simp
  then have "sint (expiryDuration b) = signed_take_bit 63 (sint s * Second)"
    unfolding d sint_word_ariths(3) by simp
  moreover have "signed_take_bit 63 k = k \<longleftrightarrow> - 9223372036854775808 \<le> k \<and> k < 9223372036854775808" for k :: int
    using signed_take_bit_int_eq_self_iff [of 63 k] by simp
  moreover have "- 9223372036854775808 \<le> k * 1000000000 \<and> k * 1000000000 < 9223372036854775808 \<longleftrightarrow> \<bar>k\<bar> \<le> 9223372036"
    for k :: int
    by arith
  ultimately show ?thesis by (simp add: Second_def)
qed

section \<open>Runs\<close>

definition ref_registrar :: "'x ref_world_scheme registrar" where
  "ref_registrar = client.extend ref_client (registrar.fields
     (\<lambda>h w. let (e, hs) = store_add (rw_hosts w) h in (case e of None \<Rightarrow> Inr h | Some err \<Rightarrow> Inl err, w\<lparr>rw_hosts := hs\<rparr>)))"

definition ex_env :: host_env where
  "ex_env = \<lparr>DiscoverInterface = Inr ''10.0.0.7'',
     Interfaces = Inr [\<lparr>if_Name = ''lo'', if_Flags = 1, if_HardwareAddr = [], if_Addrs = Inr [IPNet ''127.0.0.1'' ''127.0.0.1/8'']\<rparr>,
       \<lparr>if_Name = ''eth0'', if_Flags = 1, if_HardwareAddr = ''02:42:0a:00:00:07'', if_Addrs = Inr [IPNet ''10.0.0.7'' ''10.0.0.7/24'']\<rparr>],
     GOARCH = ''amd64'', GOOS = ''linux'',
     ReadFile = (\<lambda>_. ReadOk (''NAME=Ubuntu'' @ [CHR 0x0A] @ ''PRETTY_NAME='' @ [CHR 0x22] @ ''Ubuntu 20.04.1 LTS'' @
        [CHR 0x22, CHR 0x0A]))\<rparr>"

lemma ex_env_run:
  "fst (getHostInfo ex_env) = \<lparr>OSName = ''linux'', OSImage = ''Ubuntu 20.04.1 LTS'', Architecture = ''amd64''\<rparr>"
  "snd (GetNetworkStatus ex_env []) = ''eth0''"
  by code_simp+

definition ex_registered :: ByoHost where
  "ex_registered = (new_ByoHost ''host1'' ''default'' Map.empty)\<lparr>HostStatus :=
     (HostStatus (new_ByoHost ''host1'' ''default'' Map.empty))\<lparr>MachineRef := Some empty_ref\<rparr>\<rparr>"

definition ex_reg_world :: ref_world where
  "ex_reg_world = \<lparr>rw_hosts = [ex_registered], rw_machines = [], rw_secrets = [], rw_clusters = []\<rparr>"

theorem restart_keeps_reservation_witness:
  "\<exists>h'. patchByoHost ref_registrar ex_registered h' ex_reg_world =
      (None, snd (snd (Register ref_registrar ex_env ''host1'' ''default'' [''site'' \<mapsto> ''apac''] [] ex_reg_world))) \<and>
     MachineRef (HostStatus h') = Some empty_ref"
proof -
  let ?out = "Register ref_registrar ex_env ''host1'' ''default'' [''site'' \<mapsto> ''apac''] [] ex_reg_world"
  have "fst ?out = None" by code_simp
  then have out: "?out = (None, fst (snd ?out), snd (snd ?out))" by (metis prod.collapse)
  have g: "getByoHost ref_registrar (''default'', ''host1'') ex_reg_world = (Inr ex_registered, ex_reg_world)"
    by (simp add: ref_registrar_def ref_client_def client.defs registrar.defs ex_reg_world_def ex_registered_def
        new_ByoHost_def ObjectMeta.defs ByoHost.defs store_get_def obj_key_def)
  have "MachineRef (HostStatus ex_registered) = Some empty_ref" by (simp add: ex_registered_def)
  with restart_keeps_reservation [OF g out] show ?thesis by metis
qed

definition ref_cert_env :: "unit cert_env" where
  "ref_cert_env = \<lparr>NewForConfig = (\<lambda>_. None),
     LoadRules = (\<lambda>_ w. (Inr \<lparr>Clusters = Map.empty, AuthInfos = Map.empty, Contexts = Map.empty, CurrentContext = ''default''\<rparr>, w)),
     NonInteractiveConfig = (\<lambda>_ _ _ w. (Inr \<lparr>rc_Host = ''https://10.0.0.1:6443'', rc_Insecure = False, rc_CAFile = [],
       rc_CAData = ''CA'', rc_CertData = []\<rparr>, w)),
     LoadOrGenerateKeyFile = (\<lambda>_ w. (Inr ''KEY'', w)), ParsePrivateKeyPEM = Inr,
     CreateCertificateRequest = (\<lambda>t _ w. (Inr (CommonName t), w)), EncodePEM = (\<lambda>t s. t @ s),
     RequestCertificate = (\<lambda>_ n _ _ _ _ w. (Inr (n, ''uid''), w)), WaitForCertificate = (\<lambda>_ _ _ w. (Inr ''CERT'', w)),
     WriteKubeconfig = (\<lambda>_ _ w. (None, w)), RemoveFile = (\<lambda>_ w. (None, w)), ConfigPath = [],
     UserHomeDir = Inr ''/root''\<rparr>"

definition ex_rest_config :: rest_config where
  "ex_rest_config = \<lparr>rc_Host = ''https://10.0.0.1:6443'', rc_Insecure = False, rc_CAFile = [], rc_CAData = ''CA'', rc_CertData = []\<rparr>"

text \<open>The default of one year is converted exactly, \<open>10^10\<close> seconds are not.\<close>

theorem certificate_lifetime_exact_iff_witness:
  "sint (expiryDuration (case NewByohCSR ref_cert_env ex_rest_config 31536000 of Inr b \<Rightarrow> b)) = 31536000 * Second \<and>
   sint (expiryDuration (case NewByohCSR ref_cert_env ex_rest_config 10000000000 of Inr b \<Rightarrow> b)) \<noteq> 10000000000 * Second"
proof -
  have n: "NewByohCSR ref_cert_env ex_rest_config s = Inr (case NewByohCSR ref_cert_env ex_rest_config s of Inr b \<Rightarrow> b)" for s
    by (simp add: NewByohCSR_def ref_cert_env_def)
  show ?thesis
    using certificate_lifetime_exact_iff [OF n, of 31536000] certificate_lifetime_exact_iff [OF n, of 10000000000] by simp
qed

end
