(* ===== verification/Agent_Main.thy ===== *)
theory Agent_Main
  imports Registration
begin

text \<open>
  The start of the agent (\<open>agent/main.go\<close>): the label flag, the template parser, the bootstrap flow,
  the rotation of the certificate, the version (\<open>agent/version\<close>) and \<open>main\<close> itself.  A flag map is a HOL map; Go's iteration
  order is a parameter of \<open>String\<close>.
\<close>

section \<open>The label flag\<close>

text \<open>\<open>String\<close>, for the order \<open>kvs\<close> in which the map is iterated.\<close>

definition labelFlags_String :: "(string \<times> string) list \<Rightarrow> string" where
  "labelFlags_String kvs = Join '','' (map (\<lambda>(key, value). key @ ''='' @ value) kvs)"

definition set_pair :: "string \<Rightarrow> string \<Rightarrow> strmap \<Rightarrow> error option \<times> strmap" where
  "set_pair value s l =
     (let parts = SplitN2 CHR ''='' s
      in if length parts < 2
         then (Some (ErrorString (''invalid argument value. expect key=value, got '' @ value)), l)
         else (None, l(TrimSpace (parts ! 0) \<mapsto> TrimSpace (parts ! 1))))"

fun set_pairs :: "string \<Rightarrow> string list \<Rightarrow> strmap \<Rightarrow> error option \<times> strmap" where
  "set_pairs value [] l = (None, l)"
| "set_pairs value (s # ss) l =
     (if s = [] then set_pairs value ss l
      else case set_pair value s l of
        (Some err, l') \<Rightarrow> (Some err, l')
      | (None, l') \<Rightarrow> set_pairs value ss l')"

definition labelFlags_Set :: "string \<Rightarrow> strmap \<Rightarrow> error option \<times> strmap" where
  "labelFlags_Set value l =
     (if length (Split CHR '','' value) > 1 then set_pairs value (Split CHR '','' value) l
      else set_pair value value l)"

section \<open>The template parser\<close>

text \<open>
  \<open>setupTemplateParser\<close> returns a pointer, \<open>nil\<close> when no default interface is known; it is stored
  in an interface.  \<open>ParseTemplate\<close> has a value receiver, so a call through the interface
  dereferences the pointer.  \<open>render\<close> is \<open>text/template\<close> on the interface name.
\<close>

definition setupTemplateParser :: "string \<Rightarrow> string option" where
  "setupTemplateParser defaultNetworkInterfaceName =
     (if defaultNetworkInterfaceName = [] then None else Some defaultNetworkInterfaceName)"

definition parser_ParseTemplate ::
  "(string \<Rightarrow> string \<Rightarrow> error + string) \<Rightarrow> string option \<Rightarrow> string \<Rightarrow> (error + string) outcome" where
  "parser_ParseTemplate render p templateContent =
     (case p of
        None \<Rightarrow> Panic ''value method TemplateParser.ParseTemplate called using nil *TemplateParser pointer''
      | Some name \<Rightarrow> Return (render name templateContent))"

section \<open>Bootstrap and rotation\<close>

record agent_flags =
  fl_namespace :: string
  fl_labels :: strmap
  fl_printVersion :: bool
  fl_bootstrapKubeConfig :: string
  fl_certExpiryDuration :: "64 word"
  fl_skipInstallation :: bool

text \<open>The values the flags have before the command line is read; \<open>metricsbindaddress\<close> is handed to the manager and
  \<open>downloadpath\<close> is not read.\<close>

definition setupflags :: agent_flags where
  "setupflags = \<lparr>fl_namespace = ''default'', fl_labels = Map.empty, fl_printVersion = False,
     fl_bootstrapKubeConfig = [], fl_certExpiryDuration = word_of_int ExpirationSeconds, fl_skipInstallation = False\<rparr>"

definition handleBootstrapFlow ::
  "('w, 'z) cert_env_scheme \<Rightarrow> agent_flags \<Rightarrow> string \<Rightarrow> 'w \<Rightarrow> error option \<times> 'w" where
  "handleBootstrapFlow E F hostName w =
     (case LoadRESTClientConfig E (fl_bootstrapKubeConfig F) w of
        (Inl err, w1) \<Rightarrow> (Some (ErrorString (''client config load failed: '' @ Error err)), w1)
      | (Inr config, w1) \<Rightarrow>
          (case NewByohCSR E config (fl_certExpiryDuration F) of
             Inl err \<Rightarrow> (Some (ErrorString (''ByohCSR intialization failed: '' @ Error err)), w1)
           | Inr byohCSR \<Rightarrow>
               (case BootstrapKubeconfig E hostName byohCSR w1 of
                  (Some err, _, w2) \<Rightarrow> (Some (ErrorString (''kubeconfig generation failed: '' @ Error err)), w2)
                | (None, _, w2) \<Rightarrow> (None, w2))))"

text \<open>
  Times are nanoseconds; \<open>Time.Sub\<close> saturates at the ends of a 64-bit duration, and the division
  by a constant truncates towards zero.
\<close>

definition Time_Sub :: "int \<Rightarrow> int \<Rightarrow> Duration" where
  "Time_Sub t u = max (- 9223372036854775808) (min 9223372036854775807 (t - u))"

definition quot :: "int \<Rightarrow> int \<Rightarrow> int" where
  "quot a b = sgn a * sgn b * (\<bar>a\<bar> div \<bar>b\<bar>)"

record cert =
  NotBefore :: int
  NotAfter :: int

record 'w rotation_env = "'w cert_env" +
  PEM_cert :: "string \<Rightarrow> (string \<times> string) option"
  ParseCertificate :: "string \<Rightarrow> error + cert"
  Now :: "'w \<Rightarrow> int"

definition renew_time :: "cert \<Rightarrow> int" where
  "renew_time c = NotAfter c + quot (Time_Sub (NotAfter c) (NotBefore c)) (- 5)"

definition certRotation ::
  "('w, 'z) rotation_env_scheme \<Rightarrow> agent_flags \<Rightarrow> string \<Rightarrow> rest_config \<Rightarrow> 'w \<Rightarrow> error option \<times> 'w" where
  "certRotation E F hostName config w =
     (case PEM_cert E (rc_CertData config) of
        None \<Rightarrow> (None, w)
      | Some (ty, bytes) \<Rightarrow>
          if ty \<noteq> ''CERTIFICATE'' then (None, w)
          else (case ParseCertificate E bytes of
            Inl err \<Rightarrow> (Some err, w)
          | Inr c \<Rightarrow>
              if Now E w > renew_time c then (let (_, w1) = handleBootstrapFlow E F hostName w in (None, w1))
              else (None, w)))"

text \<open>The polling loop; \<open>sleep\<close> is what happens in the world in five seconds, \<open>n\<close> bounds the rounds.\<close>

fun certificateRotation ::
  "('w, 'z) rotation_env_scheme \<Rightarrow> ('w \<Rightarrow> 'w) \<Rightarrow> nat \<Rightarrow> agent_flags \<Rightarrow> string \<Rightarrow> rest_config \<Rightarrow> 'w \<Rightarrow>
   error option \<times> 'w" where
  "certificateRotation E sleep 0 F hostName config w = (None, w)"
| "certificateRotation E sleep (Suc n) F hostName config w =
     (case certRotation E F hostName config w of
        (Some err, w1) \<Rightarrow> (Some err, w1)
      | (None, w1) \<Rightarrow> certificateRotation E sleep n F hostName config (sleep w1))"

section \<open>The version\<close>

text \<open>\<open>version.go\<close>: what the linker has set and what the Go runtime says of itself.\<close>

record build_variables =
  GitMajor :: string
  GitMinor :: string
  GitVersion :: string
  GitCommit :: string
  GitTreeState :: string
  BuildDate :: string

record go_runtime =
  rt_Version :: string
  rt_Compiler :: string
  rt_GOOS :: string
  rt_GOARCH :: string

record Info =
  info_Major :: string
  info_Minor :: string
  info_GitVersion :: string
  info_GitCommit :: string
  info_GitTreeState :: string
  info_BuildDate :: string
  info_GoVersion :: string
  info_Compiler :: string
  info_Platform :: string

definition version_Get :: "build_variables \<Rightarrow> go_runtime \<Rightarrow> Info" where
  "version_Get B R =
     \<lparr>info_Major = GitMajor B, info_Minor = GitMinor B, info_GitVersion = GitVersion B, info_GitCommit = GitCommit B,
      info_GitTreeState = GitTreeState B, info_BuildDate = BuildDate B, info_GoVersion = rt_Version R,
      info_Compiler = rt_Compiler R, info_Platform = rt_GOOS R @ ''/'' @ rt_GOARCH R\<rparr>"

section \<open>main\<close>

text \<open>What \<open>main\<close> does in order; the manager runs with the reconciler it was given until it ends.\<close>

datatype main_action =
    PrintVersion
  | BootstrapFlow string
  | RegisterHost string string
  | StartRotation
  | StartManager string "string option" bool

datatype exit_status = MainReturned | Exit nat

record 'w main_env = "'w rotation_env" +
  Hostname :: "error + string"
  ConfigMissing :: "string \<Rightarrow> 'w \<Rightarrow> bool"
  Getenv :: "string \<Rightarrow> string"
  NewClient :: "rest_config \<Rightarrow> error option"
  NewManager :: "rest_config \<Rightarrow> error option"
  SetupReconciler :: "error option"
  RunManager :: "'w \<Rightarrow> 'w"

definition getConfig :: "('w, 'z) cert_env_scheme \<Rightarrow> 'w \<Rightarrow> (exit_status + rest_config) \<times> 'w" where
  "getConfig E w =
     (case LoadRESTClientConfig E (GetBYOHConfigPath E) w of
        (Inl _, w1) \<Rightarrow> (Inl (Exit 1), w1)
      | (Inr config, w1) \<Rightarrow> (Inr config, w1))"

definition getClient :: "('w, 'z) main_env_scheme \<Rightarrow> rest_config \<Rightarrow> exit_status option" where
  "getClient E config = (case NewClient E config of Some _ \<Rightarrow> Some (Exit 1) | None \<Rightarrow> None)"

text \<open>The part after the bootstrap flow (lines 168 to 227).\<close>

definition serve ::
  "('w, 'z) main_env_scheme \<Rightarrow> ('w, 'y) registrar_scheme \<Rightarrow> 'x host_env_scheme \<Rightarrow> agent_flags \<Rightarrow> string \<Rightarrow> 'w \<Rightarrow>
   exit_status \<times> main_action list \<times> 'w" where
  "serve E C H F hostName w =
     (case getConfig E w of
        (Inl ex, w1) \<Rightarrow> (ex, [], w1)
      | (Inr config, w1) \<Rightarrow>
          (case getClient E config of
             Some ex \<Rightarrow> (ex, [], w1)
           | None \<Rightarrow>
               (case Register C H hostName (fl_namespace F) (fl_labels F) [] w1 of
                  (Some _, _, w2) \<Rightarrow> (MainReturned, [RegisterHost (fl_namespace F) hostName], w2)
                | (None, dflt, w2) \<Rightarrow>
                    (let acts = RegisterHost (fl_namespace F) hostName #
                           (if Getenv E ''CERTIFICATE_ROTATION'' = ''true'' then [StartRotation] else [])
                     in if NewManager E config \<noteq> None \<or> SetupReconciler E \<noteq> None then (MainReturned, acts, w2)
                        else (MainReturned,
                              acts @ [StartManager hostName (setupTemplateParser dflt) (fl_skipInstallation F)],
                              RunManager E w2)))))"

definition main ::
  "('w, 'z) main_env_scheme \<Rightarrow> ('w, 'y) registrar_scheme \<Rightarrow> 'x host_env_scheme \<Rightarrow> agent_flags \<Rightarrow> 'w \<Rightarrow>
   exit_status \<times> main_action list \<times> 'w" where
  "main E C H F w =
     (if fl_printVersion F then (MainReturned, [PrintVersion], w)
      else case Hostname E of
        Inl _ \<Rightarrow> (MainReturned, [], w)
      | Inr hostName \<Rightarrow>
          if fl_bootstrapKubeConfig F \<noteq> [] \<and> ConfigMissing E (GetBYOHConfigPath E) w then
            (case handleBootstrapFlow E F hostName w of
               (Some _, w1) \<Rightarrow> (Exit 1, [BootstrapFlow hostName], w1)
             | (None, w1) \<Rightarrow>
                 (let (ex, acts, w2) = serve E C H F hostName w1 in (ex, BootstrapFlow hostName # acts, w2)))
          else serve E C H F hostName w)"

text \<open>Without arguments the agent goes straight to the saved configuration and asks for no certificate.\<close>

lemma main_without_arguments: "Hostname E = Inr hostName \<Longrightarrow> main E C H setupflags w = serve E C H setupflags hostName w"
  by (simp add: main_def setupflags_def)

section \<open>Labels\<close>

text \<open>A label whose text survives the flag's syntax: nothing to trim, no comma, no equals sign in the key.\<close>

definition plain_label :: "string \<times> string \<Rightarrow> bool" where
  "plain_label kv \<longleftrightarrow> TrimSpace (fst kv) = fst kv \<and> TrimSpace (snd kv) = snd kv \<and>
     CHR '','' \<notin> set (fst kv) \<and> CHR '','' \<notin> set (snd kv) \<and> CHR ''='' \<notin> set (fst kv)"

lemma set_pair_plain:
  "plain_label (k, v) \<Longrightarrow> set_pair value (k @ CHR ''='' # v) l = (None, l(k \<mapsto> v))"
  by (simp add: set_pair_def plain_label_def SplitN2_append)

lemma set_pairs_plain:
  "list_all plain_label kvs \<Longrightarrow>
   set_pairs value (map (\<lambda>(k, v). k @ CHR ''='' # v) kvs) l = (None, l ++ map_of (rev kvs))"
  by (induction kvs arbitrary: l) (auto simp: set_pair_plain)

lemma map_of_rev_distinct: "distinct (map fst kvs) \<Longrightarrow> map_of (rev kvs) = map_of kvs"
  using map_of_inject_set [of "rev kvs" kvs] by (simp add: rev_map [symmetric])

text \<open>
  Round trip of the label flag: a map of plain labels, printed by \<open>String\<close> in any iteration
  order and given to \<open>Set\<close>, is read back: every pair is set, with no error and nothing else.
\<close>

theorem label_flag_roundtrip:
  assumes "list_all plain_label kvs" and "distinct (map fst kvs)" and "kvs \<noteq> []"
  shows "labelFlags_Set (labelFlags_String kvs) l = (None, l ++ map_of kvs)"
proof -
  let ?ss = "map (\<lambda>(k, v). k @ CHR ''='' # v) kvs"
  have "\<forall>s\<in>set ?ss. CHR '','' \<notin> set s"
    using assms(1) by (auto simp: list_all_iff plain_label_def)
  then have sp: "Split CHR '','' (labelFlags_String kvs) = ?ss"
    unfolding labelFlags_String_def using assms(3) Split_Join [of ?ss "CHR '',''"] by simp
  show ?thesis
  proof (cases "length kvs > 1")
    case True
    then show ?thesis
      using assms by (simp add: labelFlags_Set_def sp set_pairs_plain map_of_rev_distinct)
  next
    case False
    then obtain k v where "kvs = [(k, v)]" using assms(3) by (cases kvs) auto
    moreover from this have "labelFlags_String kvs = k @ CHR ''='' # v" by (simp add: labelFlags_String_def)
    ultimately show ?thesis
      using assms(1) unfolding labelFlags_Set_def sp by (simp add: set_pair_plain)
  qed
qed

theorem label_flag_roundtrip_witness:
  "labelFlags_Set (labelFlags_String [(''site'', ''apac''), (''cores'', ''2'')]) Map.empty =
     (None, [''site'' \<mapsto> ''apac'', ''cores'' \<mapsto> ''2''])"
proof -
  have "list_all plain_label [(''site'', ''apac''), (''cores'', ''2'')]" by code_simp
  from label_flag_roundtrip [OF this, of Map.empty] show ?thesis by (simp add: fun_eq_iff)
qed

section \<open>Rotation\<close>

lemma renew_time_eq:
  assumes "NotBefore c \<le> NotAfter c" and "NotAfter c - NotBefore c \<le> 9223372036854775807"
  shows "renew_time c = NotAfter c - (NotAfter c - NotBefore c) div 5"
  using assms by (auto simp: renew_time_def Time_Sub_def quot_def sgn_if)

text \<open>
  When a certificate is renewed: a poll at time \<open>now\<close> starts the bootstrap flow only if less
  than a fifth of the lifetime is left, and it does start it once at most a fifth less five
  nanoseconds is left; otherwise it does nothing.
\<close>

theorem renewal_window:
  assumes "PEM_cert E (rc_CertData config) = Some (''CERTIFICATE'', bytes)" and "ParseCertificate E bytes = Inr c"
    and "NotBefore c \<le> NotAfter c" and "NotAfter c - NotBefore c \<le> 9223372036854775807"
  shows "\<exists>renew. certRotation E F hostName config w =
      (None, if renew then snd (handleBootstrapFlow E F hostName w) else w) \<and>
    (renew \<longrightarrow> 5 * (NotAfter c - Now E w) < NotAfter c - NotBefore c) \<and>
    (5 * (NotAfter c - Now E w) + 5 \<le> NotAfter c - NotBefore c \<longrightarrow> renew)"
proof -
  have "certRotation E F hostName config w =
      (None, if Now E w > renew_time c then snd (handleBootstrapFlow E F hostName w) else w)"
    by (simp add: certRotation_def assms(1,2) case_prod_unfold)
  moreover have "Now E w > renew_time c \<Longrightarrow> 5 * (NotAfter c - Now E w) < NotAfter c - NotBefore c"
    unfolding renew_time_eq [OF assms(3,4)] by arith
  moreover have "5 * (NotAfter c - Now E w) + 5 \<le> NotAfter c - NotBefore c \<Longrightarrow> Now E w > renew_time c"
    unfolding renew_time_eq [OF assms(3,4)] by arith
  ultimately show ?thesis by blast
qed

text \<open>
  C39. The rotation never takes up the certificate it has renewed: the loop keeps the configuration
  it was started with, so once it has entered the renewal window every further round runs the
  bootstrap flow again, whether or not the flow succeeded.
\<close>

theorem rotation_renews_every_round:
  assumes "PEM_cert E (rc_CertData config) = Some (''CERTIFICATE'', bytes)" and "ParseCertificate E bytes = Inr c"
    and "\<And>v. Now E v \<le> Now E (sleep (snd (handleBootstrapFlow E F hostName v)))" and "Now E w > renew_time c"
  shows "certificateRotation E sleep n F hostName config w =
    (None, ((\<lambda>v. sleep (snd (handleBootstrapFlow E F hostName v))) ^^ n) w)"
  using assms(4)
proof (induction n arbitrary: w)
  case (Suc n)
  have "certRotation E F hostName config w = (None, snd (handleBootstrapFlow E F hostName w))"
    using Suc.prems by (simp add: certRotation_def assms(1,2) case_prod_unfold)
  moreover have "Now E (sleep (snd (handleBootstrapFlow E F hostName w))) > renew_time c"
    using Suc.prems assms(3) [of w] by linarith
  ultimately show ?case using Suc.IH by (simp add: funpow_Suc_right del: funpow.simps(2))
qed simp

section \<open>A parser without an interface\<close>

text \<open>
  Without a default interface the agent starts its manager all the same, with a parser whose every
  call panics: the first file of a bootstrap script stops the agent.
\<close>

lemma no_default_interface_panics:
  assumes "DiscoverInterface H = Inl err" and "serve E C H F hostName w = (ex, acts, w')"
    and "StartManager hostName p skip \<in> set acts"
  shows "parser_ParseTemplate render p content =
    Panic ''value method TemplateParser.ParseTemplate called using nil *TemplateParser pointer''"
proof -
  have up: "dflt' = dflt" if "UpdateHost C H h dflt v = (e, dflt', v')" for h dflt dflt' v v' e
    using that assms(1) by (auto simp: UpdateHost_def GetNetworkStatus_def Let_def split: option.splits prod.splits)
  have reg: "dflt' = dflt" if "Register C H n ns ls dflt v = (e, dflt', v')" for n ns ls dflt dflt' v v' e
    using that by (auto simp: Register_def split: prod.splits sum.splits if_splits dest: up)
  have "p = None"
    using assms(2,3) by (auto simp: serve_def Let_def setupTemplateParser_def dest!: reg
        split: prod.splits sum.splits option.splits if_splits)
  then show ?thesis by (simp add: parser_ParseTemplate_def)
qed

section \<open>Runs\<close>

definition ref_rotation_env :: "int rotation_env" where
  "ref_rotation_env = cert_env.extend
     \<lparr>NewForConfig = (\<lambda>_. None),
      LoadRules = (\<lambda>_ w. (Inr \<lparr>Clusters = Map.empty, AuthInfos = Map.empty, Contexts = Map.empty, CurrentContext = ''default''\<rparr>, w)),
      NonInteractiveConfig = (\<lambda>_ _ _ w. (Inr ex_rest_config, w)),
      LoadOrGenerateKeyFile = (\<lambda>_ w. (Inr ''KEY'', w)), ParsePrivateKeyPEM = Inr,
      CreateCertificateRequest = (\<lambda>t _ w. (Inr (CommonName t), w)), EncodePEM = (\<lambda>t s. t @ s),
      RequestCertificate = (\<lambda>_ n _ _ _ _ w. (Inr (n, ''uid''), w)), WaitForCertificate = (\<lambda>_ _ _ w. (Inr ''CERT'', w + 1)),
      WriteKubeconfig = (\<lambda>_ _ w. (None, w)), RemoveFile = (\<lambda>_ w. (None, w)), ConfigPath = [],
      UserHomeDir = Inr ''/root''\<rparr>
     (rotation_env.fields (\<lambda>s. Some (''CERTIFICATE'', s)) (\<lambda>_. Inr \<lparr>NotBefore = 0, NotAfter = 1000\<rparr>) (\<lambda>w. w))"

definition ex_flags :: agent_flags where
  "ex_flags = \<lparr>fl_namespace = ''default'', fl_labels = Map.empty, fl_printVersion = False,
     fl_bootstrapKubeConfig = ''bootstrap.conf'', fl_certExpiryDuration = 31536000, fl_skipInstallation = False\<rparr>"

lemma ref_rotation_env_simps:
  "PEM_cert ref_rotation_env s = Some (''CERTIFICATE'', s)"
  "ParseCertificate ref_rotation_env s = Inr \<lparr>NotBefore = 0, NotAfter = 1000\<rparr>"
  "Now ref_rotation_env w = w"
  "snd (handleBootstrapFlow ref_rotation_env ex_flags ''host1'' w) = w + 1"
  by (simp_all add: ref_rotation_env_def cert_env.defs rotation_env.defs handleBootstrapFlow_def LoadRESTClientConfig_def NewByohCSR_def
      BootstrapKubeconfig_def RequestBYOHClientCert_def generateCSR_def writeKubeconfigFromBootstrapping_def Let_def)

theorem renewal_window_witness:
  "certRotation ref_rotation_env ex_flags ''host1'' ex_rest_config 900 = (None, 901) \<and>
   certRotation ref_rotation_env ex_flags ''host1'' ex_rest_config 700 = (None, 700)"
proof -
  note w = renewal_window [OF ref_rotation_env_simps(1,2), of ex_flags "''host1''" ex_rest_config]
  from w [of 900] w [of 700] show ?thesis by (auto simp: ref_rotation_env_simps)
qed

theorem rotation_renews_every_round_witness:
  "certificateRotation ref_rotation_env (\<lambda>w. w + 5) 3 ex_flags ''host1'' ex_rest_config 900 = (None, 918)"
proof -
  have "renew_time \<lparr>NotBefore = 0, NotAfter = 1000\<rparr> < Now ref_rotation_env 900"
    by (simp add: ref_rotation_env_simps renew_time_def Time_Sub_def quot_def)
  from rotation_renews_every_round [OF ref_rotation_env_simps(1,2) _ this, of "\<lambda>w. w + 5" ex_flags "''host1''" 3]
  show ?thesis by (simp add: ref_rotation_env_simps eval_nat_numeral)
qed

end
