(* ===== verification/Host_Lifecycle.thy ===== *)
theory Host_Lifecycle
  imports ByoMachine_Props Host_Agent ByoHost_Ctl Registration
begin

text \<open>
  The life of one ByoHost object under all the components that write it: the ByoMachine controller
  (reservation, cleanup mark, pause, secrets), the agent (conditions, release), the ByoHost
  controller (the uninstallation reference) and the registration.  A step is one patch, computed
  from the object it replaces; steps of the components interleave in any order.  The abstract
  machine has three phases; each component is shown to implement it by an interpretation of one
  locale.
\<close>

section \<open>Phases\<close>

datatype phase = Free | Reserved key | Cleaning key

inductive phase_step :: "phase \<Rightarrow> phase \<Rightarrow> bool" where
  reserve: "phase_step Free (Reserved k)"
| unregister: "phase_step (Reserved k) (Cleaning k)"
| finish: "phase_step (Cleaning k) Free"

inductive_simps phase_step_simps [simp]: "phase_step p Free" "phase_step p (Reserved k)" "phase_step p (Cleaning k)"

definition phase_of :: "ByoHost \<Rightarrow> phase" where
  "phase_of h =
     (case MachineRef (HostStatus h) of
        None \<Rightarrow> Free
      | Some r \<Rightarrow> if Annotations h HostCleanupAnnotation = None then Reserved (ref_key r) else Cleaning (ref_key r))"

text \<open>
  A free host bears no trace of a reservation; a reserved one says by its labels for which cluster
  and machine, and its machine is in its own namespace.
\<close>

definition consistent :: "ByoHost \<Rightarrow> bool" where
  "consistent h =
     (case MachineRef (HostStatus h) of
        None \<Rightarrow> Labels h ClusterNameLabel = None \<and> Labels h AttachedByoMachineLabel = None \<and>
          Annotations h HostCleanupAnnotation = None \<and> BootstrapSecret (HostSpec h) = None \<and>
          InstallationSecret (HostSpec h) = None
      | Some r \<Rightarrow> Labels h ClusterNameLabel \<noteq> None \<and>
          Labels h AttachedByoMachineLabel = Some (generateSafeLabelValue (ref_Namespace r) (ref_Name r)) \<and>
          ref_Namespace r = Namespace h \<and> BootstrapSecret (HostSpec h) \<noteq> None)"

section \<open>Machines that implement the phases\<close>

text \<open>
  A transition system with an invariant in which every move stays in its phase or makes a step of
  the cycle.
\<close>

locale phase_machine =
  fixes moves :: "'s \<Rightarrow> 's \<Rightarrow> bool" and phase_at :: "'s \<Rightarrow> phase" and good :: "'s \<Rightarrow> bool"
  assumes keeps_good: "moves s t \<Longrightarrow> good s \<Longrightarrow> good t"
    and move_phase: "moves s t \<Longrightarrow> good s \<Longrightarrow> phase_at t = phase_at s \<or> phase_step (phase_at s) (phase_at t)"
begin

lemma run_good: "moves\<^sup>*\<^sup>* s t \<Longrightarrow> good s \<Longrightarrow> good t"
  by (induction rule: rtranclp_induct) (auto dest: keeps_good)

lemma run_phases: "moves\<^sup>*\<^sup>* s t \<Longrightarrow> good s \<Longrightarrow> phase_step\<^sup>*\<^sup>* (phase_at s) (phase_at t)"
proof (induction rule: rtranclp_induct)
  case (step y z)
  then have "phase_at z = phase_at y \<or> phase_step (phase_at y) (phase_at z)" using move_phase run_good by blast
  then show ?case using step by (auto intro: rtranclp.rtrancl_into_rtrancl)
qed simp

text \<open>
  A run that leaves one machine's reservation goes through the end of a cleanup, and up to there what
  every move keeps while the host is held for that machine has been kept.
\<close>

lemma leaving_cleans:
  assumes "good s" and "phase_at s = Reserved k" and "Q s" and "moves\<^sup>*\<^sup>* s t" and "phase_at t \<notin> {Reserved k, Cleaning k}"
    and kept: "\<And>y z. good y \<Longrightarrow> moves y z \<Longrightarrow> phase_at y \<in> {Reserved k, Cleaning k} \<Longrightarrow>
      phase_at z \<in> {Reserved k, Cleaning k} \<Longrightarrow> Q y \<Longrightarrow> Q z"
  shows "\<exists>b a. moves\<^sup>*\<^sup>* s b \<and> good b \<and> Q b \<and> phase_at b = Cleaning k \<and> moves b a \<and> phase_at a = Free \<and> moves\<^sup>*\<^sup>* a t"
proof -
  let ?cleaned = "\<lambda>y. \<exists>b a. moves\<^sup>*\<^sup>* s b \<and> good b \<and> Q b \<and> phase_at b = Cleaning k \<and> moves b a \<and> phase_at a = Free \<and> moves\<^sup>*\<^sup>* a y"
  have "phase_at t \<in> {Reserved k, Cleaning k} \<and> Q t \<or> ?cleaned t"
    using assms(4)
  proof (induction rule: rtranclp_induct)
    case base
    then show ?case using assms(2,3) by simp
  next
    case (step y z)
    have y: "good y" using run_good [OF step(1) assms(1)] .
    show ?case
    proof (cases "?cleaned y")
      case True
      then show ?thesis using step(2) by (meson rtranclp.rtrancl_into_rtrancl)
    next
      case False
      then have held: "phase_at y \<in> {Reserved k, Cleaning k}" "Q y" using step(3) by blast+
      then have "phase_at z \<in> {Reserved k, Cleaning k} \<or> (phase_at y = Cleaning k \<and> phase_at z = Free)"
        using move_phase [OF step(2) y] by (cases "phase_at z") auto
      then show ?thesis using step(1,2) y held kept [OF y step(2) held(1) _ held(2)] by blast
    qed
  qed
  then show ?thesis using assms(5) by auto
qed

lemma handover_cleans:
  assumes "good s" and "phase_at s = Reserved k" and "moves\<^sup>*\<^sup>* s t"
    and "phase_at t \<in> {Reserved k', Cleaning k'}" and "k' \<noteq> k"
  shows "\<exists>b a. moves\<^sup>*\<^sup>* s b \<and> good b \<and> phase_at b = Cleaning k \<and> moves b a \<and> phase_at a = Free \<and> moves\<^sup>*\<^sup>* a t"
proof -
  have "phase_at t \<notin> {Reserved k, Cleaning k}" using assms(4,5) by auto
  then show ?thesis using leaving_cleans [where Q = "\<lambda>_. True", OF assms(1,2) _ assms(3)] by blast
qed

end

section \<open>What a component promises\<close>

locale host_component =
  fixes writes :: "ByoHost \<Rightarrow> ByoHost \<Rightarrow> bool"
  assumes same_object: "writes h h' \<Longrightarrow> obj_key h' = obj_key h"
    and keeps_consistent: "writes h h' \<Longrightarrow> consistent h \<Longrightarrow> consistent h'"
    and implements: "writes h h' \<Longrightarrow> consistent h \<Longrightarrow> phase_of h' = phase_of h \<or> phase_step (phase_of h) (phase_of h')"

sublocale host_component \<subseteq> cycle: phase_machine writes phase_of consistent
  by unfold_locales (fact keeps_consistent implements)+

section \<open>The components\<close>

lemma life_names [simp]:
  "ClusterNameLabel \<noteq> AttachedByoMachineLabel" "AttachedByoMachineLabel \<noteq> ClusterNameLabel"
  "ClusterNameLabel \<noteq> ClusterLabel" "ClusterNameLabel \<noteq> ClusterLabelCP"
  "AttachedByoMachineLabel \<noteq> ClusterLabel" "AttachedByoMachineLabel \<noteq> ClusterLabelCP"
  "HostCleanupAnnotation \<noteq> PausedAnnotation" "HostCleanupAnnotation \<noteq> EndPointIPAnnotation"
  "HostCleanupAnnotation \<noteq> K8sVersionAnnotation" "HostCleanupAnnotation \<noteq> BundleLookupBaseRegistryAnnotation"
  by (simp_all add: ClusterNameLabel_def AttachedByoMachineLabel_def ClusterLabel_def ClusterLabelCP_def
      HostCleanupAnnotation_def PausedAnnotation_def EndPointIPAnnotation_def K8sVersionAnnotation_def
      BundleLookupBaseRegistryAnnotation_def)

lemmas life_defs = consistent_def phase_of_def

definition manager_writes :: "ByoHost \<Rightarrow> ByoHost \<Rightarrow> bool" where
  "manager_writes h h' \<longleftrightarrow> (\<exists>m. machine_writes m h h')"

definition controller_writes :: "ByoHost \<Rightarrow> ByoHost \<Rightarrow> bool" where
  "controller_writes h h' \<longleftrightarrow> cleaned_up h \<and> h' = clear_uninstallation h"

lemma machine_writes_life:
  assumes "machine_writes m h h'" and "consistent h"
  shows "consistent h' \<and> (phase_of h' = phase_of h \<or> phase_step (phase_of h) (phase_of h'))"
  using assms
proof (induction rule: machine_writes.induct)
  case (reserve h sc ds v)
  then show ?case by (auto simp: life_defs reserved_host_def Let_def obj_key_def ref_key_def split: option.splits)
next
  case (release h m')
  then show ?case
    by (auto simp: life_defs cleanup_marked_def attached_to_def Let_def split: option.splits)
qed (auto simp: life_defs attached_to_def split: option.splits)

lemma machine_writes_key: "machine_writes m h h' \<Longrightarrow> obj_key h' = obj_key h"
  by (induction rule: machine_writes.induct) (auto simp: reserved_host_def cleanup_marked_def Let_def obj_key_def)

interpretation manager: host_component manager_writes
  by unfold_locales (auto simp: manager_writes_def dest: machine_writes_life machine_writes_key)

lemma released_frame:
  "MachineRef (HostStatus (released A h)) = None" "HostSpec (released A h) = (HostSpec h)\<lparr>InstallationSecret := None, BootstrapSecret := None\<rparr>"
  "Labels (released A h) = (Labels h)(ClusterNameLabel := None, AttachedByoMachineLabel := None)"
  "Annotations (released A h) HostCleanupAnnotation = None" "obj_key (released A h) = obj_key h"
  by (auto simp: released_def removeAnnotations_def MarkFalse_def host_SetConditions_def obj_key_def)

lemma phase_of_conditions: "same_but_conditions h h' \<Longrightarrow> phase_of h' = phase_of h"
  using same_but_conditionsD(2,4) [of h h'] by (simp add: phase_of_def split: option.split)

lemma agent_writes_life:
  assumes "agent_writes A h h'" and "consistent h"
  shows "consistent h' \<and> (phase_of h' = phase_of h \<or> phase_step (phase_of h) (phase_of h'))"
proof (cases "same_but_conditions h h'")
  case True
  note f = same_but_conditionsD [OF True]
  then have "Namespace h' = Namespace h" by (simp add: obj_key_def)
  with f assms(2) show ?thesis by (auto simp: life_defs split: option.splits)
next
  case False
  then obtain h1 where mark: "Annotations h HostCleanupAnnotation \<noteq> None" and "same_but_conditions h h1" "h' = released A h1"
    using assms(1) by (auto simp: agent_writes_def)
  then show ?thesis using assms(2) same_but_conditionsD [of h h1]
    by (auto simp: life_defs released_frame split: option.splits)
qed

lemma agent_writes_key: "agent_writes A h h' \<Longrightarrow> obj_key h' = obj_key h"
  by (auto simp: agent_writes_def released_frame dest: same_but_conditionsD(5))

interpretation agent: host_component "agent_writes A" for A :: "('w, 'z) agent_scheme"
  by unfold_locales (auto dest: agent_writes_life agent_writes_key)

interpretation controller: host_component controller_writes
  by unfold_locales (auto simp: controller_writes_def clear_uninstallation_def life_defs obj_key_def split: option.splits)

interpretation registrar: host_component same_but_platform
proof unfold_locales
  fix h h' assume "same_but_platform h h'"
  note f = same_but_platform_frame [OF this]
  then have "Namespace h' = Namespace h" by (simp add: obj_key_def)
  with f show "obj_key h' = obj_key h" "consistent h \<Longrightarrow> consistent h'"
    "consistent h \<Longrightarrow> phase_of h' = phase_of h \<or> phase_step (phase_of h) (phase_of h')"
    by (auto simp: life_defs split: option.splits)
qed

section \<open>All together\<close>

inductive host_step :: "('w, 'z) agent_scheme \<Rightarrow> ByoHost \<Rightarrow> ByoHost \<Rightarrow> bool" for A where
  by_manager: "machine_writes m h h' \<Longrightarrow> host_step A h h'"
| by_agent: "agent_writes A h h' \<Longrightarrow> host_step A h h'"
| by_controller: "cleaned_up h \<Longrightarrow> host_step A h (clear_uninstallation h)"
| by_registrar: "same_but_platform h h' \<Longrightarrow> host_step A h h'"

text \<open>The hosts that a registration creates, with labels that do not claim a reservation, and what becomes of them.\<close>

inductive host_reachable :: "('w, 'z) agent_scheme \<Rightarrow> ByoHost \<Rightarrow> bool" for A where
  created: "hostLabels ClusterNameLabel = None \<Longrightarrow> hostLabels AttachedByoMachineLabel = None \<Longrightarrow>
     host_reachable A (new_ByoHost hostName namespace hostLabels)"
| step: "host_reachable A h \<Longrightarrow> host_step A h h' \<Longrightarrow> host_reachable A h'"

lemma host_step_component:
  assumes "host_step A h h'"
  shows "manager_writes h h' \<or> agent_writes A h h' \<or> controller_writes h h' \<or> same_but_platform h h'"
  using assms by cases (auto simp: manager_writes_def controller_writes_def)

interpretation any: host_component "host_step A" for A :: "('w, 'z) agent_scheme"
  by unfold_locales
    (auto dest!: host_step_component
      dest: manager.same_object agent.same_object controller.same_object registrar.same_object
        manager.keeps_consistent agent.keeps_consistent controller.keeps_consistent registrar.keeps_consistent
        manager.implements agent.implements controller.implements registrar.implements)

lemma new_ByoHost_consistent:
  "hostLabels ClusterNameLabel = None \<Longrightarrow> hostLabels AttachedByoMachineLabel = None \<Longrightarrow>
   consistent (new_ByoHost hostName namespace hostLabels) \<and> phase_of (new_ByoHost hostName namespace hostLabels) = Free"
  by (simp add: life_defs new_ByoHost_def ObjectMeta.defs ByoHost.defs)

lemma reachable_consistent: "host_reachable A h \<Longrightarrow> consistent h"
  by (induction rule: host_reachable.induct) (auto simp: new_ByoHost_consistent any.keeps_consistent)

text \<open>Only the agent ends a cleanup.\<close>

lemma finish_by_agent:
  assumes "host_step A b a" and "consistent b" and "phase_of b = Cleaning k" and "phase_of a = Free"
  shows "agent_writes A b a"
proof -
  have ref: "MachineRef (HostStatus b) \<noteq> None" "MachineRef (HostStatus a) = None"
    using assms(3,4) by (auto simp: phase_of_def split: option.splits if_splits)
  have "\<not> machine_writes m b a" for m
  proof
    assume "machine_writes m b a"
    then show False using ref by cases (auto simp: reserved_host_def cleanup_marked_def Let_def split: if_splits)
  qed
  moreover have "\<not> controller_writes b a" using ref by (auto simp: controller_writes_def cleaned_up_def)
  moreover have "\<not> same_but_platform b a" using ref same_but_platform_frame [of b a] by auto
  ultimately show ?thesis using host_step_component [OF assms(1)] by (auto simp: manager_writes_def)
qed

text \<open>As long as a host is held, its reference does not change.\<close>

lemma held_same_ref:
  assumes "host_step A b a" and "consistent b" and "phase_of b \<noteq> Free" and "phase_of a \<noteq> Free"
  shows "MachineRef (HostStatus a) = MachineRef (HostStatus b)"
proof -
  have ref: "MachineRef (HostStatus b) \<noteq> None" "MachineRef (HostStatus a) \<noteq> None"
    using assms(3,4) by (auto simp: phase_of_def split: option.splits)
  from assms(1) show ?thesis
  proof cases
    case (by_manager m)
    then show ?thesis
      using ref(1) assms(2) by cases (auto simp: consistent_def cleanup_marked_def Let_def split: option.splits)
  next
    case by_agent
    then show ?thesis using ref(2) by (auto simp: agent_writes_def released_frame dest: same_but_conditionsD(2))
  qed (auto simp: clear_uninstallation_def same_but_platform_frame)
qed

section \<open>A life\<close>

text \<open>A host is created, held for one machine, marked, released, and held for another machine.\<close>

abbreviation life_agent :: "ref_world agent" where
  "life_agent \<equiv> ref_agent"

definition life_scope :: "string \<Rightarrow> byoMachineScope" where
  "life_scope n = (scope (ex_state None))\<lparr>sc_ByoMachine := new_machine ''default'' n ''c1''\<rparr>"

definition held :: "string \<Rightarrow> ByoHost \<Rightarrow> ByoHost" where
  "held n h = reserved_host (life_scope n) ''boot'' ''v1.26.6'' h"

definition life_start :: ByoHost where
  "life_start = new_ByoHost ''host1'' ''default'' Map.empty"

definition life_marked :: ByoHost where
  "life_marked = cleanup_marked (new_machine ''default'' ''m1'' ''c1'') (held ''m1'' life_start)"

definition life_released :: ByoHost where
  "life_released = released life_agent life_marked"

lemma life_keys: "Namespace (new_machine ns n c) = ns" "Name (new_machine ns n c) = n"
  by (simp_all add: new_object_defs)

lemma held_step:
  assumes "Labels h ClusterNameLabel = None" and "Namespace h = ''default''"
  shows "host_step A h (held n h)"
  unfolding held_def using assms
  by (intro by_manager [OF machine_writes.reserve, where m = "new_machine ''default'' n ''c1''"])
    (simp_all add: life_scope_def life_keys)

lemma life_start_fields: "Labels life_start ClusterNameLabel = None" "Namespace life_start = ''default''"
  by (simp_all add: life_start_def new_ByoHost_def ObjectMeta.defs ByoHost.defs)

lemma life_marked_step: "host_step A (held ''m1'' life_start) life_marked"
  unfolding life_marked_def
  by (intro by_manager [OF machine_writes.release])
    (simp_all add: attached_to_def held_def reserved_host_Labels life_scope_def)

lemma life_released_step: "host_step life_agent life_marked life_released"
proof -
  have "Annotations life_marked HostCleanupAnnotation \<noteq> None" by (simp add: life_marked_def cleanup_marked_def Let_def)
  then show ?thesis unfolding life_released_def by (intro by_agent) (unfold agent_writes_def, blast)
qed

lemma life_released_fields: "Labels life_released ClusterNameLabel = None" "Namespace life_released = ''default''"
  by (simp_all add: life_released_def released_def removeAnnotations_def MarkFalse_def host_SetConditions_def
      life_marked_def cleanup_marked_def held_def reserved_host_def life_start_fields Let_def)

lemma life_reachable: "host_reachable A life_start" "host_reachable A (held ''m1'' life_start)"
proof -
  show "host_reachable A life_start" unfolding life_start_def by (rule created) simp_all
  then show "host_reachable A (held ''m1'' life_start)" by (rule step) (rule held_step [OF life_start_fields])
qed

lemma life_run: "(host_step life_agent)\<^sup>*\<^sup>* (held ''m1'' life_start) (held ''m2'' life_released)"
  using life_marked_step [of life_agent] life_released_step held_step [OF life_released_fields, of life_agent "''m2''"]
  by (meson rtranclp.rtrancl_into_rtrancl rtranclp.rtrancl_refl)

lemma life_phases:
  "phase_of (held ''m1'' life_start) = Reserved (''default'', ''m1'')"
  "phase_of (held ''m2'' life_released) = Reserved (''default'', ''m2'')"
  by code_simp+

section \<open>Properties\<close>

text \<open>
  C3. However the ByoMachine controller, the agent, the ByoHost controller and the registration
  interleave, a host that was created without reservation labels is consistent: when it is free it has
  no cluster label, no machine label, no cleanup mark and neither a bootstrap nor an installation
  secret; when it has a machine, the machine is in the host's namespace, the machine label is the
  one computed from it, and there are a cluster label and bootstrap data.
\<close>

theorem reachable_host_consistent:
  assumes "host_reachable A h"
  shows "consistent h"
  using assms by (rule reachable_consistent)

theorem reachable_host_consistent_witness: "consistent (held ''m1'' life_start)"
  by (rule reachable_host_consistent [of life_agent]) (rule life_reachable)





text \<open>
  C20. A cleanup is retried until it is done: let the agent reconcile a host marked for cleanup again and
  again, each time on the host it left.  As soon as one of the rounds reports no error the host is
  free, and in every round up to then it was held for the same machine and marked, so that the next
  round tried again and no other machine could take it.
\<close>

theorem cleanup_retried_until_done:
  assumes "\<And>i. a_host (st (Suc i)) = a_host (snd (reconcile_host A (st i)))"
    and "phase_of (a_host (st 0)) = Cleaning k" and "fst (reconcile_host A (st n)) = None"
  shows "\<exists>m\<le>n. phase_of (a_host (st (Suc m))) = Free \<and> list_all (\<lambda>i. phase_of (a_host (st i)) = Cleaning k) [0..<Suc m]"
proof -
  define m where "m = (LEAST i. fst (reconcile_host A (st i)) = None)"
  have m: "fst (reconcile_host A (st m)) = None" "m \<le> n" unfolding m_def using assms(3) by (auto intro: LeastI Least_le)
  have fail: "fst (reconcile_host A (st i)) \<noteq> None" if "i < m" for i using that not_less_Least unfolding m_def by blast
  have mark: "reconcile_host A (st i) = hostCleanUp A (st i)" if "phase_of (a_host (st i)) = Cleaning k" for i
    using that by (auto simp: reconcile_host_def phase_of_def split: option.splits if_splits)
  have held: "phase_of (a_host (st i)) = Cleaning k" if "i \<le> m" for i
    using that
  proof (induction i)
    case (Suc i)
    then have p: "phase_of (a_host (st i)) = Cleaning k" and "fst (hostCleanUp A (st i)) \<noteq> None" using fail [of i] mark [of i] by auto
    then obtain err st' where "hostCleanUp A (st i) = (Some err, st')" by (metis option.exhaust prod.collapse)
    then show ?case
    proof (cases rule: hostCleanUp_cases)
      case (failed e)
      then show ?thesis
        using p assms(1) [of i] mark [OF p] phase_of_conditions [OF failed(3)] \<open>hostCleanUp A (st i) = (Some err, st')\<close>
        by simp
    qed simp
  qed (use assms(2) in simp)
  obtain st' where done_st: "hostCleanUp A (st m) = (None, st')" using m mark [OF held] by (metis order_refl prod.collapse)
  then have "phase_of (a_host st') = Free"
    by (cases rule: hostCleanUp_cases) (simp_all add: phase_of_def released_frame)
  then have "phase_of (a_host (st (Suc m))) = Free" using assms(1) [of m] mark [OF held [OF order_refl]] done_st by simp
  moreover have "list_all (\<lambda>i. phase_of (a_host (st i)) = Cleaning k) [0..<Suc m]" using held by (simp add: list_all_iff del: upt_Suc)
  ultimately show ?thesis using m(2) by blast
qed

theorem cleanup_retried_until_done_witness:
  "phase_of (a_host (snd (reconcile_host life_agent (agent_state bootstrapped_example)))) = Free"
proof -
  let ?st = "\<lambda>i. ((\<lambda>s. snd (reconcile_host life_agent s)) ^^ i) (agent_state bootstrapped_example)"
  have "phase_of (a_host (agent_state bootstrapped_example)) = Cleaning (''default'', ''m1'')" by code_simp
  moreover have "fst (reconcile_host life_agent (agent_state bootstrapped_example)) = None" by code_simp
  ultimately show ?thesis using cleanup_retried_until_done [of ?st life_agent "(''default'', ''m1'')" 0] by simp
qed

end
