(* ===== verification/Ctl_Utils.thy ===== *)
theory Ctl_Utils
  imports Go_Os
begin

text \<open>
  The utilities of \<open>byohctl\<close>: the logger (\<open>cmd/byohctl/utils/logger.go\<close>) and the question to the
  user (\<open>cmd/byohctl/utils/helper.go\<close>).  The logger's package variables are a record with the lines
  that were printed on the console and written to the file; the time stamp is a parameter.
\<close>

section \<open>The logger\<close>

definition LevelDebug :: string where
  "LevelDebug = ''DEBUG''"

definition LevelInfo :: string where
  "LevelInfo = ''INFO''"

definition LevelSuccess :: string where
  "LevelSuccess = ''SUCCESS''"

definition LevelWarning :: string where
  "LevelWarning = ''WARNING''"

definition LevelError :: string where
  "LevelError = ''ERROR''"

definition ConsoleOutputAll :: string where
  "ConsoleOutputAll = ''all''"

definition ConsoleOutputImportant :: string where
  "ConsoleOutputImportant = ''important''"

definition ConsoleOutputMinimal :: string where
  "ConsoleOutputMinimal = ''minimal''"

definition ConsoleOutputCritical :: string where
  "ConsoleOutputCritical = ''critical''"

definition ConsoleOutputNone :: string where
  "ConsoleOutputNone = ''none''"

lemmas level_defs = LevelDebug_def LevelInfo_def LevelSuccess_def LevelWarning_def LevelError_def
  ConsoleOutputAll_def ConsoleOutputImportant_def ConsoleOutputMinimal_def ConsoleOutputCritical_def ConsoleOutputNone_def

record logger =
  consoleOutputEnabled :: bool
  consoleOutputLevel :: string
  debugLog :: "string list option"
  consoleLines :: "string list"

definition initial_logger :: logger where
  "initial_logger = \<lparr>consoleOutputEnabled = True, consoleOutputLevel = ConsoleOutputMinimal, debugLog = None,
     consoleLines = []\<rparr>"

definition shouldShowOnConsole :: "logger \<Rightarrow> string \<Rightarrow> bool" where
  "shouldShowOnConsole L level =
     (if \<not> consoleOutputEnabled L then False
      else if consoleOutputLevel L = ConsoleOutputAll then True
      else if consoleOutputLevel L = ConsoleOutputImportant then level \<noteq> LevelDebug
      else if consoleOutputLevel L = ConsoleOutputMinimal
      then level = LevelSuccess \<or> level = LevelWarning \<or> level = LevelError
      else if consoleOutputLevel L = ConsoleOutputCritical then level = LevelWarning \<or> level = LevelError
      else if consoleOutputLevel L = ConsoleOutputNone then False
      else True)"

text \<open>The common shape of the five log functions; \<open>colour\<close> is the code between the escape and the \<open>m\<close>.\<close>

definition logMessage :: "string \<Rightarrow> string \<Rightarrow> string \<Rightarrow> string" where
  "logMessage timestamp level message = ''['' @ timestamp @ ''] ['' @ level @ ''] '' @ message"

definition coloured :: "string \<Rightarrow> string \<Rightarrow> string" where
  "coloured colour s = [CHR 0x1B] @ ''['' @ colour @ ''m'' @ s @ [CHR 0x1B] @ ''[0m''"

definition emit :: "string \<Rightarrow> string \<Rightarrow> string \<Rightarrow> logger \<Rightarrow> logger" where
  "emit level shown written L =
     (let L1 = (if shouldShowOnConsole L level then L\<lparr>consoleLines := consoleLines L @ [shown]\<rparr> else L)
      in L1\<lparr>debugLog := map_option (\<lambda>ls. ls @ [written]) (debugLog L1)\<rparr>)"

definition LogDebug :: "string \<Rightarrow> string \<Rightarrow> logger \<Rightarrow> logger" where
  "LogDebug timestamp message =
     emit LevelDebug (logMessage timestamp LevelDebug message) (logMessage timestamp LevelDebug message)"

definition LogInfo :: "string \<Rightarrow> string \<Rightarrow> logger \<Rightarrow> logger" where
  "LogInfo timestamp message =
     emit LevelInfo (logMessage timestamp LevelInfo message) (logMessage timestamp LevelInfo message)"

definition LogSuccess :: "string \<Rightarrow> string \<Rightarrow> logger \<Rightarrow> logger" where
  "LogSuccess timestamp message =
     emit LevelSuccess (coloured ''0;32'' (logMessage timestamp LevelSuccess message))
       (logMessage timestamp LevelSuccess message)"

definition LogWarn :: "string \<Rightarrow> string \<Rightarrow> logger \<Rightarrow> logger" where
  "LogWarn timestamp message =
     emit LevelWarning (coloured ''0;33'' (logMessage timestamp LevelWarning message))
       (logMessage timestamp LevelWarning message)"

definition LogError :: "string \<Rightarrow> string \<Rightarrow> logger \<Rightarrow> logger" where
  "LogError timestamp message =
     emit LevelError (coloured ''0;31'' (logMessage timestamp LevelError message))
       (logMessage timestamp LevelError message)"

definition LogErrorf :: "string \<Rightarrow> string \<Rightarrow> logger \<Rightarrow> error \<times> logger" where
  "LogErrorf timestamp message L = (ErrorString message, LogError timestamp message L)"

definition TrackTime :: "string \<Rightarrow> string \<Rightarrow> string \<Rightarrow> logger \<Rightarrow> logger" where
  "TrackTime timestamp elapsed name = LogDebug timestamp (name @ '' took '' @ elapsed)"

definition DisableConsoleOutput :: "logger \<Rightarrow> logger" where
  "DisableConsoleOutput L = L\<lparr>consoleOutputEnabled := False\<rparr>"

definition EnableConsoleOutput :: "logger \<Rightarrow> logger" where
  "EnableConsoleOutput L = L\<lparr>consoleOutputEnabled := True\<rparr>"

definition SetConsoleOutputLevel :: "string \<Rightarrow> string \<Rightarrow> logger \<Rightarrow> logger" where
  "SetConsoleOutputLevel timestamp level L =
     (if level \<in> {ConsoleOutputAll, ConsoleOutputImportant, ConsoleOutputMinimal, ConsoleOutputCritical, ConsoleOutputNone}
      then L\<lparr>consoleOutputLevel := level\<rparr>
      else (LogWarn timestamp (''Invalid console output level: '' @ level @ ''. Using default (important)'') L)
             \<lparr>consoleOutputLevel := ConsoleOutputImportant\<rparr>)"

text \<open>\<open>InitLoggers\<close> truncates the file: the log starts with its header.\<close>

definition InitLoggers ::
  "string \<Rightarrow> string \<Rightarrow> os_state \<Rightarrow> logger \<Rightarrow> error option \<times> os_state \<times> logger" where
  "InitLoggers timestamp logDir s L =
     (case MkdirAll logDir s of
        (Some err, s1) \<Rightarrow> (Some (ErrorString (''failed to create log directory: '' @ Error err)), s1, L)
      | (None, s1) \<Rightarrow>
          (let debugLogPath = filepath_Join [logDir, ''byoh-agent-debug.log'']
           in case truncate_file debugLogPath 420 s1 of
                (Some err, s2) \<Rightarrow> (Some (ErrorString (''failed to open debug log file: '' @ Error err)), s2, L)
              | (None, s2) \<Rightarrow>
                  (None, s2, LogInfo timestamp (''Logger initialized with logs at '' @ debugLogPath)
                     (L\<lparr>debugLog := Some [''===== BYOHCTL SESSION STARTED AT '' @ timestamp @ '' ====='', []]\<rparr>))))"

definition CloseLoggers :: "string \<Rightarrow> logger \<Rightarrow> logger" where
  "CloseLoggers timestamp L =
     L\<lparr>debugLog := map_option (\<lambda>ls. ls @ [[], ''===== BYOHCTL SESSION ENDED AT '' @ timestamp @ '' ====='', []]) (debugLog L)\<rparr>"

text \<open>\<open>ProcessExists\<close>: a command succeeds, exits with a code, or could not be run.\<close>

datatype cmd_outcome = CmdOk | CmdExit int | CmdFailed error

definition ProcessExists ::
  "(string \<Rightarrow> string list \<Rightarrow> 'w \<Rightarrow> cmd_outcome \<times> 'w) \<Rightarrow> string \<Rightarrow> 'w \<Rightarrow> (bool \<times> error option) \<times> 'w" where
  "ProcessExists run pid w =
     (case run ''ps'' [''-p'', pid] w of
        (CmdOk, w1) \<Rightarrow> ((True, None), w1)
      | (CmdExit code, w1) \<Rightarrow>
          ((False, if code = 1 then None
                   else Some (ErrorString (''ps command failed with exit code '' @ Itoa code))), w1)
      | (CmdFailed err, w1) \<Rightarrow>
          ((False, Some (ErrorString (''error checking process status: '' @ Error err))), w1))"

section \<open>The question\<close>

text \<open>
  A line that does not fit the reader's buffer comes with \<open>isPrefix\<close> and no error, and the code
  calls \<open>Error\<close> on the nil error.
\<close>

record line_read =
  rl_line :: string
  rl_isPrefix :: bool
  rl_err :: "error option"

definition AskBool ::
  "(string \<Rightarrow> 'w \<Rightarrow> error option \<times> 'w) \<Rightarrow> ('w \<Rightarrow> line_read \<times> 'w) \<Rightarrow> string \<Rightarrow> 'w \<Rightarrow>
   ((bool \<times> error option) \<times> 'w) outcome" where
  "AskBool fprintf readLine msg w =
     (case fprintf (msg @ '': '') w of
        (Some err, w1) \<Rightarrow> Return ((False, Some (ErrorString (''Unable to show options to user: '' @ Error err))), w1)
      | (None, w1) \<Rightarrow>
          (case readLine w1 of (r, w2) \<Rightarrow>
             if rl_isPrefix r \<or> rl_err r \<noteq> None then
               (case rl_err r of
                  None \<Rightarrow> Panic ''nil pointer dereference''
                | Some err \<Rightarrow> Return ((False, Some (ErrorString (''Unable to read i/p: '' @ Error err))), w2))
             else if rl_line r = ''y'' \<or> rl_line r = ''Y'' then Return ((True, None), w2)
             else if rl_line r = ''n'' \<or> rl_line r = ''N'' then Return ((False, None), w2)
             else Return ((False, Some (ErrorString (''Please provide input as y or n, provided: '' @ rl_line r))), w2)))"

section \<open>Lemmas\<close>

definition verbosity_rank :: "string \<Rightarrow> nat" where
  "verbosity_rank v = (if v = ConsoleOutputNone then 0 else if v = ConsoleOutputCritical then 1
     else if v = ConsoleOutputMinimal then 2 else if v = ConsoleOutputImportant then 3 else 4)"

text \<open>A higher verbosity shows every message of a lower one.\<close>

lemma shouldShow_mono:
  assumes "shouldShowOnConsole L level" and "consoleOutputLevel L = v"
    and "verbosity_rank v \<le> verbosity_rank v'"
    and "level \<in> {LevelDebug, LevelInfo, LevelSuccess, LevelWarning, LevelError}"
  shows "shouldShowOnConsole (L\<lparr>consoleOutputLevel := v'\<rparr>) level"
  using assms by (auto simp: shouldShowOnConsole_def verbosity_rank_def level_defs split: if_splits)

text \<open>Errors and warnings are shown unless the console is off; the file has every message.\<close>

lemma LogError_shown:
  "consoleOutputEnabled L \<Longrightarrow> consoleOutputLevel L \<noteq> ConsoleOutputNone \<Longrightarrow>
   consoleLines (LogError now m L) = consoleLines L @ [coloured ''0;31'' (logMessage now LevelError m)]"
  by (auto simp: LogError_def emit_def Let_def shouldShowOnConsole_def level_defs)

lemma emit_file: "debugLog (emit level shown written L) = map_option (\<lambda>ls. ls @ [written]) (debugLog L)"
  by (simp add: emit_def Let_def)

lemma SetConsoleOutputLevel_valid:
  "consoleOutputLevel (SetConsoleOutputLevel now level L) \<in>
     {ConsoleOutputAll, ConsoleOutputImportant, ConsoleOutputMinimal, ConsoleOutputCritical, ConsoleOutputNone}"
  by (auto simp: SetConsoleOutputLevel_def)

lemma AskBool_yes_iff:
  "(\<exists>w'. AskBool fprintf readLine msg w = Return ((True, e), w')) \<longleftrightarrow>
     (\<exists>w1 r w2. fprintf (msg @ '': '') w = (None, w1) \<and> readLine w1 = (r, w2) \<and> e = None \<and>
        \<not> rl_isPrefix r \<and> rl_err r = None \<and> (rl_line r = ''y'' \<or> rl_line r = ''Y''))"
  by (auto simp: AskBool_def split: option.splits prod.splits)

text \<open>A line longer than the buffer is a crash and not an error.\<close>

lemma AskBool_long_line_panics:
  "fprintf (msg @ '': '') w = (None, w1) \<Longrightarrow> readLine w1 = (r, w2) \<Longrightarrow> rl_isPrefix r \<Longrightarrow> rl_err r = None \<Longrightarrow>
   AskBool fprintf readLine msg w = Panic ''nil pointer dereference''"
  by (simp add: AskBool_def)

end
