(* ===== verification/Go_Json.thy ===== *)
theory Go_Json
  imports Go_Strings Api_Types
begin

text \<open>
  Go's \<open>encoding/json\<close>, as far as \<open>byohctl\<close> uses it: the scanner of the package as the
  push-down machine it is, one step per byte, the unquoting of strings with \<open>unicode/utf8\<close> and
  \<open>unicode/utf16\<close>, and the decoding into the two structures of \<open>cmd/byohctl/types/types.go\<close>.  A
  value is built while it is scanned.  Text that is refused gives \<open>None\<close>.
\<close>

section \<open>UTF-8\<close>

definition RuneError :: nat where
  "RuneError = 0xFFFD"

text \<open>The bytes that may follow a first byte; a later byte is always between \<open>0x80\<close> and \<open>0xBF\<close>.\<close>

definition accept_range :: "nat \<Rightarrow> nat \<times> nat" where
  "accept_range b =
     (if b = 0xE0 then (0xA0, 0xBF) else if b = 0xED then (0x80, 0x9F)
      else if b = 0xF0 then (0x90, 0xBF) else if b = 0xF4 then (0x80, 0x8F) else (0x80, 0xBF))"

definition in_range :: "nat \<Rightarrow> nat \<times> nat \<Rightarrow> bool" where
  "in_range b r = (fst r \<le> b \<and> b \<le> snd r)"

text \<open>\<open>utf8.DecodeRune\<close>: the first rune and the number of its bytes.\<close>

definition DecodeRune :: "string \<Rightarrow> nat \<times> nat" where
  "DecodeRune s =
     (case map of_char s of
        [] \<Rightarrow> (RuneError, 0)
      | b0 # bs \<Rightarrow>
          if b0 < 0x80 then (b0, 1)
          else if b0 < 0xC2 \<or> 0xF4 < b0 then (RuneError, 1)
          else (case bs of
            [] \<Rightarrow> (RuneError, 1)
          | b1 # bs1 \<Rightarrow>
              if \<not> in_range b1 (accept_range b0) then (RuneError, 1)
              else if b0 < 0xE0 then (b0 mod 0x20 * 0x40 + b1 mod 0x40, 2)
              else (case bs1 of
                [] \<Rightarrow> (RuneError, 1)
              | b2 # bs2 \<Rightarrow>
                  if \<not> in_range b2 (0x80, 0xBF) then (RuneError, 1)
                  else if b0 < 0xF0 then (b0 mod 0x10 * 0x1000 + b1 mod 0x40 * 0x40 + b2 mod 0x40, 3)
                  else (case bs2 of
                    [] \<Rightarrow> (RuneError, 1)
                  | b3 # _ \<Rightarrow>
                      if \<not> in_range b3 (0x80, 0xBF) then (RuneError, 1)
                      else (b0 mod 8 * 0x40000 + b1 mod 0x40 * 0x1000 + b2 mod 0x40 * 0x40 + b3 mod 0x40, 4)))))"

definition is_surrogate :: "nat \<Rightarrow> bool" where
  "is_surrogate r = (0xD800 \<le> r \<and> r < 0xE000)"

text \<open>\<open>utf8.AppendRune\<close>: a surrogate, or a number past the last rune, is written as the replacement rune.\<close>

definition EncodeRune :: "nat \<Rightarrow> string" where
  "EncodeRune r0 =
     (let r = (if is_surrogate r0 \<or> 0x10FFFF < r0 then RuneError else r0)
      in map char_of
        (if r < 0x80 then [r]
         else if r < 0x800 then [0xC0 + r div 0x40, 0x80 + r mod 0x40]
         else if r < 0x10000 then [0xE0 + r div 0x1000, 0x80 + r div 0x40 mod 0x40, 0x80 + r mod 0x40]
         else [0xF0 + r div 0x40000, 0x80 + r div 0x1000 mod 0x40, 0x80 + r div 0x40 mod 0x40, 0x80 + r mod 0x40]))"

text \<open>\<open>utf16.DecodeRune\<close>.\<close>

definition DecodeSurrogates :: "nat \<Rightarrow> nat \<Rightarrow> nat" where
  "DecodeSurrogates r1 r2 =
     (if 0xD800 \<le> r1 \<and> r1 < 0xDC00 \<and> 0xDC00 \<le> r2 \<and> r2 < 0xE000
      then (r1 - 0xD800) * 0x400 + (r2 - 0xDC00) + 0x10000 else RuneError)"

section \<open>Strings\<close>

definition hex_digit :: "char \<Rightarrow> nat option" where
  "hex_digit c =
     (let b = of_char c :: nat
      in if 48 \<le> b \<and> b \<le> 57 then Some (b - 48)
         else if 97 \<le> b \<and> b \<le> 102 then Some (b - 87)
         else if 65 \<le> b \<and> b \<le> 70 then Some (b - 55) else None)"

fun hex4 :: "string \<Rightarrow> nat option" where
  "hex4 (a # b # c # d # s) =
     (case (hex_digit a, hex_digit b, hex_digit c, hex_digit d) of
        (Some w, Some x, Some y, Some z) \<Rightarrow> Some (w * 0x1000 + x * 0x100 + y * 0x10 + z)
      | _ \<Rightarrow> None)"
| "hex4 _ = None"

text \<open>\<open>getu4\<close>: the code of \<open>\uXXXX\<close>.\<close>

fun getu4 :: "string \<Rightarrow> nat option" where
  "getu4 (a # b # s) = (if a = CHR 0x5C \<and> b = CHR ''u'' then hex4 s else None)"
| "getu4 _ = None"

definition unescape :: "char \<Rightarrow> char" where
  "unescape e =
     (if e = CHR ''b'' then CHR 0x08 else if e = CHR ''f'' then CHR 0x0C else if e = CHR ''n'' then CHR 0x0A
      else if e = CHR ''r'' then CHR 0x0D else if e = CHR ''t'' then CHR 0x09 else e)"

text \<open>\<open>unquoteBytes\<close>, between the quotes of a string that the scanner has accepted.\<close>

function unquote :: "string \<Rightarrow> string" where
  "unquote [] = []"
| "unquote (c # s) =
     (if c = CHR 0x5C then
        (case s of
           [] \<Rightarrow> []
         | e # t \<Rightarrow>
             if e \<noteq> CHR ''u'' then unescape e # unquote t
             else (case hex4 t of
               None \<Rightarrow> []
             | Some r \<Rightarrow>
                 if is_surrogate r then
                   (case getu4 (drop 4 t) of
                      Some r2 \<Rightarrow>
                        if DecodeSurrogates r r2 \<noteq> RuneError
                        then EncodeRune (DecodeSurrogates r r2) @ unquote (drop 10 t)
                        else EncodeRune RuneError @ unquote (drop 4 t)
                    | None \<Rightarrow> EncodeRune RuneError @ unquote (drop 4 t))
                 else EncodeRune r @ unquote (drop 4 t)))
      else if (of_char c :: nat) < 0x80 then c # unquote s
      else EncodeRune (fst (DecodeRune (c # s))) @ unquote (drop (snd (DecodeRune (c # s)) - 1) s))"
  by pat_completeness auto
termination by (relation "measure length") auto

section \<open>The scanner\<close>

datatype jvalue = JNull | JBool bool | JNum string | JString string | JArray "jvalue list" | JObject "(string \<times> jvalue) list"

text \<open>The states of \<open>scanner.step\<close>, with the text of the literal or the value that has been read.\<close>

datatype scan =
  BeginValue | BeginValueOrEmpty | BeginStringOrEmpty | BeginString
| EndValue jvalue
| InString string | InStringEsc string | InStringEscU nat string
| InNeg | In0 string | In1 string | InDot string | InDot0 string | InE string | InESign string | InE0 string
| InLiteral string jvalue

text \<open>The entries of \<open>scanner.parseState\<close>, with what has been read of the array or object.\<close>

datatype frame = ParseArrayValue "jvalue list" | ParseObjectKey "(string \<times> jvalue) list"
  | ParseObjectValue "(string \<times> jvalue) list" string

type_synonym scanner = "scan \<times> frame list"

definition isSpace :: "char \<Rightarrow> bool" where
  "isSpace c = (c = CHR '' '' \<or> c = CHR 0x09 \<or> c = CHR 0x0D \<or> c = CHR 0x0A)"

definition isDigit :: "char \<Rightarrow> bool" where
  "isDigit c = (48 \<le> (of_char c :: nat) \<and> (of_char c :: nat) \<le> 57)"

definition maxNestingDepth :: nat where
  "maxNestingDepth = 10000"

definition pushParseState :: "frame \<Rightarrow> scan \<Rightarrow> frame list \<Rightarrow> scanner option" where
  "pushParseState f next stk = (if Suc (length stk) \<le> maxNestingDepth then Some (next, f # stk) else None)"

definition stateBeginValue :: "char \<Rightarrow> frame list \<Rightarrow> scanner option" where
  "stateBeginValue c stk =
     (if isSpace c then Some (BeginValue, stk)
      else if c = CHR ''{'' then pushParseState (ParseObjectKey []) BeginStringOrEmpty stk
      else if c = CHR ''['' then pushParseState (ParseArrayValue []) BeginValueOrEmpty stk
      else if c = CHR 0x22 then Some (InString [], stk)
      else if c = CHR ''-'' then Some (InNeg, stk)
      else if c = CHR ''0'' then Some (In0 [c], stk)
      else if c = CHR ''t'' then Some (InLiteral ''rue'' (JBool True), stk)
      else if c = CHR ''f'' then Some (InLiteral ''alse'' (JBool False), stk)
      else if c = CHR ''n'' then Some (InLiteral ''ull'' JNull, stk)
      else if isDigit c then Some (In1 [c], stk) else None)"

definition stateBeginString :: "char \<Rightarrow> frame list \<Rightarrow> scanner option" where
  "stateBeginString c stk =
     (if isSpace c then Some (BeginString, stk) else if c = CHR 0x22 then Some (InString [], stk) else None)"

text \<open>\<open>stateEndValue\<close>, and \<open>stateEndTop\<close> when no array or object is open.\<close>

definition stateEndValue :: "jvalue \<Rightarrow> char \<Rightarrow> frame list \<Rightarrow> scanner option" where
  "stateEndValue v c stk =
     (if isSpace c then Some (EndValue v, stk)
      else case stk of
        [] \<Rightarrow> None
      | ParseObjectKey fs # stk' \<Rightarrow>
          (case v of
             JString k \<Rightarrow> if c = CHR '':'' then Some (BeginValue, ParseObjectValue fs k # stk') else None
           | _ \<Rightarrow> None)
      | ParseObjectValue fs k # stk' \<Rightarrow>
          if c = CHR '','' then Some (BeginString, ParseObjectKey (fs @ [(k, v)]) # stk')
          else if c = CHR ''}'' then Some (EndValue (JObject (fs @ [(k, v)])), stk') else None
      | ParseArrayValue vs # stk' \<Rightarrow>
          if c = CHR '','' then Some (BeginValue, ParseArrayValue (vs @ [v]) # stk')
          else if c = CHR '']'' then Some (EndValue (JArray (vs @ [v])), stk') else None)"

definition exponent_or_end :: "string \<Rightarrow> char \<Rightarrow> frame list \<Rightarrow> scanner option" where
  "exponent_or_end s c stk =
     (if c = CHR ''e'' \<or> c = CHR ''E'' then Some (InE (s @ [c]), stk) else stateEndValue (JNum s) c stk)"

definition state0 :: "string \<Rightarrow> char \<Rightarrow> frame list \<Rightarrow> scanner option" where
  "state0 s c stk = (if c = CHR ''.'' then Some (InDot (s @ [c]), stk) else exponent_or_end s c stk)"

fun scan_step :: "char \<Rightarrow> scanner \<Rightarrow> scanner option" where
  "scan_step c (BeginValue, stk) = stateBeginValue c stk"
| "scan_step c (BeginValueOrEmpty, stk) =
     (if isSpace c then Some (BeginValueOrEmpty, stk)
      else if c = CHR '']'' then (case stk of ParseArrayValue vs # stk' \<Rightarrow> Some (EndValue (JArray vs), stk') | _ \<Rightarrow> None)
      else stateBeginValue c stk)"
| "scan_step c (BeginStringOrEmpty, stk) =
     (if isSpace c then Some (BeginStringOrEmpty, stk)
      else if c = CHR ''}'' then (case stk of ParseObjectKey fs # stk' \<Rightarrow> Some (EndValue (JObject fs), stk') | _ \<Rightarrow> None)
      else stateBeginString c stk)"
| "scan_step c (BeginString, stk) = stateBeginString c stk"
| "scan_step c (EndValue v, stk) = stateEndValue v c stk"
| "scan_step c (InString s, stk) =
     (if c = CHR 0x22 then Some (EndValue (JString (unquote s)), stk)
      else if c = CHR 0x5C then Some (InStringEsc (s @ [c]), stk)
      else if (of_char c :: nat) < 0x20 then None else Some (InString (s @ [c]), stk))"
| "scan_step c (InStringEsc s, stk) =
     (if c \<in> set [CHR ''b'', CHR ''f'', CHR ''n'', CHR ''r'', CHR ''t'', CHR 0x5C, CHR ''/'', CHR 0x22]
      then Some (InString (s @ [c]), stk)
      else if c = CHR ''u'' then Some (InStringEscU 3 (s @ [c]), stk) else None)"
| "scan_step c (InStringEscU n s, stk) =
     (if hex_digit c = None then None
      else Some (case n of 0 \<Rightarrow> InString (s @ [c]) | Suc m \<Rightarrow> InStringEscU m (s @ [c]), stk))"
| "scan_step c (InNeg, stk) =
     (if c = CHR ''0'' then Some (In0 [CHR ''-'', c], stk) else if isDigit c then Some (In1 [CHR ''-'', c], stk) else None)"
| "scan_step c (In1 s, stk) = (if isDigit c then Some (In1 (s @ [c]), stk) else state0 s c stk)"
| "scan_step c (In0 s, stk) = state0 s c stk"
| "scan_step c (InDot s, stk) = (if isDigit c then Some (InDot0 (s @ [c]), stk) else None)"
| "scan_step c (InDot0 s, stk) = (if isDigit c then Some (InDot0 (s @ [c]), stk) else exponent_or_end s c stk)"
| "scan_step c (InE s, stk) =
     (if c = CHR ''+'' \<or> c = CHR ''-'' then Some (InESign (s @ [c]), stk)
      else if isDigit c then Some (InE0 (s @ [c]), stk) else None)"
| "scan_step c (InESign s, stk) = (if isDigit c then Some (InE0 (s @ [c]), stk) else None)"
| "scan_step c (InE0 s, stk) =
     (if isDigit c then Some (InE0 (s @ [c]), stk) else stateEndValue (JNum s) c stk)"
| "scan_step c (InLiteral rest v, stk) =
     (case rest of
        [] \<Rightarrow> None
      | x # xs \<Rightarrow> if c \<noteq> x then None else if xs = [] then Some (EndValue v, stk) else Some (InLiteral xs v, stk))"

fun scan_run :: "string \<Rightarrow> scanner \<Rightarrow> scanner option" where
  "scan_run [] st = Some st"
| "scan_run (c # s) st = (case scan_step c st of None \<Rightarrow> None | Some st' \<Rightarrow> scan_run s st')"

text \<open>\<open>checkValid\<close>: the end of the text is scanned as a space.\<close>

definition json_value :: "string \<Rightarrow> jvalue option" where
  "json_value s = (case scan_run (s @ '' '') (BeginValue, []) of Some (EndValue v, []) \<Rightarrow> Some v | _ \<Rightarrow> None)"

section \<open>Decoding\<close>

text \<open>
  \<open>foldName\<close>: the names of fields are compared without regard to case.  Two runes outside ASCII
  fold to an ASCII letter, the long s and the Kelvin sign.
\<close>

fun foldName :: "string \<Rightarrow> string" where
  "foldName [] = []"
| "foldName (a # s) =
     (case s of
        b # t \<Rightarrow>
          if a = CHR 0xC5 \<and> b = CHR 0xBF then CHR ''s'' # foldName t
          else (case t of
            c # u \<Rightarrow> if a = CHR 0xE2 \<and> b = CHR 0x84 \<and> c = CHR 0xAA then CHR ''k'' # foldName u
                     else lower_char a # foldName s
          | [] \<Rightarrow> lower_char a # foldName s)
      | [] \<Rightarrow> [lower_char a])"

definition names_field :: "string \<Rightarrow> string \<Rightarrow> bool" where
  "names_field name key = (key = name \<or> foldName key = foldName name)"

text \<open>A value into a string variable that holds \<open>old\<close>.\<close>

fun store_string :: "jvalue \<Rightarrow> string \<Rightarrow> string option" where
  "store_string (JString s) old = Some s"
| "store_string JNull old = Some old"
| "store_string _ old = None"

text \<open>An object into a map from strings to strings; every element starts as the empty string.\<close>

fun store_entries :: "(string \<times> jvalue) list \<Rightarrow> strmap \<Rightarrow> strmap option" where
  "store_entries [] m = Some m"
| "store_entries ((k, v) # es) m =
     (case store_string v [] of None \<Rightarrow> None | Some s \<Rightarrow> store_entries es (m(k \<mapsto> s)))"

fun store_map :: "jvalue \<Rightarrow> strmap \<Rightarrow> strmap option" where
  "store_map (JObject es) m = store_entries es m"
| "store_map JNull m = Some Map.empty"
| "store_map _ m = None"

text \<open>An object into a structure of one field: the field is stored once for each key that names it.\<close>

fun store_field :: "string \<Rightarrow> (jvalue \<Rightarrow> 'a \<Rightarrow> 'a option) \<Rightarrow> (string \<times> jvalue) list \<Rightarrow> 'a \<Rightarrow> 'a option" where
  "store_field name store [] x = Some x"
| "store_field name store ((k, v) # fs) x =
     (if names_field name k
      then (case store v x of None \<Rightarrow> None | Some x' \<Rightarrow> store_field name store fs x')
      else store_field name store fs x)"

definition store_struct :: "string \<Rightarrow> (jvalue \<Rightarrow> 'a \<Rightarrow> 'a option) \<Rightarrow> 'a \<Rightarrow> string \<Rightarrow> 'a option" where
  "store_struct name store x body =
     (case json_value body of
        Some (JObject fs) \<Rightarrow> store_field name store fs x
      | Some JNull \<Rightarrow> Some x
      | _ \<Rightarrow> None)"

text \<open>\<open>json.Unmarshal\<close> into a \<open>TokenResponse\<close> and into a \<open>Secret\<close>.\<close>

definition Unmarshal_TokenResponse :: "string \<Rightarrow> string option" where
  "Unmarshal_TokenResponse = store_struct ''id_token'' store_string []"

definition Unmarshal_Secret :: "string \<Rightarrow> strmap option" where
  "Unmarshal_Secret = store_struct ''data'' store_map Map.empty"

section \<open>Encoding\<close>

text \<open>The text of a value without numbers and of ASCII strings, as \<open>json.Marshal\<close> writes it.\<close>

definition hex_char :: "nat \<Rightarrow> char" where
  "hex_char d = char_of (if d < 10 then 48 + d else 87 + d)"

definition quote_char :: "char \<Rightarrow> string" where
  "quote_char c =
     (let n = of_char c :: nat
      in if c = CHR 0x22 \<or> c = CHR 0x5C then [CHR 0x5C, c]
         else if c = CHR 0x08 then [CHR 0x5C, CHR ''b''] else if c = CHR 0x0C then [CHR 0x5C, CHR ''f'']
         else if c = CHR 0x0A then [CHR 0x5C, CHR ''n''] else if c = CHR 0x0D then [CHR 0x5C, CHR ''r'']
         else if c = CHR 0x09 then [CHR 0x5C, CHR ''t'']
         else if n < 0x20 \<or> c = CHR ''<'' \<or> c = CHR ''>'' \<or> c = CHR ''&''
         then [CHR 0x5C, CHR ''u'', CHR ''0'', CHR ''0'', hex_char (n div 16), hex_char (n mod 16)]
         else [c])"

definition quote :: "string \<Rightarrow> string" where
  "quote s = CHR 0x22 # concat (map quote_char s) @ [CHR 0x22]"

fun json_text :: "jvalue \<Rightarrow> string" where
  "json_text JNull = ''null''"
| "json_text (JBool b) = (if b then ''true'' else ''false'')"
| "json_text (JNum s) = s"
| "json_text (JString s) = quote s"
| "json_text (JArray vs) = ''['' @ Join '','' (map json_text vs) @ '']''"
| "json_text (JObject fs) = ''{'' @ Join '','' (map (\<lambda>(k, v). quote k @ '':'' @ json_text v) fs) @ ''}''"

definition ascii :: "string \<Rightarrow> bool" where
  "ascii s = list_all (\<lambda>c. (of_char c :: nat) < 0x80) s"

fun plain :: "jvalue \<Rightarrow> bool" where
  "plain (JNum s) = False"
| "plain (JString s) = ascii s"
| "plain (JArray vs) = list_all plain vs"
| "plain (JObject fs) = list_all (\<lambda>(k, v). ascii k \<and> plain v) fs"
| "plain _ = True"

fun nesting :: "jvalue \<Rightarrow> nat" where
  "nesting (JArray vs) = Suc (foldr (\<lambda>v. max (nesting v)) vs 0)"
| "nesting (JObject fs) = Suc (foldr (\<lambda>(k, v). max (nesting v)) fs 0)"
| "nesting _ = 0"


section \<open>The round trip\<close>

lemma scan_run_append:
  "scan_run (s @ t) st = (case scan_run s st of None \<Rightarrow> None | Some st' \<Rightarrow> scan_run t st')"
  by (induction s arbitrary: st) (auto split: option.splits)

lemma hex_digit_char: "d < 16 \<Longrightarrow> hex_digit (hex_char d) = Some d"
  by (auto simp: hex_digit_def hex_char_def Let_def)

lemma EncodeRune_ascii: "(of_char c :: nat) < 0x80 \<Longrightarrow> EncodeRune (of_char c) = [c]"
  by (simp add: EncodeRune_def is_surrogate_def)

lemma unquote_quote_char:
  assumes "(of_char c :: nat) < 0x80"
  shows "unquote (quote_char c @ t) = c # unquote t"
proof -
  let ?n = "of_char c :: nat"
  have h: "hex_digit (hex_char (?n div 16)) = Some (?n div 16)" "hex_digit (hex_char (?n mod 16)) = Some (?n mod 16)"
    using assms by (simp_all add: hex_digit_char)
  have z: "hex_digit CHR ''0'' = Some 0" by code_simp
  have s: "\<not> is_surrogate ?n" using assms by (simp add: is_surrogate_def)
  show ?thesis
    using assms h z s EncodeRune_ascii [OF assms] by (auto simp: quote_char_def unescape_def Let_def div_mult_mod_eq)
qed

lemma unquote_quote: "ascii s \<Longrightarrow> unquote (concat (map quote_char s)) = s"
  by (induction s) (simp_all add: ascii_def unquote_quote_char)

lemma scan_quote_char:
  assumes "(of_char c :: nat) < 0x80"
  shows "scan_run (quote_char c @ t) (InString s, stk) = scan_run t (InString (s @ quote_char c), stk)"
proof -
  let ?n = "of_char c :: nat"
  have h: "hex_digit (hex_char (?n div 16)) = Some (?n div 16)" "hex_digit (hex_char (?n mod 16)) = Some (?n mod 16)"
    using assms by (simp_all add: hex_digit_char)
  have z: "hex_digit CHR ''0'' = Some 0" by code_simp
  show ?thesis using h z by (auto simp: quote_char_def Let_def numeral_3_eq_3)
qed

lemma scan_quote_chars:
  "ascii w \<Longrightarrow> scan_run (concat (map quote_char w) @ t) (InString s, stk) =
     scan_run t (InString (s @ concat (map quote_char w)), stk)"
  by (induction w arbitrary: s) (simp_all add: ascii_def scan_quote_char)

lemma scan_quoted:
  "ascii w \<Longrightarrow> scan_run (concat (map quote_char w) @ CHR 0x22 # t) (InString [], stk) = scan_run t (EndValue (JString w), stk)"
  by (simp add: scan_quote_chars unquote_quote)


lemma scan_first:
  assumes "plain v"
  shows "scan_run (json_text v @ t) (BeginValueOrEmpty, stk) = scan_run (json_text v @ t) (BeginValue, stk)"
proof -
  obtain c r where "json_text v = c # r" "\<not> isSpace c" "c \<noteq> CHR '']''"
    using assms by (cases v; cases "v = JBool True") (auto simp: quote_def isSpace_def)
  then show ?thesis by simp
qed

definition scans :: "nat \<Rightarrow> jvalue \<Rightarrow> bool" where
  "scans d v \<longleftrightarrow> (\<forall>t stk. length stk \<le> d \<longrightarrow> scan_run (json_text v @ t) (BeginValue, stk) = scan_run t (EndValue v, stk))"

lemma scan_elements:
  assumes "list_all (scans d) vs" and "vs \<noteq> []" and "Suc (length stk) \<le> d"
  shows "scan_run (Join '','' (map json_text vs) @ CHR '']'' # t) (BeginValue, ParseArrayValue us # stk) =
    scan_run t (EndValue (JArray (us @ vs)), stk)"
  using assms
proof (induction vs arbitrary: us)
  case (Cons v vs)
  then have v: "scan_run (json_text v @ r) (BeginValue, ParseArrayValue us # stk) = scan_run r (EndValue v, ParseArrayValue us # stk)" for r
    by (simp add: scans_def)
  show ?case
  proof (cases "vs = []")
    case True
    then show ?thesis using v by (simp add: stateEndValue_def isSpace_def)
  next
    case False
    then show ?thesis using v Cons by (simp add: stateEndValue_def isSpace_def Join_Cons)
  qed
qed simp

lemma scan_members:
  assumes "list_all (\<lambda>(k, v). ascii k \<and> scans d v) fs" and "fs \<noteq> []" and "Suc (length stk) \<le> d" and "b \<in> {BeginString, BeginStringOrEmpty}"
  shows "scan_run (Join '','' (map (\<lambda>(k, v). quote k @ '':'' @ json_text v) fs) @ CHR ''}'' # t) (b, ParseObjectKey es # stk) =
    scan_run t (EndValue (JObject (es @ fs)), stk)"
  using assms
proof (induction fs arbitrary: es b)
  case (Cons f fs)
  obtain k v where f: "f = (k, v)" by fastforce
  with Cons have k: "ascii k" and v: "scan_run (json_text v @ r) (BeginValue, ParseObjectValue es k # stk) =
      scan_run r (EndValue v, ParseObjectValue es k # stk)" for r
    by (auto simp: scans_def)
  have "scan_run (quote k @ r) (b, ParseObjectKey es # stk) = scan_run r (EndValue (JString k), ParseObjectKey es # stk)" for r
    using Cons.prems(4) by (auto simp: quote_def stateBeginString_def isSpace_def scan_quoted [OF k])
  then have kv: "scan_run (quote k @ '':'' @ json_text v @ r) (b, ParseObjectKey es # stk) =
      scan_run r (EndValue v, ParseObjectValue es k # stk)" for r
    using v by (simp add: stateEndValue_def isSpace_def)
  show ?case
  proof (cases "fs = []")
    case True
    then show ?thesis using kv f by (simp add: stateEndValue_def isSpace_def)
  next
    case False
    then show ?thesis using kv f Cons by (simp add: stateEndValue_def isSpace_def Join_Cons)
  qed
qed simp

lemma nesting_list: "list_all (\<lambda>v. nesting v \<le> foldr (\<lambda>v. max (nesting v)) vs 0) vs"
  by (induction vs) (auto simp: list_all_iff intro: le_max_iff_disj [THEN iffD2])

lemma nesting_fields: "list_all (\<lambda>(k, v). nesting v \<le> foldr (\<lambda>(k, v). max (nesting v)) fs 0) fs"
  by (induction fs) (auto simp: list_all_iff intro: le_max_iff_disj [THEN iffD2])

lemma plain_scans: "plain v \<Longrightarrow> d + nesting v \<le> maxNestingDepth \<Longrightarrow> scans d v"
proof (induction v arbitrary: d)
  case (JString s)
  then show ?case
    by (simp add: scans_def quote_def stateBeginValue_def isSpace_def scan_quoted)
next
  case (JArray vs)
  have el: "list_all (scans (Suc d)) vs"
    using JArray nesting_list [of vs] by (fastforce simp: list_all_iff)
  show ?case unfolding scans_def
  proof (intro allI impI)
    fix t :: string and stk :: "frame list" assume stk: "length stk \<le> d"
    show "scan_run (json_text (JArray vs) @ t) (BeginValue, stk) = scan_run t (EndValue (JArray vs), stk)"
    proof (cases vs)
      case Nil
      then show ?thesis using stk JArray.prems by (simp add: stateBeginValue_def isSpace_def pushParseState_def)
    next
      case (Cons v ws)
      have "\<exists>r. Join '','' (map json_text vs) = json_text v @ r" using Cons by (cases ws) auto
      then have "scan_run (Join '','' (map json_text vs) @ CHR '']'' # t) (BeginValueOrEmpty, ParseArrayValue [] # stk) =
          scan_run (Join '','' (map json_text vs) @ CHR '']'' # t) (BeginValue, ParseArrayValue [] # stk)"
        using scan_first [of v] JArray.prems Cons by fastforce
      then show ?thesis
        using stk JArray.prems scan_elements [OF el, of stk t "[]"] Cons
        by (simp add: stateBeginValue_def isSpace_def pushParseState_def)
    qed
  qed
next
  case (JObject fs)
  have el: "list_all (\<lambda>(k, v). ascii k \<and> scans (Suc d) v) fs"
    using JObject nesting_fields [of fs] by (fastforce simp: list_all_iff)
  show ?case unfolding scans_def
  proof (intro allI impI)
    fix t :: string and stk :: "frame list" assume stk: "length stk \<le> d"
    show "scan_run (json_text (JObject fs) @ t) (BeginValue, stk) = scan_run t (EndValue (JObject fs), stk)"
      using stk JObject.prems scan_members [OF el, of stk BeginStringOrEmpty t "[]"]
      by (cases "fs = []") (simp_all add: stateBeginValue_def isSpace_def pushParseState_def)
  qed
qed (auto simp: scans_def stateBeginValue_def isSpace_def isDigit_def)

lemma json_value_text:
  assumes "plain v" and "nesting v \<le> maxNestingDepth"
  shows "json_value (json_text v) = Some v"
  using plain_scans [OF assms(1), of 0] assms(2)
  by (simp add: scans_def json_value_def stateEndValue_def isSpace_def)

text \<open>Reading back an object of strings, and a field that is named once.\<close>

lemma store_entries_strings:
  assumes "list_all (\<lambda>(k, v). \<exists>s. v = JString s) es" and "distinct (map fst es)"
  shows "\<exists>m'. store_entries es m = Some m' \<and> m' k = (case map_of es k of Some (JString s) \<Rightarrow> Some s | _ \<Rightarrow> m k)"
  using assms
proof (induction es arbitrary: m)
  case (Cons e es)
  obtain k1 s1 where e: "e = (k1, JString s1)" using Cons.prems by (cases e) auto
  have rest: "list_all (\<lambda>(k, v). \<exists>s. v = JString s) es" "distinct (map fst es)" using Cons.prems by simp_all
  obtain m' where m': "store_entries es (m(k1 \<mapsto> s1)) = Some m'"
    "m' k = (case map_of es k of Some (JString s) \<Rightarrow> Some s | _ \<Rightarrow> (m(k1 \<mapsto> s1)) k)"
    using Cons.IH [OF rest] by blast
  have "map_of es k1 = None" using Cons.prems e by (simp add: map_of_eq_None_iff)
  with m' show ?case by (intro exI [of _ m']) (simp add: e split: option.splits jvalue.splits)
qed simp

lemma store_field_once:
  assumes "filter (\<lambda>(k, v). names_field name k) fs = [(name, v)]"
  shows "store_field name store fs x = store v x"
  using assms
proof (induction fs)
  case (Cons f fs)
  obtain k u where f: "f = (k, u)" by fastforce
  show ?case
  proof (cases "names_field name k")
    case True
    then have "filter (\<lambda>(k, v). names_field name k) fs = []" using Cons.prems f by simp
    then have "store_field name store fs y = Some y" for y by (induction fs arbitrary: y) auto
    then show ?thesis using True Cons.prems f by (auto split: option.splits)
  next
    case False
    then show ?thesis using Cons f by simp
  qed
qed simp

end
