(* ===== verification/Ctl_Client.thy ===== *)
theory Ctl_Client
  imports Ctl_Utils Api_Types Go_Json
begin

text \<open>
  The clients of \<open>byohctl\<close>: the token service (\<open>cmd/byohctl/client/auth.go\<close>), the kubeconfig secret
  and the management cluster (\<open>cmd/byohctl/client/k8s.go\<close>), with the constants of
  \<open>cmd/byohctl/service/constants.go\<close>.  HTTP, YAML, client-go and the clock are parameters
  over a world \<open>'w\<close>; the file system is the one of \<open>Go_Os\<close>.
\<close>

section \<open>Constants\<close>

definition DefaultFilePerms :: "32 word" where
  "DefaultFilePerms = 420"

definition byohAgentDebRepo :: string where
  "byohAgentDebRepo = ''quay.io/platform9/cluster-api-provider-bringyourownhost/agent''"

definition ByohAgentDebPackageFilename :: string where
  "ByohAgentDebPackageFilename = ''pf9-byohost-agent.deb''"

definition ByohAgentServiceName :: string where
  "ByohAgentServiceName = ''pf9-byohost-agent''"

definition ByohConfigDir :: string where
  "ByohConfigDir = ''.byoh''"

definition ImgPkgPath :: string where
  "ImgPkgPath = ''/usr/local/bin/imgpkg''"

definition ImgPkgURL :: string where
  "ImgPkgURL = ''https://github.com/carvel-dev/imgpkg/releases/download/'' @ ''v0.45.0'' @ ''/imgpkg-linux-amd64''"

definition WaitForMachineRefToBeUnsetTimeout :: Duration where
  "WaitForMachineRefToBeUnsetTimeout = 5 * (60 * Second)"

definition Systemctl :: string where
  "Systemctl = ''systemctl''"

definition PcdKaapiRegionKey :: string where
  "PcdKaapiRegionKey = ''pcd-kaapi.pf9.io/region''"

definition GetVersion :: "string \<Rightarrow> string" where
  "GetVersion v = (if v = [] then ''0.0.0'' else v)"

definition byohAgentBundleURL :: "string \<Rightarrow> string" where
  "byohAgentBundleURL v = byohAgentDebRepo @ '':'' @ GetVersion v"

definition SystemctlServiceExists :: "string list" where
  "SystemctlServiceExists = [''list-unit-files'', ByohAgentServiceName @ ''.service'']"

text \<open>The package variables are computed from the home directory, empty when it is unknown.\<close>

definition ByohDir :: "error + string \<Rightarrow> string" where
  "ByohDir home = filepath_Join [case home of Inl _ \<Rightarrow> [] | Inr h \<Rightarrow> h, ByohConfigDir]"

definition KubeconfigFilePath :: "error + string \<Rightarrow> string" where
  "KubeconfigFilePath home = filepath_Join [ByohDir home, ''config'']"

section \<open>The environment\<close>

record http_response =
  StatusCode :: int
  Body :: "error + string"

record http_request =
  Method :: string
  URL :: string
  Headers :: "(string \<times> string) list"
  ReqBody :: string

record named_context =
  ctx_Name :: string
  ctx_Namespace :: string

record kube_config =
  kcfg_CurrentContext :: string
  kcfg_Contexts :: "named_context list"

record UMachine =
  um_Name :: string
  um_Labels :: strmap
  um_Annotations :: strmap

record MachineDeployment =
  md_Name :: string
  md_Replicas :: "32 word option"

text \<open>
  YAML decoding gives the fields the code reads; \<open>JsonError\<close> is the wording of the error for a text that
  \<open>encoding/json\<close> refuses.  A typed read of the dynamic client has two errors: that of the call, and that of the conversion
  from the unstructured object.
\<close>

record 'w ctl_env =
  NewRequest :: "string \<Rightarrow> string \<Rightarrow> error option"
  Do :: "http_request \<Rightarrow> 'w \<Rightarrow> (error + http_response) \<times> 'w"
  JsonError :: "string \<Rightarrow> error"
  UnmarshalConfig :: "string \<Rightarrow> error + kube_config"
  LookupHost :: "string \<Rightarrow> 'w \<Rightarrow> (error + string list) \<times> 'w"
  HomeDir :: "error + string"
  Hostname :: "error + string"
  BuildConfigFromFlags :: "string \<Rightarrow> os_state \<Rightarrow> error option"
  NewClientset :: "error option"
  NewDynamic :: "error option"
  dynGetByoHost :: "string \<Rightarrow> string \<Rightarrow> 'w \<Rightarrow> (error + (error + ByoHost)) \<times> 'w"
  dynDeleteByoHost :: "string \<Rightarrow> string \<Rightarrow> 'w \<Rightarrow> error option \<times> 'w"
  dynGetMachine :: "string \<Rightarrow> string \<Rightarrow> 'w \<Rightarrow> (error + UMachine) \<times> 'w"
  dynUpdateMachine :: "string \<Rightarrow> UMachine \<Rightarrow> 'w \<Rightarrow> error option \<times> 'w"
  dynGetDeployment :: "string \<Rightarrow> string \<Rightarrow> 'w \<Rightarrow> (error + (error + MachineDeployment)) \<times> 'w"
  DeploymentToUnstructured :: "MachineDeployment \<Rightarrow> error option"
  dynUpdateDeployment :: "string \<Rightarrow> MachineDeployment \<Rightarrow> 'w \<Rightarrow> error option \<times> 'w"
  getConfigMap :: "string \<Rightarrow> string \<Rightarrow> 'w \<Rightarrow> (error + strmap) \<times> 'w"
  TimeNow :: "'w \<Rightarrow> int"
  Sleep :: "Duration \<Rightarrow> 'w \<Rightarrow> 'w"

section \<open>Authentication\<close>

text \<open>The form is listed in the order of its keys, in which \<open>url.Values.Encode\<close> writes it.\<close>

definition GetToken ::
  "('w, 'z) ctl_env_scheme \<Rightarrow> string \<Rightarrow> string \<Rightarrow> string \<Rightarrow> string \<Rightarrow> 'w \<Rightarrow> (error + string) \<times> 'w" where
  "GetToken E fqdn clientToken username password w =
     (let tokenEndpoint = ''https://'' @ fqdn @ ''/dex/token'';
          formData = [(''client_id'', ''kubernetes''), (''client_secret'', clientToken), (''grant_type'', ''password''),
            (''password'', password), (''scope'', ''openid offline_access groups federated:id email''), (''username'', username)]
      in case NewRequest E ''POST'' tokenEndpoint of
           Some err \<Rightarrow> (Inl (ErrorString (''failed to create authentication request: '' @ Error err)), w)
         | None \<Rightarrow>
             (case Do E \<lparr>Method = ''POST'', URL = tokenEndpoint,
                         Headers = [(''Content-Type'', ''application/x-www-form-urlencoded'')], ReqBody = Encode formData\<rparr> w of
                (Inl err, w1) \<Rightarrow> (Inl (ErrorString (''failed to authenticate: '' @ Error err)), w1)
              | (Inr resp, w1) \<Rightarrow>
                  (case Body resp of
                     Inl err \<Rightarrow> (Inl (ErrorString (''failed to read authentication response: '' @ Error err)), w1)
                   | Inr body \<Rightarrow>
                       if StatusCode resp \<noteq> 200
                       then (Inl (ErrorString (''authentication failed with status '' @ Itoa (StatusCode resp) @ '': '' @ body)), w1)
                       else (case Unmarshal_TokenResponse body of
                         None \<Rightarrow> (Inl (ErrorString (''failed to parse authentication response: '' @ Error (JsonError E body))), w1)
                       | Some tok \<Rightarrow> (Inr tok, w1)))))"

section \<open>The kubeconfig\<close>

record K8sClient =
  kcl_fqdn :: string
  kcl_domain :: string
  kcl_tenant :: string
  kcl_bearerToken :: string
  kcl_regionName :: string

definition NewK8sClient :: "string \<Rightarrow> string \<Rightarrow> string \<Rightarrow> string \<Rightarrow> string \<Rightarrow> K8sClient" where
  "NewK8sClient fqdn domain tenant tok regionName =
     \<lparr>kcl_fqdn = fqdn, kcl_domain = domain, kcl_tenant = tenant, kcl_bearerToken = tok, kcl_regionName = regionName\<rparr>"

definition getNamespace :: "K8sClient \<Rightarrow> string" where
  "getNamespace c = before CHR ''.'' (kcl_fqdn c) @ ''-'' @ kcl_domain c @ ''-'' @
     ReplaceChar CHR ''_'' CHR ''-'' (kcl_tenant c)"

fun find_context :: "string \<Rightarrow> named_context list \<Rightarrow> error + string" where
  "find_context current [] = Inl (ErrorString ''namespace not found in kubeconfig'')"
| "find_context current (c # cs) = (if ctx_Name c = current then Inr (ctx_Namespace c) else find_context current cs)"

definition GetNamespaceFromConfig :: "('w, 'z) ctl_env_scheme \<Rightarrow> string \<Rightarrow> os_state \<Rightarrow> error + string" where
  "GetNamespaceFromConfig E kubeconfigPath s =
     (case os_ReadFile kubeconfigPath s of
        Inl err \<Rightarrow> Inl (ErrorString (''error reading kubeconfig: '' @ Error err))
      | Inr data \<Rightarrow>
          (case UnmarshalConfig E data of
             Inl err \<Rightarrow> Inl (ErrorString (''error parsing kubeconfig: '' @ Error err))
           | Inr config \<Rightarrow> find_context (kcfg_CurrentContext config) (kcfg_Contexts config)))"

definition GetSecret ::
  "('w, 'z) ctl_env_scheme \<Rightarrow> K8sClient \<Rightarrow> string \<Rightarrow> 'w \<Rightarrow> (error + strmap) \<times> 'w" where
  "GetSecret E c secretName w =
     (let namespace = getNamespace c;
          secretEndpoint = ''https://'' @ kcl_fqdn c @ ''/oidc-proxy/'' @ namespace @ ''/'' @ kcl_regionName c @
            ''/api/v1/namespaces/'' @ namespace @ ''/secrets/'' @ secretName
      in case NewRequest E ''GET'' secretEndpoint of
           Some err \<Rightarrow> (Inl (ErrorString (''error creating request: '' @ Error err)), w)
         | None \<Rightarrow>
             (case Do E \<lparr>Method = ''GET'', URL = secretEndpoint,
                         Headers = [(''Authorization'', ''Bearer '' @ kcl_bearerToken c)], ReqBody = []\<rparr> w of
                (Inl err, w1) \<Rightarrow> (Inl (ErrorString (''error making request: '' @ Error err)), w1)
              | (Inr resp, w1) \<Rightarrow>
                  (case Body resp of
                     Inl err \<Rightarrow> (Inl (ErrorString (''error reading response: '' @ Error err)), w1)
                   | Inr body \<Rightarrow>
                       if StatusCode resp \<noteq> 200
                       then (Inl (ErrorString (''error getting secret (status '' @ Itoa (StatusCode resp) @ ''): '' @ body)), w1)
                       else (case Unmarshal_Secret body of
                         None \<Rightarrow> (Inl (ErrorString (''error parsing secret: '' @ Error (JsonError E body))), w1)
                       | Some secret \<Rightarrow> (Inr secret, w1)))))"

definition SaveKubeConfig ::
  "('w, 'z) ctl_env_scheme \<Rightarrow> K8sClient \<Rightarrow> string \<Rightarrow> os_state \<Rightarrow> 'w \<Rightarrow> error option \<times> os_state \<times> 'w" where
  "SaveKubeConfig E c secretName s w =
     (case GetSecret E c secretName w of
        (Inl err, w1) \<Rightarrow> (Some (ErrorString (''failed to get secret: '' @ Error err)), s, w1)
      | (Inr secret, w1) \<Rightarrow>
          (case secret ''config'' of
             None \<Rightarrow> (Some (ErrorString ''kubeconfig not found in secret''), s, w1)
           | Some kubeconfigString \<Rightarrow>
               (case DecodeString kubeconfigString of
                  Inl err \<Rightarrow> (Some (ErrorString (''failed to decode kubeconfig: '' @ Error err)), s, w1)
                | Inr kubeconfig \<Rightarrow>
                    (case HomeDir E of
                       Inl err \<Rightarrow> (Some (ErrorString (''failed to get home directory: '' @ Error err)), s, w1)
                     | Inr homeDir \<Rightarrow>
                         (let byohDir = filepath_Join [homeDir, ByohConfigDir]
                          in case MkdirAll byohDir s of
                               (Some err, s1) \<Rightarrow>
                                 (Some (ErrorString (''failed to create byoh directory: '' @ Error err)), s1, w1)
                             | (None, s1) \<Rightarrow>
                                 (case WriteFile (filepath_Join [byohDir, ''config'']) kubeconfig DefaultFilePerms s1 of
                                    (Some err, s2) \<Rightarrow>
                                      (Some (ErrorString (''failed to write kubeconfig: '' @ Error err)), s2, w1)
                                  | (None, s2) \<Rightarrow> (None, s2, w1)))))))"

definition DeleteSavedKubeconfig :: "('w, 'z) ctl_env_scheme \<Rightarrow> os_state \<Rightarrow> error option \<times> os_state" where
  "DeleteSavedKubeconfig E s =
     (case RemoveAll (ByohDir (HomeDir E)) s of
        (Some err, s1) \<Rightarrow> (Some (ErrorString (''failed to delete kubeconfig: '' @ Error err)), s1)
      | (None, s1) \<Rightarrow> (None, s1))"

definition CheckDNSResolution ::
  "('w, 'z) ctl_env_scheme \<Rightarrow> K8sClient \<Rightarrow> 'w \<Rightarrow> (error + string list) \<times> 'w" where
  "CheckDNSResolution E c w =
     (case LookupHost E (kcl_fqdn c) w of
        (Inl err, w1) \<Rightarrow> (Inl (ErrorString (''DNS resolution failed for '' @ kcl_fqdn c @ '': '' @ Error err)), w1)
      | (Inr addrs, w1) \<Rightarrow>
          if length addrs = 0
          then (Inl (ErrorString (''DNS resolution returned empty result for '' @ kcl_fqdn c)), w1)
          else (Inr addrs, w1))"

section \<open>The management cluster\<close>

definition GetK8sClient :: "('w, 'z) ctl_env_scheme \<Rightarrow> string \<Rightarrow> os_state \<Rightarrow> error option" where
  "GetK8sClient E kubeconfigPath s =
     (case BuildConfigFromFlags E kubeconfigPath s of
        Some err \<Rightarrow> Some (ErrorString (''error building kubeconfig: '' @ Error err))
      | None \<Rightarrow>
          (case NewClientset E of
             Some err \<Rightarrow> Some (ErrorString (''error creating Kubernetes client: '' @ Error err))
           | None \<Rightarrow>
               (case NewDynamic E of
                  Some err \<Rightarrow> Some (ErrorString (''error creating dynamic client: '' @ Error err))
                | None \<Rightarrow> None)))"

definition GetByoHostObject ::
  "('w, 'z) ctl_env_scheme \<Rightarrow> string \<Rightarrow> 'w \<Rightarrow> (error + ByoHost) \<times> 'w" where
  "GetByoHostObject E namespace w =
     (case Hostname E of
        Inl err \<Rightarrow> (Inl (ErrorString (''error getting hostname: '' @ Error err)), w)
      | Inr hostName \<Rightarrow>
          (case dynGetByoHost E namespace hostName w of
             (Inl err, w1) \<Rightarrow> (Inl (ErrorString (''error getting ByoHosts: '' @ Error err)), w1)
           | (Inr (Inl err), w1) \<Rightarrow> (Inl (ErrorString (''error converting ByoHosts: '' @ Error err)), w1)
           | (Inr (Inr byoHost), w1) \<Rightarrow> (Inr byoHost, w1)))"

definition DeleteByoHostObject :: "('w, 'z) ctl_env_scheme \<Rightarrow> string \<Rightarrow> 'w \<Rightarrow> error option \<times> 'w" where
  "DeleteByoHostObject E namespace w =
     (case Hostname E of
        Inl err \<Rightarrow> (Some (ErrorString (''error getting hostname: '' @ Error err)), w)
      | Inr hostName \<Rightarrow> dynDeleteByoHost E namespace hostName w)"

text \<open>The machine is changed in place also when the update fails, so it is part of the result.\<close>

definition AnnotateMachineObject ::
  "('w, 'z) ctl_env_scheme \<Rightarrow> UMachine \<Rightarrow> string \<Rightarrow> string \<Rightarrow> string \<Rightarrow> 'w \<Rightarrow> error option \<times> UMachine \<times> 'w" where
  "AnnotateMachineObject E machineObj namespace annotationKey annotationValue w =
     (let m = machineObj\<lparr>um_Annotations := (um_Annotations machineObj)(annotationKey \<mapsto> annotationValue)\<rparr>
      in case dynUpdateMachine E namespace m w of
           (Some err, w1) \<Rightarrow> (Some (ErrorString (''error updating machine object: '' @ Error err)), m, w1)
         | (None, w1) \<Rightarrow> (None, m, w1))"

definition DeploymentNameLabel :: string where
  "DeploymentNameLabel = ''cluster.x-k8s.io/deployment-name''"

definition deployment_name :: "UMachine \<Rightarrow> string" where
  "deployment_name m = (case um_Labels m DeploymentNameLabel of None \<Rightarrow> [] | Some n \<Rightarrow> n)"

definition get_deployment ::
  "('w, 'z) ctl_env_scheme \<Rightarrow> UMachine \<Rightarrow> string \<Rightarrow> 'w \<Rightarrow> (error + MachineDeployment) \<times> 'w" where
  "get_deployment E machineObj namespace w =
     (let machineDeploymentName = deployment_name machineObj
      in if machineDeploymentName = []
         then (Inl (ErrorString ''machine object does not have a machine deployment name as a label.''), w)
         else case dynGetDeployment E namespace machineDeploymentName w of
           (Inl err, w1) \<Rightarrow> (Inl (ErrorString (''error getting machine deployment object: '' @ Error err)), w1)
         | (Inr (Inl err), w1) \<Rightarrow> (Inl (ErrorString (''error converting machine deployment object: '' @ Error err)), w1)
         | (Inr (Inr md), w1) \<Rightarrow> (Inr md, w1))"

text \<open>\<open>Spec.Replicas\<close> is a pointer to an \<open>int32\<close>, dereferenced without a test.\<close>

definition ScaleDownMachineDeployment ::
  "('w, 'z) ctl_env_scheme \<Rightarrow> UMachine \<Rightarrow> string \<Rightarrow> 'w \<Rightarrow> (error option \<times> 'w) outcome" where
  "ScaleDownMachineDeployment E machineObj namespace w =
     (case get_deployment E machineObj namespace w of
        (Inl err, w1) \<Rightarrow> Return (Some err, w1)
      | (Inr md, w1) \<Rightarrow>
          (case md_Replicas md of
             None \<Rightarrow> Panic ''nil pointer dereference''
           | Some n \<Rightarrow>
               (let md1 = md\<lparr>md_Replicas := Some (n - 1)\<rparr>
                in case DeploymentToUnstructured E md1 of
                     Some err \<Rightarrow> Return (Some (ErrorString (''error converting machine deployment object: '' @ Error err)), w1)
                   | None \<Rightarrow>
                       (case dynUpdateDeployment E namespace md1 w1 of
                          (Some err, w2) \<Rightarrow>
                            Return (Some (ErrorString (''error updating machine deployment object: '' @ Error err)), w2)
                        | (None, w2) \<Rightarrow> Return (None, w2)))))"

definition GetUnstructuredMachineObject ::
  "('w, 'z) ctl_env_scheme \<Rightarrow> string \<Rightarrow> string \<Rightarrow> 'w \<Rightarrow> (error + UMachine) \<times> 'w" where
  "GetUnstructuredMachineObject E namespace machineName w =
     (case dynGetMachine E namespace machineName w of
        (Inl err, w1) \<Rightarrow> (Inl (ErrorString (''error getting machine object: '' @ Error err)), w1)
      | (Inr m, w1) \<Rightarrow> (Inr m, w1))"

definition GetMachineDeploymentReplicaCount ::
  "('w, 'z) ctl_env_scheme \<Rightarrow> UMachine \<Rightarrow> string \<Rightarrow> 'w \<Rightarrow> ((error + 32 word) \<times> 'w) outcome" where
  "GetMachineDeploymentReplicaCount E machineObj namespace w =
     (case get_deployment E machineObj namespace w of
        (Inl err, w1) \<Rightarrow> Return (Inl err, w1)
      | (Inr md, w1) \<Rightarrow>
          (case md_Replicas md of
             None \<Rightarrow> Panic ''nil pointer dereference''
           | Some n \<Rightarrow> Return (Inr n, w1)))"

text \<open>The loop may run forever when the clock stands still: not returning is \<open>None\<close>.\<close>

partial_function (option) wait_loop ::
  "('w, 'z) ctl_env_scheme \<Rightarrow> string \<Rightarrow> int \<Rightarrow> 'w \<Rightarrow> (error option \<times> 'w) option" where
  "wait_loop E namespace startTime w =
     (if TimeNow E w - startTime > WaitForMachineRefToBeUnsetTimeout
      then Some (Some (ErrorString ''timeout waiting for machineRef to be unset''), w)
      else case GetByoHostObject E namespace w of (r, w1) \<Rightarrow>
        (case r of
           Inl err \<Rightarrow> Some (Some (ErrorString (''error getting byohost object: '' @ Error err)), w1)
         | Inr byoHost \<Rightarrow>
             if MachineRef (HostStatus byoHost) = None then Some (None, w1)
             else wait_loop E namespace startTime (Sleep E (5 * Second) w1)))"

declare wait_loop.simps [code]

definition WaitForMachineRefToBeUnset ::
  "('w, 'z) ctl_env_scheme \<Rightarrow> string \<Rightarrow> 'w \<Rightarrow> (error option \<times> 'w) option" where
  "WaitForMachineRefToBeUnset E namespace w = wait_loop E namespace (TimeNow E w) w"

definition CheckRegionAvailability ::
  "('w, 'z) ctl_env_scheme \<Rightarrow> K8sClient \<Rightarrow> string \<Rightarrow> os_state \<Rightarrow> 'w \<Rightarrow> (error + bool \<times> string list) \<times> 'w" where
  "CheckRegionAvailability E c regionName s w =
     (case GetK8sClient E (KubeconfigFilePath (HomeDir E)) s of
        Some err \<Rightarrow> (Inl (ErrorString (''error creating Kubernetes client: '' @ Error err)), w)
      | None \<Rightarrow>
          (case getConfigMap E (getNamespace c) ''region-config'' w of
             (Inl err, w1) \<Rightarrow> (Inl (ErrorString (''error getting region configmap: '' @ Error err)), w1)
           | (Inr data, w1) \<Rightarrow>
               (case data ''regions'' of
                  None \<Rightarrow> (Inl (ErrorString ''region configmap does not have regions key''), w1)
                | Some regionsStr \<Rightarrow>
                    (let regions = Split CHR 0x0A regionsStr
                     in if list_ex (\<lambda>region. TrimSpace region = regionName) regions
                        then (Inr (True, []), w1)
                        else (Inr (False, regions), w1)))))"

section \<open>Waiting ends\<close>

text \<open>What the loop relies on: reading does not turn the clock back, and sleeping advances it.\<close>

definition clock_runs :: "('w, 'z) ctl_env_scheme \<Rightarrow> bool" where
  "clock_runs E \<longleftrightarrow>
     (\<forall>d w. TimeNow E w + d \<le> TimeNow E (Sleep E d w)) \<and>
     (\<forall>ns n w. TimeNow E w \<le> TimeNow E (snd (dynGetByoHost E ns n w)))"

lemma GetByoHostObject_clock:
  "clock_runs E \<Longrightarrow> GetByoHostObject E ns w = (r, w1) \<Longrightarrow> TimeNow E w \<le> TimeNow E w1"
  unfolding clock_runs_def
  by (auto simp: GetByoHostObject_def split: sum.splits prod.splits) (metis snd_conv)+

lemma wait_loop_returns:
  assumes "clock_runs E"
  shows "\<exists>r. wait_loop E ns start w = Some r"
proof (induction "nat (start + WaitForMachineRefToBeUnsetTimeout + 1 - TimeNow E w)" arbitrary: w rule: less_induct)
  case less
  obtain r w1 where read: "GetByoHostObject E ns w = (r, w1)" by force
  let ?w2 = "Sleep E (5 * Second) w1"
  show ?case
  proof (cases "TimeNow E w - start > WaitForMachineRefToBeUnsetTimeout")
    case True
    then show ?thesis by (subst wait_loop.simps) simp
  next
    case False
    have "TimeNow E w1 + 5 * Second \<le> TimeNow E ?w2" using assms by (simp add: clock_runs_def)
    with GetByoHostObject_clock [OF assms read] have "TimeNow E w < TimeNow E ?w2" by (simp add: Second_def)
    with False have "\<exists>r. wait_loop E ns start ?w2 = Some r" by (intro less) simp
    with read False show ?thesis by (subst wait_loop.simps) (auto split: sum.splits)
  qed
qed

text \<open>
  What reading and sleeping keep, the loop keeps; and it succeeds only on a read that shows a host
  without a machine.
\<close>

lemma wait_loop_inv:
  assumes "wait_loop E ns start w = Some (r, w')" and "I w"
    and read: "\<And>u x u'. I u \<Longrightarrow> GetByoHostObject E ns u = (x, u') \<Longrightarrow> I u'"
    and sleep: "\<And>u. I u \<Longrightarrow> I (Sleep E (5 * Second) u)"
  shows "I w' \<and> (r = None \<longrightarrow> (\<exists>u h. I u \<and> GetByoHostObject E ns u = (Inr h, w') \<and> MachineRef (HostStatus h) = None))"
proof -
  let ?P = "\<lambda>E' ns' start w out. E' = E \<longrightarrow> ns' = ns \<longrightarrow> I w \<longrightarrow> I (snd out) \<and>
    (fst out = None \<longrightarrow> (\<exists>u h. I u \<and> GetByoHostObject E ns u = (Inr h, snd out) \<and> MachineRef (HostStatus h) = None))"
  have "?P E ns start w (r, w')"
    by (rule wait_loop.raw_induct [where P = ?P, OF _ assms(1)], auto split: if_splits prod.splits sum.splits dest: read)
      (metis read sleep)+
  with assms(2) show ?thesis by simp
qed

text \<open>The scale-down has no lower bound: from no replicas it asks for minus one.\<close>

lemma scale_down_below_zero:
  assumes "get_deployment E m ns w = (Inr md, w1)" and "md_Replicas md = Some 0"
    and "DeploymentToUnstructured E (md\<lparr>md_Replicas := Some (- 1)\<rparr>) = None"
    and "dynUpdateDeployment E ns (md\<lparr>md_Replicas := Some (- 1)\<rparr>) w1 = (None, w2)"
  shows "ScaleDownMachineDeployment E m ns w = Return (None, w2)"
  using assms by (simp add: ScaleDownMachineDeployment_def Let_def)

lemma no_replicas_panics:
  "get_deployment E m ns w = (Inr md, w1) \<Longrightarrow> md_Replicas md = None \<Longrightarrow>
   ScaleDownMachineDeployment E m ns w = Panic ''nil pointer dereference''"
  by (simp add: ScaleDownMachineDeployment_def)

end
