(* ===== verification/Ctl_Agent.thy ===== *)
theory Ctl_Agent
  imports Ctl_Client
begin

text \<open>
  The installation of the agent on a host by \<open>byohctl\<close> (\<open>cmd/byohctl/service/agent.go\<close>): the required
  packages, the download of the agent's package, its installation and its removal.  Commands are a
  parameter: they change the world and the files, and give their standard output, their combined
  output and the error of running them.
\<close>

section \<open>Commands\<close>

record cmd_result =
  cr_stdout :: string
  cr_combined :: string
  cr_err :: "error option"

record get_body =
  gb_data :: string
  gb_err :: "error option"

record 'w cmd_env = "'w ctl_env" +
  Exec :: "string \<Rightarrow> string list \<Rightarrow> os_state \<Rightarrow> 'w \<Rightarrow> cmd_result \<times> os_state \<times> 'w"
  LookPath :: "string \<Rightarrow> os_state \<Rightarrow> string \<times> error option"
  HttpGet :: "string \<Rightarrow> 'w \<Rightarrow> (error + get_body) \<times> 'w"
  Fprintf :: "string \<Rightarrow> 'w \<Rightarrow> error option \<times> 'w"
  ReadLine :: "'w \<Rightarrow> line_read \<times> 'w"
  BuildVersion :: string

definition RunWithStdout ::
  "('w, 'z) cmd_env_scheme \<Rightarrow> string \<Rightarrow> string list \<Rightarrow> os_state \<Rightarrow> 'w \<Rightarrow> (string \<times> error option) \<times> os_state \<times> 'w" where
  "RunWithStdout E name args s w =
     (case Exec E name args s w of (r, s1, w1) \<Rightarrow> ((cr_stdout r, cr_err r), s1, w1))"

text \<open>The error is always nil in the message, and any failure of \<open>lsof\<close> counts as unlocked.\<close>

definition isAptUnlocked ::
  "('w, 'z) cmd_env_scheme \<Rightarrow> os_state \<Rightarrow> 'w \<Rightarrow> (bool \<times> error option) \<times> os_state \<times> 'w" where
  "isAptUnlocked E s w =
     (case RunWithStdout E ''lsof'' [''/var/lib/apt/lists/lock''] s w of
        ((_, Some _), s1, w1) \<Rightarrow> ((True, None), s1, w1)
      | ((_, None), s1, w1) \<Rightarrow> ((False, Some (ErrorString ''apt is locked <nil>'')), s1, w1))"

definition isPackageInstalled ::
  "('w, 'z) cmd_env_scheme \<Rightarrow> string \<Rightarrow> os_state \<Rightarrow> 'w \<Rightarrow> bool \<times> os_state \<times> 'w" where
  "isPackageInstalled E packageName s w =
     (case Exec E ''dpkg'' [''-l'', packageName] s w of (r, s1, w1) \<Rightarrow>
        (cr_err r = None \<and> Contains (cr_combined r) (''ii  '' @ packageName), s1, w1))"

section \<open>The required packages\<close>

text \<open>The one custom installer is a constructor, so that the table is data.\<close>

datatype installer = NoInstaller | InstallImgPkg

record Package =
  pk_Name :: string
  pk_InstallCommand :: string
  pk_InstallArgs :: "string list"
  pk_VerifyCommand :: string
  pk_PackageName :: string
  pk_CustomInstaller :: installer

definition apt_package :: "string \<Rightarrow> Package" where
  "apt_package n = \<lparr>pk_Name = n, pk_InstallCommand = ''apt-get'', pk_InstallArgs = [''install'', ''-y'', n],
     pk_VerifyCommand = n, pk_PackageName = n, pk_CustomInstaller = NoInstaller\<rparr>"

definition requiredPackages :: "Package list" where
  "requiredPackages =
     \<lparr>pk_Name = ''imgpkg'', pk_InstallCommand = [], pk_InstallArgs = [], pk_VerifyCommand = ''imgpkg'',
       pk_PackageName = [], pk_CustomInstaller = InstallImgPkg\<rparr> #
     map apt_package [''dpkg'', ''ebtables'', ''conntrack'', ''socat'', ''libseccomp2'']"

text \<open>\<open>io.Copy\<close> writes what was read also when the read ends with an error.\<close>

definition io_Copy :: "string \<Rightarrow> get_body \<Rightarrow> os_state \<Rightarrow> error option \<times> os_state" where
  "io_Copy p body s =
     (if gb_data body = [] then (gb_err body, s)
      else case deny_or ''write'' p s
          (case file_at s p of None \<Rightarrow> s | Some f \<Rightarrow> put_file p (f\<lparr>f_data := f_data f @ gb_data body\<rparr>) s) of
        (Some err, s1) \<Rightarrow> (Some err, s1)
      | (None, s1) \<Rightarrow> (gb_err body, s1))"

definition installImgPkg :: "('w, 'z) cmd_env_scheme \<Rightarrow> os_state \<Rightarrow> 'w \<Rightarrow> error option \<times> os_state \<times> 'w" where
  "installImgPkg E s w =
     (case HttpGet E ImgPkgURL w of
        (Inl err, w1) \<Rightarrow> (Some (ErrorString (''failed to download imgpkg: '' @ Error err)), s, w1)
      | (Inr body, w1) \<Rightarrow>
          (case truncate_file ImgPkgPath 438 s of
             (Some err, s1) \<Rightarrow> (Some (ErrorString (''failed to create file: '' @ Error err)), s1, w1)
           | (None, s1) \<Rightarrow>
               (case io_Copy ImgPkgPath body s1 of
                  (Some err, s2) \<Rightarrow> (Some (ErrorString (''failed to write file: '' @ Error err)), s2, w1)
                | (None, s2) \<Rightarrow>
                    (case os_Chmod ImgPkgPath 493 s2 of
                       (Some err, s3) \<Rightarrow> (Some (ErrorString (''failed to make file executable: '' @ Error err)), s3, w1)
                     | (None, s3) \<Rightarrow> (None, s3, w1)))))"

fun install_all ::
  "('w, 'z) cmd_env_scheme \<Rightarrow> Package list \<Rightarrow> os_state \<Rightarrow> 'w \<Rightarrow> error option \<times> os_state \<times> 'w" where
  "install_all E [] s w = (None, s, w)"
| "install_all E (pkg # pkgs) s w =
     (case pk_CustomInstaller pkg of
        InstallImgPkg \<Rightarrow>
          (if snd (LookPath E (pk_VerifyCommand pkg) s) = None then install_all E pkgs s w
           else case installImgPkg E s w of
             (Some err, s1, w1) \<Rightarrow> (Some (ErrorString (''failed to install '' @ pk_Name pkg @ '': '' @ Error err)), s1, w1)
           | (None, s1, w1) \<Rightarrow> install_all E pkgs s1 w1)
      | NoInstaller \<Rightarrow>
          (case isPackageInstalled E (pk_PackageName pkg) s w of (present, s1, w1) \<Rightarrow>
             if present then install_all E pkgs s1 w1
             else case Exec E (pk_InstallCommand pkg) (pk_InstallArgs pkg) s1 w1 of (r, s2, w2) \<Rightarrow>
               (case cr_err r of
                  Some err \<Rightarrow>
                    (Some (ErrorString (''failed to install '' @ pk_Name pkg @ '': '' @ Error err @ [CHR 0x0A] @
                       ''Output: '' @ cr_combined r)), s2, w2)
                | None \<Rightarrow> install_all E pkgs s2 w2)))"

definition ensureRequiredPackages ::
  "('w, 'z) cmd_env_scheme \<Rightarrow> os_state \<Rightarrow> 'w \<Rightarrow> error option \<times> os_state \<times> 'w" where
  "ensureRequiredPackages E s w =
     (case isAptUnlocked E s w of ((unlocked, lockErr), s1, w1) \<Rightarrow>
        if \<not> unlocked then (lockErr, s1, w1)
        else case RunWithStdout E ''apt-get'' [''update''] s1 w1 of
          ((_, Some err), s2, w2) \<Rightarrow> (Some (ErrorString (''failed to update apt packages: '' @ Error err)), s2, w2)
        | ((_, None), s2, w2) \<Rightarrow>
            (case Exec E ''apt-get'' [''--fix-broken'', ''install'', ''-y''] s2 w2 of (r, s3, w3) \<Rightarrow>
               (case cr_err r of
                  Some err \<Rightarrow>
                    (Some (ErrorString (''failed to fix broken packages: '' @ Error err @ [CHR 0x0A] @
                       ''Output: '' @ cr_combined r)), s3, w3)
                | None \<Rightarrow> install_all E requiredPackages s3 w3)))"

section \<open>The agent's package\<close>

definition downloadDebianPackage ::
  "('w, 'z) cmd_env_scheme \<Rightarrow> string \<Rightarrow> os_state \<Rightarrow> 'w \<Rightarrow> (error + string) \<times> os_state \<times> 'w" where
  "downloadDebianPackage E tempDir s w =
     (let imgpkgPath = fst (LookPath E ''imgpkg'' s)
      in case Exec E imgpkgPath [''pull'', ''-i'', byohAgentBundleURL (BuildVersion E), ''-o'', tempDir] s w of (r, s1, w1) \<Rightarrow>
           (case cr_err r of
              Some err \<Rightarrow>
                (Inl (ErrorString (''failed to pull package: '' @ Error err @ [CHR 0x0A] @ ''Output: '' @ cr_combined r)), s1, w1)
            | None \<Rightarrow>
                (let debFilePath = filepath_Join [tempDir, ByohAgentDebPackageFilename]
                 in case Stat s1 debFilePath of
                      StatNotExist \<Rightarrow> (Inl (ErrorString (''could not find downloaded Debian package in '' @ tempDir)), s1, w1)
                    | StatError _ \<Rightarrow> (Inl (ErrorString (''could not find downloaded Debian package in '' @ tempDir)), s1, w1)
                    | StatFile _ \<Rightarrow> (Inr debFilePath, s1, w1)
                    | StatDir \<Rightarrow> (Inr debFilePath, s1, w1))))"

definition installDebianPackage ::
  "('w, 'z) cmd_env_scheme \<Rightarrow> string \<Rightarrow> os_state \<Rightarrow> 'w \<Rightarrow> error option \<times> os_state \<times> 'w" where
  "installDebianPackage E debFilePath s w =
     (case Exec E (fst (LookPath E ''dpkg'' s)) [''-i'', debFilePath] s w of (r, s1, w1) \<Rightarrow>
        (case cr_err r of
           Some err \<Rightarrow>
             (Some (ErrorString (''failed to install package: '' @ Error err @ [CHR 0x0A] @ ''Output: '' @ cr_combined r)), s1, w1)
         | None \<Rightarrow> (None, s1, w1)))"

definition PurgeDebianPackage ::
  "('w, 'z) cmd_env_scheme \<Rightarrow> os_state \<Rightarrow> 'w \<Rightarrow> error option \<times> os_state \<times> 'w" where
  "PurgeDebianPackage E s w =
     (case Exec E (fst (LookPath E ''dpkg'' s)) [''--purge'', ByohAgentServiceName] s w of (r, s1, w1) \<Rightarrow>
        (case cr_err r of
           Some err \<Rightarrow>
             (Some (ErrorString (''failed to purge package: '' @ Error err @ [CHR 0x0A] @ ''Output: '' @ cr_combined r)), s1, w1)
         | None \<Rightarrow> (None, s1, w1)))"

definition PrepareAgentDirectory :: "string \<Rightarrow> os_state \<Rightarrow> error option \<times> os_state" where
  "PrepareAgentDirectory byohDir s =
     (case MkdirAll byohDir s of
        (Some err, s1) \<Rightarrow> (Some (ErrorString (''failed to create BYOH directory '' @ byohDir @ '': '' @ Error err)), s1)
      | (None, s1) \<Rightarrow> (None, s1))"

definition SetupAgent ::
  "('w, 'z) cmd_env_scheme \<Rightarrow> string \<Rightarrow> os_state \<Rightarrow> 'w \<Rightarrow> error option \<times> os_state \<times> 'w" where
  "SetupAgent E byohDirPath s w =
     (case ensureRequiredPackages E s w of
        (Some err, s1, w1) \<Rightarrow> (Some (ErrorString (''failed to install required packages: '' @ Error err)), s1, w1)
      | (None, s1, w1) \<Rightarrow>
          (case downloadDebianPackage E byohDirPath s1 w1 of
             (Inl err, s2, w2) \<Rightarrow> (Some (ErrorString (''failed to download Debian package: '' @ Error err)), s2, w2)
           | (Inr packagePath, s2, w2) \<Rightarrow>
               (case installDebianPackage E packagePath s2 w2 of
                  (Some err, s3, w3) \<Rightarrow> (Some (ErrorString (''failed to install Debian package: '' @ Error err)), s3, w3)
                | (None, s3, w3) \<Rightarrow> (None, s3, w3))))"

end
