(* ===== verification/Ctl_Host.thy ===== *)
theory Ctl_Host
  imports Ctl_Agent
begin

text \<open>
  Taking a host out of service (\<open>cmd/byohctl/pkg/host_operations.go\<close> and the two commands that call
  it).  A result is \<open>None\<close> when the wait for the machine never returns, \<open>Panic\<close> for a nil
  dereference.  The function is split at its comments: the missing host, the question for the last
  node, and the steps for a host with a machine.
\<close>

section \<open>The operations\<close>

datatype HostOperationType = OperationDeauthorise | OperationDecommission

type_synonym 'w run = "(error option \<times> os_state \<times> 'w) outcome"

definition performHostDecommissionWithNoMachineRef ::
  "('w, 'z) cmd_env_scheme \<Rightarrow> string \<Rightarrow> os_state \<Rightarrow> 'w \<Rightarrow> error option \<times> os_state \<times> 'w" where
  "performHostDecommissionWithNoMachineRef E namespace s w =
     (case DeleteByoHostObject E namespace w of
        (Some err, w1) \<Rightarrow> (Some (ErrorString (''failed to delete ByoHosts object: '' @ Error err)), s, w1)
      | (None, w1) \<Rightarrow>
          (case PurgeDebianPackage E s w1 of
             (Some err, s2, w2) \<Rightarrow> (Some (ErrorString (''failed to run dpkg purge: '' @ Error err)), s2, w2)
           | (None, s2, w2) \<Rightarrow> (None, s2, w2)))"

definition host_not_found ::
  "('w, 'z) cmd_env_scheme \<Rightarrow> HostOperationType \<Rightarrow> os_state \<Rightarrow> 'w \<Rightarrow> 'w run" where
  "host_not_found E operationType s w =
     (case operationType of
        OperationDecommission \<Rightarrow>
          (case AskBool (Fprintf E) (ReadLine E) ''Do you want to proceed with host cleanup? (y/n)'' w of
             Panic m \<Rightarrow> Panic m
           | Return ((_, Some err), w1) \<Rightarrow> Return (Some (ErrorString (''failed to get user input: '' @ Error err)), s, w1)
           | Return ((continueDecommission, None), w1) \<Rightarrow>
               if \<not> continueDecommission then Return (None, s, w1)
               else (case PurgeDebianPackage E s w1 of
                 (Some err, s2, w2) \<Rightarrow> Return (Some (ErrorString (''failed to run dpkg purge: '' @ Error err)), s2, w2)
               | (None, s2, w2) \<Rightarrow> Return (None, s2, w2)))
      | OperationDeauthorise \<Rightarrow>
          Return (Some (ErrorString (''Cannot proceed ahead with the deauthorisation. '' @
            ''Either restart the pf9-byohost-agent service or decommission and re-onboard.'')), s, w))"

text \<open>The last node: the user is asked, and the machine is excluded from the drain.\<close>

definition confirm_last_node ::
  "('w, 'z) cmd_env_scheme \<Rightarrow> UMachine \<Rightarrow> string \<Rightarrow> 32 word \<Rightarrow> 'w \<Rightarrow> (error option \<times> 'w) outcome" where
  "confirm_last_node E machineObj namespace replicaCount w =
     (if replicaCount \<noteq> 1 then Return (None, w)
      else case AskBool (Fprintf E) (ReadLine E) ''Do you want to continue with de-auth? (y/n)'' w of
        Panic m \<Rightarrow> Panic m
      | Return ((_, Some err), w1) \<Rightarrow> Return (Some (ErrorString (''failed to get user input: '' @ Error err)), w1)
      | Return ((continueDeauth, None), w1) \<Rightarrow>
          if \<not> continueDeauth then Return (Some (ErrorString ''Info: De-auth cancelled by user.''), w1)
          else (case AnnotateMachineObject E machineObj namespace ''machine.cluster.x-k8s.io/exclude-node-draining'' [] w1 of
            (Some err, _, w2) \<Rightarrow>
              Return (Some (ErrorString (''failed to annotate the last machine object to be deauth: '' @ Error err)), w2)
          | (None, _, w2) \<Rightarrow> Return (None, w2)))"

definition mark_and_scale_down ::
  "('w, 'z) cmd_env_scheme \<Rightarrow> string \<Rightarrow> string \<Rightarrow> 'w \<Rightarrow> (error option \<times> 'w) outcome" where
  "mark_and_scale_down E namespace machineName w =
     (case GetUnstructuredMachineObject E namespace machineName w of
        (Inl err, w1) \<Rightarrow> Return (Some (ErrorString (''failed to get machine object: '' @ Error err)), w1)
      | (Inr machineObj, w1) \<Rightarrow>
          (case AnnotateMachineObject E machineObj namespace ''cluster.x-k8s.io/delete-machine'' ''yes'' w1 of
             (Some err, _, w2) \<Rightarrow> Return (Some (ErrorString (''failed to annotate machine object: '' @ Error err)), w2)
           | (None, machineObj2, w2) \<Rightarrow>
               (case ScaleDownMachineDeployment E machineObj2 namespace w2 of
                  Panic m \<Rightarrow> Panic m
                | Return (Some err, w3) \<Rightarrow>
                    Return (Some (ErrorString (''failed to scale down machine deployment: '' @ Error err)), w3)
                | Return (None, w3) \<Rightarrow> Return (None, w3))))"

definition detach_machine ::
  "('w, 'z) cmd_env_scheme \<Rightarrow> string \<Rightarrow> string \<Rightarrow> 'w \<Rightarrow> (error option \<times> 'w) outcome" where
  "detach_machine E namespace machineName w =
     (case GetUnstructuredMachineObject E namespace machineName w of
        (Inl err, w1) \<Rightarrow> Return (Some (ErrorString (''failed to get machine object: '' @ Error err)), w1)
      | (Inr machineObj, w1) \<Rightarrow>
          (case GetMachineDeploymentReplicaCount E machineObj namespace w1 of
             Panic m \<Rightarrow> Panic m
           | Return (Inl err, w2) \<Rightarrow>
               Return (Some (ErrorString (''failed to get machine deployment replica count: '' @ Error err)), w2)
           | Return (Inr replicaCount, w2) \<Rightarrow>
               (case confirm_last_node E machineObj namespace replicaCount w2 of
                  Panic m \<Rightarrow> Panic m
                | Return (Some err, w3) \<Rightarrow> Return (Some err, w3)
                | Return (None, w3) \<Rightarrow> mark_and_scale_down E namespace machineName w3)))"

definition release_host ::
  "('w, 'z) cmd_env_scheme \<Rightarrow> HostOperationType \<Rightarrow> string \<Rightarrow> string \<Rightarrow> os_state \<Rightarrow> 'w \<Rightarrow> 'w run option" where
  "release_host E operationType namespace machineName s w =
     (case detach_machine E namespace machineName w of
        Panic m \<Rightarrow> Some (Panic m)
      | Return (Some err, w1) \<Rightarrow> Some (Return (Some err, s, w1))
      | Return (None, w1) \<Rightarrow>
          (case WaitForMachineRefToBeUnset E namespace w1 of
             None \<Rightarrow> None
           | Some (Some err, w2) \<Rightarrow>
               Some (Return (Some (ErrorString (''failed to wait for machineRef to be unset: '' @ Error err)), s, w2))
           | Some (None, w2) \<Rightarrow>
               Some (Return (if operationType = OperationDecommission
                             then performHostDecommissionWithNoMachineRef E namespace s w2
                             else (None, s, w2)))))"

definition PerformHostOperation ::
  "('w, 'z) cmd_env_scheme \<Rightarrow> HostOperationType \<Rightarrow> string \<Rightarrow> os_state \<Rightarrow> 'w \<Rightarrow> 'w run option" where
  "PerformHostOperation E operationType namespace s w =
     (let path = KubeconfigFilePath (HomeDir E)
      in if Stat s path = StatNotExist
         then Some (Return (Some (ErrorString (''kubeconfig file not found at '' @ path @ ''. Please onboard the host first.'')), s, w))
         else case GetK8sClient E path s of
           Some err \<Rightarrow> Some (Return (Some (ErrorString (''failed to get Kubernetes client: '' @ Error err)), s, w))
         | None \<Rightarrow>
             (case GetByoHostObject E namespace w of
                (Inl err, w1) \<Rightarrow> Some (host_not_found E operationType s w1)
              | (Inr byoHost, w1) \<Rightarrow>
                  (case MachineRef (HostStatus byoHost) of
                     None \<Rightarrow>
                       Some (Return (if operationType = OperationDecommission
                         then performHostDecommissionWithNoMachineRef E namespace s w1
                         else (Some (ErrorString (''machineRef is not set for the byohost object. '' @
                           ''This host is not part of the cluster. Cannot proceed ahead with de-auth'')), s, w1)))
                   | Some ref \<Rightarrow> release_host E operationType namespace (ref_Name ref) s w1)))"

text \<open>The commands exit with status 1 on an error; a panic exits with 2.\<close>

definition run_operation ::
  "('w, 'z) cmd_env_scheme \<Rightarrow> HostOperationType \<Rightarrow> os_state \<Rightarrow> 'w \<Rightarrow> (int \<times> 'w run) option" where
  "run_operation E operationType s w =
     (case GetNamespaceFromConfig E (KubeconfigFilePath (HomeDir E)) s of
        Inl err \<Rightarrow> Some (1, Return (Some err, s, w))
      | Inr namespace \<Rightarrow>
          map_option (\<lambda>r. (case r of Panic _ \<Rightarrow> 2 | Return (Some _, _) \<Rightarrow> 1 | Return (None, _) \<Rightarrow> 0, r))
            (PerformHostOperation E operationType namespace s w))"

definition runDecommission :: "('w, 'z) cmd_env_scheme \<Rightarrow> os_state \<Rightarrow> 'w \<Rightarrow> (int \<times> 'w run) option" where
  "runDecommission E s w = run_operation E OperationDecommission s w"

definition runDeauthorise :: "('w, 'z) cmd_env_scheme \<Rightarrow> os_state \<Rightarrow> 'w \<Rightarrow> (int \<times> 'w run) option" where
  "runDeauthorise E s w = run_operation E OperationDeauthorise s w"

section \<open>The record of an operation\<close>

text \<open>
  The calls an operation makes, the latest first, are observed by running it in an environment that
  records them beside the world.
\<close>

datatype event =
    ReadHost "error + (error + ByoHost)"
  | DeleteHost "error option"
  | UpdateMachine UMachine "error option"
  | UpdateDeployment MachineDeployment
  | Answer line_read
  | Execute string "string list"

definition recorded :: "('a \<times> 'w) \<Rightarrow> ('a \<Rightarrow> event) \<Rightarrow> event list \<Rightarrow> 'a \<times> 'w \<times> event list" where
  "recorded out ev log = (case out of (r, w) \<Rightarrow> (r, w, ev r # log))"

definition unrecorded :: "('a \<times> 'w) \<Rightarrow> event list \<Rightarrow> 'a \<times> 'w \<times> event list" where
  "unrecorded out log = (case out of (r, w) \<Rightarrow> (r, w, log))"

definition logged :: "'w cmd_env \<Rightarrow> ('w \<times> event list) cmd_env" where
  "logged E = \<lparr>
     NewRequest = NewRequest E,
     Do = (\<lambda>req (w, log). unrecorded (Do E req w) log),
     JsonError = JsonError E, UnmarshalConfig = UnmarshalConfig E,
     LookupHost = (\<lambda>n (w, log). unrecorded (LookupHost E n w) log),
     HomeDir = HomeDir E, Hostname = Hostname E, BuildConfigFromFlags = BuildConfigFromFlags E,
     NewClientset = NewClientset E, NewDynamic = NewDynamic E,
     dynGetByoHost = (\<lambda>ns n (w, log). recorded (dynGetByoHost E ns n w) ReadHost log),
     dynDeleteByoHost = (\<lambda>ns n (w, log). recorded (dynDeleteByoHost E ns n w) DeleteHost log),
     dynGetMachine = (\<lambda>ns n (w, log). unrecorded (dynGetMachine E ns n w) log),
     dynUpdateMachine = (\<lambda>ns m (w, log). recorded (dynUpdateMachine E ns m w) (UpdateMachine m) log),
     dynGetDeployment = (\<lambda>ns n (w, log). unrecorded (dynGetDeployment E ns n w) log),
     DeploymentToUnstructured = DeploymentToUnstructured E,
     dynUpdateDeployment = (\<lambda>ns md (w, log). recorded (dynUpdateDeployment E ns md w) (\<lambda>_. UpdateDeployment md) log),
     getConfigMap = (\<lambda>ns n (w, log). unrecorded (getConfigMap E ns n w) log),
     TimeNow = (\<lambda>(w, log). TimeNow E w),
     Sleep = (\<lambda>d (w, log). (Sleep E d w, log)),
     Exec = (\<lambda>n args s (w, log). case Exec E n args s w of (r, s1, w1) \<Rightarrow> (r, s1, w1, Execute n args # log)),
     LookPath = LookPath E,
     HttpGet = (\<lambda>u (w, log). unrecorded (HttpGet E u w) log),
     Fprintf = (\<lambda>m (w, log). unrecorded (Fprintf E m w) log),
     ReadLine = (\<lambda>(w, log). recorded (ReadLine E w) Answer log),
     BuildVersion = BuildVersion E\<rparr>"

fun no_machine :: "event \<Rightarrow> bool" where
  "no_machine (ReadHost (Inr (Inr h))) = (MachineRef (HostStatus h) = None)"
| "no_machine _ = False"

fun unreadable :: "event \<Rightarrow> bool" where
  "unreadable (ReadHost (Inr (Inr _))) = False"
| "unreadable _ = True"

fun scales :: "event \<Rightarrow> bool" where
  "scales (UpdateDeployment _) = True"
| "scales _ = False"

text \<open>What may come after the calls that were made.\<close>

fun may_follow :: "HostOperationType \<Rightarrow> event \<Rightarrow> event list \<Rightarrow> bool" where
  "may_follow op (DeleteHost _) log = (op = OperationDecommission \<and> (case log of e # _ \<Rightarrow> no_machine e | [] \<Rightarrow> False))"
| "may_follow op (Execute _ _) log =
     (op = OperationDecommission \<and>
      (case log of
         DeleteHost r # _ \<Rightarrow> r = None
       | Answer l # es \<Rightarrow> rl_line l \<in> {''y'', ''Y''} \<and> list_all unreadable es
       | _ \<Rightarrow> False))"
| "may_follow op (UpdateDeployment _) log =
     (case log of
        UpdateMachine m r # es \<Rightarrow>
          r = None \<and> um_Annotations m ''cluster.x-k8s.io/delete-machine'' = Some ''yes'' \<and>
          \<not> list_ex scales es
      | _ \<Rightarrow> False)"
| "may_follow op _ log = True"

fun in_order :: "HostOperationType \<Rightarrow> event list \<Rightarrow> bool" where
  "in_order op [] = True"
| "in_order op (e # log) = (may_follow op e log \<and> in_order op log)"

section \<open>Each step keeps the order\<close>

lemma logged_calls [simp]:
  "Hostname (logged E) = Hostname E"
  "HomeDir (logged E) = HomeDir E"
  "LookPath (logged E) = LookPath E"
  "DeploymentToUnstructured (logged E) = DeploymentToUnstructured E"
  "dynGetByoHost (logged E) ns n (w, log) = recorded (dynGetByoHost E ns n w) ReadHost log"
  "dynDeleteByoHost (logged E) ns n (w, log) = recorded (dynDeleteByoHost E ns n w) DeleteHost log"
  "dynGetMachine (logged E) ns n (w, log) = unrecorded (dynGetMachine E ns n w) log"
  "dynUpdateMachine (logged E) ns m (w, log) = recorded (dynUpdateMachine E ns m w) (UpdateMachine m) log"
  "dynGetDeployment (logged E) ns n (w, log) = unrecorded (dynGetDeployment E ns n w) log"
  "dynUpdateDeployment (logged E) ns md (w, log) = recorded (dynUpdateDeployment E ns md w) (\<lambda>_. UpdateDeployment md) log"
  "Exec (logged E) n args s (w, log) = (case Exec E n args s w of (r, s1, w1) \<Rightarrow> (r, s1, w1, Execute n args # log))"
  "Fprintf (logged E) msg (w, log) = unrecorded (Fprintf E msg w) log"
  "ReadLine (logged E) (w, log) = recorded (ReadLine E w) Answer log"
  "Sleep (logged E) d (w, log) = (Sleep E d w, log)"
  by (simp_all add: logged_def)

lemmas step_splits = option.splits sum.splits prod.splits if_splits outcome.splits

lemma GetByoHostObject_logged:
  assumes "GetByoHostObject (logged E) ns (w, log) = (r, w', log')"
  shows "(\<exists>e. r = Inl e \<and> log' = log) \<or> (\<exists>e x. r = Inl e \<and> log' = ReadHost x # log \<and> unreadable (ReadHost x)) \<or>
    (\<exists>h. r = Inr h \<and> log' = ReadHost (Inr (Inr h)) # log)"
  using assms by (auto simp: GetByoHostObject_def recorded_def split: step_splits)

lemma wait_loop_logged:
  assumes "wait_loop (logged E) ns start (w, log) = Some (r, w', log')" and "in_order op log"
  shows "in_order op log' \<and> (r = None \<longrightarrow> (\<exists>e es. log' = e # es \<and> no_machine e))"
proof -
  have read: "in_order op (snd u')" if "in_order op (snd u)" "GetByoHostObject (logged E) ns u = (x, u')" for u x u'
    using that GetByoHostObject_logged [of E ns "fst u" "snd u" x "fst u'" "snd u'"] by auto
  have sleep: "in_order op (snd (Sleep (logged E) (5 * Second) u))" if "in_order op (snd u)" for u
    using that by (cases u) simp
  have inv: "in_order op (snd (w', log')) \<and> (r = None \<longrightarrow> (\<exists>u h. in_order op (snd u) \<and>
      GetByoHostObject (logged E) ns u = (Inr h, w', log') \<and> MachineRef (HostStatus h) = None))"
    using wait_loop_inv [OF assms(1), where I = "\<lambda>u. in_order op (snd u)"] assms(2) read sleep by simp
  moreover have "\<exists>e es. log' = e # es \<and> no_machine e"
    if "GetByoHostObject (logged E) ns u = (Inr h, w', log')" "MachineRef (HostStatus h) = None" for u h
    using that GetByoHostObject_logged [of E ns "fst u" "snd u"] by auto
  ultimately show ?thesis by auto
qed

lemma decommission_logged:
  assumes "performHostDecommissionWithNoMachineRef (logged E) ns s (w, e # es) = (r, s', w', log')"
    and "in_order OperationDecommission (e # es)" and "no_machine e"
  shows "in_order OperationDecommission log'"
  using assms
  by (auto simp: performHostDecommissionWithNoMachineRef_def DeleteByoHostObject_def PurgeDebianPackage_def recorded_def
      split: step_splits)

lemma host_not_found_logged:
  assumes "host_not_found (logged E) op s (w, log) = Return (r, s', w', log')"
    and "in_order op log" and "list_all unreadable log"
  shows "in_order op log'"
  using assms
  by (auto simp: host_not_found_def AskBool_def PurgeDebianPackage_def recorded_def unrecorded_def
      split: step_splits HostOperationType.splits)

lemma confirm_last_node_logged:
  assumes "confirm_last_node (logged E) m ns n (w, log) = Return (r, w', log')"
    and "in_order op log" and "\<not> list_ex scales log"
  shows "in_order op log' \<and> \<not> list_ex scales log'"
  using assms
  by (auto simp: confirm_last_node_def AskBool_def AnnotateMachineObject_def recorded_def unrecorded_def Let_def
      split: step_splits)

lemma mark_and_scale_down_logged:
  assumes "mark_and_scale_down (logged E) ns n (w, log) = Return (r, w', log')"
    and "in_order op log" and "\<not> list_ex scales log"
  shows "in_order op log'"
  using assms
  by (auto simp: mark_and_scale_down_def GetUnstructuredMachineObject_def AnnotateMachineObject_def
      ScaleDownMachineDeployment_def get_deployment_def recorded_def unrecorded_def Let_def split: step_splits)

lemma detach_machine_logged:
  assumes "detach_machine (logged E) ns n (w, log) = Return (r, w', log')"
    and "in_order op log" and "\<not> list_ex scales log"
  shows "in_order op log'"
  using assms
  by (auto simp: detach_machine_def GetUnstructuredMachineObject_def GetMachineDeploymentReplicaCount_def
      get_deployment_def unrecorded_def Let_def split: step_splits
      dest: confirm_last_node_logged mark_and_scale_down_logged)

lemma release_host_logged:
  assumes run: "release_host (logged E) op ns n s (w, log) = Some (Return (r, s', w', log'))"
    and "in_order op log" and "\<not> list_ex scales log"
  shows "in_order op log'"
proof (cases "detach_machine (logged E) ns n (w, log)")
  case (Return out)
  obtain e w1 log1 where out: "out = (e, w1, log1)" using prod_cases3 by blast
  have ok: "in_order op log1" by (rule detach_machine_logged [OF Return [unfolded out] assms(2,3)])
  show ?thesis
  proof (cases "e = None \<and> WaitForMachineRefToBeUnset (logged E) ns (w1, log1) \<noteq> None")
    case True
    then obtain e2 w2 log2 where wait: "wait_loop (logged E) ns (TimeNow (logged E) (w1, log1)) (w1, log1) = Some (e2, w2, log2)"
      unfolding WaitForMachineRefToBeUnset_def by fastforce
    note waited = wait_loop_logged [OF wait ok]
    show ?thesis
      using run True wait waited
      by (auto simp: release_host_def Return out WaitForMachineRefToBeUnset_def split: option.splits if_splits
          dest!: decommission_logged)
  next
    case False
    then show ?thesis using run ok by (auto simp: release_host_def Return out split: option.splits)
  qed
qed (use run in \<open>simp add: release_host_def\<close>)

section \<open>A reference environment\<close>

text \<open>
  A management cluster with a host, its machine and its deployment: the host loses its machine when
  the deployment was scaled down and the clock has reached the time of the release.
\<close>

record ctl_world =
  rw_now :: int
  rw_release :: int
  rw_host :: "ByoHost option"
  rw_machine :: UMachine
  rw_deployment :: MachineDeployment
  rw_answer :: string

definition ref_read_host :: "ctl_world \<Rightarrow> (error + (error + ByoHost)) \<times> ctl_world" where
  "ref_read_host w =
     (case rw_host w of
        None \<Rightarrow> (Inl (NotFound ''byohost''), w)
      | Some h \<Rightarrow>
          (let h1 = (if rw_release w \<le> rw_now w then h\<lparr>HostStatus := (HostStatus h)\<lparr>MachineRef := None\<rparr>\<rparr> else h)
           in (Inr (Inr h1), w\<lparr>rw_host := Some h1\<rparr>)))"

definition ref_cmd :: "ctl_world cmd_env" where
  "ref_cmd = \<lparr>
     NewRequest = (\<lambda>_ _. None),
     Do = (\<lambda>_ w. (Inl (ErrorString ''no network''), w)),
     JsonError = (\<lambda>_. ErrorString ''unexpected end of JSON input''),
     UnmarshalConfig = (\<lambda>s. Inr \<lparr>kcfg_CurrentContext = ''default'', kcfg_Contexts = [\<lparr>ctx_Name = ''default'', ctx_Namespace = s\<rparr>]\<rparr>),
     LookupHost = (\<lambda>_ w. (Inr [''10.0.0.1''], w)),
     HomeDir = Inr ''/root'', Hostname = Inr ''host1'', BuildConfigFromFlags = (\<lambda>_ _. None),
     NewClientset = None, NewDynamic = None,
     dynGetByoHost = (\<lambda>_ _. ref_read_host),
     dynDeleteByoHost = (\<lambda>_ _ w. (None, w\<lparr>rw_host := None\<rparr>)),
     dynGetMachine = (\<lambda>_ _ w. (Inr (rw_machine w), w)),
     dynUpdateMachine = (\<lambda>_ m w. (None, w\<lparr>rw_machine := m\<rparr>)),
     dynGetDeployment = (\<lambda>_ _ w. (Inr (Inr (rw_deployment w)), w)),
     DeploymentToUnstructured = (\<lambda>_. None),
     dynUpdateDeployment = (\<lambda>_ md w. (None, w\<lparr>rw_deployment := md, rw_release := rw_now w + 12 * Second\<rparr>)),
     getConfigMap = (\<lambda>_ _ w. (Inr [''regions'' \<mapsto> ''region-one''], w)),
     TimeNow = rw_now,
     Sleep = (\<lambda>d w. w\<lparr>rw_now := rw_now w + d\<rparr>),
     Exec = (\<lambda>_ _ s w. (\<lparr>cr_stdout = [], cr_combined = [], cr_err = None\<rparr>, s, w)),
     LookPath = (\<lambda>n _. (''/usr/bin/'' @ n, None)),
     HttpGet = (\<lambda>_ w. (Inr \<lparr>gb_data = ''elf'', gb_err = None\<rparr>, w)),
     Fprintf = (\<lambda>_ w. (None, w)),
     ReadLine = (\<lambda>w. (\<lparr>rl_line = rw_answer w, rl_isPrefix = False, rl_err = None\<rparr>, w)),
     BuildVersion = ''1.0''\<rparr>"

definition ctl_host :: ByoHost where
  "ctl_host = \<lparr>TypeMeta.Kind = ''ByoHost'', APIVersion = ''infrastructure.cluster.x-k8s.io/v1beta1'', Name = ''host1'',
     Namespace = ''tenant'', UID = ''uid1'', Labels = Map.empty, Annotations = Map.empty, Finalizers = [],
     OwnerReferences = [], DeletionTimestamp = None,
     HostSpec = \<lparr>BootstrapSecret = None, InstallationSecret = None, UninstallationSecret = None\<rparr>,
     HostStatus = \<lparr>MachineRef = Some \<lparr>ref_Kind = ''ByoMachine'', ref_APIVersion = [], ref_Namespace = ''tenant'',
       ref_Name = ''machine1'', ref_UID = []\<rparr>, host_Conditions = [],
       HostDetails = \<lparr>OSName = [], OSImage = [], Architecture = []\<rparr>, Network = []\<rparr>\<rparr>"

definition ctl_start :: ctl_world where
  "ctl_start = \<lparr>rw_now = 0, rw_release = 3600 * Second, rw_host = Some ctl_host,
     rw_machine = \<lparr>um_Name = ''machine1'', um_Labels = [DeploymentNameLabel \<mapsto> ''md''], um_Annotations = Map.empty\<rparr>,
     rw_deployment = \<lparr>md_Name = ''md'', md_Replicas = Some 1\<rparr>, rw_answer = ''y''\<rparr>"

definition ctl_os :: os_state where
  "ctl_os = \<lparr>os_files = [(''/root/.byoh/config'', \<lparr>f_data = ''tenant'', f_mode = 420, f_owner = (0, 0)\<rparr>)],
     os_dirs = [''/root'', ''/root/.byoh''], os_umask = 18, os_deny = (\<lambda>_ _. None), os_users = (\<lambda>_. None)\<rparr>"

definition run_log :: "('w \<times> event list) run option \<Rightarrow> (error option \<times> event list) option" where
  "run_log out = (case out of Some (Return (r, _, _, log)) \<Rightarrow> Some (r, log) | _ \<Rightarrow> None)"

section \<open>Properties\<close>

text \<open>
  C16. Deauthorising and decommissioning always come back: when the clock runs, the wait for the machine
  to let go of the host ends after its five minutes, whatever the management cluster answers, so the
  operation returns (or stops at a nil dereference).
\<close>

theorem host_operation_returns:
  assumes "clock_runs E"
  shows "\<exists>r. PerformHostOperation E operationType namespace s w = Some r"
  using wait_loop_returns [OF assms]
  by (auto simp: PerformHostOperation_def release_host_def WaitForMachineRefToBeUnset_def Let_def
      split: option.splits sum.splits prod.splits outcome.splits) (metis option.distinct(1))+

text \<open>
  C15. Whatever the management cluster answers, the host object is deleted only by a decommission and only
  right after a read that showed no machine on the host; the agent's package is purged only after the
  host object was deleted, or with the user's consent when the host object could not be read; and the
  deployment is scaled down at most once, right after its machine was marked for deletion.
\<close>

theorem host_operation_in_order:
  assumes "PerformHostOperation (logged E) operationType namespace s (w, []) = Some (Return (r, s', w', log))"
  shows "in_order operationType log"
proof -
  obtain x w1 log1 where read: "GetByoHostObject (logged E) namespace (w, []) = (x, w1, log1)" using prod_cases3 by blast
  note shape = GetByoHostObject_logged [OF read]
  have ok: "in_order op log1" "\<not> list_ex scales log1" for op using shape by auto
  show ?thesis
    using assms shape ok
    by (auto simp: PerformHostOperation_def read Let_def split: option.splits sum.splits if_splits
        dest!: host_not_found_logged decommission_logged release_host_logged)
qed

theorem host_operation_in_order_witness:
  "map_option (\<lambda>(r, log). (r, length log, in_order OperationDecommission log))
     (run_log (PerformHostOperation (logged ref_cmd) OperationDecommission ''tenant'' ctl_os (ctl_start, []))) =
   Some (None, 11, True)"
proof -
  let ?out = "PerformHostOperation (logged ref_cmd) OperationDecommission ''tenant'' ctl_os (ctl_start, [])"
  have "map_option (\<lambda>(r, log). (r, length log)) (run_log ?out) = Some (None, 11)" by code_simp
  then obtain s' w' log where out: "?out = Some (Return (None, s', w', log))" and "length log = 11"
    by (auto simp: run_log_def split: option.splits outcome.splits)
  with host_operation_in_order [OF out] show ?thesis by (simp add: run_log_def)
qed

theorem host_operation_returns_witness:
  "\<exists>r. PerformHostOperation ref_cmd OperationDeauthorise ''tenant'' ctl_os ctl_start = Some r"
proof (rule host_operation_returns)
  show "clock_runs ref_cmd"
    by (auto simp: clock_runs_def ref_cmd_def ref_read_host_def Let_def split: option.splits)
qed

end
