(* ===== verification/Ctl_Onboard.thy ===== *)
theory Ctl_Onboard
  imports Ctl_Host Agent_Main
begin

text \<open>
  Onboarding a host (\<open>cmd/byohctl/cmd/onboard.go\<close>).  The package variables bound to the flags are a
  record.  The command is split at its comments; each part gives the exit status with which it stops,
  if it does.  Log messages are left out, but not the log file that \<open>InitLoggers\<close> creates.
\<close>

section \<open>Configuration\<close>

record onboard_flags =
  username :: string
  password :: string
  passwordInteractive :: bool
  fqdn :: string
  domain :: string
  tenant :: string
  clientToken :: string
  verbosity :: string
  regionName :: string
  configFile :: string

record OnboardConfig =
  oc_URL :: string
  oc_Username :: string
  oc_Password :: string
  oc_ClientToken :: string
  oc_Domain :: string
  oc_Tenant :: string
  oc_Verbosity :: string
  oc_Region :: string

record 'w onboard_env = "'w cmd_env" +
  GOOS :: string
  ReadPassword :: "'w \<Rightarrow> (error + string) \<times> 'w"
  UnmarshalOnboard :: "string \<Rightarrow> error + OnboardConfig"
  TimeStamp :: "'w \<Rightarrow> string"

definition default_flags :: onboard_flags where
  "default_flags = \<lparr>username = [], password = [], passwordInteractive = False, fqdn = [], domain = ''default'',
     tenant = ''service'', clientToken = [], verbosity = ''minimal'', regionName = [], configFile = []\<rparr>"

definition isUbuntuSystem :: "('w, 'z) onboard_env_scheme \<Rightarrow> os_state \<Rightarrow> bool" where
  "isUbuntuSystem E s =
     (if GOOS E \<noteq> ''linux'' then False
      else case os_ReadFile ''/etc/os-release'' s of
        Inl _ \<Rightarrow> False
      | Inr data \<Rightarrow> Contains data ''Ubuntu'')"

definition LoadOnboardConfig :: "('w, 'z) onboard_env_scheme \<Rightarrow> string \<Rightarrow> os_state \<Rightarrow> error + OnboardConfig" where
  "LoadOnboardConfig E path s =
     (case os_ReadFile path s of Inl err \<Rightarrow> Inl err | Inr data \<Rightarrow> UnmarshalOnboard E data)"

definition mergeConfigWithFlags :: "OnboardConfig \<Rightarrow> onboard_flags \<Rightarrow> onboard_flags" where
  "mergeConfigWithFlags cfg f =
     f\<lparr>fqdn := (if fqdn f = [] then oc_URL cfg else fqdn f),
       username := (if username f = [] then oc_Username cfg else username f),
       password := (if password f = [] then oc_Password cfg else password f),
       clientToken := (if clientToken f = [] then oc_ClientToken cfg else clientToken f),
       domain := (if domain f = ''default'' \<and> oc_Domain cfg \<noteq> [] then oc_Domain cfg else domain f),
       tenant := (if tenant f = ''service'' \<and> oc_Tenant cfg \<noteq> [] then oc_Tenant cfg else tenant f),
       verbosity := (if verbosity f = ''minimal'' \<and> oc_Verbosity cfg \<noteq> [] then oc_Verbosity cfg else verbosity f),
       regionName := (if regionName f = [] then oc_Region cfg else regionName f)\<rparr>"

definition final_flags :: "('w, 'z) onboard_env_scheme \<Rightarrow> onboard_flags \<Rightarrow> os_state \<Rightarrow> error + onboard_flags" where
  "final_flags E f s =
     (if configFile f = [] then Inr f
      else case LoadOnboardConfig E (configFile f) s of
        Inl err \<Rightarrow> Inl err
      | Inr cfg \<Rightarrow> Inr (mergeConfigWithFlags cfg f))"

definition missing_flags :: "onboard_flags \<Rightarrow> string list" where
  "missing_flags f =
     (if fqdn f = [] then [''--url (or config file '' @ CHR 0x27 # ''url''] else []) @
     (if username f = [] then [''--username (or config file '' @ CHR 0x27 # ''username'' @ CHR 0x27 # '')''] else []) @
     (if clientToken f = [] then [''--client-token (or config file '' @ CHR 0x27 # ''client-token'' @ CHR 0x27 # '')''] else []) @
     (if regionName f = [] then [''--region (or config file '' @ CHR 0x27 # ''region'' @ CHR 0x27 # '')''] else [])"

section \<open>The command\<close>

definition read_password ::
  "('w, 'z) onboard_env_scheme \<Rightarrow> onboard_flags \<Rightarrow> 'w \<Rightarrow> onboard_flags option \<times> 'w" where
  "read_password E f w =
     (if \<not> passwordInteractive f then (Some f, w)
      else case ReadPassword E w of
        (Inl _, w1) \<Rightarrow> (None, w1)
      | (Inr pwBytes, w1) \<Rightarrow> (if length pwBytes = 0 then None else Some (f\<lparr>password := pwBytes\<rparr>), w1))"

definition already_onboarded ::
  "('w, 'z) onboard_env_scheme \<Rightarrow> os_state \<Rightarrow> 'w \<Rightarrow> bool \<times> os_state \<times> 'w" where
  "already_onboarded E s w =
     (case RunWithStdout E Systemctl SystemctlServiceExists s w of ((out, err), s1, w1) \<Rightarrow>
        (err = None \<and> Contains out ByohAgentServiceName, s1, w1))"

text \<open>A region that is not offered to the tenant rolls back: the failure to do so is only logged.\<close>

definition region_or_rollback ::
  "('w, 'z) onboard_env_scheme \<Rightarrow> K8sClient \<Rightarrow> string \<Rightarrow> os_state \<Rightarrow> 'w \<Rightarrow> bool \<times> os_state \<times> 'w" where
  "region_or_rollback E k8sClient region s w =
     (case CheckRegionAvailability E k8sClient region s w of
        (Inr (True, _), w1) \<Rightarrow> (True, s, w1)
      | (_, w1) \<Rightarrow> (False, snd (DeleteSavedKubeconfig E s), w1))"

definition install_agent ::
  "('w, 'z) onboard_env_scheme \<Rightarrow> string \<Rightarrow> string \<Rightarrow> os_state \<Rightarrow> 'w \<Rightarrow> int \<times> os_state \<times> 'w" where
  "install_agent E byohDir region s w =
     (let regionLabel = PcdKaapiRegionKey @ ''='' @ region
      in case WriteFile (filepath_Join [byohDir, ''region'']) regionLabel DefaultFilePerms s of
           (Some _, s1) \<Rightarrow> (1, s1, w)
         | (None, s1) \<Rightarrow>
             (let pkgDir = filepath_Join [byohDir, ''packages'']
              in case MkdirAll pkgDir s1 of
                   (Some _, s2) \<Rightarrow> (1, s2, w)
                 | (None, s2) \<Rightarrow>
                     (case SetupAgent E pkgDir s2 w of
                        (Some _, s3, w3) \<Rightarrow> (1, s3, w3)
                      | (None, s3, w3) \<Rightarrow> (0, s3, w3))))"

definition onboard_steps ::
  "('w, 'z) onboard_env_scheme \<Rightarrow> onboard_flags \<Rightarrow> string \<Rightarrow> os_state \<Rightarrow> 'w \<Rightarrow> int \<times> os_state \<times> 'w" where
  "onboard_steps E f homeDir s w =
     (case GetToken E (fqdn f) (clientToken f) (username f) (password f) w of
        (Inl _, w1) \<Rightarrow> (1, s, w1)
      | (Inr tok, w1) \<Rightarrow>
          (let k8sClient = NewK8sClient (fqdn f) (domain f) (tenant f) tok (regionName f);
               byohDir = filepath_Join [homeDir, ByohConfigDir]
           in case PrepareAgentDirectory byohDir s of
                (Some _, s2) \<Rightarrow> (1, s2, w1)
              | (None, s2) \<Rightarrow>
                  (case SaveKubeConfig E k8sClient ''byoh-bootstrap-kc'' s2 w1 of
                     (Some _, s3, w3) \<Rightarrow> (1, s3, w3)
                   | (None, s3, w3) \<Rightarrow>
                       (case region_or_rollback E k8sClient (regionName f) s3 w3 of
                          (False, s4, w4) \<Rightarrow> (1, s4, w4)
                        | (True, s4, w4) \<Rightarrow> install_agent E byohDir (regionName f) s4 w4))))"

definition runOnboard ::
  "('w, 'z) onboard_env_scheme \<Rightarrow> onboard_flags \<Rightarrow> os_state \<Rightarrow> 'w \<Rightarrow> int \<times> os_state \<times> 'w" where
  "runOnboard E flags s w =
     (case final_flags E flags s of
        Inl _ \<Rightarrow> (1, s, w)
      | Inr f0 \<Rightarrow>
          if length (missing_flags f0) > 0 then (1, s, w)
          else if \<not> isUbuntuSystem E s then (1, s, w)
          else case read_password E f0 w of
            (None, w1) \<Rightarrow> (1, s, w1)
          | (Some f, w1) \<Rightarrow>
              (case already_onboarded E s w1 of
                 (True, s2, w2) \<Rightarrow> (1, s2, w2)
               | (False, s2, w2) \<Rightarrow>
                   (case HomeDir E of
                      Inl _ \<Rightarrow> (1, s2, w2)
                    | Inr homeDir \<Rightarrow>
                        (case InitLoggers (TimeStamp E w2) (filepath_Join [homeDir, ''.byoh'']) s2 initial_logger of
                           (Some _, s3, _) \<Rightarrow> (1, s3, w2)
                         | (None, s3, _) \<Rightarrow> onboard_steps E f homeDir s3 w2))))"

text \<open>A flag that was given explicitly with its default value yields to the configuration file.\<close>

lemma explicit_default_overridden:
  "oc_Domain cfg \<noteq> [] \<Longrightarrow> domain (mergeConfigWithFlags cfg (f\<lparr>domain := ''default''\<rparr>)) = oc_Domain cfg"
  "oc_Tenant cfg \<noteq> [] \<Longrightarrow> tenant (mergeConfigWithFlags cfg (f\<lparr>tenant := ''service''\<rparr>)) = oc_Tenant cfg"
  by (simp_all add: mergeConfigWithFlags_def)

section \<open>What is in place when the agent is installed\<close>

lemma SaveKubeConfig_saved:
  assumes "SaveKubeConfig E c secretName s w = (None, s', w')"
  shows "\<exists>secret enc kubeconfig f. GetSecret E c secretName w = (Inr secret, w') \<and> secret ''config'' = Some enc \<and>
    DecodeString enc = Inr kubeconfig \<and> file_at s' (KubeconfigFilePath (HomeDir E)) = Some f \<and> f_data f = kubeconfig"
  using assms
  by (auto simp: SaveKubeConfig_def KubeconfigFilePath_def ByohDir_def Let_def dest!: WriteFile_file_at(1)
      split: option.splits sum.splits prod.splits)

lemma region_file_apart: "Clean (filepath_Join [ByohDir home, ''region'']) \<noteq> Clean (KubeconfigFilePath home)"
proof -
  have "ByohDir home \<noteq> []" by (simp add: ByohDir_def ByohConfigDir_def filepath_Join_def)
  then have "last (Split CHR ''/'' (Clean (filepath_Join [ByohDir home, ''region'']))) \<noteq>
    last (Split CHR ''/'' (Clean (KubeconfigFilePath home)))"
    by (simp add: KubeconfigFilePath_def filepath_Join_last)
  then show ?thesis by metis
qed

lemma MkdirAll_file_at: "MkdirAll p s = (r, s') \<Longrightarrow> file_at s' q = file_at s q"
  by (auto simp: MkdirAll_def file_at_def split: if_splits option.splits)

lemma install_agent_ready:
  assumes run: "install_agent E (ByohDir home) region s w = (0, s', w')"
  shows "\<exists>s1 f. SetupAgent E (filepath_Join [ByohDir home, ''packages'']) s1 w = (None, s', w') \<and>
    file_at s1 (filepath_Join [ByohDir home, ''region'']) = Some f \<and> f_data f = PcdKaapiRegionKey @ ''='' @ region \<and>
    file_at s1 (KubeconfigFilePath home) = file_at s (KubeconfigFilePath home)"
proof -
  from run obtain s1 s2 where w1: "WriteFile (filepath_Join [ByohDir home, ''region'']) (PcdKaapiRegionKey @ ''='' @ region)
        DefaultFilePerms s = (None, s1)"
    and mk: "MkdirAll (filepath_Join [ByohDir home, ''packages'']) s1 = (None, s2)"
    and done_setup: "SetupAgent E (filepath_Join [ByohDir home, ''packages'']) s2 w = (None, s', w')"
    by (auto simp: install_agent_def Let_def split: option.splits prod.splits)
  from WriteFile_file_at(1) [OF w1] WriteFile_file_at(2) [OF w1 region_file_apart [THEN not_sym]]
  show ?thesis using done_setup MkdirAll_file_at [OF mk] by auto
qed

lemma region_or_rollback_cases:
  assumes "region_or_rollback E c region s w = (ok, s', w')"
  obtains (available) rs where "ok" "s' = s" "CheckRegionAvailability E c region s w = (Inr (True, rs), w')"
  | (rolled_back) "\<not> ok" "s' = snd (DeleteSavedKubeconfig E s)"
  using assms by (auto simp: region_or_rollback_def split: sum.splits prod.splits bool.splits)

text \<open>After a rollback nothing is left below the directory, unless the system refuses the removal.\<close>

lemma rollback_removes:
  assumes "region_or_rollback E c region s w = (False, s', w')"
    and "os_deny s ''remove'' (Clean (ByohDir (HomeDir E))) = None"
  shows "list_all (\<lambda>(q, _). \<not> below (Clean (ByohDir (HomeDir E))) q) (os_files s')"
  using assms(2) by (cases rule: region_or_rollback_cases [OF assms(1)])
    (auto simp: DeleteSavedKubeconfig_def RemoveAll_def deny_or_def list_all_iff)

lemma onboard_steps_success:
  assumes run: "onboard_steps E f homeDir s w = (0, s', w')" and home: "HomeDir E = Inr homeDir"
  obtains tok w1 s2 s3 w3 w4 rs where
    "SaveKubeConfig E (NewK8sClient (fqdn f) (domain f) (tenant f) tok (regionName f)) ''byoh-bootstrap-kc'' s2 w1 = (None, s3, w3)"
    "CheckRegionAvailability E (NewK8sClient (fqdn f) (domain f) (tenant f) tok (regionName f)) (regionName f) s3 w3 =
       (Inr (True, rs), w4)"
    "install_agent E (ByohDir (HomeDir E)) (regionName f) s3 w4 = (0, s', w')"
  using run unfolding onboard_steps_def Let_def
  by (auto simp: ByohDir_def home split: option.splits sum.splits prod.splits bool.splits
      elim!: region_or_rollback_cases)

lemma read_password_keeps:
  "read_password E f0 w = (Some f, w') \<Longrightarrow>
     fqdn f = fqdn f0 \<and> domain f = domain f0 \<and> tenant f = tenant f0 \<and> regionName f = regionName f0"
  by (auto simp: read_password_def split: if_splits sum.splits prod.splits)

lemma runOnboard_success:
  assumes "runOnboard E flags s w = (0, s', w')" and "final_flags E flags s = Inr f0"
  obtains f homeDir s3 w2 where "missing_flags f0 = []"
    "fqdn f = fqdn f0 \<and> domain f = domain f0 \<and> tenant f = tenant f0 \<and> regionName f = regionName f0"
    "HomeDir E = Inr homeDir" "onboard_steps E f homeDir s3 w2 = (0, s', w')"
proof -
  from assms obtain f homeDir s3 w1 w2 where run: "missing_flags f0 = []"
    "read_password E f0 w = (Some f, w1)" "HomeDir E = Inr homeDir" "onboard_steps E f homeDir s3 w2 = (0, s', w')"
    unfolding runOnboard_def by (auto split: option.splits sum.splits prod.splits bool.splits if_splits)
  show thesis by (rule that [OF run(1) read_password_keeps [OF run(2)] run(3,4)])
qed

lemma region_label:
  assumes "plain_label (PcdKaapiRegionKey, region)"
  shows "labelFlags_Set (PcdKaapiRegionKey @ ''='' @ region) Map.empty = (None, [PcdKaapiRegionKey \<mapsto> region])"
proof -
  have "CHR '','' \<notin> set (PcdKaapiRegionKey @ ''='' @ region)" using assms by (simp add: plain_label_def)
  then show ?thesis using set_pair_plain [OF assms] by (simp add: labelFlags_Set_def)
qed

section \<open>Properties\<close>

text \<open>
  C17. When onboarding ends with success, the agent's package was installed on a host on which everything the
  agent starts from was in place: the region was offered to the tenant, the kubeconfig file held the
  decoded content of the tenant's bootstrap secret, and the region file held text that the agent's
  label flag reads back as the label of that region.
\<close>

theorem onboarded_host_ready:
  assumes "runOnboard E flags s w = (0, s', w')"
    and "final_flags E flags s = Inr f" and "plain_label (PcdKaapiRegionKey, regionName f)"
  shows "\<exists>c w1 secret w2 enc s2 rs w3 s3 kf rf.
    kcl_fqdn c = fqdn f \<and> getNamespace c = before CHR ''.'' (fqdn f) @ ''-'' @ domain f @ ''-'' @ ReplaceChar CHR ''_'' CHR ''-'' (tenant f) \<and>
    GetSecret E c ''byoh-bootstrap-kc'' w1 = (Inr secret, w2) \<and> secret ''config'' = Some enc \<and>
    CheckRegionAvailability E c (regionName f) s2 w2 = (Inr (True, rs), w3) \<and>
    file_at s3 (KubeconfigFilePath (HomeDir E)) = Some kf \<and> DecodeString enc = Inr (f_data kf) \<and>
    file_at s3 (filepath_Join [ByohDir (HomeDir E), ''region'']) = Some rf \<and>
    labelFlags_Set (f_data rf) Map.empty = (None, [PcdKaapiRegionKey \<mapsto> regionName f]) \<and>
    SetupAgent E (filepath_Join [ByohDir (HomeDir E), ''packages'']) s3 w3 = (None, s', w')"
proof -
  obtain f1 homeDir s1 w0 where f: "fqdn f1 = fqdn f \<and> domain f1 = domain f \<and> tenant f1 = tenant f \<and> regionName f1 = regionName f"
    and home: "HomeDir E = Inr homeDir" and steps: "onboard_steps E f1 homeDir s1 w0 = (0, s', w')"
    by (rule runOnboard_success [OF assms(1,2)])
  obtain tok w1 s2 s3 w2 w3 rs where save: "SaveKubeConfig E (NewK8sClient (fqdn f1) (domain f1) (tenant f1) tok (regionName f1))
        ''byoh-bootstrap-kc'' s2 w1 = (None, s3, w2)"
    and region: "CheckRegionAvailability E (NewK8sClient (fqdn f1) (domain f1) (tenant f1) tok (regionName f1)) (regionName f1) s3 w2 =
        (Inr (True, rs), w3)"
    and install: "install_agent E (ByohDir (HomeDir E)) (regionName f1) s3 w3 = (0, s', w')"
    by (rule onboard_steps_success [OF steps home])
  let ?c = "NewK8sClient (fqdn f1) (domain f1) (tenant f1) tok (regionName f1)"
  have "kcl_fqdn ?c = fqdn f \<and> getNamespace ?c = before CHR ''.'' (fqdn f) @ ''-'' @ domain f @ ''-'' @
      ReplaceChar CHR ''_'' CHR ''-'' (tenant f)" by (simp add: NewK8sClient_def getNamespace_def f)
  moreover obtain secret enc kf where "GetSecret E ?c ''byoh-bootstrap-kc'' w1 = (Inr secret, w2)" "secret ''config'' = Some enc"
    "DecodeString enc = Inr (f_data kf)" "file_at s3 (KubeconfigFilePath (HomeDir E)) = Some kf"
    using SaveKubeConfig_saved [OF save] by auto
  moreover obtain s4 rf where "SetupAgent E (filepath_Join [ByohDir (HomeDir E), ''packages'']) s4 w3 = (None, s', w')"
    "file_at s4 (filepath_Join [ByohDir (HomeDir E), ''region'']) = Some rf" "f_data rf = PcdKaapiRegionKey @ ''='' @ regionName f1"
    "file_at s4 (KubeconfigFilePath (HomeDir E)) = file_at s3 (KubeconfigFilePath (HomeDir E))"
    using install_agent_ready [OF install] by blast
  ultimately show ?thesis using region region_label [OF assms(3)]
    by (intro exI [of _ ?c] exI [of _ w1] exI [of _ secret] exI [of _ w2] exI [of _ enc] exI [of _ s3] exI [of _ rs]
        exI [of _ w3] exI [of _ s4] exI [of _ kf] exI [of _ rf]) (simp add: f)
qed

text \<open>A host on which every command succeeds and the download puts the package in place.\<close>

definition ref_exec :: "string \<Rightarrow> string list \<Rightarrow> os_state \<Rightarrow> 'w \<Rightarrow> cmd_result \<times> os_state \<times> 'w" where
  "ref_exec n args s w =
     (\<lparr>cr_stdout = [], cr_combined = [], cr_err = (if n = ''lsof'' then Some (ErrorString ''exit status 1'') else None)\<rparr>,
      if args \<noteq> [] \<and> hd args = ''pull''
      then put_file (filepath_Join [last args, ByohAgentDebPackageFilename]) \<lparr>f_data = ''deb'', f_mode = 420, f_owner = (0, 0)\<rparr> s
      else s, w)"

definition ref_secret :: "string \<Rightarrow> jvalue" where
  "ref_secret enc = JObject [(''kind'', JString ''Secret''), (''data'', JObject [(''config'', JString enc)])]"

definition ref_onboard :: "ctl_world onboard_env" where
  "ref_onboard = cmd_env.extend
     (ref_cmd\<lparr>Do := (\<lambda>req w. (Inr \<lparr>StatusCode = 200,
        Body = Inr (if Method req = ''POST'' then json_text (JObject [(''id_token'', JString ''token'')])
          else json_text (ref_secret (EncodeToString ''tenant'')))\<rparr>, w)), Exec := ref_exec\<rparr>)
     (onboard_env.fields ''linux'' (\<lambda>w. (Inr ''secret'', w))
        (\<lambda>_. Inr \<lparr>oc_URL = ''du.example.com'', oc_Username = ''admin'', oc_Password = ''pw'', oc_ClientToken = ''ct'',
           oc_Domain = [], oc_Tenant = [], oc_Verbosity = [], oc_Region = ''region-one''\<rparr>)
        (\<lambda>_. ''2026-01-01 00:00:00''))"

definition fresh_os :: os_state where
  "fresh_os = \<lparr>os_files = [(''/etc/os-release'', \<lparr>f_data = ''NAME=Ubuntu'', f_mode = 420, f_owner = (0, 0)\<rparr>),
       (''/etc/byoh.yaml'', \<lparr>f_data = ''url: du.example.com'', f_mode = 420, f_owner = (0, 0)\<rparr>)],
     os_dirs = [''/root'', ''/etc''], os_umask = 18, os_deny = (\<lambda>_ _. None), os_users = (\<lambda>_. None)\<rparr>"

definition config_flags :: onboard_flags where
  "config_flags = default_flags\<lparr>configFile := ''/etc/byoh.yaml''\<rparr>"

theorem onboarded_host_ready_witness:
  "fst (runOnboard ref_onboard config_flags fresh_os ctl_start) = 0 \<and>
   (\<exists>s3 rf w3. file_at s3 (filepath_Join [ByohDir (HomeDir ref_onboard), ''region'']) = Some rf \<and>
      labelFlags_Set (f_data rf) Map.empty = (None, [PcdKaapiRegionKey \<mapsto> ''region-one'']) \<and>
      fst (SetupAgent ref_onboard (filepath_Join [ByohDir (HomeDir ref_onboard), ''packages'']) s3 w3) = None)"
proof -
  let ?out = "runOnboard ref_onboard config_flags fresh_os ctl_start"
  have status: "fst ?out = 0" by code_simp
  then have run: "?out = (0, fst (snd ?out), snd (snd ?out))" by (metis prod.collapse)
  have "(case final_flags ref_onboard config_flags fresh_os of Inl _ \<Rightarrow> False
    | Inr f \<Rightarrow> regionName f = ''region-one'')" by code_simp
  then obtain f where f: "final_flags ref_onboard config_flags fresh_os = Inr f" "regionName f = ''region-one''"
    by (auto split: sum.splits)
  have "TrimSpace PcdKaapiRegionKey = PcdKaapiRegionKey \<and> TrimSpace ''region-one'' = ''region-one''" by code_simp
  then have "plain_label (PcdKaapiRegionKey, regionName f)" by (simp add: plain_label_def f(2) PcdKaapiRegionKey_def)
  from onboarded_host_ready [OF run f(1) this] obtain s3 rf w3 s' w' where
    "file_at s3 (filepath_Join [ByohDir (HomeDir ref_onboard), ''region'']) = Some rf"
    "labelFlags_Set (f_data rf) Map.empty = (None, [PcdKaapiRegionKey \<mapsto> regionName f])"
    "SetupAgent ref_onboard (filepath_Join [ByohDir (HomeDir ref_onboard), ''packages'']) s3 w3 = (None, s', w')"
    by blast
  with status f(2) show ?thesis by (intro conjI exI [of _ s3] exI [of _ rf] exI [of _ w3]) simp_all
qed

text \<open>
  C18. The kubeconfig is saved as it was put into the secret.  When the API server answers with the JSON text of
  a Secret that has, among any other fields without numbers, one object \<open>data\<close> of strings
  with the base64 of the kubeconfig under \<open>config\<close>, and \<open>SaveKubeConfig\<close> reports no error, then the
  file holds the kubeconfig byte for byte.
\<close>

theorem saved_kubeconfig_roundtrip:
  assumes "Do E \<lparr>Method = ''GET'', URL = ''https://'' @ kcl_fqdn c @ ''/oidc-proxy/'' @ getNamespace c @ ''/'' @ kcl_regionName c @
        ''/api/v1/namespaces/'' @ getNamespace c @ ''/secrets/'' @ secretName,
        Headers = [(''Authorization'', ''Bearer '' @ kcl_bearerToken c)], ReqBody = []\<rparr> w =
        (Inr \<lparr>StatusCode = 200, Body = Inr (json_text (JObject fs))\<rparr>, wr)"
    and "plain (JObject fs)" and "nesting (JObject fs) \<le> maxNestingDepth"
    and "filter (\<lambda>(k, v). names_field ''data'' k) fs = [(''data'', JObject es)]"
    and "list_all (\<lambda>(k, v). \<exists>s. v = JString s) es" and "distinct (map fst es)"
    and "map_of es ''config'' = Some (JString (EncodeToString kubeconfig))"
    and "SaveKubeConfig E c secretName s w = (None, s', w')"
  shows "\<exists>f. file_at s' (KubeconfigFilePath (HomeDir E)) = Some f \<and> f_data f = kubeconfig"
proof -
  obtain m where m: "store_entries es Map.empty = Some m" "m ''config'' = Some (EncodeToString kubeconfig)"
    using store_entries_strings [OF assms(5,6), of Map.empty "''config''"] assms(7) by auto
  have "Unmarshal_Secret (json_text (JObject fs)) = Some m"
    using json_value_text [OF assms(2,3)] store_field_once [OF assms(4), of store_map] m(1)
    by (simp add: Unmarshal_Secret_def store_struct_def)
  moreover obtain secret enc kc f where "GetSecret E c secretName w = (Inr secret, w')" "secret ''config'' = Some enc"
      "DecodeString enc = Inr kc" "file_at s' (KubeconfigFilePath (HomeDir E)) = Some f" "f_data f = kc"
    using SaveKubeConfig_saved [OF assms(8)] by blast
  ultimately show ?thesis using assms(1) m(2)
    by (auto simp: GetSecret_def Let_def split: option.splits prod.splits)
qed

theorem saved_kubeconfig_roundtrip_witness:
  "\<exists>f. file_at (fst (snd (SaveKubeConfig ref_onboard (NewK8sClient ''du.example.com'' ''default'' ''service'' ''token'' ''region-one'')
       ''byoh-bootstrap-kc'' fresh_os ctl_start))) (KubeconfigFilePath (HomeDir ref_onboard)) = Some f \<and> f_data f = ''tenant''"
proof -
  let ?c = "NewK8sClient ''du.example.com'' ''default'' ''service'' ''token'' ''region-one''"
  let ?out = "SaveKubeConfig ref_onboard ?c ''byoh-bootstrap-kc'' fresh_os ctl_start"
  have "fst ?out = None" by code_simp
  then have out: "?out = (None, fst (snd ?out), snd (snd ?out))" by (metis prod.collapse)
  have do: "Do ref_onboard req ctl_start = (Inr \<lparr>StatusCode = 200,
        Body = Inr (json_text (ref_secret (EncodeToString ''tenant'')))\<rparr>, ctl_start)" if "Method req = ''GET''" for req
    using that by (simp add: ref_onboard_def cmd_env.defs)
  show ?thesis
    by (rule saved_kubeconfig_roundtrip [where wr = ctl_start and fs = "[(''kind'', JString ''Secret''), (''data'', JObject [(''config'', JString (EncodeToString ''tenant''))])]"
            and es = "[(''config'', JString (EncodeToString ''tenant''))]", OF _ _ _ _ _ _ _ out])
      (simp_all add: do ref_secret_def maxNestingDepth_def names_field_def, code_simp+)
qed

end
