(* ===== verification/Ctl_Main.thy ===== *)
theory Ctl_Main
  imports Ctl_Onboard
begin

text \<open>
  The program \<open>byohctl\<close> (\<open>cmd/byohctl/main.go\<close>, \<open>cmd/byohctl/cmd/root.go\<close>, \<open>version.go\<close>): the command
  that the arguments name, the loggers that are set up before every command, and the status of the
  process.  Reading the arguments is cobra's part, a parameter.
\<close>

datatype ctl_command = OnboardCommand onboard_flags | DeauthoriseCommand | DecommissionCommand | VersionCommand

text \<open>\<open>init\<close>: the version of the linker, if it has set one.\<close>

definition linked_version :: "string \<Rightarrow> string \<Rightarrow> string" where
  "linked_version buildVersion version = (if buildVersion \<noteq> [] then buildVersion else version)"

definition PersistentPreRunE ::
  "('w, 'z) onboard_env_scheme \<Rightarrow> os_state \<Rightarrow> 'w \<Rightarrow> error option \<times> os_state \<times> logger" where
  "PersistentPreRunE E s w =
     (case InitLoggers (TimeStamp E w) (ByohDir (HomeDir E)) s initial_logger of
        (Some err, s1, L) \<Rightarrow> (Some (ErrorString (''failed to initialize loggers: '' @ Error err)), s1, L)
      | (None, s1, L) \<Rightarrow> (None, s1, L))"

text \<open>The status, what is printed by \<open>fmt.Println\<close>, and the state unless the command panics.\<close>

type_synonym 'w exit = "int \<times> string list \<times> (os_state \<times> 'w) outcome"

fun operation_exit :: "int \<times> 'w run \<Rightarrow> string \<Rightarrow> 'w exit" where
  "operation_exit (code, Panic m) message = (code, [], Panic m)"
| "operation_exit (code, Return (None, s, w)) message = (code, [], Return (s, w))"
| "operation_exit (code, Return (Some err, s, w)) message = (code, [message @ Error err], Return (s, w))"

definition operation_message :: "('w, 'z) onboard_env_scheme \<Rightarrow> os_state \<Rightarrow> string \<Rightarrow> string" where
  "operation_message E s message =
     (case GetNamespaceFromConfig E (KubeconfigFilePath (HomeDir E)) s of
        Inl _ \<Rightarrow> ''Failed to get namespace from kubeconfig: ''
      | Inr _ \<Rightarrow> message)"

fun run_command :: "('w, 'z) onboard_env_scheme \<Rightarrow> ctl_command \<Rightarrow> os_state \<Rightarrow> 'w \<Rightarrow> 'w exit option" where
  "run_command E (OnboardCommand flags) s w =
     (case runOnboard E flags s w of (code, s1, w1) \<Rightarrow> Some (code, [], Return (s1, w1)))"
| "run_command E DeauthoriseCommand s w =
     map_option (\<lambda>r. operation_exit r (operation_message E s ''Failed to deauthorise host. '')) (runDeauthorise E s w)"
| "run_command E DecommissionCommand s w =
     map_option (\<lambda>r. operation_exit r (operation_message E s ''Failed to decommission host. '')) (runDecommission E s w)"
| "run_command E VersionCommand s w = Some (0, [GetVersion (linked_version (BuildVersion E) [])], Return (s, w))"

definition ctl_main ::
  "('w, 'z) onboard_env_scheme \<Rightarrow> (string list \<Rightarrow> error + ctl_command) \<Rightarrow> string list \<Rightarrow> os_state \<Rightarrow> 'w \<Rightarrow> 'w exit option" where
  "ctl_main E parse args s w =
     (case parse args of
        Inl err \<Rightarrow> Some (1, [], Return (s, w))
      | Inr cmd \<Rightarrow>
          (case PersistentPreRunE E s w of
             (Some err, s1, _) \<Rightarrow> Some (1, [], Return (s1, w))
           | (None, s1, _) \<Rightarrow> run_command E cmd s1 w))"

section \<open>What holds for every command\<close>

text \<open>The loggers touch one file of the directory only.\<close>

lemma log_file_apart: "Clean (KubeconfigFilePath home) \<noteq> Clean (filepath_Join [ByohDir home, ''byoh-agent-debug.log''])"
proof -
  have "ByohDir home \<noteq> []" by (simp add: ByohDir_def ByohConfigDir_def filepath_Join_def)
  then have "last (Split CHR ''/'' (Clean (filepath_Join [ByohDir home, ''byoh-agent-debug.log'']))) \<noteq>
    last (Split CHR ''/'' (Clean (KubeconfigFilePath home)))"
    by (simp add: KubeconfigFilePath_def filepath_Join_last)
  then show ?thesis by metis
qed

lemma truncate_file_other:
  "truncate_file p perm s = (r, s') \<Longrightarrow> Clean q \<noteq> Clean p \<Longrightarrow> file_at s' q = file_at s q"
  by (auto simp: truncate_file_def OpenFile_def Let_def split: option.splits if_splits prod.splits sum.splits)

lemma loggers_keep_kubeconfig:
  assumes "PersistentPreRunE E s w = (e, s', L)"
  shows "file_at s' (KubeconfigFilePath (HomeDir E)) = file_at s (KubeconfigFilePath (HomeDir E))"
  using assms log_file_apart [of "HomeDir E"]
  by (auto simp: PersistentPreRunE_def InitLoggers_def Let_def dest!: MkdirAll_file_at truncate_file_other
      split: prod.splits option.splits)

text \<open>
  The hint to onboard the host first is never printed: the namespace is read from the kubeconfig before
  its presence is checked.
\<close>

lemma kubeconfig_read_before_check:
  "GetNamespaceFromConfig E path s = Inr namespace \<Longrightarrow> Stat s path \<noteq> StatNotExist"
  by (auto simp: GetNamespaceFromConfig_def os_ReadFile_def Stat_def split: option.splits sum.splits if_splits)

lemma not_onboarded_exits:
  assumes parsed: "parse args = Inr cmd" and cmd: "cmd \<in> {DeauthoriseCommand, DecommissionCommand}"
    and absent: "file_at s (KubeconfigFilePath (HomeDir E)) = None"
  shows "\<exists>out s'. ctl_main E parse args s w = Some (1, out, Return (s', w)) \<and> file_at s' (KubeconfigFilePath (HomeDir E)) = None"
proof -
  obtain e s1 L where pre: "PersistentPreRunE E s w = (e, s1, L)" by (rule prod_cases3)
  have none: "file_at s1 (KubeconfigFilePath (HomeDir E)) = None" using loggers_keep_kubeconfig [OF pre] absent by simp
  show ?thesis
  proof (cases e)
    case (Some err)
    then show ?thesis using parsed pre none by (simp add: ctl_main_def)
  next
    case None
    have "\<exists>err. GetNamespaceFromConfig E (KubeconfigFilePath (HomeDir E)) s1 = Inl err"
      using none by (auto simp: GetNamespaceFromConfig_def os_ReadFile_def split: option.splits)
    then show ?thesis using cmd parsed pre none None
      by (auto simp: ctl_main_def runDeauthorise_def runDecommission_def run_operation_def)
  qed
qed

lemma version_command:
  assumes "parse args = Inr VersionCommand" and "PersistentPreRunE E s w = (None, s1, L)"
  shows "ctl_main E parse args s w = Some (0, [GetVersion (BuildVersion E)], Return (s1, w))"
  using assms by (simp add: ctl_main_def linked_version_def)

end
