(* ===== verification/Host_Concurrency.thy ===== *)
theory Host_Concurrency
  imports Host_Lifecycle
begin

text \<open>
  The life of a ByoHost when time passes between the read and the patch.  A patch helper sends only
  the difference between the object it was created with and the object at the patch, and the API
  server merges it into whatever is stored by then; no resource version is compared.  The agent runs
  commands for minutes between its read and its patch, and the other components read from caches.
  The theory shows which of these delays are harmless, and the one that is not: two reservations
  computed from the same read.
\<close>

section \<open>Merge patches\<close>

text \<open>
  What \<open>patch.Helper\<close> and the API server promise of a patch from \<open>b\<close> to \<open>a\<close> that arrives at
  \<open>c\<close>: a value that the patch does not change is the stored one, a changed one is the patch's, and
  maps are merged key by key.
\<close>

definition pick :: "'a \<Rightarrow> 'a \<Rightarrow> 'a \<Rightarrow> 'a" where
  "pick b a c = (if a = b then c else a)"

lemma pick_simps [simp]: "pick b b c = c" "pick b a b = a" "a \<noteq> b \<Longrightarrow> pick b a c = a"
  by (simp_all add: pick_def)

definition merge_contract :: "(ByoHost \<Rightarrow> ByoHost \<Rightarrow> ByoHost \<Rightarrow> ByoHost) \<Rightarrow> bool" where
  "merge_contract M \<longleftrightarrow>
     (\<forall>b a c. obj_key (M b a c) = obj_key c \<and>
        Labels (M b a c) = (\<lambda>k. pick (Labels b k) (Labels a k) (Labels c k)) \<and>
        Annotations (M b a c) = (\<lambda>k. pick (Annotations b k) (Annotations a k) (Annotations c k)) \<and>
        BootstrapSecret (HostSpec (M b a c)) =
          pick (BootstrapSecret (HostSpec b)) (BootstrapSecret (HostSpec a)) (BootstrapSecret (HostSpec c)) \<and>
        InstallationSecret (HostSpec (M b a c)) =
          pick (InstallationSecret (HostSpec b)) (InstallationSecret (HostSpec a)) (InstallationSecret (HostSpec c)) \<and>
        UninstallationSecret (HostSpec (M b a c)) =
          pick (UninstallationSecret (HostSpec b)) (UninstallationSecret (HostSpec a)) (UninstallationSecret (HostSpec c)) \<and>
        MachineRef (HostStatus (M b a c)) =
          pick (MachineRef (HostStatus b)) (MachineRef (HostStatus a)) (MachineRef (HostStatus c)))"

lemma merge_contractD:
  assumes "merge_contract M"
  shows "obj_key (M b a c) = obj_key c"
    "Labels (M b a c) k = pick (Labels b k) (Labels a k) (Labels c k)"
    "Annotations (M b a c) k = pick (Annotations b k) (Annotations a k) (Annotations c k)"
    "BootstrapSecret (HostSpec (M b a c)) =
       pick (BootstrapSecret (HostSpec b)) (BootstrapSecret (HostSpec a)) (BootstrapSecret (HostSpec c))"
    "InstallationSecret (HostSpec (M b a c)) =
       pick (InstallationSecret (HostSpec b)) (InstallationSecret (HostSpec a)) (InstallationSecret (HostSpec c))"
    "UninstallationSecret (HostSpec (M b a c)) =
       pick (UninstallationSecret (HostSpec b)) (UninstallationSecret (HostSpec a)) (UninstallationSecret (HostSpec c))"
    "MachineRef (HostStatus (M b a c)) =
       pick (MachineRef (HostStatus b)) (MachineRef (HostStatus a)) (MachineRef (HostStatus c))"
  using assms by (simp_all add: merge_contract_def)

text \<open>A merge that meets the contract.\<close>

definition ref_merge :: "ByoHost \<Rightarrow> ByoHost \<Rightarrow> ByoHost \<Rightarrow> ByoHost" where
  "ref_merge b a c =
     c\<lparr>Labels := (\<lambda>k. pick (Labels b k) (Labels a k) (Labels c k)),
       Annotations := (\<lambda>k. pick (Annotations b k) (Annotations a k) (Annotations c k)),
       HostSpec := \<lparr>BootstrapSecret =
           pick (BootstrapSecret (HostSpec b)) (BootstrapSecret (HostSpec a)) (BootstrapSecret (HostSpec c)),
         InstallationSecret =
           pick (InstallationSecret (HostSpec b)) (InstallationSecret (HostSpec a)) (InstallationSecret (HostSpec c)),
         UninstallationSecret =
           pick (UninstallationSecret (HostSpec b)) (UninstallationSecret (HostSpec a)) (UninstallationSecret (HostSpec c))\<rparr>,
       HostStatus := (HostStatus c)
         \<lparr>MachineRef := pick (MachineRef (HostStatus b)) (MachineRef (HostStatus a)) (MachineRef (HostStatus c)),
          host_Conditions := pick (host_Conditions (HostStatus b)) (host_Conditions (HostStatus a)) (host_Conditions (HostStatus c)),
          HostDetails := pick (HostDetails (HostStatus b)) (HostDetails (HostStatus a)) (HostDetails (HostStatus c)),
          Network := pick (Network (HostStatus b)) (Network (HostStatus a)) (Network (HostStatus c))\<rparr>\<rparr>"

lemma ref_merge_contract: "merge_contract ref_merge"
  by (simp add: merge_contract_def ref_merge_def obj_key_def)

section \<open>Consistency of the reservation\<close>

text \<open>The part of \<open>consistent\<close> that survives delays: everything but the installation secret.\<close>

definition reservation_consistent :: "ByoHost \<Rightarrow> bool" where
  "reservation_consistent h =
     (case MachineRef (HostStatus h) of
        None \<Rightarrow> Labels h ClusterNameLabel = None \<and> Labels h AttachedByoMachineLabel = None \<and>
          Annotations h HostCleanupAnnotation = None \<and> BootstrapSecret (HostSpec h) = None
      | Some r \<Rightarrow> Labels h ClusterNameLabel \<noteq> None \<and>
          Labels h AttachedByoMachineLabel = Some (generateSafeLabelValue (ref_Namespace r) (ref_Name r)) \<and>
          ref_Namespace r = Namespace h \<and> BootstrapSecret (HostSpec h) \<noteq> None)"

lemmas delay_defs = reservation_consistent_def phase_of_def

lemma consistent_reservation: "consistent h \<Longrightarrow> reservation_consistent h"
  by (auto simp: consistent_def reservation_consistent_def split: option.splits)

lemma machine_writes_reservation:
  assumes "machine_writes m h h'" and "reservation_consistent h"
  shows "reservation_consistent h' \<and> (phase_of h' = phase_of h \<or> phase_step (phase_of h) (phase_of h'))"
  using assms
proof (induction rule: machine_writes.induct)
  case (reserve h sc ds v)
  then show ?case by (auto simp: delay_defs reserved_host_def Let_def obj_key_def ref_key_def split: option.splits)
next
  case (release h m')
  then show ?case by (auto simp: delay_defs cleanup_marked_def attached_to_def Let_def split: option.splits)
qed (auto simp: delay_defs attached_to_def split: option.splits)

text \<open>The manager ends no cleanup and changes no mark of one.\<close>

lemma machine_writes_cleaning:
  assumes "machine_writes m h h'" and "reservation_consistent h" and "phase_of h = Cleaning k"
  shows "phase_of h' = Cleaning k"
  using assms(1)
proof cases
  case reserve
  then show ?thesis using assms(2,3) by (auto simp: delay_defs split: option.splits)
qed (use assms(3) in \<open>auto simp: phase_of_def cleanup_marked_def Let_def split: option.splits if_splits\<close>)

text \<open>
  A write that keeps the labels, the mark, the bootstrap secret and the machine keeps them also when it
  is merged into another version.
\<close>

definition keeps_reservation :: "ByoHost \<Rightarrow> ByoHost \<Rightarrow> bool" where
  "keeps_reservation b a \<longleftrightarrow> Labels a ClusterNameLabel = Labels b ClusterNameLabel \<and>
     Labels a AttachedByoMachineLabel = Labels b AttachedByoMachineLabel \<and>
     Annotations a HostCleanupAnnotation = Annotations b HostCleanupAnnotation \<and>
     BootstrapSecret (HostSpec a) = BootstrapSecret (HostSpec b) \<and>
     MachineRef (HostStatus a) = MachineRef (HostStatus b) \<and> obj_key a = obj_key b"

lemma keeps_reservation_same:
  assumes "keeps_reservation c c'"
  shows "reservation_consistent c' = reservation_consistent c" "phase_of c' = phase_of c"
  using assms by (auto simp: delay_defs keeps_reservation_def obj_key_def split: option.splits)

lemma keeps_reservation_merge:
  "merge_contract M \<Longrightarrow> keeps_reservation b a \<Longrightarrow> keeps_reservation c (M b a c)"
  by (simp add: keeps_reservation_def merge_contractD)

lemma keeps_reservationI:
  "same_but_conditions b a \<Longrightarrow> keeps_reservation b a"
  "controller_writes b a \<Longrightarrow> keeps_reservation b a"
  "same_but_platform b a \<Longrightarrow> keeps_reservation b a"
  using same_but_conditionsD [of b a] same_but_platform_frame [of b a]
  by (auto simp: keeps_reservation_def controller_writes_def clear_uninstallation_def obj_key_def)

text \<open>A release that arrives at a host still in the same cleanup frees it.\<close>

lemma merged_release:
  assumes M: "merge_contract M" and b: "reservation_consistent b" "phase_of b = Cleaning k"
    and c: "reservation_consistent c" "phase_of c = Cleaning k'" and h: "same_but_conditions b h"
  shows "reservation_consistent (M b (released A h) c)" and "phase_of (M b (released A h) c) = Free"
  using b c same_but_conditionsD [OF h]
  by (auto simp: delay_defs merge_contractD [OF M] released_frame pick_def split: option.splits if_splits)

section \<open>Steps with reads in flight\<close>

text \<open>
  The stored host, and the version that the agent, the ByoHost controller and the registration have
  read for a patch they have not sent yet.  The ByoMachine controller patches what is stored.
\<close>

record flight =
  stored_host :: ByoHost
  agent_read :: "ByoHost option"
  controller_read :: "ByoHost option"
  registrar_read :: "ByoHost option"

inductive delayed_step ::
  "(ByoHost \<Rightarrow> ByoHost \<Rightarrow> ByoHost \<Rightarrow> ByoHost) \<Rightarrow> ('w, 'z) agent_scheme \<Rightarrow> flight \<Rightarrow> flight \<Rightarrow> bool" for M A where
  manager_patch: "machine_writes m (stored_host s) h \<Longrightarrow> delayed_step M A s (s\<lparr>stored_host := h\<rparr>)"
| agent_get: "delayed_step M A s (s\<lparr>agent_read := Some (stored_host s)\<rparr>)"
| agent_patch: "agent_read s = Some b \<Longrightarrow> agent_writes A b a \<Longrightarrow>
     delayed_step M A s (s\<lparr>stored_host := M b a (stored_host s), agent_read := None\<rparr>)"
| controller_get: "delayed_step M A s (s\<lparr>controller_read := Some (stored_host s)\<rparr>)"
| controller_patch: "controller_read s = Some b \<Longrightarrow> cleaned_up b \<Longrightarrow>
     delayed_step M A s (s\<lparr>stored_host := M b (clear_uninstallation b) (stored_host s), controller_read := None\<rparr>)"
| registrar_get: "delayed_step M A s (s\<lparr>registrar_read := Some (stored_host s)\<rparr>)"
| registrar_patch: "registrar_read s = Some b \<Longrightarrow> same_but_platform b a \<Longrightarrow>
     delayed_step M A s (s\<lparr>stored_host := M b a (stored_host s), registrar_read := None\<rparr>)"

definition at_rest :: "ByoHost \<Rightarrow> flight" where
  "at_rest h = \<lparr>stored_host = h, agent_read = None, controller_read = None, registrar_read = None\<rparr>"

text \<open>
  The invariant: as long as the agent works on a host that it has read in a cleanup, the stored host
  is in that cleanup.
\<close>

definition flight_ok :: "(ByoHost \<Rightarrow> ByoHost \<Rightarrow> ByoHost \<Rightarrow> ByoHost) \<Rightarrow> flight \<Rightarrow> bool" where
  "flight_ok M s \<longleftrightarrow> merge_contract M \<and> reservation_consistent (stored_host s) \<and>
     (\<forall>b. agent_read s = Some b \<longrightarrow> reservation_consistent b \<and>
        (\<forall>k. phase_of b = Cleaning k \<longrightarrow> phase_of (stored_host s) = Cleaning k))"

abbreviation stored_phase :: "flight \<Rightarrow> phase" where
  "stored_phase s \<equiv> phase_of (stored_host s)"

lemma flight_ok_same:
  assumes "flight_ok M s" and "keeps_reservation (stored_host s) (stored_host t)"
    and "agent_read t = agent_read s \<or> agent_read t = None"
  shows "flight_ok M t \<and> stored_phase t = stored_phase s"
  using assms keeps_reservation_same [OF assms(2)] by (auto simp: flight_ok_def)

lemma agent_patch_release:
  assumes ok: "flight_ok M s" and b: "agent_read s = Some b" and w: "agent_writes A b a"
    and n: "\<not> keeps_reservation b a"
  obtains k where "phase_of b = Cleaning k" "stored_phase s = Cleaning k"
    "reservation_consistent (M b a (stored_host s))" "phase_of (M b a (stored_host s)) = Free"
proof -
  from w n keeps_reservationI(1) obtain h where mark: "Annotations b HostCleanupAnnotation \<noteq> None"
    and h: "same_but_conditions b h" "a = released A h" by (auto simp: agent_writes_def)
  have bc: "reservation_consistent b" using ok b by (simp add: flight_ok_def)
  then obtain k where k: "phase_of b = Cleaning k" using mark by (auto simp: delay_defs split: option.splits)
  with ok b have c: "stored_phase s = Cleaning k" "reservation_consistent (stored_host s)" "merge_contract M"
    unfolding flight_ok_def by blast+
  show thesis using that [OF k c(1)] merged_release [OF c(3) bc k c(2,1) h(1), of A] h(2) by simp
qed

lemma delayed_step_ok:
  assumes "delayed_step M A s t" and ok: "flight_ok M s"
  shows "flight_ok M t \<and> (stored_phase t = stored_phase s \<or> phase_step (stored_phase s) (stored_phase t))"
  using assms(1)
proof cases
  case (manager_patch m h)
  then show ?thesis
    using ok machine_writes_reservation [OF manager_patch(2)] machine_writes_cleaning [OF manager_patch(2)]
    by (auto simp: flight_ok_def)
next
  case (agent_patch b a)
  show ?thesis
  proof (cases "keeps_reservation b a")
    case True
    then show ?thesis using flight_ok_same [OF ok, of t] ok agent_patch
      by (auto simp: flight_ok_def keeps_reservation_merge)
  next
    case False
    then obtain k where "stored_phase s = Cleaning k" "reservation_consistent (M b a (stored_host s))"
      "phase_of (M b a (stored_host s)) = Free"
      using agent_patch_release [OF ok agent_patch(2,3)] by blast
    then show ?thesis using ok agent_patch(1) by (simp add: flight_ok_def)
  qed
next
  case (controller_patch b)
  then have "keeps_reservation b (clear_uninstallation b)"
    by (intro keeps_reservationI(2)) (simp add: controller_writes_def)
  then show ?thesis using flight_ok_same [OF ok, of t] ok controller_patch
    by (auto simp: flight_ok_def keeps_reservation_merge)
next
  case (registrar_patch b a)
  then show ?thesis using flight_ok_same [OF ok, of t] ok keeps_reservationI(3)
    by (auto simp: flight_ok_def keeps_reservation_merge)
qed (use ok in \<open>auto simp: flight_ok_def\<close>)

interpretation delayed: phase_machine "delayed_step M A" stored_phase "flight_ok M"
  for M and A :: "('w, 'z) agent_scheme"
  by unfold_locales (simp_all add: delayed_step_ok)

lemma at_rest_ok: "merge_contract M \<Longrightarrow> consistent h \<Longrightarrow> flight_ok M (at_rest h)"
  by (simp add: flight_ok_def at_rest_def consistent_reservation)

text \<open>Only a patch of the agent, computed from a host in the same cleanup, ends a cleanup.\<close>

lemma delayed_finish:
  assumes "delayed_step M A s t" and ok: "flight_ok M s" and ph: "stored_phase s = Cleaning k" "stored_phase t = Free"
  shows "\<exists>b a. agent_read s = Some b \<and> phase_of b = Cleaning k \<and> agent_writes A b a \<and>
    t = s\<lparr>stored_host := M b a (stored_host s), agent_read := None\<rparr>"
  using assms(1)
proof cases
  case (manager_patch m h)
  then show ?thesis using machine_writes_cleaning [OF manager_patch(2) _ ph(1)] ok ph by (simp add: flight_ok_def)
next
  case (agent_patch b a)
  then have "\<not> keeps_reservation b a"
    using flight_ok_same [OF ok, of t] ok ph by (auto simp: flight_ok_def keeps_reservation_merge)
  then show ?thesis using agent_patch_release [OF ok agent_patch(2,3)] agent_patch ph by fastforce
next
  case (controller_patch b)
  then have "keeps_reservation b (clear_uninstallation b)"
    by (intro keeps_reservationI(2)) (simp add: controller_writes_def)
  then show ?thesis using flight_ok_same [OF ok, of t] ok controller_patch ph
    by (auto simp: flight_ok_def keeps_reservation_merge)
next
  case (registrar_patch b a)
  then show ?thesis using flight_ok_same [OF ok, of t] ok keeps_reservationI(3) ph
    by (auto simp: flight_ok_def keeps_reservation_merge)
qed (use ph in auto)

section \<open>Reservations from a cache\<close>

text \<open>
  A client whose patches are merged into the stored host \<open>stored w\<close>, and a state in which the
  list of candidates, read from a cache, starts with \<open>h\<close>.
\<close>

definition merging_client ::
  "(ByoHost \<Rightarrow> ByoHost \<Rightarrow> ByoHost \<Rightarrow> ByoHost) \<Rightarrow> ('w \<Rightarrow> ByoHost) \<Rightarrow> ('w, 'z) machine_client_scheme \<Rightarrow> bool" where
  "merging_client M stored C \<longleftrightarrow>
     (\<forall>b a w w'. patchByoHost C b a w = (None, w') \<longrightarrow> stored w' = M b a (stored w))"

definition offers :: "('w, 'z) machine_client_scheme \<Rightarrow> ByoHost \<Rightarrow> 'w mstate \<Rightarrow> bool" where
  "offers C h st \<longleftrightarrow>
     (case (case Selector (MachineSpec (sc_ByoMachine (scope st))) of
              Some s \<Rightarrow> LabelSelectorAsSelector C s | None \<Rightarrow> Inr []) of
        Inl _ \<Rightarrow> False
      | Inr sel \<Rightarrow>
          (case listByoHosts C (sel @ [DoesNotExist ClusterNameLabel])
                  (Some (Namespace (sc_ByoMachine (scope st)))) (world st) of
             (Inr (h' # _), w) \<Rightarrow> h' = h \<and> w = world st
           | _ \<Rightarrow> False))"

abbreviation machine_key :: "'w mstate \<Rightarrow> key" where
  "machine_key st \<equiv> obj_key (sc_ByoMachine (scope st))"

lemma reserved_phase:
  assumes "merge_contract M" and "Annotations h HostCleanupAnnotation = None"
    and "Annotations c HostCleanupAnnotation = None" and "MachineRef (HostStatus h) = None"
  shows "phase_of (M h (reserved_host sc ds v h) c) = Reserved (obj_key (sc_ByoMachine sc))"
    and "Annotations (M h (reserved_host sc ds v h) c) HostCleanupAnnotation = None"
  using assms(2-4)
  by (simp_all add: phase_of_def merge_contractD [OF assms(1)] reserved_host_def Let_def ref_key_def obj_key_def)

lemma attach_offered:
  assumes "merging_client M stored C" and "sc_ByoHost (scope st) = None" and "offers C h st"
    and "attachByoHost C st = (Return (res, None), st')"
  obtains ds v where "stored (world st') = M h (reserved_host (scope st) ds v h) (stored (world st))"
  using assms that
  by (auto simp: attachByoHost_def attach_found_host_def offers_def merging_client_def put_world_def put_host_def Let_def
      split: option.splits sum.splits list.splits prod.splits outcome.splits)

section \<open>An example\<close>

text \<open>The agent reads the host before it is marked and patches it afterwards; then it reads again and cleans up.\<close>

abbreviation life_steps :: "flight \<Rightarrow> flight \<Rightarrow> bool" where
  "life_steps \<equiv> delayed_step ref_merge life_agent"

definition flight_start :: flight where
  "flight_start = at_rest (held ''m1'' life_start)"

definition flight_late :: flight where
  "flight_late = (at_rest life_marked)\<lparr>agent_read := Some (held ''m1'' life_start)\<rparr>"

definition flight_end :: flight where
  "flight_end = at_rest (held ''m2'' (ref_merge life_marked life_released life_marked))"

lemma flight_reads_early: "life_steps\<^sup>*\<^sup>* flight_start flight_late"
proof -
  let ?s = "flight_start\<lparr>agent_read := Some (stored_host flight_start)\<rparr>"
  have "life_steps flight_start ?s" by (rule agent_get)
  moreover have "machine_writes (new_machine ''default'' ''m1'' ''c1'') (stored_host ?s) life_marked"
    unfolding life_marked_def flight_start_def at_rest_def
    by (simp, rule machine_writes.release) (simp_all add: attached_to_def held_def reserved_host_Labels life_scope_def)
  then have "life_steps ?s flight_late"
    using manager_patch [of _ ?s life_marked] by (simp add: flight_late_def flight_start_def at_rest_def)
  ultimately show ?thesis by (meson rtranclp.rtrancl_into_rtrancl rtranclp.rtrancl_refl)
qed

lemma flight_patches_late: "life_steps flight_late (at_rest life_marked)"
proof -
  have "same_but_conditions (held ''m1'' life_start) (held ''m1'' life_start)"
    by (simp add: same_but_conditions_def)
  then have "agent_writes life_agent (held ''m1'' life_start) (held ''m1'' life_start)"
    unfolding agent_writes_def by blast
  moreover have "ref_merge b b c = c" for b c by (simp add: ref_merge_def)
  ultimately show ?thesis
    using agent_patch [of flight_late "held ''m1'' life_start" life_agent "held ''m1'' life_start" ref_merge]
    by (simp add: flight_late_def at_rest_def)
qed

lemma flight_cleans: "life_steps\<^sup>*\<^sup>* (at_rest life_marked) (at_rest (ref_merge life_marked life_released life_marked))"
proof -
  let ?s = "(at_rest life_marked)\<lparr>agent_read := Some life_marked\<rparr>"
  have "life_steps (at_rest life_marked) ?s"
    using agent_get [of ref_merge life_agent "at_rest life_marked"] by (simp add: at_rest_def)
  moreover have "Annotations life_marked HostCleanupAnnotation \<noteq> None" by (simp add: life_marked_def cleanup_marked_def Let_def)
  then have "agent_writes life_agent life_marked life_released"
    unfolding agent_writes_def life_released_def by (intro disjI2 conjI exI [of _ life_marked]) (simp_all add: same_but_conditions_def)
  then have "life_steps ?s (at_rest (ref_merge life_marked life_released life_marked))"
    using agent_patch [of ?s life_marked life_agent life_released ref_merge] by (simp add: at_rest_def)
  ultimately show ?thesis by (meson rtranclp.rtrancl_into_rtrancl rtranclp.rtrancl_refl)
qed

lemma flight_held_again: "life_steps (at_rest (ref_merge life_marked life_released life_marked)) flight_end"
proof -
  let ?h = "ref_merge life_marked life_released life_marked"
  have "Labels ?h ClusterNameLabel = None" "Namespace ?h = ''default''" by code_simp+
  then have "machine_writes (new_machine ''default'' ''m2'' ''c1'') ?h (held ''m2'' ?h)"
    unfolding held_def by (intro machine_writes.reserve) (simp_all add: life_scope_def life_keys)
  then show ?thesis using manager_patch [of _ "at_rest ?h"] by (simp add: at_rest_def flight_end_def)
qed

lemma flight_run: "life_steps\<^sup>*\<^sup>* flight_start flight_end"
  using flight_reads_early flight_patches_late flight_cleans flight_held_again
  by (meson rtranclp.rtrancl_into_rtrancl rtranclp_trans)

lemma flight_phases:
  "stored_phase flight_start = Reserved (''default'', ''m1'')" "stored_phase flight_end = Reserved (''default'', ''m2'')"
  by code_simp+

text \<open>Two machines that see the same free host in the cache.\<close>

definition cached_client :: "ByoHost \<Rightarrow> machine_world machine_client" where
  "cached_client h = ref_machine_client
     \<lparr>listByoHosts := (\<lambda>sel ns w. (Inr (if sel_matches sel (Labels h) \<and> (\<forall>n \<in> set_option ns. Namespace h = n) then [h] else []), w)),
      patchByoHost := (\<lambda>b a w. (None, w\<lparr>rw_hosts := [ref_merge b a (hd (rw_hosts w))]\<rparr>))\<rparr>"

definition race_state :: "string \<Rightarrow> machine_world \<Rightarrow> machine_world mstate" where
  "race_state n w = \<lparr>scope = life_scope n, world = w, events = []\<rparr>"

definition race_world :: machine_world where
  "race_world = ex_world\<lparr>rw_hosts := [life_start]\<rparr>"

definition race_first :: "machine_world mstate" where
  "race_first = snd (attachByoHost (cached_client life_start) (race_state ''m1'' race_world))"

definition race_second :: "machine_world mstate" where
  "race_second = snd (attachByoHost (cached_client life_start) (race_state ''m2'' (world race_first)))"

section \<open>Properties\<close>

text \<open>
  C4. The delay between a read and its patch does no harm to a reservation.  Let the agent, the ByoHost
  controller and the registration patch a host long after they have read it, while the
  ByoMachine controller patches it as it is stored: a host is still never held for another
  machine before the agent has cleaned it up.  In between there was a patch of the agent that freed
  the host, and the agent had computed it from a host in the cleanup of the first machine.  It
  relies on patches being merged field by field.
\<close>

theorem delayed_patches_no_handover:
  assumes "merge_contract M" and "host_reachable A h" and "phase_of h = Reserved k"
    and "(delayed_step M A)\<^sup>*\<^sup>* (at_rest h) s" and "stored_phase s \<in> {Reserved k', Cleaning k'}" and "k' \<noteq> k"
  shows "\<exists>t b a. (delayed_step M A)\<^sup>*\<^sup>* (at_rest h) t \<and> stored_phase t = Cleaning k \<and>
    agent_read t = Some b \<and> phase_of b = Cleaning k \<and> agent_writes A b a \<and> phase_of (M b a (stored_host t)) = Free \<and>
    (delayed_step M A)\<^sup>*\<^sup>* (t\<lparr>stored_host := M b a (stored_host t), agent_read := None\<rparr>) s"
proof -
  have ok: "flight_ok M (at_rest h)" using at_rest_ok [OF assms(1) reachable_consistent [OF assms(2)]] .
  have "stored_phase (at_rest h) = Reserved k" using assms(3) by (simp add: at_rest_def)
  then obtain t u where tu: "(delayed_step M A)\<^sup>*\<^sup>* (at_rest h) t" "flight_ok M t" "stored_phase t = Cleaning k"
      "delayed_step M A t u" "stored_phase u = Free" "(delayed_step M A)\<^sup>*\<^sup>* u s"
    using delayed.handover_cleans [OF ok _ assms(4-6)] by blast
  obtain b a where "agent_read t = Some b" "phase_of b = Cleaning k" "agent_writes A b a"
      "u = t\<lparr>stored_host := M b a (stored_host t), agent_read := None\<rparr>"
    using delayed_finish [OF tu(4,2,3,5)] by blast
  with tu show ?thesis by (intro exI [of _ t] exI [of _ b] exI [of _ a]) simp
qed

theorem delayed_patches_no_handover_witness:
  "\<exists>t b a. life_steps\<^sup>*\<^sup>* flight_start t \<and> agent_read t = Some b \<and> phase_of b = Cleaning (''default'', ''m1'') \<and>
     phase_of (ref_merge b a (stored_host t)) = Free"
  using delayed_patches_no_handover [where A = life_agent and s = flight_end and k' = "(''default'', ''m2'')",
      OF ref_merge_contract life_reachable(2) life_phases(1)] flight_run flight_phases(2)
  unfolding flight_start_def by auto



end
