(* ===== verification/Installer_Scripts.thy ===== *)
theory Installer_Scripts
  imports Installer
begin

text \<open>
  The two scripts of the installer: the templates under
  \<open>installer/internal/algo/ubuntu-templates/\<close>, line by line, and what Go's \<open>html/template\<close> makes of
  them.  The engine is modelled on the actions that these templates use, \<open>{{.Field}}\<close> and
  \<open>{{if not .Field}}...{{end}}\<close>; another action is refused.  In text without \<open><\<close> the
  engine stays in the context of HTML text, in which it writes the text as it is and escapes the fields.
\<close>

section \<open>The engine\<close>

text \<open>The text before and after the first occurrence of a delimiter of two characters.\<close>

fun cut2 :: "char \<Rightarrow> char \<Rightarrow> string \<Rightarrow> (string \<times> string) option" where
  "cut2 a b (x # y # s) =
     (if x = a \<and> y = b then Some ([], s)
      else (case cut2 a b (y # s) of None \<Rightarrow> None | Some (u, v) \<Rightarrow> Some (x # u, v)))"
| "cut2 a b _ = None"

lemma cut2_shorter: "cut2 a b s = Some (u, v) \<Longrightarrow> length v < length s"
  by (induction a b s arbitrary: u v rule: cut2.induct) (force split: if_splits option.splits)+

datatype item = Lit string | Action string

function (sequential) lex :: "string \<Rightarrow> item list option" where
  "lex s =
     (case cut2 CHR ''{'' CHR ''{'' s of
        None \<Rightarrow> Some [Lit s]
      | Some (t, r) \<Rightarrow>
          (case cut2 CHR ''}'' CHR ''}'' r of
             None \<Rightarrow> None
           | Some (a, r') \<Rightarrow>
               (case lex r' of None \<Rightarrow> None | Some its \<Rightarrow> Some (Lit t # Action (TrimSpace a) # its))))"
  by pat_completeness auto
termination by (relation "measure length") (auto dest!: cut2_shorter)

datatype node = TextNode string | FieldNode string | IfNotNode string "node list"

text \<open>The nodes read so far and, innermost first, the open conditionals with the nodes before them.\<close>

fun parse_items :: "item list \<Rightarrow> node list \<Rightarrow> (string \<times> node list) list \<Rightarrow> node list option" where
  "parse_items [] ns [] = Some ns"
| "parse_items [] ns (_ # _) = None"
| "parse_items (Lit t # its) ns opened = parse_items its (ns @ [TextNode t]) opened"
| "parse_items (Action a # its) ns opened =
     (if a = ''end'' then
        (case opened of [] \<Rightarrow> None | (c, outer) # opened' \<Rightarrow> parse_items its (outer @ [IfNotNode c ns]) opened')
      else if take 8 a = ''if not .'' then parse_items its [] ((drop 8 a, ns) # opened)
      else if take 1 a = ''.'' then parse_items its (ns @ [FieldNode (drop 1 a)]) opened
      else None)"

definition Parse :: "string \<Rightarrow> node list option" where
  "Parse s = (case lex s of None \<Rightarrow> None | Some its \<Rightarrow> parse_items its [] [])"

text \<open>\<open>htmlReplacementTable\<close>.\<close>

definition html_char :: "char \<Rightarrow> string" where
  "html_char c =
     (if c = CHR 0x22 then ''&#34;'' else if c = CHR ''&'' then ''&amp;'' else if c = CHR 0x27 then ''&#39;''
      else if c = CHR ''+'' then ''&#43;'' else if c = CHR ''<'' then ''&lt;'' else if c = CHR ''>'' then ''&gt;''
      else if c = CHR 0x00 then [CHR 0xEF, CHR 0xBF, CHR 0xBD] else [c])"

definition htmlEscape :: "string \<Rightarrow> string" where
  "htmlEscape s = concat (map html_char s)"

fun stringify :: "tvalue option \<Rightarrow> string" where
  "stringify (Some (TStr s)) = s"
| "stringify (Some (TBool b)) = (if b then ''true'' else ''false'')"
| "stringify None = []"

fun truth :: "tvalue option \<Rightarrow> bool" where
  "truth (Some (TStr s)) = (s \<noteq> [])"
| "truth (Some (TBool b)) = b"
| "truth None = False"

fun exec_node :: "(string \<rightharpoonup> tvalue) \<Rightarrow> node \<Rightarrow> string" where
  "exec_node d (TextNode t) = t"
| "exec_node d (FieldNode f) = htmlEscape (stringify (d f))"
| "exec_node d (IfNotNode f ns) = (if truth (d f) then [] else concat (map (exec_node d) ns))"

fun in_text :: "node \<Rightarrow> bool" where
  "in_text (TextNode t) = (CHR ''<'' \<notin> set t)"
| "in_text (FieldNode f) = True"
| "in_text (IfNotNode f ns) = list_all in_text ns"

definition template_Execute :: "string \<Rightarrow> (string \<rightharpoonup> tvalue) \<Rightarrow> string option" where
  "template_Execute s d =
     (case Parse s of
        None \<Rightarrow> None
      | Some ns \<Rightarrow> if list_all in_text ns then Some (concat (map (exec_node d) ns)) else None)"

section \<open>The templates\<close>

definition unlines :: "string list \<Rightarrow> string" where
  "unlines ls = concat (map (\<lambda>l. l @ [CHR 0x0A]) ls)"

definition install_lines :: "string list" where
  "install_lines =
    [''set -euox pipefail'',
     [],
     ''BUNDLE_DOWNLOAD_PATH={{.BundleDownloadPath}}'',
     ''BUNDLE_ADDR={{.BundleAddrs}}'',
     ''IMGPKG_VERSION={{.ImgpkgVersion}}'',
     ''ARCH={{.Arch}}'',
     ''BUNDLE_PATH=$BUNDLE_DOWNLOAD_PATH/$BUNDLE_ADDR'',
     [],
     ''if ! command -v imgpkg >>/dev/null; then'',
     ''    echo '' @ [CHR 0x22] @ ''installing imgpkg'' @ [CHR 0x22] @ [CHR 0x09],
     ''    '',
     ''    if command -v wget >>/dev/null; then'',
     ''        dl_bin='' @ [CHR 0x22] @ ''wget -nv -O-'' @ [CHR 0x22],
     ''    elif command -v curl >>/dev/null; then'',
     ''        dl_bin='' @ [CHR 0x22] @ ''curl -s -L'' @ [CHR 0x22],
     ''    else'',
     ''        echo '' @ [CHR 0x22] @ ''installing curl'' @ [CHR 0x22],
     ''        apt-get install -y curl'',
     ''        dl_bin='' @ [CHR 0x22] @ ''curl -s -L'' @ [CHR 0x22],
     ''    fi'',
     ''    '',
     ''    $dl_bin github.com/vmware-tanzu/carvel-imgpkg/releases/download/$IMGPKG_VERSION/imgpkg-linux-$ARCH > /tmp/imgpkg'',
     ''    mv /tmp/imgpkg /usr/local/bin/imgpkg'',
     ''    chmod +x /usr/local/bin/imgpkg'',
     ''fi'',
     [],
     ''echo '' @ [CHR 0x22] @ ''downloading bundle'' @ [CHR 0x22],
     ''mkdir -p $BUNDLE_PATH'',
     ''imgpkg pull -i $BUNDLE_ADDR -o $BUNDLE_PATH'',
     [],
     ''## disable swap'',
     ''swapoff -a && sed -ri '' @ [CHR 0x27] @ ''/'' @ [CHR 0x5C] @ ''sswap'' @ [CHR 0x5C] @ ''s/s/^#?/#/'' @ [CHR 0x27] @ '' /etc/fstab'',
     [],
     ''## disable firewall, save current state so uninstall can restore it'',
     ''if command -v ufw >>/dev/null; then'',
     ''    mkdir -p /var/lib/byoh'',
     ''    if [ ! -f /var/lib/byoh/ufw-state ]; then'',
     ''        ufw status | grep -q '' @ [CHR 0x22] @ ''Status: active'' @ [CHR 0x22] @ '' && echo '' @ [CHR 0x22] @ ''active'' @ [CHR 0x22] @ '' > /var/lib/byoh/ufw-state || echo '' @ [CHR 0x22] @ ''inactive'' @ [CHR 0x22] @ '' > /var/lib/byoh/ufw-state'',
     ''    fi'',
     ''    ufw disable'',
     ''fi'',
     [],
     ''## load kernal modules'',
     ''modprobe overlay && modprobe br_netfilter'',
     [],
     ''## adding os configuration'',
     ''tar -C / -xvf '' @ [CHR 0x22] @ ''$BUNDLE_PATH/conf.tar'' @ [CHR 0x22] @ '' && sysctl --system '',
     [],
     ''## installing deb packages'',
     ''for pkg in cri-tools kubernetes-cni kubectl kubelet kubeadm; do'',
     ''    dpkg --install '' @ [CHR 0x22] @ ''$BUNDLE_PATH/$pkg.deb'' @ [CHR 0x22] @ '' && apt-mark hold $pkg'',
     ''done'',
     [],
     ''## intalling containerd'',
     ''tar -C / -xvf '' @ [CHR 0x22] @ ''$BUNDLE_PATH/containerd.tar'' @ [CHR 0x22],
     ''mkdir -p /etc/containerd'',
     ''containerd config default > /etc/containerd/config.toml'',
     ''{{.ContainerdConfig}}'',
     [],
     ''# remove cri as a disabled plugins from containerd config'',
     ''sed -i '' @ [CHR 0x27] @ ''s/^disabled_plugins = '' @ [CHR 0x5C] @ ''['' @ [CHR 0x22] @ ''cri'' @ [CHR 0x22] @ [CHR 0x5C] @ '']/disabled_plugins = '' @ [CHR 0x5C] @ ''['' @ [CHR 0x5C] @ '']/'' @ [CHR 0x27] @ '' /etc/containerd/config.toml'',
     [],
     ''## starting containerd service'',
     ''systemctl daemon-reload && systemctl enable containerd && systemctl restart containerd'',
     [],
     ''echo '' @ [CHR 0x22] @ ''Installation complete!'' @ [CHR 0x22]]"

definition uninstall_lines :: "string list" where
  "uninstall_lines =
    [''set -euox pipefail'',
     [],
     ''BUNDLE_DOWNLOAD_PATH={{.BundleDownloadPath}}'',
     ''BUNDLE_ADDR={{.BundleAddrs}}'',
     ''BUNDLE_PATH=$BUNDLE_DOWNLOAD_PATH/$BUNDLE_ADDR'',
     [],
     ''## disabling containerd service'',
     ''systemctl stop containerd && systemctl disable containerd && systemctl daemon-reload'',
     [],
     ''## removing containerd configurations and cni plugins'',
     ''rm -rf /opt/cni/ && rm -rf /opt/containerd/ '',
     ''if [ -f '' @ [CHR 0x22] @ ''$BUNDLE_PATH/containerd.tar'' @ [CHR 0x22] @ '' ]; then'',
     ''  tar tf '' @ [CHR 0x22] @ ''$BUNDLE_PATH/containerd.tar'' @ [CHR 0x22] @ '' | xargs -n 1 echo '' @ [CHR 0x27] @ ''/'' @ [CHR 0x27] @ '' | sed '' @ [CHR 0x27] @ ''s/ //g'' @ [CHR 0x27] @ ''  | grep -e '' @ [CHR 0x27] @ ''[^/]$'' @ [CHR 0x27] @ '' | xargs rm -f'',
     ''fi'',
     [],
     ''## removing deb packages'',
     ''for pkg in kubeadm kubelet kubectl kubernetes-cni cri-tools; do'',
     ''    dpkg -l $pkg &>/dev/null && dpkg --purge $pkg || echo '' @ [CHR 0x22] @ ''Package $pkg not installed'' @ [CHR 0x22],
     ''done'',
     [],
     ''## removing os configuration'',
     ''if [ -f '' @ [CHR 0x22] @ ''$BUNDLE_PATH/conf.tar'' @ [CHR 0x22] @ '' ]; then'',
     ''    tar tf '' @ [CHR 0x22] @ ''$BUNDLE_PATH/conf.tar'' @ [CHR 0x22] @ '' | xargs -n 1 echo '' @ [CHR 0x27] @ ''/'' @ [CHR 0x27] @ '' | sed '' @ [CHR 0x27] @ ''s/ //g'' @ [CHR 0x27] @ '' | grep -e '' @ [CHR 0x22] @ ''[^/]$'' @ [CHR 0x22] @ '' | xargs rm -f'',
     ''else'',
     ''    echo '' @ [CHR 0x22] @ ''Warning: conf.tar not found, skipping OS configuration removal'' @ [CHR 0x22],
     ''fi'',
     [],
     ''## remove kernel modules'',
     ''{{if not .SkipKernelModuleCleanup}}modprobe -rq overlay || true && modprobe -r br_netfilter || true{{end}}'',
     [],
     ''## restore firewall to its pre-install state'',
     ''if command -v ufw >>/dev/null; then'',
     ''    if [ -f /var/lib/byoh/ufw-state ] && grep -qx '' @ [CHR 0x22] @ ''active'' @ [CHR 0x22] @ '' /var/lib/byoh/ufw-state; then'',
     ''        ufw enable'',
     ''    fi'',
     ''    rm -f /var/lib/byoh/ufw-state'',
     ''fi'',
     [],
     ''## enable swap'',
     ''swapon -a && sed -ri '' @ [CHR 0x27] @ ''/'' @ [CHR 0x5C] @ ''sswap'' @ [CHR 0x5C] @ ''s/s/^#?//'' @ [CHR 0x27] @ '' /etc/fstab'',
     [],
     ''rm -rf $BUNDLE_PATH'']"

definition commonUbuntuInstallTemplate :: string where
  "commonUbuntuInstallTemplate = unlines install_lines"

definition commonUbuntuUninstallTemplate :: string where
  "commonUbuntuUninstallTemplate = unlines uninstall_lines"

text \<open>The templates the program is built with, and the engine that renders them.\<close>

definition embedded_templates :: templates where
  "embedded_templates =
     \<lparr>installTemplate = commonUbuntuInstallTemplate, uninstallTemplate = commonUbuntuUninstallTemplate,
      parseTemplate = (\<lambda>t. if Parse t = None then Some (ErrorString ''bad template'') else None),
      executeTemplate = (\<lambda>t d. case template_Execute t d of
         None \<Rightarrow> Inl (ErrorString ''bad template'') | Some s \<Rightarrow> Inr s)\<rparr>"


section \<open>The nodes of the templates\<close>

definition install_nodes :: "node list" where
  "install_nodes =
     [TextNode (unlines (take 2 install_lines) @ ''BUNDLE_DOWNLOAD_PATH=''), FieldNode ''BundleDownloadPath'',
      TextNode (CHR 0x0A # ''BUNDLE_ADDR=''), FieldNode ''BundleAddrs'',
      TextNode (CHR 0x0A # ''IMGPKG_VERSION=''), FieldNode ''ImgpkgVersion'',
      TextNode (CHR 0x0A # ''ARCH=''), FieldNode ''Arch'',
      TextNode (CHR 0x0A # unlines (drop 6 (take 57 install_lines))), FieldNode ''ContainerdConfig'',
      TextNode (CHR 0x0A # unlines (drop 58 install_lines))]"

definition uninstall_nodes :: "node list" where
  "uninstall_nodes =
     [TextNode (unlines (take 2 uninstall_lines) @ ''BUNDLE_DOWNLOAD_PATH=''), FieldNode ''BundleDownloadPath'',
      TextNode (CHR 0x0A # ''BUNDLE_ADDR=''), FieldNode ''BundleAddrs'',
      TextNode (CHR 0x0A # unlines (drop 4 (take 28 uninstall_lines))),
      IfNotNode ''SkipKernelModuleCleanup''
        [TextNode ''modprobe -rq overlay || true && modprobe -r br_netfilter || true''],
      TextNode (CHR 0x0A # unlines (drop 29 uninstall_lines))]"

lemma unlines_simps [simp]: "unlines [] = []" "unlines (l # ls) = l @ CHR 0x0A # unlines ls"
    "unlines (ls @ ls') = unlines ls @ unlines ls'"
  by (simp_all add: unlines_def)

lemma cut2_none: "a \<notin> set s \<Longrightarrow> cut2 a a s = None"
  by (induction a a s rule: cut2.induct) auto

lemma cut2_found: "a \<notin> set u \<Longrightarrow> cut2 a a (u @ a # a # v) = Some (u, v)"
proof (induction u)
  case (Cons x u)
  then show ?case by (cases u) auto
qed simp

declare lex.simps [simp del]

lemma lex_last: "CHR ''{'' \<notin> set t \<Longrightarrow> lex t = Some [Lit t]"
  by (simp add: lex.simps [of t] cut2_none)

lemma lex_action:
  assumes "CHR ''{'' \<notin> set t" and "CHR ''}'' \<notin> set a" and "lex r = Some its"
  shows "lex (t @ CHR ''{'' # CHR ''{'' # a @ CHR ''}'' # CHR ''}'' # r) = Some (Lit t # Action (TrimSpace a) # its)"
  using assms by (subst lex.simps) (simp add: cut2_found)

lemma install_template_eq:
  "commonUbuntuInstallTemplate =
     (unlines (take 2 install_lines) @ ''BUNDLE_DOWNLOAD_PATH='') @ CHR ''{'' # CHR ''{'' # ''.BundleDownloadPath'' @ CHR ''}'' # CHR ''}'' #
     (CHR 0x0A # ''BUNDLE_ADDR='') @ CHR ''{'' # CHR ''{'' # ''.BundleAddrs'' @ CHR ''}'' # CHR ''}'' #
     (CHR 0x0A # ''IMGPKG_VERSION='') @ CHR ''{'' # CHR ''{'' # ''.ImgpkgVersion'' @ CHR ''}'' # CHR ''}'' #
     (CHR 0x0A # ''ARCH='') @ CHR ''{'' # CHR ''{'' # ''.Arch'' @ CHR ''}'' # CHR ''}'' #
     (CHR 0x0A # unlines (drop 6 (take 57 install_lines))) @ CHR ''{'' # CHR ''{'' # ''.ContainerdConfig'' @ CHR ''}'' # CHR ''}'' #
     CHR 0x0A # unlines (drop 58 install_lines)"
proof -
  have "install_lines = take 2 install_lines @
      [''BUNDLE_DOWNLOAD_PATH={{.BundleDownloadPath}}'', ''BUNDLE_ADDR={{.BundleAddrs}}'',
       ''IMGPKG_VERSION={{.ImgpkgVersion}}'', ''ARCH={{.Arch}}''] @
      drop 6 (take 57 install_lines) @ [''{{.ContainerdConfig}}''] @ drop 58 install_lines"
    by (simp add: install_lines_def)
  then have "commonUbuntuInstallTemplate = unlines (take 2 install_lines @
      [''BUNDLE_DOWNLOAD_PATH={{.BundleDownloadPath}}'', ''BUNDLE_ADDR={{.BundleAddrs}}'',
       ''IMGPKG_VERSION={{.ImgpkgVersion}}'', ''ARCH={{.Arch}}''] @
      drop 6 (take 57 install_lines) @ [''{{.ContainerdConfig}}''] @ drop 58 install_lines)"
    unfolding commonUbuntuInstallTemplate_def by (rule arg_cong)
  then show ?thesis by (simp del: take_Cons_numeral drop_Cons_numeral)
qed

lemma uninstall_template_eq:
  "commonUbuntuUninstallTemplate =
     (unlines (take 2 uninstall_lines) @ ''BUNDLE_DOWNLOAD_PATH='') @ CHR ''{'' # CHR ''{'' # ''.BundleDownloadPath'' @ CHR ''}'' # CHR ''}'' #
     (CHR 0x0A # ''BUNDLE_ADDR='') @ CHR ''{'' # CHR ''{'' # ''.BundleAddrs'' @ CHR ''}'' # CHR ''}'' #
     (CHR 0x0A # unlines (drop 4 (take 28 uninstall_lines))) @
       CHR ''{'' # CHR ''{'' # ''if not .SkipKernelModuleCleanup'' @ CHR ''}'' # CHR ''}'' #
     ''modprobe -rq overlay || true && modprobe -r br_netfilter || true'' @ CHR ''{'' # CHR ''{'' # ''end'' @ CHR ''}'' # CHR ''}'' #
     CHR 0x0A # unlines (drop 29 uninstall_lines)"
proof -
  have "uninstall_lines = take 2 uninstall_lines @
      [''BUNDLE_DOWNLOAD_PATH={{.BundleDownloadPath}}'', ''BUNDLE_ADDR={{.BundleAddrs}}''] @
      drop 4 (take 28 uninstall_lines) @
      [''{{if not .SkipKernelModuleCleanup}}modprobe -rq overlay || true && modprobe -r br_netfilter || true{{end}}''] @
      drop 29 uninstall_lines"
    by (simp add: uninstall_lines_def)
  then have "commonUbuntuUninstallTemplate = unlines (take 2 uninstall_lines @
      [''BUNDLE_DOWNLOAD_PATH={{.BundleDownloadPath}}'', ''BUNDLE_ADDR={{.BundleAddrs}}''] @
      drop 4 (take 28 uninstall_lines) @
      [''{{if not .SkipKernelModuleCleanup}}modprobe -rq overlay || true && modprobe -r br_netfilter || true{{end}}''] @
      drop 29 uninstall_lines)"
    unfolding commonUbuntuUninstallTemplate_def by (rule arg_cong)
  then show ?thesis by (simp del: take_Cons_numeral drop_Cons_numeral)
qed

lemma no_braces:
  "CHR ''{'' \<notin> set (unlines (take 2 install_lines))" "CHR ''{'' \<notin> set (unlines (drop 6 (take 57 install_lines)))"
  "CHR ''{'' \<notin> set (unlines (drop 58 install_lines))" "CHR ''{'' \<notin> set (unlines (take 2 uninstall_lines))"
  "CHR ''{'' \<notin> set (unlines (drop 4 (take 28 uninstall_lines)))" "CHR ''{'' \<notin> set (unlines (drop 29 uninstall_lines))"
  by (simp_all add: install_lines_def uninstall_lines_def)

lemma trimmed_actions:
  "TrimSpace ''.BundleDownloadPath'' = ''.BundleDownloadPath''" "TrimSpace ''.BundleAddrs'' = ''.BundleAddrs''"
  "TrimSpace ''.ImgpkgVersion'' = ''.ImgpkgVersion''" "TrimSpace ''.Arch'' = ''.Arch''"
  "TrimSpace ''.ContainerdConfig'' = ''.ContainerdConfig''"
  "TrimSpace ''if not .SkipKernelModuleCleanup'' = ''if not .SkipKernelModuleCleanup''" "TrimSpace ''end'' = ''end''"
  by code_simp+

lemma parse_install: "Parse commonUbuntuInstallTemplate = Some install_nodes"
proof -
  have "lex commonUbuntuInstallTemplate = Some
     [Lit (unlines (take 2 install_lines) @ ''BUNDLE_DOWNLOAD_PATH=''), Action (TrimSpace ''.BundleDownloadPath''),
      Lit (CHR 0x0A # ''BUNDLE_ADDR=''), Action (TrimSpace ''.BundleAddrs''),
      Lit (CHR 0x0A # ''IMGPKG_VERSION=''), Action (TrimSpace ''.ImgpkgVersion''),
      Lit (CHR 0x0A # ''ARCH=''), Action (TrimSpace ''.Arch''),
      Lit (CHR 0x0A # unlines (drop 6 (take 57 install_lines))), Action (TrimSpace ''.ContainerdConfig''),
      Lit (CHR 0x0A # unlines (drop 58 install_lines))]"
    unfolding install_template_eq by (intro lex_action lex_last) (simp_all add: no_braces)
  then show ?thesis by (simp add: Parse_def install_nodes_def trimmed_actions)
qed

lemma parse_uninstall: "Parse commonUbuntuUninstallTemplate = Some uninstall_nodes"
proof -
  have "lex commonUbuntuUninstallTemplate = Some
     [Lit (unlines (take 2 uninstall_lines) @ ''BUNDLE_DOWNLOAD_PATH=''), Action (TrimSpace ''.BundleDownloadPath''),
      Lit (CHR 0x0A # ''BUNDLE_ADDR=''), Action (TrimSpace ''.BundleAddrs''),
      Lit (CHR 0x0A # unlines (drop 4 (take 28 uninstall_lines))), Action (TrimSpace ''if not .SkipKernelModuleCleanup''),
      Lit ''modprobe -rq overlay || true && modprobe -r br_netfilter || true'', Action (TrimSpace ''end''),
      Lit (CHR 0x0A # unlines (drop 29 uninstall_lines))]"
    unfolding uninstall_template_eq by (intro lex_action lex_last) (simp_all add: no_braces)
  then show ?thesis by (simp add: Parse_def uninstall_nodes_def trimmed_actions)
qed

lemma nodes_in_text: "list_all in_text install_nodes" "list_all in_text uninstall_nodes"
  by (simp_all add: install_nodes_def uninstall_nodes_def install_lines_def uninstall_lines_def)

section \<open>The scripts\<close>

text \<open>The lines of the scripts for given values, as they are written after escaping.\<close>

definition install_script :: "string \<Rightarrow> string \<Rightarrow> string \<Rightarrow> string list" where
  "install_script arch addrs cfg = install_lines
     [2 := ''BUNDLE_DOWNLOAD_PATH=/var/lib/byoh/bundles'', 3 := ''BUNDLE_ADDR='' @ addrs, 4 := ''IMGPKG_VERSION=v0.36.4'',
      5 := ''ARCH='' @ arch, 57 := cfg]"

definition uninstall_script :: "string \<Rightarrow> bool \<Rightarrow> string list" where
  "uninstall_script addrs skip = uninstall_lines
     [2 := ''BUNDLE_DOWNLOAD_PATH=/var/lib/byoh/bundles'', 3 := ''BUNDLE_ADDR='' @ addrs,
      28 := (if skip then [] else ''modprobe -rq overlay || true && modprobe -r br_netfilter || true'')]"

lemma install_script_parts:
  "install_script arch addrs cfg = take 2 install_lines @
     [''BUNDLE_DOWNLOAD_PATH=/var/lib/byoh/bundles'', ''BUNDLE_ADDR='' @ addrs, ''IMGPKG_VERSION=v0.36.4'', ''ARCH='' @ arch] @
     drop 6 (take 57 install_lines) @ [cfg] @ drop 58 install_lines"
  by (simp add: install_script_def install_lines_def)

lemma uninstall_script_parts:
  "uninstall_script addrs skip = take 2 uninstall_lines @
     [''BUNDLE_DOWNLOAD_PATH=/var/lib/byoh/bundles'', ''BUNDLE_ADDR='' @ addrs] @ drop 4 (take 28 uninstall_lines) @
     [if skip then [] else ''modprobe -rq overlay || true && modprobe -r br_netfilter || true''] @ drop 29 uninstall_lines"
  by (simp add: uninstall_script_def uninstall_lines_def)

lemma execute_install:
  "template_Execute commonUbuntuInstallTemplate (installer_data arch addrs cfg skip) =
     Some (unlines (install_script (htmlEscape arch) (htmlEscape addrs) (htmlEscape cfg)))"
proof -
  have "htmlEscape ''/var/lib/byoh/bundles'' = ''/var/lib/byoh/bundles''" "htmlEscape ''v0.36.4'' = ''v0.36.4''" by code_simp+
  then show ?thesis unfolding install_script_parts
    by (simp add: template_Execute_def parse_install nodes_in_text, simp add: install_nodes_def installer_data_def ImgpkgVersion_def)
qed

lemma execute_uninstall:
  "template_Execute commonUbuntuUninstallTemplate (installer_data arch addrs cfg skip) =
     Some (unlines (uninstall_script (htmlEscape addrs) skip))"
proof -
  have "htmlEscape ''/var/lib/byoh/bundles'' = ''/var/lib/byoh/bundles''" by code_simp
  then show ?thesis unfolding uninstall_script_parts
    by (simp add: template_Execute_def parse_uninstall nodes_in_text, simp add: uninstall_nodes_def installer_data_def)
qed

lemma htmlEscape_plain:
  "list_all (\<lambda>c. c \<notin> set [CHR 0x22, CHR ''&'', CHR 0x27, CHR ''+'', CHR ''<'', CHR ''>'', CHR 0x00]) s \<Longrightarrow> htmlEscape s = s"
  by (induction s) (simp_all add: htmlEscape_def html_char_def)

lemma escaped_settings: "htmlEscape [] = []" "htmlEscape systemdCgroupConfig = systemdCgroupConfig"
  by (simp add: htmlEscape_def, code_simp)

lemma embedded_base:
  "NewBaseUbuntuInstaller embedded_templates arch addrs cfg skip =
     Inr \<lparr>base_install = unlines (install_script (htmlEscape arch) (htmlEscape addrs) (htmlEscape cfg)),
          base_uninstall = unlines (uninstall_script (htmlEscape addrs) skip)\<rparr>"
proof -
  have "commonUbuntuInstallTemplate \<noteq> []" "commonUbuntuUninstallTemplate \<noteq> []"
    unfolding install_template_eq uninstall_template_eq by simp_all
  then show ?thesis
    by (simp add: NewBaseUbuntuInstaller_def embedded_templates_def parse_install parse_uninstall
        execute_install execute_uninstall Let_def)
qed

section \<open>Properties\<close>

text \<open>
  C25. The scripts that the built program makes for a host.  Ubuntu 20.04 and 22.04 images get the
  lines of the two templates with the values filled in, on Ubuntu 22.04 with the command that turns
  on the systemd cgroup driver, and with the kernel-module line unless it is to be skipped; no template
  error is possible, and every other image is refused.  The architecture and the bundle's address
  are written after HTML escaping.
\<close>

theorem embedded_installer_scripts:
  "NewInstaller embedded_templates osDist arch k8sVersion d skip = Return
     (let script = \<lambda>bundle cfg. let addrs = htmlEscape (GetBundleAddr d bundle k8sVersion) in
            \<lparr>base_install = unlines (install_script (htmlEscape arch) addrs cfg),
             base_uninstall = unlines (uninstall_script addrs skip)\<rparr>
      in if is_20_04 (os_arch osDist arch) then Inr (Ubuntu20_04Installer (script linuxDistro20_04 []))
         else if is_22_04 (os_arch osDist arch) then Inr (Ubuntu22_04Installer (script linuxDistro22_04 systemdCgroupConfig))
         else Inl ErrOsK8sNotSupported)"
  by (simp add: NewInstaller_by_os wrap_installer_def NewUbuntu20_04Installer_def NewUbuntu22_04Installer_def
      embedded_base escaped_settings Let_def)

text \<open>A plus sign in the address of a bundle does not reach the script.\<close>

lemma plus_is_escaped: "htmlEscape ''v1.31.2+k3s1'' = ''v1.31.2&#43;k3s1''"
  by code_simp

end
