(* ===== verification/Manager_Main.thy ===== *)
theory Manager_Main
  imports Host_Lifecycle InstallerConfig_Ctl Installer_Scripts ByoCluster_Ctl ByoAdmission_Ctl
begin

text \<open>
  How the controllers are wired: what each \<open>SetupWithManager\<close> watches, which requests an event of the
  API server gives to which controller, the start of the manager (\<open>main.go\<close>), and the controller
  of ByoMachineTemplates, which does nothing.  The builder, the queues and the map functions of
  Cluster API are parameters or, where they only say which object is enqueued, part of \<open>requests\<close>.
\<close>

section \<open>Watches\<close>

text \<open>
  A watch enqueues the object itself (\<open>For\<close>) or what a map function makes of it, for the events that
  its predicate and the controller's event filter let through.
\<close>

datatype map_func = EnqueueObject | ByoHostToByoMachine | MachineToInfrastructure | ClusterToMachines
  | ClusterToInfrastructure | ByoMachineToConfig

datatype event_filter = NoFilter | ClusterUnpausedAndInfrastructureReady | CsrOfAgent | ResourceNotPaused

record watch =
  watch_Kind :: string
  watch_Map :: map_func
  watch_Filter :: event_filter

definition For :: "string \<Rightarrow> event_filter \<Rightarrow> watch" where
  "For k f = \<lparr>watch_Kind = k, watch_Map = EnqueueObject, watch_Filter = f\<rparr>"

definition ByoMachine_SetupWithManager :: "watch list" where
  "ByoMachine_SetupWithManager =
     [For ''ByoMachine'' NoFilter,
      \<lparr>watch_Kind = ''ByoHost'', watch_Map = ByoHostToByoMachine, watch_Filter = NoFilter\<rparr>,
      \<lparr>watch_Kind = ''Machine'', watch_Map = MachineToInfrastructure, watch_Filter = NoFilter\<rparr>,
      \<lparr>watch_Kind = ''Cluster'', watch_Map = ClusterToMachines, watch_Filter = ClusterUnpausedAndInfrastructureReady\<rparr>]"

definition ByoHost_SetupWithManager :: "watch list" where
  "ByoHost_SetupWithManager = [For ''ByoHost'' NoFilter]"

definition ByoMachineTemplate_SetupWithManager :: "watch list" where
  "ByoMachineTemplate_SetupWithManager = [For ''ByoMachineTemplate'' NoFilter]"

definition ByoCluster_SetupWithManager :: "watch list" where
  "ByoCluster_SetupWithManager =
     [For ''ByoCluster'' NoFilter,
      \<lparr>watch_Kind = ''Cluster'', watch_Map = ClusterToInfrastructure, watch_Filter = NoFilter\<rparr>]"

definition ByoAdmission_SetupWithManager :: "watch list" where
  "ByoAdmission_SetupWithManager = [For ''CertificateSigningRequest'' CsrOfAgent]"

definition K8sInstallerConfig_SetupWithManager :: "watch list" where
  "K8sInstallerConfig_SetupWithManager =
     [For ''K8sInstallerConfig'' NoFilter,
      \<lparr>watch_Kind = ''ByoMachine'', watch_Map = ByoMachineToConfig, watch_Filter = NoFilter\<rparr>]"

definition BootstrapKubeconfig_SetupWithManager :: "watch list" where
  "BootstrapKubeconfig_SetupWithManager = [For ''BootstrapKubeconfig'' NoFilter]"

text \<open>The controller of the agent.\<close>

definition Host_SetupWithManager :: "watch list" where
  "Host_SetupWithManager = [For ''ByoHost'' ResourceNotPaused]"

section \<open>Events and requests\<close>

datatype watch_event = Created object | Updated object object | Deleted object

fun event_object :: "watch_event \<Rightarrow> object" where
  "event_object (Created o1) = o1"
| "event_object (Updated _ o1) = o1"
| "event_object (Deleted o1) = o1"

text \<open>A map function is applied to both versions of an updated object.\<close>

fun mapped_objects :: "watch_event \<Rightarrow> object list" where
  "mapped_objects (Created o1) = [o1]"
| "mapped_objects (Updated o0 o1) = [o0, o1]"
| "mapped_objects (Deleted o1) = [o1]"

fun object_kind :: "object \<Rightarrow> string" where
  "object_kind (OCluster _) = ''Cluster''"
| "object_kind (OHost _) = ''ByoHost''"
| "object_kind (OMachine _) = ''ByoMachine''"
| "object_kind (OOther k) = k"

text \<open>
  What Cluster API and the apimachinery give: the key of any object, the infrastructure object of a
  Machine and of a Cluster, and the predicate on Clusters.
\<close>

record watch_lib =
  object_key :: "object \<Rightarrow> key"
  MachineToInfra :: "object \<Rightarrow> key list"
  ClusterToInfra :: "object \<Rightarrow> key list"
  ClusterReady :: "watch_event \<Rightarrow> bool"

definition byomachine_GVK :: GroupVersionKind where
  "byomachine_GVK = \<lparr>gvk_Group = GroupVersion_Group, gvk_Version = ''v1beta1'', gvk_Kind = ''ByoMachine''\<rparr>"

fun map_object ::
  "watch_lib \<Rightarrow> ('w, 'z) machine_client_scheme \<Rightarrow> ('w, 'y) config_client_scheme \<Rightarrow> map_func \<Rightarrow> object \<Rightarrow> 'w \<Rightarrow>
   key list outcome \<times> 'w" where
  "map_object X C D EnqueueObject obj w = (Return [object_key X obj], w)"
| "map_object X C D ByoHostToByoMachine obj w = (Return (ByoHostToByoMachineMapFunc C byomachine_GVK obj), w)"
| "map_object X C D MachineToInfrastructure obj w = (Return (MachineToInfra X obj), w)"
| "map_object X C D ClusterToInfrastructure obj w = (Return (ClusterToInfra X obj), w)"
| "map_object X C D ClusterToMachines obj w = (case ClusterToByoMachines C obj w of (ks, w') \<Rightarrow> (Return ks, w'))"
| "map_object X C D ByoMachineToConfig obj w = ByoMachineToK8sInstallerConfigMapFunc D obj w"

text \<open>\<open>ResourceNotPaused\<close> and the filter of the CSR controller look at the labels and names of the object.\<close>

fun passes :: "watch_lib \<Rightarrow> event_filter \<Rightarrow> watch_event \<Rightarrow> bool" where
  "passes X NoFilter ev = True"
| "passes X ClusterUnpausedAndInfrastructureReady ev = ClusterReady X ev"
| "passes X CsrOfAgent ev =
     (case ev of
        Created o1 \<Rightarrow> ByoAdmission_Ctl.event_filter (CreateEvent (snd (object_key X o1)))
      | Updated o0 o1 \<Rightarrow> ByoAdmission_Ctl.event_filter (UpdateEvent (snd (object_key X o0)) (snd (object_key X o1)))
      | Deleted o1 \<Rightarrow> ByoAdmission_Ctl.event_filter (DeleteEvent (snd (object_key X o1))))"
| "passes X ResourceNotPaused ev =
     (case event_object ev of
        OHost h \<Rightarrow> Annotations h PausedAnnotation = None
      | OMachine m \<Rightarrow> Annotations m PausedAnnotation = None
      | OCluster c \<Rightarrow> Annotations c PausedAnnotation = None
      | OOther _ \<Rightarrow> True)"

fun map_objects ::
  "watch_lib \<Rightarrow> ('w, 'z) machine_client_scheme \<Rightarrow> ('w, 'y) config_client_scheme \<Rightarrow> map_func \<Rightarrow> object list \<Rightarrow> 'w \<Rightarrow>
   key list outcome \<times> 'w" where
  "map_objects X C D f [] w = (Return [], w)"
| "map_objects X C D f (obj # objs) w =
     (case map_object X C D f obj w of
        (Panic m, w1) \<Rightarrow> (Panic m, w1)
      | (Return ks, w1) \<Rightarrow>
          (case map_objects X C D f objs w1 of
             (Panic m, w2) \<Rightarrow> (Panic m, w2)
           | (Return ks', w2) \<Rightarrow> (Return (ks @ ks'), w2)))"

definition watch_requests ::
  "watch_lib \<Rightarrow> ('w, 'z) machine_client_scheme \<Rightarrow> ('w, 'y) config_client_scheme \<Rightarrow> watch \<Rightarrow> watch_event \<Rightarrow> 'w \<Rightarrow>
   key list outcome \<times> 'w" where
  "watch_requests X C D wt ev w =
     (if object_kind (event_object ev) = watch_Kind wt \<and> passes X (watch_Filter wt) ev
      then map_objects X C D (watch_Map wt)
             (if watch_Map wt = EnqueueObject then [event_object ev] else mapped_objects ev) w
      else (Return [], w))"

text \<open>The requests that an event puts into the queue of a controller with these watches.\<close>

fun requests ::
  "watch_lib \<Rightarrow> ('w, 'z) machine_client_scheme \<Rightarrow> ('w, 'y) config_client_scheme \<Rightarrow> watch list \<Rightarrow> watch_event \<Rightarrow> 'w \<Rightarrow>
   key list outcome \<times> 'w" where
  "requests X C D [] ev w = (Return [], w)"
| "requests X C D (wt # wts) ev w =
     (case watch_requests X C D wt ev w of
        (Panic m, w1) \<Rightarrow> (Panic m, w1)
      | (Return ks, w1) \<Rightarrow>
          (case requests X C D wts ev w1 of
             (Panic m, w2) \<Rightarrow> (Panic m, w2)
           | (Return ks', w2) \<Rightarrow> (Return (ks @ ks'), w2)))"

section \<open>ByoMachineTemplates\<close>

definition ByoMachineTemplate_Reconcile :: "key \<Rightarrow> 'w \<Rightarrow> (Result \<times> error option) \<times> 'w" where
  "ByoMachineTemplate_Reconcile req w = ((no_requeue, None), w)"

section \<open>The start of the manager\<close>

record manager_flags =
  metricsAddr :: string
  enableLeaderElection :: bool
  probeAddr :: string

definition default_manager_flags :: manager_flags where
  "default_manager_flags = \<lparr>metricsAddr = '':8080'', enableLeaderElection = False, probeAddr = '':8081''\<rparr>"

record manager_options =
  MetricsBindAddress :: string
  opt_Port :: int
  HealthProbeBindAddress :: string
  LeaderElection :: bool
  LeaderElectionID :: string

definition concurrency :: "int \<Rightarrow> int" where
  "concurrency c = c"

datatype setup_step =
  NewManager manager_options
| NewClusterCacheTracker
| SetupClusterCache int
| SetupController string "watch list"
| SetupInstallerConfig "watch list" bool
| RegisterWebhook string
| SetupWebhook string
| AddHealthzCheck string
| AddReadyzCheck string
| StartManager

text \<open>The steps of \<open>main\<close> in their order; the environment decides on two of them.\<close>

definition main_steps :: "manager_flags \<Rightarrow> (string \<Rightarrow> string) \<Rightarrow> setup_step list" where
  "main_steps F Getenv =
     [NewManager \<lparr>MetricsBindAddress = metricsAddr F, opt_Port = 9443, HealthProbeBindAddress = probeAddr F,
        LeaderElection = enableLeaderElection F, LeaderElectionID = ''controller-leader-election-caph''\<rparr>,
      NewClusterCacheTracker,
      SetupClusterCache (concurrency 0),
      SetupController ''ByoMachine'' ByoMachine_SetupWithManager,
      SetupController ''ByoHost'' ByoHost_SetupWithManager,
      SetupController ''ByoMachineTemplate'' ByoMachineTemplate_SetupWithManager,
      SetupController ''ByoCluster'' ByoCluster_SetupWithManager] @
     (if Getenv ''MANUAL_CSR_APPROVAL'' \<noteq> ''enable''
      then [SetupController ''ByoAdmission'' ByoAdmission_SetupWithManager] else []) @
     [SetupInstallerConfig K8sInstallerConfig_SetupWithManager (Getenv ''BYOH_SKIP_KERNEL_MODULE_CLEANUP'' = ''enable''),
      RegisterWebhook ''/validate-infrastructure-cluster-x-k8s-io-v1beta1-byohost'',
      SetupController ''BootstrapKubeconfig'' BootstrapKubeconfig_SetupWithManager,
      SetupWebhook ''BootstrapKubeconfig'',
      AddHealthzCheck ''healthz'',
      AddReadyzCheck ''readyz'',
      StartManager]"

text \<open>
  The first step that fails ends the program with status 1; \<open>main\<close> returns when the manager stops.
  \<open>Register\<close> has no error.
\<close>

fun can_fail :: "setup_step \<Rightarrow> bool" where
  "can_fail (RegisterWebhook _) = False"
| "can_fail _ = True"

fun run_steps :: "(setup_step \<Rightarrow> 'w \<Rightarrow> error option \<times> 'w) \<Rightarrow> setup_step list \<Rightarrow> 'w \<Rightarrow> int \<times> setup_step list \<times> 'w" where
  "run_steps run [] w = (0, [], w)"
| "run_steps run (x # xs) w =
     (case run x w of (err, w1) \<Rightarrow>
        if can_fail x \<and> err \<noteq> None then (1, [x], w1)
        else (case run_steps run xs w1 of (code, tr, w2) \<Rightarrow> (code, x # tr, w2)))"

definition manager_main ::
  "(setup_step \<Rightarrow> 'w \<Rightarrow> error option \<times> 'w) \<Rightarrow> manager_flags \<Rightarrow> (string \<Rightarrow> string) \<Rightarrow> 'w \<Rightarrow> int \<times> setup_step list \<times> 'w" where
  "manager_main run F Getenv w = run_steps run (main_steps F Getenv) w"

lemma run_steps_prefix:
  "run_steps run xs w = (code, tr, w') \<Longrightarrow> (\<exists>ys. xs = tr @ ys) \<and> (code = 0 \<and> tr = xs \<or> code = 1)"
  by (induction xs arbitrary: w code tr w') (fastforce split: prod.splits if_splits)+

text \<open>The manager is started only after everything else has been set up.\<close>

lemma manager_starts_last:
  assumes "manager_main run F Getenv w = (code, tr, w')" and "StartManager \<in> set tr"
  shows "tr = main_steps F Getenv"
proof -
  let ?init = "butlast (main_steps F Getenv)"
  have init: "main_steps F Getenv = ?init @ [StartManager]" "StartManager \<notin> set ?init" by (simp_all add: main_steps_def butlast_append)
  obtain ys where ys: "main_steps F Getenv = tr @ ys"
    using run_steps_prefix [OF assms(1) [unfolded manager_main_def]] by blast
  show ?thesis
  proof (cases ys rule: rev_cases)
    case (snoc zs z)
    then have "?init = tr @ zs" using ys by (simp add: butlast_append)
    then show ?thesis using init(2) assms(2) by simp
  qed (use ys in simp)
qed

lemma csr_controller_unless_manual:
  assumes "manager_main run F Getenv w = (code, tr, w')" and "StartManager \<in> set tr"
  shows "SetupController ''ByoAdmission'' ByoAdmission_SetupWithManager \<in> set tr \<longleftrightarrow> Getenv ''MANUAL_CSR_APPROVAL'' \<noteq> ''enable''"
  unfolding manager_starts_last [OF assms] by (simp add: main_steps_def)

section \<open>Wake-ups\<close>

lemma machine_requests_of_host:
  "requests X C D ByoMachine_SetupWithManager (Updated (OHost b) (OHost a)) w =
     (Return (ByoHostToByoMachineMapFunc C byomachine_GVK (OHost b) @ ByoHostToByoMachineMapFunc C byomachine_GVK (OHost a)), w)"
  by (simp add: ByoMachine_SetupWithManager_def watch_requests_def For_def)

lemma agent_requests_of_host:
  "requests X C D Host_SetupWithManager (Updated (OHost b) (OHost a)) w =
     (Return (if Annotations a PausedAnnotation = None then [object_key X (OHost a)] else []), w)"
  by (simp add: Host_SetupWithManager_def watch_requests_def For_def)

lemma held_in_requests:
  assumes "MachineRef (HostStatus h) = Some r" and "refGVK C r = byomachine_GVK"
  shows "ByoHostToByoMachineMapFunc C byomachine_GVK (OHost h) = [ref_key r]"
  using assms by (simp add: ByoHostToByoMachineMapFunc_def Let_def)

lemma phase_ref: "phase_of h \<in> {Reserved k, Cleaning k} \<Longrightarrow> \<exists>r. MachineRef (HostStatus h) = Some r \<and> ref_key r = k"
  by (auto simp: phase_of_def split: option.splits if_splits)

text \<open>A change of a host that finds it held for a machine, or leaves it held, enqueues the machine.\<close>

lemma host_change_wakes_machine:
  assumes "h \<in> {b, a}" and "MachineRef (HostStatus h) = Some r" and "refGVK C r = byomachine_GVK"
  shows "\<exists>ks. requests X C D ByoMachine_SetupWithManager (Updated (OHost b) (OHost a)) w = (Return ks, w) \<and> ref_key r \<in> set ks"
  using assms held_in_requests [OF assms(2,3)] by (auto simp: machine_requests_of_host)

text \<open>
  C26. The machine is told when its host is released.  Let a host be held for a machine, and later no
  longer; then among the patches in between there is the agent's release at the end of the cleanup,
  and the event of that patch puts the machine into the queue of the ByoMachine controller, although
  the host no longer names it: the map function is applied to the old version too.
\<close>

theorem release_reaches_machine:
  assumes "host_reachable A h" and "phase_of h = Reserved k" and "MachineRef (HostStatus h) = Some r" and "refGVK C r = byomachine_GVK"
    and "(host_step A)\<^sup>*\<^sup>* h h'" and "phase_of h' \<notin> {Reserved k, Cleaning k}"
  shows "\<exists>b a ks. (host_step A)\<^sup>*\<^sup>* h b \<and> agent_writes A b a \<and> phase_of b = Cleaning k \<and> phase_of a = Free \<and>
    (host_step A)\<^sup>*\<^sup>* a h' \<and>
    requests X C D ByoMachine_SetupWithManager (Updated (OHost b) (OHost a)) w = (Return ks, w) \<and> k \<in> set ks"
proof -
  have k: "ref_key r = k" using phase_ref [of h k] assms(2,3) by auto
  obtain b a where ba: "(host_step A)\<^sup>*\<^sup>* h b" "consistent b" "MachineRef (HostStatus b) = Some r" "phase_of b = Cleaning k"
      "host_step A b a" "phase_of a = Free" "(host_step A)\<^sup>*\<^sup>* a h'"
    using any.cycle.leaving_cleans [where Q = "\<lambda>g. MachineRef (HostStatus g) = Some r",
        OF reachable_consistent [OF assms(1)] assms(2,3,5,6)] held_same_ref by fastforce
  have "agent_writes A b a" using finish_by_agent [OF ba(5,2,4,6)] .
  moreover obtain ks where "requests X C D ByoMachine_SetupWithManager (Updated (OHost b) (OHost a)) w = (Return ks, w)" "k \<in> set ks"
    using host_change_wakes_machine [OF _ ba(3) assms(4)] k by blast
  ultimately show ?thesis using ba by (intro exI [of _ b] exI [of _ a] exI [of _ ks]) simp
qed

definition ref_watch_lib :: watch_lib where
  "ref_watch_lib = \<lparr>object_key = (\<lambda>obj. case obj of OHost h \<Rightarrow> obj_key h | OMachine m \<Rightarrow> obj_key m | OCluster c \<Rightarrow> obj_key c
       | OOther n \<Rightarrow> ([], n)), MachineToInfra = (\<lambda>_. []), ClusterToInfra = (\<lambda>_. []), ClusterReady = (\<lambda>_. True)\<rparr>"

record manager_world = machine_world +
  mgr_configs :: "K8sInstallerConfig list"

definition manager_config_client :: "manager_world config_client" where
  "manager_config_client = client.extend ref_client (config_client.fields
     (\<lambda>k w. (store_get (mgr_configs w) k, w))
     (\<lambda>ns w. (Inr (filter (\<lambda>c. Namespace c = ns) (mgr_configs w)), w))
     (\<lambda>_. None)
     (\<lambda>_ c w. let (e, cs) = store_put (mgr_configs w) c in (e, w\<lparr>mgr_configs := cs\<rparr>))
     (\<lambda>v. Inr (before CHR ''/'' v))
     embedded_templates False)"

definition ex_manager_world :: manager_world where
  "ex_manager_world = machine_world.extend ex_world (manager_world.fields [ex_config])"

theorem release_reaches_machine_witness:
  "\<exists>b a ks. agent_writes life_agent b a \<and> phase_of b = Cleaning (''default'', ''m1'') \<and>
     requests ref_watch_lib ref_machine_client manager_config_client
       ByoMachine_SetupWithManager (Updated (OHost b) (OHost a)) ex_manager_world = (Return ks, ex_manager_world) \<and>
     (''default'', ''m1'') \<in> set ks"
proof -
  obtain r where r: "MachineRef (HostStatus (held ''m1'' life_start)) = Some r" "r = \<lparr>ref_Kind = ''ByoMachine'',
      ref_APIVersion = ''infrastructure.cluster.x-k8s.io/v1beta1'', ref_Namespace = ''default'', ref_Name = ''m1'', ref_UID = []\<rparr>"
    by (simp add: held_def reserved_host_def life_scope_def Let_def new_object_defs)
  have g: "refGVK (ref_machine_client :: manager_world machine_client) r = byomachine_GVK"
    unfolding r(2) by code_simp
  have "phase_of (held ''m2'' life_released) \<notin> {Reserved (''default'', ''m1''), Cleaning (''default'', ''m1'')}"
    by (simp add: life_phases)
  from release_reaches_machine [OF life_reachable(2) life_phases(1) r(1) g life_run this,
      of ref_watch_lib manager_config_client ex_manager_world]
  show ?thesis by blast
qed

end
