(* ===== verification/Deep_Copy.thy ===== *)
theory Deep_Copy
  imports "HOL-Library.AList"
begin

text \<open>
  Go values in memory, and what it means to copy one deeply.  A value is a scalar, a structure, or a
  pointer, slice or map, each nil or the address of a cell; the memory has a limit above which no cell
  is allocated.  A copier takes a value and gives the copy, allocating what it needs.  The
  shapes that \<open>controller-gen\<close> emits in \<open>zz_generated.deepcopy.go\<close> are copiers, and each is shown
  to be deep when its parts are.
\<close>

section \<open>Memory\<close>

type_synonym addr = nat

datatype scalar = GStr string | GInt int | GBool bool

datatype gval = Scalar scalar | Ptr "addr option" | Slice "addr option" | GMap "addr option" | Struct "(string \<times> gval) list"

datatype cell = CVal gval | CArr "gval list" | CMap "(string \<times> gval) list"

record heap =
  cells :: "addr \<rightharpoonup> cell"
  lim :: addr

definition heap_ok :: "heap \<Rightarrow> bool" where
  "heap_ok h \<longleftrightarrow> (\<forall>a. lim h \<le> a \<longrightarrow> cells h a = None)"

definition alloc :: "cell \<Rightarrow> heap \<Rightarrow> addr \<times> heap" where
  "alloc c h = (lim h, h\<lparr>cells := (cells h)(lim h \<mapsto> c), lim := Suc (lim h)\<rparr>)"

definition put_cell :: "addr \<Rightarrow> cell \<Rightarrow> heap \<Rightarrow> heap" where
  "put_cell a c h = h\<lparr>cells := (cells h)(a \<mapsto> c)\<rparr>"

text \<open>A later memory in which the cells below the old limit are as they were.\<close>

definition extends :: "heap \<Rightarrow> heap \<Rightarrow> bool" where
  "extends h h' \<longleftrightarrow> heap_ok h' \<and> lim h \<le> lim h' \<and> (\<forall>a. a < lim h \<longrightarrow> cells h' a = cells h a)"

lemma heap_simps [simp]:
  "cells (put_cell a c h) = (cells h)(a \<mapsto> c)" "lim (put_cell a c h) = lim h"
  "fst (alloc c h) = lim h" "lim (snd (alloc c h)) = Suc (lim h)" "cells (snd (alloc c h)) = (cells h)(lim h \<mapsto> c)"
  by (simp_all add: put_cell_def alloc_def)

lemma extends_refl [simp]: "heap_ok h \<Longrightarrow> extends h h"
  by (simp add: extends_def)

lemma extends_trans: "extends h h1 \<Longrightarrow> extends h1 h2 \<Longrightarrow> extends h h2"
  by (auto simp: extends_def)

lemma extends_alloc: "heap_ok h \<Longrightarrow> extends h (snd (alloc c h))"
  by (auto simp: extends_def heap_ok_def)

lemma extends_put: "extends h h' \<Longrightarrow> lim h \<le> a \<Longrightarrow> a < lim h' \<Longrightarrow> extends h (put_cell a c h')"
  by (auto simp: extends_def heap_ok_def)

lemma extends_ok: "extends h h' \<Longrightarrow> heap_ok h'"
  by (simp add: extends_def)

section \<open>Types and the values in memory\<close>

datatype gtype = TyScalar | TyPtr gtype | TySlice gtype | TyMap gtype | TyStruct "(string \<times> gtype) list"

datatype tree = TScalar scalar | TNil | TPtr tree | TSlice "tree list" | TMap "(string \<times> tree) list" | TStruct "(string \<times> tree) list"

text \<open>The value without addresses that a value of a type stands for; \<open>None\<close> for one that is not of the type.\<close>

fun reify :: "heap \<Rightarrow> gtype \<Rightarrow> gval \<Rightarrow> tree option"
  and reify_fields :: "heap \<Rightarrow> (string \<times> gtype) list \<Rightarrow> (string \<times> gval) list \<Rightarrow> (string \<times> tree) list option" where
  "reify h TyScalar (Scalar s) = Some (TScalar s)"
| "reify h (TyPtr ty) (Ptr None) = Some TNil"
| "reify h (TyPtr ty) (Ptr (Some a)) =
     (case cells h a of Some (CVal v) \<Rightarrow> map_option TPtr (reify h ty v) | _ \<Rightarrow> None)"
| "reify h (TySlice ty) (Slice None) = Some TNil"
| "reify h (TySlice ty) (Slice (Some a)) =
     (case cells h a of Some (CArr vs) \<Rightarrow> map_option TSlice (those (map (\<lambda>v. reify h ty v) vs)) | _ \<Rightarrow> None)"
| "reify h (TyMap ty) (GMap None) = Some TNil"
| "reify h (TyMap ty) (GMap (Some a)) =
     (case cells h a of
        Some (CMap kvs) \<Rightarrow>
          if distinct (map fst kvs)
          then map_option (\<lambda>ts. TMap (zip (map fst kvs) ts)) (those (map (\<lambda>v. reify h ty v) (map snd kvs))) else None
      | _ \<Rightarrow> None)"
| "reify h (TyStruct fts) (Struct fs) = map_option TStruct (reify_fields h fts fs)"
| "reify h _ _ = None"
| "reify_fields h [] [] = Some []"
| "reify_fields h ((f, ty) # fts) ((g, v) # fs) =
     (if f \<noteq> g then None
      else case reify h ty v of
        None \<Rightarrow> None
      | Some t \<Rightarrow> map_option (Cons (f, t)) (reify_fields h fts fs))"
| "reify_fields h _ _ = None"

text \<open>The addresses of the cells that belong to a value.\<close>

fun owned :: "heap \<Rightarrow> gtype \<Rightarrow> gval \<Rightarrow> addr set"
  and owned_fields :: "heap \<Rightarrow> (string \<times> gtype) list \<Rightarrow> (string \<times> gval) list \<Rightarrow> addr set" where
  "owned h (TyPtr ty) (Ptr (Some a)) = insert a (case cells h a of Some (CVal v) \<Rightarrow> owned h ty v | _ \<Rightarrow> {})"
| "owned h (TySlice ty) (Slice (Some a)) = insert a (case cells h a of Some (CArr vs) \<Rightarrow> \<Union>v\<in>set vs. owned h ty v | _ \<Rightarrow> {})"
| "owned h (TyMap ty) (GMap (Some a)) =
     insert a (case cells h a of Some (CMap kvs) \<Rightarrow> \<Union>v\<in>set (map snd kvs). owned h ty v | _ \<Rightarrow> {})"
| "owned h (TyStruct fts) (Struct fs) = owned_fields h fts fs"
| "owned h _ _ = {}"
| "owned_fields h ((f, ty) # fts) ((g, v) # fs) = owned h ty v \<union> owned_fields h fts fs"
| "owned_fields h _ _ = {}"

lemma those_cong: "(\<And>x. x \<in> set xs \<Longrightarrow> f x = g x) \<Longrightarrow> those (map f xs) = those (map g xs)"
  by (metis map_cong)

lemma those_Some: "those xs = Some ys \<longleftrightarrow> xs = map Some ys"
  by (induction xs arbitrary: ys) (auto split: option.splits)

text \<open>What a value stands for depends on its own cells only.\<close>

lemma reify_frame:
  "(\<And>a. a \<in> owned h ty v \<Longrightarrow> cells h' a = cells h a) \<Longrightarrow> reify h' ty v = reify h ty v \<and> owned h' ty v = owned h ty v"
proof (induction ty arbitrary: v)
  case TyScalar
  then show ?case by (cases v) auto
next
  case (TyPtr ty)
  show ?case
  proof (cases v)
    case (Ptr p)
    then show ?thesis using TyPtr by (cases p) (auto split: option.splits cell.splits)
  qed simp_all
next
  case (TySlice ty)
  show ?case
  proof (cases "\<exists>a vs. v = Slice (Some a) \<and> cells h a = Some (CArr vs)")
    case True
    then obtain a vs where v: "v = Slice (Some a)" "cells h a = Some (CArr vs)" by blast
    have e: "reify h' ty x = reify h ty x \<and> owned h' ty x = owned h ty x" if "x \<in> set vs" for x
      using TySlice.IH [of x] TySlice.prems v that by auto
    then have "those (map (reify h' ty) vs) = those (map (reify h ty) vs)" by (intro those_cong) blast
    with e show ?thesis using TySlice.prems v by simp
  next
    case False
    then show ?thesis using TySlice.prems
      by (cases v; cases "\<exists>a. v = Slice (Some a)") (auto split: option.splits cell.splits)
  qed
next
  case (TyMap ty)
  show ?case
  proof (cases "\<exists>a kvs. v = GMap (Some a) \<and> cells h a = Some (CMap kvs)")
    case True
    then obtain a kvs where v: "v = GMap (Some a)" "cells h a = Some (CMap kvs)" by blast
    have e: "reify h' ty x = reify h ty x \<and> owned h' ty x = owned h ty x" if "x \<in> set (map snd kvs)" for x
      using TyMap.IH [of x] TyMap.prems v that by auto
    then have "those (map (reify h' ty) (map snd kvs)) = those (map (reify h ty) (map snd kvs))" by (intro those_cong) blast
    with e show ?thesis using TyMap.prems v by simp
  next
    case False
    then show ?thesis using TyMap.prems
      by (cases v; cases "\<exists>a. v = GMap (Some a)") (auto split: option.splits cell.splits)
  qed
next
  case (TyStruct fts)
  have "(\<And>a. a \<in> owned_fields h gts fs \<Longrightarrow> cells h' a = cells h a) \<Longrightarrow> set gts \<subseteq> set fts \<Longrightarrow>
      reify_fields h' gts fs = reify_fields h gts fs \<and> owned_fields h' gts fs = owned_fields h gts fs" for gts fs
  proof (induction gts arbitrary: fs)
    case Nil
    then show ?case by (cases fs) simp_all
  next
    case (Cons p gts)
    obtain f ty where p: "p = (f, ty)" by fastforce
    show ?case
    proof (cases fs)
      case Nil
      then show ?thesis by (simp add: p)
    next
      case (Cons q gs)
      obtain g x where q: "q = (g, x)" by fastforce
      have "reify h' ty x = reify h ty x \<and> owned h' ty x = owned h ty x"
        using TyStruct.IH [of p ty x] Cons.prems \<open>fs = q # gs\<close> p q by auto
      moreover have "reify_fields h' gts gs = reify_fields h gts gs \<and> owned_fields h' gts gs = owned_fields h gts gs"
        using Cons.IH [of gs] Cons.prems \<open>fs = q # gs\<close> p q by auto
      ultimately show ?thesis by (simp add: \<open>fs = q # gs\<close> p q split: option.split)
    qed
  qed
  then show ?case using TyStruct.prems by (cases v) simp_all
qed

lemma reify_ptrD:
  assumes "reify h (TyPtr ty) v = Some t"
  obtains "v = Ptr None" "t = TNil"
  | a x u where "v = Ptr (Some a)" "cells h a = Some (CVal x)" "reify h ty x = Some u" "t = TPtr u"
proof (cases v)
  case (Ptr p)
  then show thesis using assms that by (cases p) (auto split: option.splits cell.splits)
qed (use assms in simp_all)

lemma reify_sliceD:
  assumes "reify h (TySlice ty) v = Some t"
  obtains "v = Slice None" "t = TNil"
  | a vs ts where "v = Slice (Some a)" "cells h a = Some (CArr vs)" "map (reify h ty) vs = map Some ts" "t = TSlice ts"
proof (cases v)
  case (Slice p)
  then show thesis using assms that by (cases p) (auto simp: those_Some split: option.splits cell.splits)
qed (use assms in simp_all)

lemma reify_mapD:
  assumes "reify h (TyMap ty) v = Some t"
  obtains "v = GMap None" "t = TNil"
  | a kvs ts where "v = GMap (Some a)" "cells h a = Some (CMap kvs)" "distinct (map fst kvs)"
      "map (reify h ty) (map snd kvs) = map Some ts" "t = TMap (zip (map fst kvs) ts)"
proof (cases v)
  case (GMap p)
  then show thesis using assms that by (cases p) (auto simp: those_Some split: option.splits cell.splits if_splits)
qed (use assms in simp_all)

lemma reify_structD:
  assumes "reify h (TyStruct fts) v = Some t"
  obtains fs ts where "v = Struct fs" "reify_fields h fts fs = Some ts" "t = TStruct ts"
  using assms that by (cases v) auto

lemma reify_fieldsD:
  assumes "reify_fields h ((f, ty) # fts) fs = Some us"
  obtains x gs u us' where "fs = (f, x) # gs" "reify h ty x = Some u" "reify_fields h fts gs = Some us'" "us = (f, u) # us'"
proof (cases fs)
  case (Cons q gs)
  then show thesis using assms that by (cases q) (auto split: if_splits option.splits)
qed (use assms in simp)

lemma map_Some_in: "map f xs = map Some ts \<Longrightarrow> x \<in> set xs \<Longrightarrow> \<exists>t. f x = Some t"
  by (metis imageE image_eqI set_map)

text \<open>The cells of a value are allocated.\<close>

lemma owned_allocated: "reify h ty v = Some t \<Longrightarrow> a \<in> owned h ty v \<Longrightarrow> cells h a \<noteq> None"
proof (induction ty arbitrary: v t)
  case TyScalar
  then show ?case by (cases v) auto
next
  case (TyPtr ty)
  from TyPtr.prems(1) show ?case by (cases rule: reify_ptrD) (use TyPtr in auto)
next
  case (TySlice ty)
  from TySlice.prems(1) show ?case
  proof (cases rule: reify_sliceD)
    case (2 b vs ts)
    then consider "a = b" | x where "x \<in> set vs" "a \<in> owned h ty x" using TySlice.prems(2) by auto
    then show ?thesis
    proof cases
      case x: 2
      then show ?thesis using TySlice.IH map_Some_in [OF 2(3) x(1)] by blast
    qed (use 2 in simp)
  qed (use TySlice in simp)
next
  case (TyMap ty)
  from TyMap.prems(1) show ?case
  proof (cases rule: reify_mapD)
    case (2 b kvs ts)
    then consider "a = b" | x where "x \<in> set (map snd kvs)" "a \<in> owned h ty x" using TyMap.prems(2) by auto
    then show ?thesis
    proof cases
      case x: 2
      then show ?thesis using TyMap.IH map_Some_in [OF 2(4) x(1)] by blast
    qed (use 2 in simp)
  qed (use TyMap in simp)
next
  case (TyStruct fts)
  have "reify_fields h gts fs = Some us \<Longrightarrow> a \<in> owned_fields h gts fs \<Longrightarrow> set gts \<subseteq> set fts \<Longrightarrow> cells h a \<noteq> None" for gts fs us
  proof (induction gts arbitrary: fs us)
    case Nil
    then show ?case by (cases fs) simp_all
  next
    case (Cons p gts)
    obtain f ty where p: "p = (f, ty)" by fastforce
    from Cons.prems(1) [unfolded p] show ?case
    proof (cases rule: reify_fieldsD)
      case (1 x gs u us')
      then show ?thesis using Cons.prems Cons.IH [OF 1(3)] TyStruct.IH [of p ty x u] p by auto
    qed
  qed
  then show ?case using TyStruct.prems by (cases v) auto
qed

lemma owned_below: "heap_ok h \<Longrightarrow> reify h ty v = Some t \<Longrightarrow> a \<in> owned h ty v \<Longrightarrow> a < lim h"
  using owned_allocated by (metis heap_ok_def not_le_imp_less)

lemma reify_extends:
  assumes "heap_ok h" and "extends h h'" and "reify h ty v = Some t"
  shows "reify h' ty v = Some t" and "owned h' ty v = owned h ty v"
  using reify_frame [of h ty v h'] owned_below [OF assms(1,3)] assms(2,3) by (auto simp: extends_def)

section \<open>Copiers\<close>

type_synonym copier = "gval \<Rightarrow> heap \<Rightarrow> gval \<times> heap"

text \<open>The copy stands for the same value, and none of its cells was there before.\<close>

definition deep :: "gtype \<Rightarrow> copier \<Rightarrow> bool" where
  "deep ty c \<longleftrightarrow>
     (\<forall>h v t. heap_ok h \<longrightarrow> reify h ty v = Some t \<longrightarrow>
        (case c v h of (v', h') \<Rightarrow>
           extends h h' \<and> reify h' ty v' = Some t \<and> (\<forall>a\<in>owned h' ty v'. lim h \<le> a)))"

lemma deepD:
  assumes "deep ty c" "heap_ok h" "reify h ty v = Some t" "c v h = (v', h')"
  shows "extends h h'" "reify h' ty v' = Some t" "\<And>a. a \<in> owned h' ty v' \<Longrightarrow> lim h \<le> a" "heap_ok h'"
  using assms by (force simp: deep_def dest: extends_ok)+

lemma deepI:
  assumes "\<And>h v t v' h'. heap_ok h \<Longrightarrow> reify h ty v = Some t \<Longrightarrow> c v h = (v', h') \<Longrightarrow>
    extends h h' \<and> reify h' ty v' = Some t \<and> (\<forall>a\<in>owned h' ty v'. lim h \<le> a)"
  shows "deep ty c"
  unfolding deep_def
proof (intro allI impI)
  fix h v t assume "heap_ok h" and "reify h ty v = Some t"
  moreover obtain v' h' where "c v h = (v', h')" by fastforce
  ultimately show "case c v h of (v', h') \<Rightarrow> extends h h' \<and> reify h' ty v' = Some t \<and> (\<forall>a\<in>owned h' ty v'. lim h \<le> a)"
    using assms [of h v t v' h'] by simp
qed

text \<open>Assignment, which is a deep copy of values without addresses.\<close>

definition assign :: copier where
  "assign v h = (v, h)"

fun flat :: "gtype \<Rightarrow> bool" where
  "flat TyScalar = True"
| "flat (TyStruct fts) = list_all (\<lambda>(f, ty). flat ty) fts"
| "flat _ = False"

lemma flat_owned: "flat ty \<Longrightarrow> owned h ty v = {}"
proof (induction ty arbitrary: v)
  case TyScalar
  then show ?case by (cases v) auto
next
  case (TyStruct fts)
  have "set gts \<subseteq> set fts \<Longrightarrow> owned_fields h gts fs = {}" for gts fs
  proof (induction gts arbitrary: fs)
    case (Cons p gts)
    then show ?case using TyStruct by (cases p; cases fs) (force simp: list_all_iff)+
  qed simp
  then show ?case by (cases v) auto
qed simp_all

lemma deep_assign: "flat ty \<Longrightarrow> deep ty assign"
  by (rule deepI) (simp add: assign_def flat_owned)

text \<open>\<open>*out = new(T)\<close> and the copy into it, unless the pointer is nil; the cell is zeroed first.\<close>

definition zero_value :: gval where
  "zero_value = Struct []"

definition new_ptr :: "copier \<Rightarrow> copier" where
  "new_ptr c v h =
     (case v of
        Ptr (Some a) \<Rightarrow>
          (case cells h a of
             Some (CVal x) \<Rightarrow>
               (case alloc (CVal zero_value) h of (b, h1) \<Rightarrow>
                  (case c x h1 of (x', h2) \<Rightarrow> (Ptr (Some b), put_cell b (CVal x') h2)))
           | _ \<Rightarrow> (v, h))
      | _ \<Rightarrow> (v, h))"

text \<open>Neither an extension of the memory nor a write to a cell that is not its own changes a value.\<close>

lemma put_other:
  assumes "b \<notin> owned h ty v"
  shows "reify (put_cell b c h) ty v = reify h ty v" and "owned (put_cell b c h) ty v = owned h ty v"
proof -
  have "\<And>a. a \<in> owned h ty v \<Longrightarrow> cells (put_cell b c h) a = cells h a" using assms by fastforce
  from reify_frame [OF this] show "reify (put_cell b c h) ty v = reify h ty v" "owned (put_cell b c h) ty v = owned h ty v"
    by simp_all
qed

lemma kept:
  assumes "heap_ok h" and "extends h h1" and "reify h ty v = Some t" and "b \<notin> owned h ty v"
  shows "reify (put_cell b c h1) ty v = Some t" and "owned (put_cell b c h1) ty v = owned h ty v"
  using reify_extends [OF assms(1-3)] put_other [of b h1 ty v c] assms(4) by simp_all

lemma deep_new_ptr:
  assumes c: "deep ty c"
  shows "deep (TyPtr ty) (new_ptr c)"
proof (rule deepI)
  fix h v t v' h' assume ok: "heap_ok h" and r: "reify h (TyPtr ty) v = Some t" and eq: "new_ptr c v h = (v', h')"
  from r show "extends h h' \<and> reify h' (TyPtr ty) v' = Some t \<and> (\<forall>a\<in>owned h' (TyPtr ty) v'. lim h \<le> a)"
  proof (cases rule: reify_ptrD)
    case 1
    then show ?thesis using ok eq by (auto simp: new_ptr_def)
  next
    case v: (2 a x u)
    let ?h1 = "snd (alloc (CVal zero_value) h)"
    obtain x' h2 where x: "c x ?h1 = (x', h2)" by fastforce
    have out: "v' = Ptr (Some (lim h))" "h' = put_cell (lim h) (CVal x') h2"
      using eq v x by (simp_all add: new_ptr_def alloc_def)
    have e1: "extends h ?h1" using extends_alloc [OF ok] .
    note d = deepD [OF c extends_ok [OF e1] reify_extends(1) [OF ok e1 v(3)] x]
    have fresh: "\<And>a. a \<in> owned h2 ty x' \<Longrightarrow> lim h < a" using d(3) by fastforce
    have lim2: "lim h < lim h2" using d(1) by (auto simp: extends_def)
    have "extends h h'" unfolding out using extends_put [OF extends_trans [OF e1 d(1)] _ lim2] by simp
    moreover have "reify h' (TyPtr ty) v' = Some t" "\<forall>a\<in>owned h' (TyPtr ty) v'. lim h \<le> a"
      unfolding out using put_other [of "lim h" h2 ty x' "CVal x'"] d(2) v(4) fresh by (auto intro: less_imp_le)
    ultimately show ?thesis by blast
  qed
qed

text \<open>\<open>*out = make([]T, len(*in))\<close> and the loop over the elements.\<close>

definition put_elem :: "addr \<Rightarrow> nat \<Rightarrow> gval \<Rightarrow> heap \<Rightarrow> heap" where
  "put_elem b i x h = (case cells h b of Some (CArr vs) \<Rightarrow> put_cell b (CArr (vs[i := x])) h | _ \<Rightarrow> h)"

fun copy_elems :: "copier \<Rightarrow> addr \<Rightarrow> nat \<Rightarrow> gval list \<Rightarrow> heap \<Rightarrow> heap" where
  "copy_elems c b i [] h = h"
| "copy_elems c b i (x # xs) h = (case c x h of (x', h1) \<Rightarrow> copy_elems c b (Suc i) xs (put_elem b i x' h1))"

definition make_slice :: "copier \<Rightarrow> copier" where
  "make_slice c v h =
     (case v of
        Slice (Some a) \<Rightarrow>
          (case cells h a of
             Some (CArr xs) \<Rightarrow>
               (case alloc (CArr (replicate (length xs) zero_value)) h of (b, h1) \<Rightarrow> (Slice (Some b), copy_elems c b 0 xs h1))
           | _ \<Rightarrow> (v, h))
      | _ \<Rightarrow> (v, h))"

text \<open>What the loop has reached: the elements \<open>ys\<close> are copies of \<open>ds\<close>, and \<open>xs\<close> are still to be copied.\<close>

definition loop_state :: "gtype \<Rightarrow> addr \<Rightarrow> gval list \<Rightarrow> tree list \<Rightarrow> heap \<Rightarrow> bool" where
  "loop_state ty b ys ds h \<longleftrightarrow> heap_ok h \<and> b < lim h \<and> map (reify h ty) ys = map Some ds \<and>
     (\<forall>y\<in>set ys. \<forall>a\<in>owned h ty y. b < a)"

lemma loop_step:
  assumes st: "loop_state ty b ys ds h" and c: "deep ty c" "reify h ty x = Some t" "c x h = (x', h1)"
    and rest: "map (reify h ty) xs = map Some ts" "\<forall>z\<in>set xs. \<forall>a\<in>owned h ty z. a < b"
  shows "loop_state ty b (ys @ [x']) (ds @ [t]) (put_cell b cl h1)"
    and "map (reify (put_cell b cl h1) ty) xs = map Some ts"
    and "\<forall>z\<in>set xs. \<forall>a\<in>owned (put_cell b cl h1) ty z. a < b"
    and "lim h \<le> lim h1" and "\<And>a. a < b \<Longrightarrow> cells h1 a = cells h a" and "cells h1 b = cells h b"
proof -
  have h: "heap_ok h" "b < lim h" using st by (simp_all add: loop_state_def)
  note d = deepD [OF c(1) h(1) c(2,3)]
  have ok: "heap_ok (put_cell b cl h1)" "b < lim h1" using d(1) h(2) by (auto simp: extends_def heap_ok_def)
  have k: "reify (put_cell b cl h1) ty z = Some u \<and> owned (put_cell b cl h1) ty z = owned h ty z"
    if "reify h ty z = Some u" "b \<notin> owned h ty z" for z u using kept [OF h(1) d(1) that] by simp
  have ys: "\<exists>u. reify h ty z = Some u \<and> b \<notin> owned h ty z" if "z \<in> set ys" for z
    using st that map_Some_in [of "reify h ty" ys ds z] by (auto simp: loop_state_def)
  have xs: "\<exists>u. reify h ty z = Some u \<and> b \<notin> owned h ty z" if "z \<in> set xs" for z
    using that map_Some_in [OF rest(1)] rest(2) by fastforce
  have my: "map (reify (put_cell b cl h1) ty) ys = map (reify h ty) ys"
  proof (rule map_cong [OF refl])
    fix z assume "z \<in> set ys"
    from ys [OF this] k show "reify (put_cell b cl h1) ty z = reify h ty z" by metis
  qed
  have bx: "b \<notin> owned h1 ty x'"
  proof
    assume "b \<in> owned h1 ty x'"
    from d(3) [OF this] h(2) show False by simp
  qed
  have ox: "b < a" if "a \<in> owned (put_cell b cl h1) ty x'" for a
    using that d(3) [of a] h(2) unfolding put_other(2) [OF bx] by linarith
  have oy: "b < a" if "y \<in> set ys" "a \<in> owned (put_cell b cl h1) ty y" for y a
    using that ys [OF that(1)] k st unfolding loop_state_def by metis
  have "map (reify (put_cell b cl h1) ty) ys = map Some ds" using my st unfolding loop_state_def by metis
  then show "loop_state ty b (ys @ [x']) (ds @ [t]) (put_cell b cl h1)"
    unfolding loop_state_def using ok put_other(1) [OF bx, of cl] d(2) ox oy by (simp add: loop_state_def)
  have mx: "map (reify (put_cell b cl h1) ty) xs = map (reify h ty) xs"
  proof (rule map_cong [OF refl])
    fix z assume "z \<in> set xs"
    from xs [OF this] k show "reify (put_cell b cl h1) ty z = reify h ty z" by metis
  qed
  then show "map (reify (put_cell b cl h1) ty) xs = map Some ts" using rest(1) by metis
  show "\<forall>z\<in>set xs. \<forall>a\<in>owned (put_cell b cl h1) ty z. a < b" using xs k rest(2) by metis
  show "lim h \<le> lim h1" "a < b \<Longrightarrow> cells h1 a = cells h a" "cells h1 b = cells h b" for a
    using d(1) h(2) by (auto simp: extends_def)
qed

lemma copy_elems_spec:
  assumes "deep ty c" and "loop_state ty b ys ds h" and "cells h b = Some (CArr (ys @ zs))" and "length zs = length xs"
    and "map (reify h ty) xs = map Some ts" and "\<forall>z\<in>set xs. \<forall>a\<in>owned h ty z. a < b"
  shows "\<exists>vs. loop_state ty b vs (ds @ ts) (copy_elems c b (length ys) xs h) \<and>
    cells (copy_elems c b (length ys) xs h) b = Some (CArr vs) \<and> lim h \<le> lim (copy_elems c b (length ys) xs h) \<and>
    (\<forall>a<b. cells (copy_elems c b (length ys) xs h) a = cells h a)"
  using assms(2-6)
proof (induction xs arbitrary: ys ds zs ts h)
  case Nil
  then show ?case by auto
next
  case (Cons x xs)
  obtain t ts' where ts: "ts = t # ts'" "reify h ty x = Some t" "map (reify h ty) xs = map Some ts'"
    using Cons.prems(4) by (cases ts) auto
  obtain z zs' where zs: "zs = z # zs'" using Cons.prems(3) by (cases zs) auto
  obtain x' h1 where x: "c x h = (x', h1)" by fastforce
  let ?h2 = "put_cell b (CArr ((ys @ [x']) @ zs')) h1"
  have below: "\<forall>z\<in>set xs. \<forall>a\<in>owned h ty z. a < b" using Cons.prems(5) by simp
  note st = loop_step(1-3) [OF Cons.prems(1) assms(1) ts(2) x ts(3) below, where cl = "CArr ((ys @ [x']) @ zs')"]
  note keeps = loop_step(4-6) [OF Cons.prems(1) assms(1) ts(2) x ts(3) below]
  have "put_elem b (length ys) x' h1 = ?h2" using keeps(3) Cons.prems(2) zs by (simp add: put_elem_def)
  then have step: "copy_elems c b (length ys) (x # xs) h = copy_elems c b (length (ys @ [x'])) xs ?h2" by (simp add: x)
  have "cells ?h2 b = Some (CArr ((ys @ [x']) @ zs'))" "length zs' = length xs" using Cons.prems(3) zs by simp_all
  from Cons.IH [OF st(1) this st(2) st(3)] obtain vs where
    "loop_state ty b vs ((ds @ [t]) @ ts') (copy_elems c b (length ys) (x # xs) h)"
    "cells (copy_elems c b (length ys) (x # xs) h) b = Some (CArr vs)"
    "lim ?h2 \<le> lim (copy_elems c b (length ys) (x # xs) h)"
    "\<forall>a<b. cells (copy_elems c b (length ys) (x # xs) h) a = cells ?h2 a"
    unfolding step by auto
  then show ?case using ts(1) keeps(1,2) by (intro exI [of _ vs]) auto
qed

lemma loop_start:
  assumes ok: "heap_ok h" and xs: "map (reify h ty) xs = map Some ts"
  shows "loop_state ty (lim h) [] [] (snd (alloc cl h))" and "map (reify (snd (alloc cl h)) ty) xs = map Some ts"
    and "\<forall>z\<in>set xs. \<forall>a\<in>owned (snd (alloc cl h)) ty z. a < lim h"
proof -
  have e: "extends h (snd (alloc cl h))" by (rule extends_alloc [OF ok])
  have el: "reify (snd (alloc cl h)) ty z = reify h ty z \<and> (\<forall>a\<in>owned (snd (alloc cl h)) ty z. a < lim h)" if z: "z \<in> set xs" for z
    using map_Some_in [OF xs z] reify_extends [OF ok e] owned_below [OF ok] by fastforce
  show "loop_state ty (lim h) [] [] (snd (alloc cl h))" using extends_ok [OF e] by (simp add: loop_state_def)
  show "map (reify (snd (alloc cl h)) ty) xs = map Some ts" using el xs by (metis map_cong)
  show "\<forall>z\<in>set xs. \<forall>a\<in>owned (snd (alloc cl h)) ty z. a < lim h" using el by blast
qed

lemma loop_extends:
  assumes "loop_state ty (lim h) vs ts h'" "lim (snd (alloc cl h)) \<le> lim h'" "\<forall>a<lim h. cells h' a = cells (snd (alloc cl h)) a"
  shows "extends h h'"
  using assms by (auto simp: extends_def loop_state_def)

lemma deep_make_slice:
  assumes c: "deep ty c"
  shows "deep (TySlice ty) (make_slice c)"
proof (rule deepI)
  fix h v t v' h' assume ok: "heap_ok h" and r: "reify h (TySlice ty) v = Some t" and eq: "make_slice c v h = (v', h')"
  from r show "extends h h' \<and> reify h' (TySlice ty) v' = Some t \<and> (\<forall>a\<in>owned h' (TySlice ty) v'. lim h \<le> a)"
  proof (cases rule: reify_sliceD)
    case 1
    then show ?thesis using ok eq by (auto simp: make_slice_def)
  next
    case v: (2 a xs ts)
    let ?zs = "replicate (length xs) zero_value"
    let ?h1 = "snd (alloc (CArr ?zs) h)"
    have out: "v' = Slice (Some (lim h))" "h' = copy_elems c (lim h) (length ([] :: gval list)) xs ?h1"
      using eq v by (simp_all add: make_slice_def alloc_def)
    note st = loop_start [OF ok v(3), of "CArr ?zs"]
    obtain vs where vs: "loop_state ty (lim h) vs ts h'" "cells h' (lim h) = Some (CArr vs)" "lim ?h1 \<le> lim h'"
        "\<forall>a<lim h. cells h' a = cells ?h1 a"
      using copy_elems_spec [OF c st(1) _ _ st(2,3), of ?zs] unfolding out by auto
    have "extends h h'" by (rule loop_extends [OF vs(1,3,4)])
    moreover have "reify h' (TySlice ty) v' = Some t"
      using vs(1,2) v(4) unfolding out(1) by (simp add: loop_state_def those_Some)
    moreover have "\<forall>a\<in>owned h' (TySlice ty) v'. lim h \<le> a"
      using vs(1,2) unfolding out(1) by (auto simp: loop_state_def intro: less_imp_le)
    ultimately show ?thesis by blast
  qed
qed

text \<open>\<open>*out = make([]T, len(*in)); copy(*out, *in)\<close>, for elements without addresses.\<close>

definition copy_slice :: copier where
  "copy_slice v h =
     (case v of
        Slice (Some a) \<Rightarrow>
          (case cells h a of
             Some (CArr xs) \<Rightarrow>
               (case alloc (CArr (replicate (length xs) zero_value)) h of (b, h1) \<Rightarrow> (Slice (Some b), put_cell b (CArr xs) h1))
           | _ \<Rightarrow> (v, h))
      | _ \<Rightarrow> (v, h))"

lemma deep_copy_slice:
  assumes "flat ty"
  shows "deep (TySlice ty) copy_slice"
proof (rule deepI)
  fix h v t v' h' assume ok: "heap_ok h" and r: "reify h (TySlice ty) v = Some t" and eq: "copy_slice v h = (v', h')"
  from r show "extends h h' \<and> reify h' (TySlice ty) v' = Some t \<and> (\<forall>a\<in>owned h' (TySlice ty) v'. lim h \<le> a)"
  proof (cases rule: reify_sliceD)
    case 1
    then show ?thesis using ok eq by (auto simp: copy_slice_def)
  next
    case v: (2 a xs ts)
    let ?h1 = "snd (alloc (CArr (replicate (length xs) zero_value)) h)"
    have out: "v' = Slice (Some (lim h))" "h' = put_cell (lim h) (CArr xs) ?h1"
      using eq v by (simp_all add: copy_slice_def alloc_def)
    have e: "extends h h'" unfolding out using extends_put [OF extends_alloc [OF ok]] by simp
    have "reify h' ty z = reify h ty z" if z: "z \<in> set xs" for z
      using map_Some_in [OF v(3) z] reify_extends(1) [OF ok e] by metis
    then have "map (reify h' ty) xs = map Some ts" using v(3) by (metis map_cong)
    then show ?thesis using e v(4) out by (auto simp: those_Some flat_owned [OF assms])
  qed
qed

text \<open>
  \<open>*out = make(map[string]T, len(*in)); for key, val := range *in { (*out)[key] = *val.DeepCopy() }\<close>.
  The variable \<open>val\<close> has a cell of its own, whose copy is read back; the entries are taken in the order
  in which they are stored.
\<close>

definition deref_copy :: "copier \<Rightarrow> copier" where
  "deref_copy c v h =
     (case alloc (CVal v) h of (a, h1) \<Rightarrow>
        (case c (Ptr (Some a)) h1 of (p, h2) \<Rightarrow>
           ((case p of Ptr (Some b) \<Rightarrow> (case cells h2 b of Some (CVal x) \<Rightarrow> x | _ \<Rightarrow> v) | _ \<Rightarrow> v), h2)))"

lemma deep_deref_copy:
  assumes c: "deep (TyPtr ty) c"
  shows "deep ty (deref_copy c)"
proof (rule deepI)
  fix h v t v' h' assume ok: "heap_ok h" and r: "reify h ty v = Some t" and eq: "deref_copy c v h = (v', h')"
  let ?h1 = "snd (alloc (CVal v) h)"
  have e: "extends h ?h1" by (rule extends_alloc [OF ok])
  obtain p h2 where p: "c (Ptr (Some (lim h))) ?h1 = (p, h2)" by fastforce
  have "reify ?h1 (TyPtr ty) (Ptr (Some (lim h))) = Some (TPtr t)" using reify_extends(1) [OF ok e r] by simp
  note d = deepD [OF c extends_ok [OF e] this p]
  from d(2) obtain b x where x: "p = Ptr (Some b)" "cells h2 b = Some (CVal x)" "reify h2 ty x = Some t"
    by (cases rule: reify_ptrD) auto
  have "v' = x" "h' = h2" using eq p x by (simp_all add: deref_copy_def alloc_def)
  moreover have "lim h \<le> a" if "a \<in> owned h2 ty x" for a using d(3) [of a] x that by simp
  ultimately show "extends h h' \<and> reify h' ty v' = Some t \<and> (\<forall>a\<in>owned h' ty v'. lim h \<le> a)"
    using extends_trans [OF e d(1)] x by simp
qed

definition put_entry :: "addr \<Rightarrow> string \<Rightarrow> gval \<Rightarrow> heap \<Rightarrow> heap" where
  "put_entry b k x h = (case cells h b of Some (CMap kvs) \<Rightarrow> put_cell b (CMap (AList.update k x kvs)) h | _ \<Rightarrow> h)"

fun copy_entries :: "copier \<Rightarrow> addr \<Rightarrow> (string \<times> gval) list \<Rightarrow> heap \<Rightarrow> heap" where
  "copy_entries c b [] h = h"
| "copy_entries c b ((k, v) # kvs) h = (case c v h of (x, h1) \<Rightarrow> copy_entries c b kvs (put_entry b k x h1))"

definition make_map :: "copier \<Rightarrow> copier" where
  "make_map c v h =
     (case v of
        GMap (Some a) \<Rightarrow>
          (case cells h a of
             Some (CMap kvs) \<Rightarrow> (case alloc (CMap []) h of (b, h1) \<Rightarrow> (GMap (Some b), copy_entries (deref_copy c) b kvs h1))
           | _ \<Rightarrow> (v, h))
      | _ \<Rightarrow> (v, h))"

lemma update_new_key: "k \<notin> fst ` set kvs \<Longrightarrow> AList.update k x kvs = kvs @ [(k, x)]"
  by (induction kvs) auto

lemma copy_entries_spec:
  assumes "deep ty c" and "loop_state ty b (map snd ys) ds h" and "cells h b = Some (CMap ys)" and "distinct (map fst (ys @ kvs))"
    and "map (reify h ty) (map snd kvs) = map Some ts" and "\<forall>z\<in>set (map snd kvs). \<forall>a\<in>owned h ty z. a < b"
  shows "\<exists>vs. loop_state ty b (map snd vs) (ds @ ts) (copy_entries c b kvs h) \<and> map fst vs = map fst (ys @ kvs) \<and>
    cells (copy_entries c b kvs h) b = Some (CMap vs) \<and> lim h \<le> lim (copy_entries c b kvs h) \<and>
    (\<forall>a<b. cells (copy_entries c b kvs h) a = cells h a)"
  using assms(2-6)
proof (induction kvs arbitrary: ys ds ts h)
  case Nil
  then show ?case by auto
next
  case (Cons kv kvs)
  obtain k v where kv: "kv = (k, v)" by fastforce
  obtain t ts' where ts: "ts = t # ts'" "reify h ty v = Some t" "map (reify h ty) (map snd kvs) = map Some ts'"
    using Cons.prems(4) kv by (cases ts) auto
  obtain x h1 where x: "c v h = (x, h1)" by fastforce
  let ?h2 = "put_cell b (CMap (ys @ [(k, x)])) h1"
  have below: "\<forall>z\<in>set (map snd kvs). \<forall>a\<in>owned h ty z. a < b" using Cons.prems(5) by simp
  note st = loop_step(1-3) [OF Cons.prems(1) assms(1) ts(2) x ts(3) below, where cl = "CMap (ys @ [(k, x)])"]
  note keeps = loop_step(4-6) [OF Cons.prems(1) assms(1) ts(2) x ts(3) below]
  have new: "k \<notin> fst ` set ys" using Cons.prems(3) kv by auto
  have "put_entry b k x h1 = ?h2" using keeps(3) Cons.prems(2) update_new_key [OF new] by (simp add: put_entry_def)
  then have step: "copy_entries c b (kv # kvs) h = copy_entries c b kvs ?h2" by (simp add: x kv)
  have l: "loop_state ty b (map snd (ys @ [(k, x)])) (ds @ [t]) ?h2" using st(1) by simp
  have "cells ?h2 b = Some (CMap (ys @ [(k, x)]))" "distinct (map fst ((ys @ [(k, x)]) @ kvs))" using Cons.prems(3) kv by simp_all
  from Cons.IH [OF l this st(2,3)] obtain vs where
    "loop_state ty b (map snd vs) ((ds @ [t]) @ ts') (copy_entries c b (kv # kvs) h)"
    "map fst vs = map fst ((ys @ [(k, x)]) @ kvs)" "cells (copy_entries c b (kv # kvs) h) b = Some (CMap vs)"
    "lim ?h2 \<le> lim (copy_entries c b (kv # kvs) h)"
    "\<forall>a<b. cells (copy_entries c b (kv # kvs) h) a = cells ?h2 a"
    unfolding step by auto
  then show ?case using ts(1) keeps(1,2) kv by (intro exI [of _ vs]) auto
qed

lemma deep_make_map:
  assumes c: "deep (TyPtr ty) c"
  shows "deep (TyMap ty) (make_map c)"
proof (rule deepI)
  fix h v t v' h' assume ok: "heap_ok h" and r: "reify h (TyMap ty) v = Some t" and eq: "make_map c v h = (v', h')"
  from r show "extends h h' \<and> reify h' (TyMap ty) v' = Some t \<and> (\<forall>a\<in>owned h' (TyMap ty) v'. lim h \<le> a)"
  proof (cases rule: reify_mapD)
    case 1
    then show ?thesis using ok eq by (auto simp: make_map_def)
  next
    case v: (2 a kvs ts)
    let ?h1 = "snd (alloc (CMap []) h)"
    have out: "v' = GMap (Some (lim h))" "h' = copy_entries (deref_copy c) (lim h) kvs ?h1"
      using eq v by (simp_all add: make_map_def alloc_def)
    note st = loop_start [OF ok v(4), of "CMap []"]
    obtain vs where vs: "loop_state ty (lim h) (map snd vs) ts h'" "map fst vs = map fst kvs"
        "cells h' (lim h) = Some (CMap vs)" "lim ?h1 \<le> lim h'" "\<forall>a<lim h. cells h' a = cells ?h1 a"
      using copy_entries_spec [OF deep_deref_copy [OF c], of "lim h" "[]" "[]" ?h1 kvs ts] st v(3) unfolding out by auto
    have "extends h h'" by (rule loop_extends [OF vs(1,4,5)])
    moreover have "reify h' (TyMap ty) v' = Some t"
      using vs(1,2,3) v(3,5) unfolding out(1) by (simp add: loop_state_def those_Some del: map_map map_eq_conv)
    moreover have "\<forall>a\<in>owned h' (TyMap ty) v'. lim h \<le> a"
      using vs(1,3) unfolding out(1) by (auto simp: loop_state_def intro: less_imp_le)
    ultimately show ?thesis by blast
  qed
qed

section \<open>Structures\<close>

text \<open>
  \<open>*out = *in\<close> and then one statement for each field that needs more than the assignment, in the order
  of the fields; a field that no statement names keeps what the assignment gave it.
\<close>

definition step_of :: "(string \<times> copier) list \<Rightarrow> string \<Rightarrow> copier" where
  "step_of steps f = (case map_of steps f of Some c \<Rightarrow> c | None \<Rightarrow> assign)"

fun copy_fields :: "(string \<times> copier) list \<Rightarrow> (string \<times> gval) list \<Rightarrow> heap \<Rightarrow> (string \<times> gval) list \<times> heap" where
  "copy_fields steps [] h = ([], h)"
| "copy_fields steps ((f, v) # fs) h =
     (case step_of steps f v h of (v', h1) \<Rightarrow> (case copy_fields steps fs h1 of (fs', h2) \<Rightarrow> ((f, v') # fs', h2)))"

definition copy_struct :: "(string \<times> copier) list \<Rightarrow> copier" where
  "copy_struct steps v h =
     (case v of Struct fs \<Rightarrow> (case copy_fields steps fs h of (fs', h') \<Rightarrow> (Struct fs', h')) | _ \<Rightarrow> (v, h))"

definition deep_fields :: "(string \<times> gtype) list \<Rightarrow> (string \<times> copier) list \<Rightarrow> bool" where
  "deep_fields fts steps \<longleftrightarrow> (\<forall>(f, ty)\<in>set fts. deep ty (step_of steps f))"

lemma fields_extends:
  assumes "heap_ok h" and "extends h h'" and "reify_fields h fts fs = Some ts"
  shows "reify_fields h' fts fs = Some ts" and "owned_fields h' fts fs = owned_fields h fts fs"
  using reify_extends [OF assms(1,2), of "TyStruct fts" "Struct fs"] assms(3) by auto

lemma deep_copy_fields:
  assumes "deep_fields fts steps" and "heap_ok h" and "reify_fields h fts fs = Some ts" and "copy_fields steps fs h = (fs', h')"
  shows "extends h h' \<and> reify_fields h' fts fs' = Some ts \<and> (\<forall>a\<in>owned_fields h' fts fs'. lim h \<le> a)"
  using assms
proof (induction fts arbitrary: fs ts h fs' h')
  case Nil
  then show ?case by (cases fs) auto
next
  case (Cons p fts)
  obtain f ty where p: "p = (f, ty)" by fastforce
  obtain x gs u us where fs: "fs = (f, x) # gs" "reify h ty x = Some u" "reify_fields h fts gs = Some us" "ts = (f, u) # us"
    using Cons.prems(3) unfolding p by (rule reify_fieldsD)
  obtain x' h1 where x: "step_of steps f x h = (x', h1)" by fastforce
  obtain gs' where gs: "copy_fields steps gs h1 = (gs', h')" "fs' = (f, x') # gs'"
    using Cons.prems(4) fs(1) x by (auto split: prod.splits)
  have "deep ty (step_of steps f)" using Cons.prems(1) p by (simp add: deep_fields_def)
  note d = deepD [OF this Cons.prems(2) fs(2) x]
  have "deep_fields fts steps" using Cons.prems(1) by (simp add: deep_fields_def)
  from Cons.IH [OF this d(4) fields_extends(1) [OF Cons.prems(2) d(1) fs(3)] gs(1)]
  have r: "extends h1 h'" "reify_fields h' fts gs' = Some us" "\<forall>a\<in>owned_fields h' fts gs'. lim h1 \<le> a" by blast+
  note x' = reify_extends [OF d(4) r(1) d(2)]
  have "lim h \<le> lim h1" using d(1) by (simp add: extends_def)
  then have "\<forall>a\<in>owned_fields h' (p # fts) fs'. lim h \<le> a" using r(3) d(3) x'(2) p gs(2) by fastforce
  then show ?case using extends_trans [OF d(1) r(1)] r(2) x'(1) fs(4) gs(2) p by simp
qed

lemma deep_copy_struct: "deep_fields fts steps \<Longrightarrow> deep (TyStruct fts) (copy_struct steps)"
proof (rule deepI)
  fix h v t v' h' assume "deep_fields fts steps" and "heap_ok h" and r: "reify h (TyStruct fts) v = Some t"
    and eq: "copy_struct steps v h = (v', h')"
  from r obtain fs ts where fs: "v = Struct fs" "reify_fields h fts fs = Some ts" "t = TStruct ts" by (rule reify_structD)
  obtain fs' where "copy_fields steps fs h = (fs', h')" "v' = Struct fs'"
    using eq fs(1) by (auto simp: copy_struct_def split: prod.splits)
  then show "extends h h' \<and> reify h' (TyStruct fts) v' = Some t \<and> (\<forall>a\<in>owned h' (TyStruct fts) v'. lim h \<le> a)"
    using deep_copy_fields [OF \<open>deep_fields fts steps\<close> \<open>heap_ok h\<close> fs(2)] fs(3) by auto
qed

section \<open>A deep copy shares nothing\<close>

text \<open>A write to any cell of the copy leaves the original as it was, and the other way round.\<close>

lemma deep_independent:
  assumes c: "deep ty c" and h: "heap_ok h" "reify h ty v = Some t" and eq: "c v h = (v', h')"
  shows "reify h' ty v = Some t" and "owned h' ty v \<inter> owned h' ty v' = {}"
    and "a \<in> owned h' ty v' \<Longrightarrow> reify (put_cell a cl h') ty v = Some t"
    and "a \<in> owned h' ty v \<Longrightarrow> reify (put_cell a cl h') ty v' = Some t"
proof -
  note d = deepD [OF c h eq]
  note v = reify_extends [OF h(1) d(1) h(2)]
  show "reify h' ty v = Some t" by (fact v(1))
  show dis: "owned h' ty v \<inter> owned h' ty v' = {}" using d(3) owned_below [OF h] v(2) by fastforce
  show "reify (put_cell a cl h') ty v = Some t" if "a \<in> owned h' ty v'"
  proof -
    have "a \<notin> owned h' ty v" using that dis by blast
    from put_other(1) [OF this] v(1) show ?thesis by simp
  qed
  show "reify (put_cell a cl h') ty v' = Some t" if "a \<in> owned h' ty v"
  proof -
    have "a \<notin> owned h' ty v'" using that dis by blast
    from put_other(1) [OF this] d(2) show ?thesis by simp
  qed
qed

end
