(* ===== verification/Api_DeepCopy.thy ===== *)
theory Api_DeepCopy
  imports Deep_Copy
begin

text \<open>
  The generated deep copies of \<open>apis/infrastructure/v1beta1/zz_generated.deepcopy.go\<close>: for every type
  of the package a description of the type, as its file declares it, and the functions
  \<open>DeepCopyInto\<close>, \<open>DeepCopy\<close> and, for the kinds, \<open>DeepCopyObject\<close>.  A function that
  writes through its argument \<open>out\<close> is a copier that gives the value written.  The types of
  apimachinery and cluster-api, and their copiers, are the parameter \<open>meta\<close>.  Every copy is shown
  to be a value equal to the original that shares no memory with it: no field with a pointer, a
  slice or a map is left to the plain assignment.
\<close>

section \<open>The imported types\<close>

record meta =
  TypeMeta_type :: gtype
  ObjectReference_type :: gtype
  ObjectMeta_type :: gtype
  ObjectMeta_DeepCopyInto :: copier
  ListMeta_type :: gtype
  ListMeta_DeepCopyInto :: copier
  LabelSelector_type :: gtype
  LabelSelector_DeepCopyInto :: copier
  Condition_type :: gtype
  Condition_DeepCopyInto :: copier
  ClusterObjectMeta_type :: gtype
  ClusterObjectMeta_DeepCopyInto :: copier
  FailureDomainSpec_type :: gtype
  FailureDomainSpec_DeepCopy :: copier

text \<open>
  \<open>TypeMeta\<close> and \<open>ObjectReference\<close> are structures of strings, and the imported copiers copy deeply.
\<close>

definition meta_contract :: "meta \<Rightarrow> bool" where
  "meta_contract M \<longleftrightarrow>
     flat (TypeMeta_type M) \<and> flat (ObjectReference_type M) \<and>
     deep (ObjectMeta_type M) (ObjectMeta_DeepCopyInto M) \<and> deep (ListMeta_type M) (ListMeta_DeepCopyInto M) \<and>
     deep (LabelSelector_type M) (LabelSelector_DeepCopyInto M) \<and> deep (Condition_type M) (Condition_DeepCopyInto M) \<and>
     deep (ClusterObjectMeta_type M) (ClusterObjectMeta_DeepCopyInto M) \<and>
     deep (TyPtr (FailureDomainSpec_type M)) (FailureDomainSpec_DeepCopy M)"

text \<open>A \<open>runtime.Object\<close> that is not nil: the type of the pointer it holds and the pointer.\<close>

type_synonym object = "string \<times> gval"

definition as_object :: "string \<Rightarrow> copier \<Rightarrow> gval \<Rightarrow> heap \<Rightarrow> object option \<times> heap" where
  "as_object n c v h = (case c v h of (p, h') \<Rightarrow> (if p \<noteq> Ptr None then Some (n, p) else None, h'))"

section \<open>The types\<close>

definition APIEndpoint_type :: gtype where
  "APIEndpoint_type = TyStruct [(''Host'', TyScalar), (''Port'', TyScalar)]"

definition BootstrapKubeconfigSpec_type :: gtype where
  "BootstrapKubeconfigSpec_type = TyStruct [(''APIServer'', TyScalar), (''InsecureSkipTLSVerify'', TyScalar),
     (''CertificateAuthorityData'', TyScalar)]"

definition BootstrapKubeconfigStatus_type :: gtype where
  "BootstrapKubeconfigStatus_type = TyStruct [(''BootstrapKubeconfigData'', TyPtr TyScalar)]"

definition BootstrapKubeconfig_type :: "meta \<Rightarrow> gtype" where
  "BootstrapKubeconfig_type M = TyStruct [(''TypeMeta'', TypeMeta_type M), (''ObjectMeta'', ObjectMeta_type M),
     (''Spec'', BootstrapKubeconfigSpec_type), (''Status'', BootstrapKubeconfigStatus_type)]"

definition BootstrapKubeconfigList_type :: "meta \<Rightarrow> gtype" where
  "BootstrapKubeconfigList_type M = TyStruct [(''TypeMeta'', TypeMeta_type M), (''ListMeta'', ListMeta_type M),
     (''Items'', TySlice (BootstrapKubeconfig_type M))]"

definition ByoClusterSpec_type :: gtype where
  "ByoClusterSpec_type = TyStruct [(''ControlPlaneEndpoint'', APIEndpoint_type), (''BundleLookupBaseRegistry'', TyScalar)]"

definition ByoClusterStatus_type :: "meta \<Rightarrow> gtype" where
  "ByoClusterStatus_type M = TyStruct [(''Ready'', TyScalar), (''Conditions'', TySlice (Condition_type M)),
     (''FailureDomains'', TyMap (FailureDomainSpec_type M))]"

definition ByoCluster_type :: "meta \<Rightarrow> gtype" where
  "ByoCluster_type M = TyStruct [(''TypeMeta'', TypeMeta_type M), (''ObjectMeta'', ObjectMeta_type M),
     (''Spec'', ByoClusterSpec_type), (''Status'', ByoClusterStatus_type M)]"

definition ByoClusterList_type :: "meta \<Rightarrow> gtype" where
  "ByoClusterList_type M = TyStruct [(''TypeMeta'', TypeMeta_type M), (''ListMeta'', ListMeta_type M),
     (''Items'', TySlice (ByoCluster_type M))]"

definition ByoClusterTemplateResource_type :: "meta \<Rightarrow> gtype" where
  "ByoClusterTemplateResource_type M = TyStruct [(''ObjectMeta'', ClusterObjectMeta_type M),
     (''Spec'', ByoClusterSpec_type)]"

definition ByoClusterTemplateSpec_type :: "meta \<Rightarrow> gtype" where
  "ByoClusterTemplateSpec_type M = TyStruct [(''Template'', ByoClusterTemplateResource_type M)]"

definition ByoClusterTemplate_type :: "meta \<Rightarrow> gtype" where
  "ByoClusterTemplate_type M = TyStruct [(''TypeMeta'', TypeMeta_type M), (''ObjectMeta'', ObjectMeta_type M),
     (''Spec'', ByoClusterTemplateSpec_type M)]"

definition ByoClusterTemplateList_type :: "meta \<Rightarrow> gtype" where
  "ByoClusterTemplateList_type M = TyStruct [(''TypeMeta'', TypeMeta_type M), (''ListMeta'', ListMeta_type M),
     (''Items'', TySlice (ByoClusterTemplate_type M))]"

definition ByoHostSpec_type :: "meta \<Rightarrow> gtype" where
  "ByoHostSpec_type M = TyStruct [(''BootstrapSecret'', TyPtr (ObjectReference_type M)),
     (''InstallationSecret'', TyPtr (ObjectReference_type M)),
     (''UninstallationSecret'', TyPtr (ObjectReference_type M))]"

definition HostInfo_type :: gtype where
  "HostInfo_type = TyStruct [(''OSName'', TyScalar), (''OSImage'', TyScalar), (''Architecture'', TyScalar)]"

definition NetworkStatus_type :: gtype where
  "NetworkStatus_type = TyStruct [(''Connected'', TyScalar), (''IPAddrs'', TySlice TyScalar), (''MACAddr'', TyScalar),
     (''NetworkInterfaceName'', TyScalar), (''IsDefault'', TyScalar)]"

definition ByoHostStatus_type :: "meta \<Rightarrow> gtype" where
  "ByoHostStatus_type M = TyStruct [(''MachineRef'', TyPtr (ObjectReference_type M)),
     (''Conditions'', TySlice (Condition_type M)), (''HostDetails'', HostInfo_type),
     (''Network'', TySlice NetworkStatus_type)]"

definition ByoHost_type :: "meta \<Rightarrow> gtype" where
  "ByoHost_type M = TyStruct [(''TypeMeta'', TypeMeta_type M), (''ObjectMeta'', ObjectMeta_type M),
     (''Spec'', ByoHostSpec_type M), (''Status'', ByoHostStatus_type M)]"

definition ByoHostList_type :: "meta \<Rightarrow> gtype" where
  "ByoHostList_type M = TyStruct [(''TypeMeta'', TypeMeta_type M), (''ListMeta'', ListMeta_type M),
     (''Items'', TySlice (ByoHost_type M))]"

definition ByoMachineSpec_type :: "meta \<Rightarrow> gtype" where
  "ByoMachineSpec_type M = TyStruct [(''Selector'', TyPtr (LabelSelector_type M)), (''ProviderID'', TyScalar),
     (''InstallerRef'', TyPtr (ObjectReference_type M))]"

definition ByoMachineStatus_type :: "meta \<Rightarrow> gtype" where
  "ByoMachineStatus_type M = TyStruct [(''HostInfo'', HostInfo_type), (''Ready'', TyScalar),
     (''Conditions'', TySlice (Condition_type M))]"

definition ByoMachine_type :: "meta \<Rightarrow> gtype" where
  "ByoMachine_type M = TyStruct [(''TypeMeta'', TypeMeta_type M), (''ObjectMeta'', ObjectMeta_type M),
     (''Spec'', ByoMachineSpec_type M), (''Status'', ByoMachineStatus_type M)]"

definition ByoMachineList_type :: "meta \<Rightarrow> gtype" where
  "ByoMachineList_type M = TyStruct [(''TypeMeta'', TypeMeta_type M), (''ListMeta'', ListMeta_type M),
     (''Items'', TySlice (ByoMachine_type M))]"

definition ByoMachineTemplateResource_type :: "meta \<Rightarrow> gtype" where
  "ByoMachineTemplateResource_type M = TyStruct [(''Spec'', ByoMachineSpec_type M)]"

definition ByoMachineTemplateSpec_type :: "meta \<Rightarrow> gtype" where
  "ByoMachineTemplateSpec_type M = TyStruct [(''Template'', ByoMachineTemplateResource_type M)]"

definition ByoMachineTemplateStatus_type :: gtype where
  "ByoMachineTemplateStatus_type = TyStruct []"

definition ByoMachineTemplate_type :: "meta \<Rightarrow> gtype" where
  "ByoMachineTemplate_type M = TyStruct [(''TypeMeta'', TypeMeta_type M), (''ObjectMeta'', ObjectMeta_type M),
     (''Spec'', ByoMachineTemplateSpec_type M), (''Status'', ByoMachineTemplateStatus_type)]"

definition ByoMachineTemplateList_type :: "meta \<Rightarrow> gtype" where
  "ByoMachineTemplateList_type M = TyStruct [(''TypeMeta'', TypeMeta_type M), (''ListMeta'', ListMeta_type M),
     (''Items'', TySlice (ByoMachineTemplate_type M))]"

definition K8sInstallerConfigSpec_type :: gtype where
  "K8sInstallerConfigSpec_type = TyStruct [(''BundleRepo'', TyScalar), (''BundleType'', TyScalar)]"

definition K8sInstallerConfigStatus_type :: "meta \<Rightarrow> gtype" where
  "K8sInstallerConfigStatus_type M = TyStruct [(''Ready'', TyScalar),
     (''InstallationSecret'', TyPtr (ObjectReference_type M)),
     (''UninstallationSecret'', TyPtr (ObjectReference_type M))]"

definition K8sInstallerConfig_type :: "meta \<Rightarrow> gtype" where
  "K8sInstallerConfig_type M = TyStruct [(''TypeMeta'', TypeMeta_type M), (''ObjectMeta'', ObjectMeta_type M),
     (''Spec'', K8sInstallerConfigSpec_type), (''Status'', K8sInstallerConfigStatus_type M)]"

definition K8sInstallerConfigList_type :: "meta \<Rightarrow> gtype" where
  "K8sInstallerConfigList_type M = TyStruct [(''TypeMeta'', TypeMeta_type M), (''ListMeta'', ListMeta_type M),
     (''Items'', TySlice (K8sInstallerConfig_type M))]"

definition K8sInstallerConfigTemplateResource_type :: gtype where
  "K8sInstallerConfigTemplateResource_type = TyStruct [(''Spec'', K8sInstallerConfigSpec_type)]"

definition K8sInstallerConfigTemplateSpec_type :: gtype where
  "K8sInstallerConfigTemplateSpec_type = TyStruct [(''Template'', K8sInstallerConfigTemplateResource_type)]"

definition K8sInstallerConfigTemplateStatus_type :: gtype where
  "K8sInstallerConfigTemplateStatus_type = TyStruct []"

definition K8sInstallerConfigTemplate_type :: "meta \<Rightarrow> gtype" where
  "K8sInstallerConfigTemplate_type M = TyStruct [(''TypeMeta'', TypeMeta_type M), (''ObjectMeta'', ObjectMeta_type M),
     (''Spec'', K8sInstallerConfigTemplateSpec_type), (''Status'', K8sInstallerConfigTemplateStatus_type)]"

definition K8sInstallerConfigTemplateList_type :: "meta \<Rightarrow> gtype" where
  "K8sInstallerConfigTemplateList_type M = TyStruct [(''TypeMeta'', TypeMeta_type M), (''ListMeta'', ListMeta_type M),
     (''Items'', TySlice (K8sInstallerConfigTemplate_type M))]"

section \<open>The copiers\<close>

definition APIEndpoint_DeepCopyInto :: copier where
  "APIEndpoint_DeepCopyInto = copy_struct []"

definition APIEndpoint_DeepCopy :: copier where
  "APIEndpoint_DeepCopy = new_ptr APIEndpoint_DeepCopyInto"

definition BootstrapKubeconfigSpec_DeepCopyInto :: copier where
  "BootstrapKubeconfigSpec_DeepCopyInto = copy_struct []"

definition BootstrapKubeconfigSpec_DeepCopy :: copier where
  "BootstrapKubeconfigSpec_DeepCopy = new_ptr BootstrapKubeconfigSpec_DeepCopyInto"

definition BootstrapKubeconfigStatus_DeepCopyInto :: copier where
  "BootstrapKubeconfigStatus_DeepCopyInto = copy_struct [(''BootstrapKubeconfigData'', new_ptr assign)]"

definition BootstrapKubeconfigStatus_DeepCopy :: copier where
  "BootstrapKubeconfigStatus_DeepCopy = new_ptr BootstrapKubeconfigStatus_DeepCopyInto"

definition BootstrapKubeconfig_DeepCopyInto :: "meta \<Rightarrow> copier" where
  "BootstrapKubeconfig_DeepCopyInto M = copy_struct [(''TypeMeta'', assign), (''ObjectMeta'', ObjectMeta_DeepCopyInto M),
     (''Spec'', assign), (''Status'', BootstrapKubeconfigStatus_DeepCopyInto)]"

definition BootstrapKubeconfig_DeepCopy :: "meta \<Rightarrow> copier" where
  "BootstrapKubeconfig_DeepCopy M = new_ptr (BootstrapKubeconfig_DeepCopyInto M)"

definition BootstrapKubeconfig_DeepCopyObject :: "meta \<Rightarrow> gval \<Rightarrow> heap \<Rightarrow> object option \<times> heap" where
  "BootstrapKubeconfig_DeepCopyObject M = as_object ''BootstrapKubeconfig'' (BootstrapKubeconfig_DeepCopy M)"

definition BootstrapKubeconfigList_DeepCopyInto :: "meta \<Rightarrow> copier" where
  "BootstrapKubeconfigList_DeepCopyInto M = copy_struct [(''TypeMeta'', assign), (''ListMeta'', ListMeta_DeepCopyInto M),
     (''Items'', make_slice (BootstrapKubeconfig_DeepCopyInto M))]"

definition BootstrapKubeconfigList_DeepCopy :: "meta \<Rightarrow> copier" where
  "BootstrapKubeconfigList_DeepCopy M = new_ptr (BootstrapKubeconfigList_DeepCopyInto M)"

definition BootstrapKubeconfigList_DeepCopyObject :: "meta \<Rightarrow> gval \<Rightarrow> heap \<Rightarrow> object option \<times> heap" where
  "BootstrapKubeconfigList_DeepCopyObject M = as_object ''BootstrapKubeconfigList'' (BootstrapKubeconfigList_DeepCopy M)"

definition ByoClusterSpec_DeepCopyInto :: copier where
  "ByoClusterSpec_DeepCopyInto = copy_struct [(''ControlPlaneEndpoint'', assign)]"

definition ByoClusterSpec_DeepCopy :: copier where
  "ByoClusterSpec_DeepCopy = new_ptr ByoClusterSpec_DeepCopyInto"

definition ByoClusterStatus_DeepCopyInto :: "meta \<Rightarrow> copier" where
  "ByoClusterStatus_DeepCopyInto M = copy_struct [(''Conditions'', make_slice (Condition_DeepCopyInto M)),
     (''FailureDomains'', make_map (FailureDomainSpec_DeepCopy M))]"

definition ByoClusterStatus_DeepCopy :: "meta \<Rightarrow> copier" where
  "ByoClusterStatus_DeepCopy M = new_ptr (ByoClusterStatus_DeepCopyInto M)"

definition ByoCluster_DeepCopyInto :: "meta \<Rightarrow> copier" where
  "ByoCluster_DeepCopyInto M = copy_struct [(''TypeMeta'', assign), (''ObjectMeta'', ObjectMeta_DeepCopyInto M),
     (''Spec'', assign), (''Status'', ByoClusterStatus_DeepCopyInto M)]"

definition ByoCluster_DeepCopy :: "meta \<Rightarrow> copier" where
  "ByoCluster_DeepCopy M = new_ptr (ByoCluster_DeepCopyInto M)"

definition ByoCluster_DeepCopyObject :: "meta \<Rightarrow> gval \<Rightarrow> heap \<Rightarrow> object option \<times> heap" where
  "ByoCluster_DeepCopyObject M = as_object ''ByoCluster'' (ByoCluster_DeepCopy M)"

definition ByoClusterList_DeepCopyInto :: "meta \<Rightarrow> copier" where
  "ByoClusterList_DeepCopyInto M = copy_struct [(''TypeMeta'', assign), (''ListMeta'', ListMeta_DeepCopyInto M),
     (''Items'', make_slice (ByoCluster_DeepCopyInto M))]"

definition ByoClusterList_DeepCopy :: "meta \<Rightarrow> copier" where
  "ByoClusterList_DeepCopy M = new_ptr (ByoClusterList_DeepCopyInto M)"

definition ByoClusterList_DeepCopyObject :: "meta \<Rightarrow> gval \<Rightarrow> heap \<Rightarrow> object option \<times> heap" where
  "ByoClusterList_DeepCopyObject M = as_object ''ByoClusterList'' (ByoClusterList_DeepCopy M)"

definition ByoClusterTemplateResource_DeepCopyInto :: "meta \<Rightarrow> copier" where
  "ByoClusterTemplateResource_DeepCopyInto M = copy_struct [(''ObjectMeta'', ClusterObjectMeta_DeepCopyInto M),
     (''Spec'', assign)]"

definition ByoClusterTemplateResource_DeepCopy :: "meta \<Rightarrow> copier" where
  "ByoClusterTemplateResource_DeepCopy M = new_ptr (ByoClusterTemplateResource_DeepCopyInto M)"

definition ByoClusterTemplateSpec_DeepCopyInto :: "meta \<Rightarrow> copier" where
  "ByoClusterTemplateSpec_DeepCopyInto M = copy_struct [(''Template'', ByoClusterTemplateResource_DeepCopyInto M)]"

definition ByoClusterTemplateSpec_DeepCopy :: "meta \<Rightarrow> copier" where
  "ByoClusterTemplateSpec_DeepCopy M = new_ptr (ByoClusterTemplateSpec_DeepCopyInto M)"

definition ByoClusterTemplate_DeepCopyInto :: "meta \<Rightarrow> copier" where
  "ByoClusterTemplate_DeepCopyInto M = copy_struct [(''TypeMeta'', assign), (''ObjectMeta'', ObjectMeta_DeepCopyInto M),
     (''Spec'', ByoClusterTemplateSpec_DeepCopyInto M)]"

definition ByoClusterTemplate_DeepCopy :: "meta \<Rightarrow> copier" where
  "ByoClusterTemplate_DeepCopy M = new_ptr (ByoClusterTemplate_DeepCopyInto M)"

definition ByoClusterTemplate_DeepCopyObject :: "meta \<Rightarrow> gval \<Rightarrow> heap \<Rightarrow> object option \<times> heap" where
  "ByoClusterTemplate_DeepCopyObject M = as_object ''ByoClusterTemplate'' (ByoClusterTemplate_DeepCopy M)"

definition ByoClusterTemplateList_DeepCopyInto :: "meta \<Rightarrow> copier" where
  "ByoClusterTemplateList_DeepCopyInto M = copy_struct [(''TypeMeta'', assign), (''ListMeta'', ListMeta_DeepCopyInto M),
     (''Items'', make_slice (ByoClusterTemplate_DeepCopyInto M))]"

definition ByoClusterTemplateList_DeepCopy :: "meta \<Rightarrow> copier" where
  "ByoClusterTemplateList_DeepCopy M = new_ptr (ByoClusterTemplateList_DeepCopyInto M)"

definition ByoClusterTemplateList_DeepCopyObject :: "meta \<Rightarrow> gval \<Rightarrow> heap \<Rightarrow> object option \<times> heap" where
  "ByoClusterTemplateList_DeepCopyObject M = as_object ''ByoClusterTemplateList'' (ByoClusterTemplateList_DeepCopy M)"

definition ByoHostSpec_DeepCopyInto :: copier where
  "ByoHostSpec_DeepCopyInto = copy_struct [(''BootstrapSecret'', new_ptr assign),
     (''InstallationSecret'', new_ptr assign), (''UninstallationSecret'', new_ptr assign)]"

definition ByoHostSpec_DeepCopy :: copier where
  "ByoHostSpec_DeepCopy = new_ptr ByoHostSpec_DeepCopyInto"

definition HostInfo_DeepCopyInto :: copier where
  "HostInfo_DeepCopyInto = copy_struct []"

definition HostInfo_DeepCopy :: copier where
  "HostInfo_DeepCopy = new_ptr HostInfo_DeepCopyInto"

definition NetworkStatus_DeepCopyInto :: copier where
  "NetworkStatus_DeepCopyInto = copy_struct [(''IPAddrs'', copy_slice)]"

definition NetworkStatus_DeepCopy :: copier where
  "NetworkStatus_DeepCopy = new_ptr NetworkStatus_DeepCopyInto"

definition ByoHostStatus_DeepCopyInto :: "meta \<Rightarrow> copier" where
  "ByoHostStatus_DeepCopyInto M = copy_struct [(''MachineRef'', new_ptr assign),
     (''Conditions'', make_slice (Condition_DeepCopyInto M)), (''HostDetails'', assign),
     (''Network'', make_slice NetworkStatus_DeepCopyInto)]"

definition ByoHostStatus_DeepCopy :: "meta \<Rightarrow> copier" where
  "ByoHostStatus_DeepCopy M = new_ptr (ByoHostStatus_DeepCopyInto M)"

definition ByoHost_DeepCopyInto :: "meta \<Rightarrow> copier" where
  "ByoHost_DeepCopyInto M = copy_struct [(''TypeMeta'', assign), (''ObjectMeta'', ObjectMeta_DeepCopyInto M),
     (''Spec'', ByoHostSpec_DeepCopyInto), (''Status'', ByoHostStatus_DeepCopyInto M)]"

definition ByoHost_DeepCopy :: "meta \<Rightarrow> copier" where
  "ByoHost_DeepCopy M = new_ptr (ByoHost_DeepCopyInto M)"

definition ByoHost_DeepCopyObject :: "meta \<Rightarrow> gval \<Rightarrow> heap \<Rightarrow> object option \<times> heap" where
  "ByoHost_DeepCopyObject M = as_object ''ByoHost'' (ByoHost_DeepCopy M)"

definition ByoHostList_DeepCopyInto :: "meta \<Rightarrow> copier" where
  "ByoHostList_DeepCopyInto M = copy_struct [(''TypeMeta'', assign), (''ListMeta'', ListMeta_DeepCopyInto M),
     (''Items'', make_slice (ByoHost_DeepCopyInto M))]"

definition ByoHostList_DeepCopy :: "meta \<Rightarrow> copier" where
  "ByoHostList_DeepCopy M = new_ptr (ByoHostList_DeepCopyInto M)"

definition ByoHostList_DeepCopyObject :: "meta \<Rightarrow> gval \<Rightarrow> heap \<Rightarrow> object option \<times> heap" where
  "ByoHostList_DeepCopyObject M = as_object ''ByoHostList'' (ByoHostList_DeepCopy M)"

definition ByoMachineSpec_DeepCopyInto :: "meta \<Rightarrow> copier" where
  "ByoMachineSpec_DeepCopyInto M = copy_struct [(''Selector'', new_ptr (LabelSelector_DeepCopyInto M)),
     (''InstallerRef'', new_ptr assign)]"

definition ByoMachineSpec_DeepCopy :: "meta \<Rightarrow> copier" where
  "ByoMachineSpec_DeepCopy M = new_ptr (ByoMachineSpec_DeepCopyInto M)"

definition ByoMachineStatus_DeepCopyInto :: "meta \<Rightarrow> copier" where
  "ByoMachineStatus_DeepCopyInto M = copy_struct [(''HostInfo'', assign),
     (''Conditions'', make_slice (Condition_DeepCopyInto M))]"

definition ByoMachineStatus_DeepCopy :: "meta \<Rightarrow> copier" where
  "ByoMachineStatus_DeepCopy M = new_ptr (ByoMachineStatus_DeepCopyInto M)"

definition ByoMachine_DeepCopyInto :: "meta \<Rightarrow> copier" where
  "ByoMachine_DeepCopyInto M = copy_struct [(''TypeMeta'', assign), (''ObjectMeta'', ObjectMeta_DeepCopyInto M),
     (''Spec'', ByoMachineSpec_DeepCopyInto M), (''Status'', ByoMachineStatus_DeepCopyInto M)]"

definition ByoMachine_DeepCopy :: "meta \<Rightarrow> copier" where
  "ByoMachine_DeepCopy M = new_ptr (ByoMachine_DeepCopyInto M)"

definition ByoMachine_DeepCopyObject :: "meta \<Rightarrow> gval \<Rightarrow> heap \<Rightarrow> object option \<times> heap" where
  "ByoMachine_DeepCopyObject M = as_object ''ByoMachine'' (ByoMachine_DeepCopy M)"

definition ByoMachineList_DeepCopyInto :: "meta \<Rightarrow> copier" where
  "ByoMachineList_DeepCopyInto M = copy_struct [(''TypeMeta'', assign), (''ListMeta'', ListMeta_DeepCopyInto M),
     (''Items'', make_slice (ByoMachine_DeepCopyInto M))]"

definition ByoMachineList_DeepCopy :: "meta \<Rightarrow> copier" where
  "ByoMachineList_DeepCopy M = new_ptr (ByoMachineList_DeepCopyInto M)"

definition ByoMachineList_DeepCopyObject :: "meta \<Rightarrow> gval \<Rightarrow> heap \<Rightarrow> object option \<times> heap" where
  "ByoMachineList_DeepCopyObject M = as_object ''ByoMachineList'' (ByoMachineList_DeepCopy M)"

definition ByoMachineTemplateResource_DeepCopyInto :: "meta \<Rightarrow> copier" where
  "ByoMachineTemplateResource_DeepCopyInto M = copy_struct [(''Spec'', ByoMachineSpec_DeepCopyInto M)]"

definition ByoMachineTemplateResource_DeepCopy :: "meta \<Rightarrow> copier" where
  "ByoMachineTemplateResource_DeepCopy M = new_ptr (ByoMachineTemplateResource_DeepCopyInto M)"

definition ByoMachineTemplateSpec_DeepCopyInto :: "meta \<Rightarrow> copier" where
  "ByoMachineTemplateSpec_DeepCopyInto M = copy_struct [(''Template'', ByoMachineTemplateResource_DeepCopyInto M)]"

definition ByoMachineTemplateSpec_DeepCopy :: "meta \<Rightarrow> copier" where
  "ByoMachineTemplateSpec_DeepCopy M = new_ptr (ByoMachineTemplateSpec_DeepCopyInto M)"

definition ByoMachineTemplateStatus_DeepCopyInto :: copier where
  "ByoMachineTemplateStatus_DeepCopyInto = copy_struct []"

definition ByoMachineTemplateStatus_DeepCopy :: copier where
  "ByoMachineTemplateStatus_DeepCopy = new_ptr ByoMachineTemplateStatus_DeepCopyInto"

definition ByoMachineTemplate_DeepCopyInto :: "meta \<Rightarrow> copier" where
  "ByoMachineTemplate_DeepCopyInto M = copy_struct [(''TypeMeta'', assign), (''ObjectMeta'', ObjectMeta_DeepCopyInto M),
     (''Spec'', ByoMachineTemplateSpec_DeepCopyInto M), (''Status'', assign)]"

definition ByoMachineTemplate_DeepCopy :: "meta \<Rightarrow> copier" where
  "ByoMachineTemplate_DeepCopy M = new_ptr (ByoMachineTemplate_DeepCopyInto M)"

definition ByoMachineTemplate_DeepCopyObject :: "meta \<Rightarrow> gval \<Rightarrow> heap \<Rightarrow> object option \<times> heap" where
  "ByoMachineTemplate_DeepCopyObject M = as_object ''ByoMachineTemplate'' (ByoMachineTemplate_DeepCopy M)"

definition ByoMachineTemplateList_DeepCopyInto :: "meta \<Rightarrow> copier" where
  "ByoMachineTemplateList_DeepCopyInto M = copy_struct [(''TypeMeta'', assign), (''ListMeta'', ListMeta_DeepCopyInto M),
     (''Items'', make_slice (ByoMachineTemplate_DeepCopyInto M))]"

definition ByoMachineTemplateList_DeepCopy :: "meta \<Rightarrow> copier" where
  "ByoMachineTemplateList_DeepCopy M = new_ptr (ByoMachineTemplateList_DeepCopyInto M)"

definition ByoMachineTemplateList_DeepCopyObject :: "meta \<Rightarrow> gval \<Rightarrow> heap \<Rightarrow> object option \<times> heap" where
  "ByoMachineTemplateList_DeepCopyObject M = as_object ''ByoMachineTemplateList'' (ByoMachineTemplateList_DeepCopy M)"

definition K8sInstallerConfigSpec_DeepCopyInto :: copier where
  "K8sInstallerConfigSpec_DeepCopyInto = copy_struct []"

definition K8sInstallerConfigSpec_DeepCopy :: copier where
  "K8sInstallerConfigSpec_DeepCopy = new_ptr K8sInstallerConfigSpec_DeepCopyInto"

definition K8sInstallerConfigStatus_DeepCopyInto :: copier where
  "K8sInstallerConfigStatus_DeepCopyInto = copy_struct [(''InstallationSecret'', new_ptr assign),
     (''UninstallationSecret'', new_ptr assign)]"

definition K8sInstallerConfigStatus_DeepCopy :: copier where
  "K8sInstallerConfigStatus_DeepCopy = new_ptr K8sInstallerConfigStatus_DeepCopyInto"

definition K8sInstallerConfig_DeepCopyInto :: "meta \<Rightarrow> copier" where
  "K8sInstallerConfig_DeepCopyInto M = copy_struct [(''TypeMeta'', assign), (''ObjectMeta'', ObjectMeta_DeepCopyInto M),
     (''Spec'', assign), (''Status'', K8sInstallerConfigStatus_DeepCopyInto)]"

definition K8sInstallerConfig_DeepCopy :: "meta \<Rightarrow> copier" where
  "K8sInstallerConfig_DeepCopy M = new_ptr (K8sInstallerConfig_DeepCopyInto M)"

definition K8sInstallerConfig_DeepCopyObject :: "meta \<Rightarrow> gval \<Rightarrow> heap \<Rightarrow> object option \<times> heap" where
  "K8sInstallerConfig_DeepCopyObject M = as_object ''K8sInstallerConfig'' (K8sInstallerConfig_DeepCopy M)"

definition K8sInstallerConfigList_DeepCopyInto :: "meta \<Rightarrow> copier" where
  "K8sInstallerConfigList_DeepCopyInto M = copy_struct [(''TypeMeta'', assign), (''ListMeta'', ListMeta_DeepCopyInto M),
     (''Items'', make_slice (K8sInstallerConfig_DeepCopyInto M))]"

definition K8sInstallerConfigList_DeepCopy :: "meta \<Rightarrow> copier" where
  "K8sInstallerConfigList_DeepCopy M = new_ptr (K8sInstallerConfigList_DeepCopyInto M)"

definition K8sInstallerConfigList_DeepCopyObject :: "meta \<Rightarrow> gval \<Rightarrow> heap \<Rightarrow> object option \<times> heap" where
  "K8sInstallerConfigList_DeepCopyObject M = as_object ''K8sInstallerConfigList'' (K8sInstallerConfigList_DeepCopy M)"

definition K8sInstallerConfigTemplateResource_DeepCopyInto :: copier where
  "K8sInstallerConfigTemplateResource_DeepCopyInto = copy_struct [(''Spec'', assign)]"

definition K8sInstallerConfigTemplateResource_DeepCopy :: copier where
  "K8sInstallerConfigTemplateResource_DeepCopy = new_ptr K8sInstallerConfigTemplateResource_DeepCopyInto"

definition K8sInstallerConfigTemplateSpec_DeepCopyInto :: copier where
  "K8sInstallerConfigTemplateSpec_DeepCopyInto = copy_struct [(''Template'', assign)]"

definition K8sInstallerConfigTemplateSpec_DeepCopy :: copier where
  "K8sInstallerConfigTemplateSpec_DeepCopy = new_ptr K8sInstallerConfigTemplateSpec_DeepCopyInto"

definition K8sInstallerConfigTemplateStatus_DeepCopyInto :: copier where
  "K8sInstallerConfigTemplateStatus_DeepCopyInto = copy_struct []"

definition K8sInstallerConfigTemplateStatus_DeepCopy :: copier where
  "K8sInstallerConfigTemplateStatus_DeepCopy = new_ptr K8sInstallerConfigTemplateStatus_DeepCopyInto"

definition K8sInstallerConfigTemplate_DeepCopyInto :: "meta \<Rightarrow> copier" where
  "K8sInstallerConfigTemplate_DeepCopyInto M = copy_struct [(''TypeMeta'', assign),
     (''ObjectMeta'', ObjectMeta_DeepCopyInto M), (''Spec'', assign), (''Status'', assign)]"

definition K8sInstallerConfigTemplate_DeepCopy :: "meta \<Rightarrow> copier" where
  "K8sInstallerConfigTemplate_DeepCopy M = new_ptr (K8sInstallerConfigTemplate_DeepCopyInto M)"

definition K8sInstallerConfigTemplate_DeepCopyObject :: "meta \<Rightarrow> gval \<Rightarrow> heap \<Rightarrow> object option \<times> heap" where
  "K8sInstallerConfigTemplate_DeepCopyObject M = as_object ''K8sInstallerConfigTemplate'' (K8sInstallerConfigTemplate_DeepCopy M)"

definition K8sInstallerConfigTemplateList_DeepCopyInto :: "meta \<Rightarrow> copier" where
  "K8sInstallerConfigTemplateList_DeepCopyInto M = copy_struct [(''TypeMeta'', assign),
     (''ListMeta'', ListMeta_DeepCopyInto M), (''Items'', make_slice (K8sInstallerConfigTemplate_DeepCopyInto M))]"

definition K8sInstallerConfigTemplateList_DeepCopy :: "meta \<Rightarrow> copier" where
  "K8sInstallerConfigTemplateList_DeepCopy M = new_ptr (K8sInstallerConfigTemplateList_DeepCopyInto M)"

definition K8sInstallerConfigTemplateList_DeepCopyObject :: "meta \<Rightarrow> gval \<Rightarrow> heap \<Rightarrow> object option \<times> heap" where
  "K8sInstallerConfigTemplateList_DeepCopyObject M = as_object ''K8sInstallerConfigTemplateList'' (K8sInstallerConfigTemplateList_DeepCopy M)"

text \<open>Every type of the package with its \<open>DeepCopy\<close>, and every kind with its \<open>DeepCopyObject\<close>.\<close>

definition api_copies :: "meta \<Rightarrow> (string \<times> gtype \<times> copier) list" where
  "api_copies M =
     [(''APIEndpoint'', APIEndpoint_type, APIEndpoint_DeepCopy),
      (''BootstrapKubeconfigSpec'', BootstrapKubeconfigSpec_type, BootstrapKubeconfigSpec_DeepCopy),
      (''BootstrapKubeconfigStatus'', BootstrapKubeconfigStatus_type, BootstrapKubeconfigStatus_DeepCopy),
      (''BootstrapKubeconfig'', BootstrapKubeconfig_type M, BootstrapKubeconfig_DeepCopy M),
      (''BootstrapKubeconfigList'', BootstrapKubeconfigList_type M, BootstrapKubeconfigList_DeepCopy M),
      (''ByoClusterSpec'', ByoClusterSpec_type, ByoClusterSpec_DeepCopy),
      (''ByoClusterStatus'', ByoClusterStatus_type M, ByoClusterStatus_DeepCopy M),
      (''ByoCluster'', ByoCluster_type M, ByoCluster_DeepCopy M),
      (''ByoClusterList'', ByoClusterList_type M, ByoClusterList_DeepCopy M),
      (''ByoClusterTemplateResource'', ByoClusterTemplateResource_type M, ByoClusterTemplateResource_DeepCopy M),
      (''ByoClusterTemplateSpec'', ByoClusterTemplateSpec_type M, ByoClusterTemplateSpec_DeepCopy M),
      (''ByoClusterTemplate'', ByoClusterTemplate_type M, ByoClusterTemplate_DeepCopy M),
      (''ByoClusterTemplateList'', ByoClusterTemplateList_type M, ByoClusterTemplateList_DeepCopy M),
      (''ByoHostSpec'', ByoHostSpec_type M, ByoHostSpec_DeepCopy),
      (''HostInfo'', HostInfo_type, HostInfo_DeepCopy),
      (''NetworkStatus'', NetworkStatus_type, NetworkStatus_DeepCopy),
      (''ByoHostStatus'', ByoHostStatus_type M, ByoHostStatus_DeepCopy M),
      (''ByoHost'', ByoHost_type M, ByoHost_DeepCopy M),
      (''ByoHostList'', ByoHostList_type M, ByoHostList_DeepCopy M),
      (''ByoMachineSpec'', ByoMachineSpec_type M, ByoMachineSpec_DeepCopy M),
      (''ByoMachineStatus'', ByoMachineStatus_type M, ByoMachineStatus_DeepCopy M),
      (''ByoMachine'', ByoMachine_type M, ByoMachine_DeepCopy M),
      (''ByoMachineList'', ByoMachineList_type M, ByoMachineList_DeepCopy M),
      (''ByoMachineTemplateResource'', ByoMachineTemplateResource_type M, ByoMachineTemplateResource_DeepCopy M),
      (''ByoMachineTemplateSpec'', ByoMachineTemplateSpec_type M, ByoMachineTemplateSpec_DeepCopy M),
      (''ByoMachineTemplateStatus'', ByoMachineTemplateStatus_type, ByoMachineTemplateStatus_DeepCopy),
      (''ByoMachineTemplate'', ByoMachineTemplate_type M, ByoMachineTemplate_DeepCopy M),
      (''ByoMachineTemplateList'', ByoMachineTemplateList_type M, ByoMachineTemplateList_DeepCopy M),
      (''K8sInstallerConfigSpec'', K8sInstallerConfigSpec_type, K8sInstallerConfigSpec_DeepCopy),
      (''K8sInstallerConfigStatus'', K8sInstallerConfigStatus_type M, K8sInstallerConfigStatus_DeepCopy),
      (''K8sInstallerConfig'', K8sInstallerConfig_type M, K8sInstallerConfig_DeepCopy M),
      (''K8sInstallerConfigList'', K8sInstallerConfigList_type M, K8sInstallerConfigList_DeepCopy M),
      (''K8sInstallerConfigTemplateResource'', K8sInstallerConfigTemplateResource_type, K8sInstallerConfigTemplateResource_DeepCopy),
      (''K8sInstallerConfigTemplateSpec'', K8sInstallerConfigTemplateSpec_type, K8sInstallerConfigTemplateSpec_DeepCopy),
      (''K8sInstallerConfigTemplateStatus'', K8sInstallerConfigTemplateStatus_type, K8sInstallerConfigTemplateStatus_DeepCopy),
      (''K8sInstallerConfigTemplate'', K8sInstallerConfigTemplate_type M, K8sInstallerConfigTemplate_DeepCopy M),
      (''K8sInstallerConfigTemplateList'', K8sInstallerConfigTemplateList_type M, K8sInstallerConfigTemplateList_DeepCopy M)]"

definition api_objects :: "meta \<Rightarrow> (string \<times> gtype \<times> (gval \<Rightarrow> heap \<Rightarrow> object option \<times> heap)) list" where
  "api_objects M =
     [(''BootstrapKubeconfig'', BootstrapKubeconfig_type M, BootstrapKubeconfig_DeepCopyObject M),
      (''BootstrapKubeconfigList'', BootstrapKubeconfigList_type M, BootstrapKubeconfigList_DeepCopyObject M),
      (''ByoCluster'', ByoCluster_type M, ByoCluster_DeepCopyObject M),
      (''ByoClusterList'', ByoClusterList_type M, ByoClusterList_DeepCopyObject M),
      (''ByoClusterTemplate'', ByoClusterTemplate_type M, ByoClusterTemplate_DeepCopyObject M),
      (''ByoClusterTemplateList'', ByoClusterTemplateList_type M, ByoClusterTemplateList_DeepCopyObject M),
      (''ByoHost'', ByoHost_type M, ByoHost_DeepCopyObject M),
      (''ByoHostList'', ByoHostList_type M, ByoHostList_DeepCopyObject M),
      (''ByoMachine'', ByoMachine_type M, ByoMachine_DeepCopyObject M),
      (''ByoMachineList'', ByoMachineList_type M, ByoMachineList_DeepCopyObject M),
      (''ByoMachineTemplate'', ByoMachineTemplate_type M, ByoMachineTemplate_DeepCopyObject M),
      (''ByoMachineTemplateList'', ByoMachineTemplateList_type M, ByoMachineTemplateList_DeepCopyObject M),
      (''K8sInstallerConfig'', K8sInstallerConfig_type M, K8sInstallerConfig_DeepCopyObject M),
      (''K8sInstallerConfigList'', K8sInstallerConfigList_type M, K8sInstallerConfigList_DeepCopyObject M),
      (''K8sInstallerConfigTemplate'', K8sInstallerConfigTemplate_type M, K8sInstallerConfigTemplate_DeepCopyObject M),
      (''K8sInstallerConfigTemplateList'', K8sInstallerConfigTemplateList_type M, K8sInstallerConfigTemplateList_DeepCopyObject M)]"

section \<open>Every one of them is deep\<close>

named_theorems deep_copies

lemmas shape_deep [deep_copies] = deep_assign deep_new_ptr deep_make_slice deep_copy_slice deep_make_map

lemma meta_contractD [deep_copies]:
  assumes "meta_contract M"
  shows "flat (TypeMeta_type M)" and "flat (ObjectReference_type M)"
    and "deep (ObjectMeta_type M) (ObjectMeta_DeepCopyInto M)" and "deep (ListMeta_type M) (ListMeta_DeepCopyInto M)"
    and "deep (LabelSelector_type M) (LabelSelector_DeepCopyInto M)" and "deep (Condition_type M) (Condition_DeepCopyInto M)"
    and "deep (ClusterObjectMeta_type M) (ClusterObjectMeta_DeepCopyInto M)"
    and "deep (TyPtr (FailureDomainSpec_type M)) (FailureDomainSpec_DeepCopy M)"
  using assms by (simp_all add: meta_contract_def)

lemma APIEndpoint_flat [deep_copies]: "flat (APIEndpoint_type)"
  by (simp add: APIEndpoint_type_def deep_copies)

lemma BootstrapKubeconfigSpec_flat [deep_copies]: "flat (BootstrapKubeconfigSpec_type)"
  by (simp add: BootstrapKubeconfigSpec_type_def deep_copies)

lemma ByoClusterSpec_flat [deep_copies]: "flat (ByoClusterSpec_type)"
  by (simp add: ByoClusterSpec_type_def deep_copies)

lemma HostInfo_flat [deep_copies]: "flat (HostInfo_type)"
  by (simp add: HostInfo_type_def deep_copies)

lemma ByoMachineTemplateStatus_flat [deep_copies]: "flat (ByoMachineTemplateStatus_type)"
  by (simp add: ByoMachineTemplateStatus_type_def deep_copies)

lemma K8sInstallerConfigSpec_flat [deep_copies]: "flat (K8sInstallerConfigSpec_type)"
  by (simp add: K8sInstallerConfigSpec_type_def deep_copies)

lemma K8sInstallerConfigTemplateResource_flat [deep_copies]: "flat (K8sInstallerConfigTemplateResource_type)"
  by (simp add: K8sInstallerConfigTemplateResource_type_def deep_copies)

lemma K8sInstallerConfigTemplateSpec_flat [deep_copies]: "flat (K8sInstallerConfigTemplateSpec_type)"
  by (simp add: K8sInstallerConfigTemplateSpec_type_def deep_copies)

lemma K8sInstallerConfigTemplateStatus_flat [deep_copies]: "flat (K8sInstallerConfigTemplateStatus_type)"
  by (simp add: K8sInstallerConfigTemplateStatus_type_def deep_copies)

lemma APIEndpoint_deep [deep_copies]: "deep APIEndpoint_type APIEndpoint_DeepCopyInto"
  unfolding APIEndpoint_type_def APIEndpoint_DeepCopyInto_def
  by (rule deep_copy_struct) (simp add: deep_fields_def step_of_def deep_copies)

lemma BootstrapKubeconfigSpec_deep [deep_copies]: "deep BootstrapKubeconfigSpec_type BootstrapKubeconfigSpec_DeepCopyInto"
  unfolding BootstrapKubeconfigSpec_type_def BootstrapKubeconfigSpec_DeepCopyInto_def
  by (rule deep_copy_struct) (simp add: deep_fields_def step_of_def deep_copies)

lemma BootstrapKubeconfigStatus_deep [deep_copies]: "deep BootstrapKubeconfigStatus_type BootstrapKubeconfigStatus_DeepCopyInto"
  unfolding BootstrapKubeconfigStatus_type_def BootstrapKubeconfigStatus_DeepCopyInto_def
  by (rule deep_copy_struct) (simp add: deep_fields_def step_of_def deep_copies)

lemma BootstrapKubeconfig_deep [deep_copies]: "meta_contract M \<Longrightarrow> deep (BootstrapKubeconfig_type M) (BootstrapKubeconfig_DeepCopyInto M)"
  unfolding BootstrapKubeconfig_type_def BootstrapKubeconfig_DeepCopyInto_def
  by (rule deep_copy_struct) (simp add: deep_fields_def step_of_def deep_copies)

lemma BootstrapKubeconfigList_deep [deep_copies]: "meta_contract M \<Longrightarrow> deep (BootstrapKubeconfigList_type M) (BootstrapKubeconfigList_DeepCopyInto M)"
  unfolding BootstrapKubeconfigList_type_def BootstrapKubeconfigList_DeepCopyInto_def
  by (rule deep_copy_struct) (simp add: deep_fields_def step_of_def deep_copies)

lemma ByoClusterSpec_deep [deep_copies]: "deep ByoClusterSpec_type ByoClusterSpec_DeepCopyInto"
  unfolding ByoClusterSpec_type_def ByoClusterSpec_DeepCopyInto_def
  by (rule deep_copy_struct) (simp add: deep_fields_def step_of_def deep_copies)

lemma ByoClusterStatus_deep [deep_copies]: "meta_contract M \<Longrightarrow> deep (ByoClusterStatus_type M) (ByoClusterStatus_DeepCopyInto M)"
  unfolding ByoClusterStatus_type_def ByoClusterStatus_DeepCopyInto_def
  by (rule deep_copy_struct) (simp add: deep_fields_def step_of_def deep_copies)

lemma ByoCluster_deep [deep_copies]: "meta_contract M \<Longrightarrow> deep (ByoCluster_type M) (ByoCluster_DeepCopyInto M)"
  unfolding ByoCluster_type_def ByoCluster_DeepCopyInto_def
  by (rule deep_copy_struct) (simp add: deep_fields_def step_of_def deep_copies)

lemma ByoClusterList_deep [deep_copies]: "meta_contract M \<Longrightarrow> deep (ByoClusterList_type M) (ByoClusterList_DeepCopyInto M)"
  unfolding ByoClusterList_type_def ByoClusterList_DeepCopyInto_def
  by (rule deep_copy_struct) (simp add: deep_fields_def step_of_def deep_copies)

lemma ByoClusterTemplateResource_deep [deep_copies]: "meta_contract M \<Longrightarrow> deep (ByoClusterTemplateResource_type M) (ByoClusterTemplateResource_DeepCopyInto M)"
  unfolding ByoClusterTemplateResource_type_def ByoClusterTemplateResource_DeepCopyInto_def
  by (rule deep_copy_struct) (simp add: deep_fields_def step_of_def deep_copies)

lemma ByoClusterTemplateSpec_deep [deep_copies]: "meta_contract M \<Longrightarrow> deep (ByoClusterTemplateSpec_type M) (ByoClusterTemplateSpec_DeepCopyInto M)"
  unfolding ByoClusterTemplateSpec_type_def ByoClusterTemplateSpec_DeepCopyInto_def
  by (rule deep_copy_struct) (simp add: deep_fields_def step_of_def deep_copies)

lemma ByoClusterTemplate_deep [deep_copies]: "meta_contract M \<Longrightarrow> deep (ByoClusterTemplate_type M) (ByoClusterTemplate_DeepCopyInto M)"
  unfolding ByoClusterTemplate_type_def ByoClusterTemplate_DeepCopyInto_def
  by (rule deep_copy_struct) (simp add: deep_fields_def step_of_def deep_copies)

lemma ByoClusterTemplateList_deep [deep_copies]: "meta_contract M \<Longrightarrow> deep (ByoClusterTemplateList_type M) (ByoClusterTemplateList_DeepCopyInto M)"
  unfolding ByoClusterTemplateList_type_def ByoClusterTemplateList_DeepCopyInto_def
  by (rule deep_copy_struct) (simp add: deep_fields_def step_of_def deep_copies)

lemma ByoHostSpec_deep [deep_copies]: "meta_contract M \<Longrightarrow> deep (ByoHostSpec_type M) ByoHostSpec_DeepCopyInto"
  unfolding ByoHostSpec_type_def ByoHostSpec_DeepCopyInto_def
  by (rule deep_copy_struct) (simp add: deep_fields_def step_of_def deep_copies)

lemma HostInfo_deep [deep_copies]: "deep HostInfo_type HostInfo_DeepCopyInto"
  unfolding HostInfo_type_def HostInfo_DeepCopyInto_def
  by (rule deep_copy_struct) (simp add: deep_fields_def step_of_def deep_copies)

lemma NetworkStatus_deep [deep_copies]: "deep NetworkStatus_type NetworkStatus_DeepCopyInto"
  unfolding NetworkStatus_type_def NetworkStatus_DeepCopyInto_def
  by (rule deep_copy_struct) (simp add: deep_fields_def step_of_def deep_copies)

lemma ByoHostStatus_deep [deep_copies]: "meta_contract M \<Longrightarrow> deep (ByoHostStatus_type M) (ByoHostStatus_DeepCopyInto M)"
  unfolding ByoHostStatus_type_def ByoHostStatus_DeepCopyInto_def
  by (rule deep_copy_struct) (simp add: deep_fields_def step_of_def deep_copies)

lemma ByoHost_deep [deep_copies]: "meta_contract M \<Longrightarrow> deep (ByoHost_type M) (ByoHost_DeepCopyInto M)"
  unfolding ByoHost_type_def ByoHost_DeepCopyInto_def
  by (rule deep_copy_struct) (simp add: deep_fields_def step_of_def deep_copies)

lemma ByoHostList_deep [deep_copies]: "meta_contract M \<Longrightarrow> deep (ByoHostList_type M) (ByoHostList_DeepCopyInto M)"
  unfolding ByoHostList_type_def ByoHostList_DeepCopyInto_def
  by (rule deep_copy_struct) (simp add: deep_fields_def step_of_def deep_copies)

lemma ByoMachineSpec_deep [deep_copies]: "meta_contract M \<Longrightarrow> deep (ByoMachineSpec_type M) (ByoMachineSpec_DeepCopyInto M)"
  unfolding ByoMachineSpec_type_def ByoMachineSpec_DeepCopyInto_def
  by (rule deep_copy_struct) (simp add: deep_fields_def step_of_def deep_copies)

lemma ByoMachineStatus_deep [deep_copies]: "meta_contract M \<Longrightarrow> deep (ByoMachineStatus_type M) (ByoMachineStatus_DeepCopyInto M)"
  unfolding ByoMachineStatus_type_def ByoMachineStatus_DeepCopyInto_def
  by (rule deep_copy_struct) (simp add: deep_fields_def step_of_def deep_copies)

lemma ByoMachine_deep [deep_copies]: "meta_contract M \<Longrightarrow> deep (ByoMachine_type M) (ByoMachine_DeepCopyInto M)"
  unfolding ByoMachine_type_def ByoMachine_DeepCopyInto_def
  by (rule deep_copy_struct) (simp add: deep_fields_def step_of_def deep_copies)

lemma ByoMachineList_deep [deep_copies]: "meta_contract M \<Longrightarrow> deep (ByoMachineList_type M) (ByoMachineList_DeepCopyInto M)"
  unfolding ByoMachineList_type_def ByoMachineList_DeepCopyInto_def
  by (rule deep_copy_struct) (simp add: deep_fields_def step_of_def deep_copies)

lemma ByoMachineTemplateResource_deep [deep_copies]: "meta_contract M \<Longrightarrow> deep (ByoMachineTemplateResource_type M) (ByoMachineTemplateResource_DeepCopyInto M)"
  unfolding ByoMachineTemplateResource_type_def ByoMachineTemplateResource_DeepCopyInto_def
  by (rule deep_copy_struct) (simp add: deep_fields_def step_of_def deep_copies)

lemma ByoMachineTemplateSpec_deep [deep_copies]: "meta_contract M \<Longrightarrow> deep (ByoMachineTemplateSpec_type M) (ByoMachineTemplateSpec_DeepCopyInto M)"
  unfolding ByoMachineTemplateSpec_type_def ByoMachineTemplateSpec_DeepCopyInto_def
  by (rule deep_copy_struct) (simp add: deep_fields_def step_of_def deep_copies)

lemma ByoMachineTemplateStatus_deep [deep_copies]: "deep ByoMachineTemplateStatus_type ByoMachineTemplateStatus_DeepCopyInto"
  unfolding ByoMachineTemplateStatus_type_def ByoMachineTemplateStatus_DeepCopyInto_def
  by (rule deep_copy_struct) (simp add: deep_fields_def step_of_def deep_copies)

lemma ByoMachineTemplate_deep [deep_copies]: "meta_contract M \<Longrightarrow> deep (ByoMachineTemplate_type M) (ByoMachineTemplate_DeepCopyInto M)"
  unfolding ByoMachineTemplate_type_def ByoMachineTemplate_DeepCopyInto_def
  by (rule deep_copy_struct) (simp add: deep_fields_def step_of_def deep_copies)

lemma ByoMachineTemplateList_deep [deep_copies]: "meta_contract M \<Longrightarrow> deep (ByoMachineTemplateList_type M) (ByoMachineTemplateList_DeepCopyInto M)"
  unfolding ByoMachineTemplateList_type_def ByoMachineTemplateList_DeepCopyInto_def
  by (rule deep_copy_struct) (simp add: deep_fields_def step_of_def deep_copies)

lemma K8sInstallerConfigSpec_deep [deep_copies]: "deep K8sInstallerConfigSpec_type K8sInstallerConfigSpec_DeepCopyInto"
  unfolding K8sInstallerConfigSpec_type_def K8sInstallerConfigSpec_DeepCopyInto_def
  by (rule deep_copy_struct) (simp add: deep_fields_def step_of_def deep_copies)

lemma K8sInstallerConfigStatus_deep [deep_copies]: "meta_contract M \<Longrightarrow> deep (K8sInstallerConfigStatus_type M) K8sInstallerConfigStatus_DeepCopyInto"
  unfolding K8sInstallerConfigStatus_type_def K8sInstallerConfigStatus_DeepCopyInto_def
  by (rule deep_copy_struct) (simp add: deep_fields_def step_of_def deep_copies)

lemma K8sInstallerConfig_deep [deep_copies]: "meta_contract M \<Longrightarrow> deep (K8sInstallerConfig_type M) (K8sInstallerConfig_DeepCopyInto M)"
  unfolding K8sInstallerConfig_type_def K8sInstallerConfig_DeepCopyInto_def
  by (rule deep_copy_struct) (simp add: deep_fields_def step_of_def deep_copies)

lemma K8sInstallerConfigList_deep [deep_copies]: "meta_contract M \<Longrightarrow> deep (K8sInstallerConfigList_type M) (K8sInstallerConfigList_DeepCopyInto M)"
  unfolding K8sInstallerConfigList_type_def K8sInstallerConfigList_DeepCopyInto_def
  by (rule deep_copy_struct) (simp add: deep_fields_def step_of_def deep_copies)

lemma K8sInstallerConfigTemplateResource_deep [deep_copies]: "deep K8sInstallerConfigTemplateResource_type K8sInstallerConfigTemplateResource_DeepCopyInto"
  unfolding K8sInstallerConfigTemplateResource_type_def K8sInstallerConfigTemplateResource_DeepCopyInto_def
  by (rule deep_copy_struct) (simp add: deep_fields_def step_of_def deep_copies)

lemma K8sInstallerConfigTemplateSpec_deep [deep_copies]: "deep K8sInstallerConfigTemplateSpec_type K8sInstallerConfigTemplateSpec_DeepCopyInto"
  unfolding K8sInstallerConfigTemplateSpec_type_def K8sInstallerConfigTemplateSpec_DeepCopyInto_def
  by (rule deep_copy_struct) (simp add: deep_fields_def step_of_def deep_copies)

lemma K8sInstallerConfigTemplateStatus_deep [deep_copies]: "deep K8sInstallerConfigTemplateStatus_type K8sInstallerConfigTemplateStatus_DeepCopyInto"
  unfolding K8sInstallerConfigTemplateStatus_type_def K8sInstallerConfigTemplateStatus_DeepCopyInto_def
  by (rule deep_copy_struct) (simp add: deep_fields_def step_of_def deep_copies)

lemma K8sInstallerConfigTemplate_deep [deep_copies]: "meta_contract M \<Longrightarrow> deep (K8sInstallerConfigTemplate_type M) (K8sInstallerConfigTemplate_DeepCopyInto M)"
  unfolding K8sInstallerConfigTemplate_type_def K8sInstallerConfigTemplate_DeepCopyInto_def
  by (rule deep_copy_struct) (simp add: deep_fields_def step_of_def deep_copies)

lemma K8sInstallerConfigTemplateList_deep [deep_copies]: "meta_contract M \<Longrightarrow> deep (K8sInstallerConfigTemplateList_type M) (K8sInstallerConfigTemplateList_DeepCopyInto M)"
  unfolding K8sInstallerConfigTemplateList_type_def K8sInstallerConfigTemplateList_DeepCopyInto_def
  by (rule deep_copy_struct) (simp add: deep_fields_def step_of_def deep_copies)

lemmas DeepCopy_defs =
  APIEndpoint_DeepCopy_def BootstrapKubeconfigSpec_DeepCopy_def BootstrapKubeconfigStatus_DeepCopy_def BootstrapKubeconfig_DeepCopy_def
  BootstrapKubeconfigList_DeepCopy_def ByoClusterSpec_DeepCopy_def ByoClusterStatus_DeepCopy_def ByoCluster_DeepCopy_def
  ByoClusterList_DeepCopy_def ByoClusterTemplateResource_DeepCopy_def ByoClusterTemplateSpec_DeepCopy_def ByoClusterTemplate_DeepCopy_def
  ByoClusterTemplateList_DeepCopy_def ByoHostSpec_DeepCopy_def HostInfo_DeepCopy_def NetworkStatus_DeepCopy_def
  ByoHostStatus_DeepCopy_def ByoHost_DeepCopy_def ByoHostList_DeepCopy_def ByoMachineSpec_DeepCopy_def
  ByoMachineStatus_DeepCopy_def ByoMachine_DeepCopy_def ByoMachineList_DeepCopy_def ByoMachineTemplateResource_DeepCopy_def
  ByoMachineTemplateSpec_DeepCopy_def ByoMachineTemplateStatus_DeepCopy_def ByoMachineTemplate_DeepCopy_def ByoMachineTemplateList_DeepCopy_def
  K8sInstallerConfigSpec_DeepCopy_def K8sInstallerConfigStatus_DeepCopy_def K8sInstallerConfig_DeepCopy_def K8sInstallerConfigList_DeepCopy_def
  K8sInstallerConfigTemplateResource_DeepCopy_def K8sInstallerConfigTemplateSpec_DeepCopy_def K8sInstallerConfigTemplateStatus_DeepCopy_def K8sInstallerConfigTemplate_DeepCopy_def
  K8sInstallerConfigTemplateList_DeepCopy_def


lemmas DeepCopyObject_defs =
  BootstrapKubeconfig_DeepCopyObject_def BootstrapKubeconfigList_DeepCopyObject_def ByoCluster_DeepCopyObject_def
  ByoClusterList_DeepCopyObject_def ByoClusterTemplate_DeepCopyObject_def ByoClusterTemplateList_DeepCopyObject_def
  ByoHost_DeepCopyObject_def ByoHostList_DeepCopyObject_def ByoMachine_DeepCopyObject_def
  ByoMachineList_DeepCopyObject_def ByoMachineTemplate_DeepCopyObject_def ByoMachineTemplateList_DeepCopyObject_def
  K8sInstallerConfig_DeepCopyObject_def K8sInstallerConfigList_DeepCopyObject_def K8sInstallerConfigTemplate_DeepCopyObject_def
  K8sInstallerConfigTemplateList_DeepCopyObject_def

lemma api_copies_deep:
  assumes "meta_contract M"
  shows "\<forall>(n, ty, c)\<in>set (api_copies M). deep (TyPtr ty) c"
  using assms by (simp add: api_copies_def DeepCopy_defs deep_copies)

section \<open>No copy shares memory with its original\<close>

text \<open>\<open>DeepCopyObject\<close> gives the copy as an object, and nil for nil only.\<close>

definition object_copier :: "string \<Rightarrow> gtype \<Rightarrow> (gval \<Rightarrow> heap \<Rightarrow> object option \<times> heap) \<Rightarrow> bool" where
  "object_copier n ty d \<longleftrightarrow> (\<exists>c. d = as_object n c \<and> deep (TyPtr ty) c)"

lemma object_copierI: "deep (TyPtr ty) c \<Longrightarrow> object_copier n ty (as_object n c)"
  by (auto simp: object_copier_def)

lemma api_objects_deep:
  assumes "meta_contract M"
  shows "\<forall>(n, ty, d)\<in>set (api_objects M). object_copier n ty d"
  using assms by (simp add: api_objects_def DeepCopyObject_defs DeepCopy_defs object_copierI deep_copies)

lemma api_objects_copy:
  assumes "meta_contract M" and "(n, ty, DeepCopyObject) \<in> set (api_objects M)"
    and "heap_ok h" and "reify h (TyPtr ty) v = Some t" and "DeepCopyObject v h = (r, h')"
  shows "case r of None \<Rightarrow> v = Ptr None | Some (m, p) \<Rightarrow> v \<noteq> Ptr None \<and> m = n \<and> reify h' (TyPtr ty) p = Some t"
proof -
  obtain c where c: "DeepCopyObject = as_object n c" "deep (TyPtr ty) c"
    using api_objects_deep [OF assms(1)] assms(2) by (auto simp: object_copier_def)
  obtain p where p: "c v h = (p, h')" "r = (if p \<noteq> Ptr None then Some (n, p) else None)"
    using assms(5) c(1) by (auto simp: as_object_def split: prod.splits)
  note r = deepD(2) [OF c(2) assms(3,4) p(1)]
  from assms(4) r have "p = Ptr None \<longleftrightarrow> v = Ptr None" by (auto elim!: reify_ptrD)
  with p(2) r show ?thesis by simp
qed

text \<open>
  C27. When the imported types are copied deeply, the \<open>DeepCopy\<close> of every type of the package gives a
  pointer to an equal value; the original still has its value, no cell belongs to both, a write to
  any cell of the copy leaves the original as it was, and a write to any cell of the original
  leaves the copy as it was.
\<close>

theorem api_copies_share_nothing:
  assumes "meta_contract M" and "(n, ty, DeepCopy) \<in> set (api_copies M)"
    and "heap_ok h" and "reify h (TyPtr ty) v = Some t" and "DeepCopy v h = (v', h')"
  shows "reify h' (TyPtr ty) v' = Some t \<and> reify h' (TyPtr ty) v = Some t \<and>
    owned h' (TyPtr ty) v \<inter> owned h' (TyPtr ty) v' = {} \<and>
    (\<forall>a cl. a \<in> owned h' (TyPtr ty) v' \<longrightarrow> reify (put_cell a cl h') (TyPtr ty) v = Some t) \<and>
    (\<forall>a cl. a \<in> owned h' (TyPtr ty) v \<longrightarrow> reify (put_cell a cl h') (TyPtr ty) v' = Some t)"
proof -
  have d: "deep (TyPtr ty) DeepCopy" using api_copies_deep [OF assms(1)] assms(2) by blast
  from deepD(2) [OF d assms(3-5)] deep_independent [OF d assms(3-5)] show ?thesis by blast
qed

text \<open>
  An instance of the imported types, with labels in the object metadata, and a host in memory that is
  reserved, has a label and one network interface with an address.
\<close>

definition ref_meta :: meta where
  "ref_meta =
     \<lparr>TypeMeta_type = TyStruct [(''Kind'', TyScalar), (''APIVersion'', TyScalar)],
      ObjectReference_type = TyStruct [(''Kind'', TyScalar), (''Namespace'', TyScalar), (''Name'', TyScalar)],
      ObjectMeta_type = TyStruct [(''Name'', TyScalar), (''Labels'', TyMap TyScalar)],
      ObjectMeta_DeepCopyInto = copy_struct [(''Labels'', make_map (new_ptr assign))],
      ListMeta_type = TyStruct [(''ResourceVersion'', TyScalar)],
      ListMeta_DeepCopyInto = copy_struct [],
      LabelSelector_type = TyStruct [(''MatchLabels'', TyMap TyScalar)],
      LabelSelector_DeepCopyInto = copy_struct [(''MatchLabels'', make_map (new_ptr assign))],
      Condition_type = TyStruct [(''Type'', TyScalar), (''Status'', TyScalar)],
      Condition_DeepCopyInto = copy_struct [],
      ClusterObjectMeta_type = TyStruct [(''Labels'', TyMap TyScalar)],
      ClusterObjectMeta_DeepCopyInto = copy_struct [(''Labels'', make_map (new_ptr assign))],
      FailureDomainSpec_type = TyStruct [(''ControlPlane'', TyScalar), (''Attributes'', TyMap TyScalar)],
      FailureDomainSpec_DeepCopy = new_ptr (copy_struct [(''Attributes'', make_map (new_ptr assign))])\<rparr>"

lemma ref_meta_contract: "meta_contract ref_meta"
  by (simp add: meta_contract_def ref_meta_def deep_copy_struct deep_fields_def step_of_def deep_copies)

definition host_heap :: heap where
  "host_heap =
     \<lparr>cells = [0 \<mapsto> CVal (Struct
          [(''TypeMeta'', Struct [(''Kind'', Scalar (GStr ''ByoHost'')), (''APIVersion'', Scalar (GStr ''v1beta1''))]),
           (''ObjectMeta'', Struct [(''Name'', Scalar (GStr ''h1'')), (''Labels'', GMap (Some 1))]),
           (''Spec'', Struct [(''BootstrapSecret'', Ptr None), (''InstallationSecret'', Ptr None), (''UninstallationSecret'', Ptr None)]),
           (''Status'', Struct
             [(''MachineRef'', Ptr (Some 2)), (''Conditions'', Slice None),
              (''HostDetails'', Struct [(''OSName'', Scalar (GStr ''linux'')), (''OSImage'', Scalar (GStr ''Ubuntu'')), (''Architecture'', Scalar (GStr ''amd64''))]),
              (''Network'', Slice (Some 3))])]),
        1 \<mapsto> CMap [(''site'', Scalar (GStr ''a''))],
        2 \<mapsto> CVal (Struct [(''Kind'', Scalar (GStr ''ByoMachine'')), (''Namespace'', Scalar (GStr ''ns'')), (''Name'', Scalar (GStr ''m1''))]),
        3 \<mapsto> CArr [Struct
          [(''Connected'', Scalar (GBool True)), (''IPAddrs'', Slice (Some 4)), (''MACAddr'', Scalar (GStr ''m'')),
           (''NetworkInterfaceName'', Scalar (GStr ''eth0'')), (''IsDefault'', Scalar (GBool True))]],
        4 \<mapsto> CArr [Scalar (GStr ''10.0.0.1'')]],
      lim = 5\<rparr>"

definition host_value :: gval where
  "host_value = Ptr (Some 0)"

theorem api_copies_share_nothing_witness:
  "(case ByoHost_DeepCopy ref_meta host_value host_heap of (v', h') \<Rightarrow>
      reify h' (TyPtr (ByoHost_type ref_meta)) v' = reify host_heap (TyPtr (ByoHost_type ref_meta)) host_value \<and>
      owned h' (TyPtr (ByoHost_type ref_meta)) host_value \<inter> owned h' (TyPtr (ByoHost_type ref_meta)) v' = {}) \<and>
   reify host_heap (TyPtr (ByoHost_type ref_meta)) host_value \<noteq> None"
proof -
  have ok: "heap_ok host_heap" by (simp add: heap_ok_def host_heap_def)
  have n: "reify host_heap (TyPtr (ByoHost_type ref_meta)) host_value \<noteq> None" by code_simp
  then obtain t where t: "reify host_heap (TyPtr (ByoHost_type ref_meta)) host_value = Some t" by blast
  obtain v' h' where c: "ByoHost_DeepCopy ref_meta host_value host_heap = (v', h')" by fastforce
  have "(''ByoHost'', ByoHost_type ref_meta, ByoHost_DeepCopy ref_meta) \<in> set (api_copies ref_meta)" by (simp add: api_copies_def)
  from api_copies_share_nothing [OF ref_meta_contract this ok t c] n t c show ?thesis by simp
qed

end
