(* ===== verification/Cloudinit_Fakes.thy ===== *)
theory Cloudinit_Fakes
  imports CloudInit
begin

text \<open>
  The generated test doubles of \<open>agent/cloudinit/cloudinitfakes\<close>, with which the tests of the agent run
  the executor.  Each method of a double has its stub, the arguments of its calls, and the results to
  return, for every call or for one of them.  A double is one state: its locks, which are all
  released again, and the identity of pointers are left out.  Run over the doubles, the executor of
  bootstrap scripts is shown to make exactly the calls of its trace.
\<close>

section \<open>A method of a double\<close>

record ('a, 'r) fake_method =
  Stub :: "('a \<Rightarrow> 'r) option"
  ArgsForCall :: "'a list"
  Returns :: 'r
  ReturnsOnCall :: "int \<rightharpoonup> 'r"

text \<open>The result of the next call: of the stub, or what is set for its number, or for every call.\<close>

definition method_result :: "'a \<Rightarrow> ('a, 'r) fake_method \<Rightarrow> 'r" where
  "method_result arg m =
     (case Stub m of
        Some stub \<Rightarrow> stub arg
      | None \<Rightarrow> (case ReturnsOnCall m (int (length (ArgsForCall m))) of Some ret \<Rightarrow> ret | None \<Rightarrow> Returns m))"

definition method_record :: "'a \<Rightarrow> ('a, 'r) fake_method \<Rightarrow> ('a, 'r) fake_method" where
  "method_record arg m = m\<lparr>ArgsForCall := ArgsForCall m @ [arg]\<rparr>"

definition method_args :: "int \<Rightarrow> ('a, 'r) fake_method \<Rightarrow> 'a outcome" where
  "method_args i m =
     (if 0 \<le> i \<and> i < int (length (ArgsForCall m)) then Return (ArgsForCall m ! nat i)
      else Panic ''index out of range'')"

definition method_returns_on :: "int \<Rightarrow> 'r \<Rightarrow> ('a, 'r) fake_method \<Rightarrow> ('a, 'r) fake_method" where
  "method_returns_on i result m = m\<lparr>Stub := None, ReturnsOnCall := (ReturnsOnCall m)(i \<mapsto> result)\<rparr>"

datatype 'c argument = AContext 'c | AString string | AFiles Files

type_synonym 'c invocations = "string \<rightharpoonup> 'c argument list list"

definition record_invocation :: "string \<Rightarrow> 'c argument list \<Rightarrow> 'c invocations \<Rightarrow> 'c invocations" where
  "record_invocation key args m = m(key \<mapsto> (case m key of None \<Rightarrow> [] | Some calls \<Rightarrow> calls) @ [args])"

section \<open>The three fakes\<close>

record 'c FakeICmdRunner =
  runCmd :: "('c \<times> string, error option) fake_method"
  runner_invocations :: "'c invocations"

definition FakeICmdRunner_recordInvocation :: "string \<Rightarrow> 'c argument list \<Rightarrow> 'c FakeICmdRunner \<Rightarrow> 'c FakeICmdRunner" where
  "FakeICmdRunner_recordInvocation key args fake = fake\<lparr>runner_invocations := record_invocation key args (runner_invocations fake)\<rparr>"

definition FakeICmdRunner_RunCmd :: "'c \<times> string \<Rightarrow> 'c FakeICmdRunner \<Rightarrow> error option \<times> 'c FakeICmdRunner" where
  "FakeICmdRunner_RunCmd arg fake =
     (method_result arg (runCmd fake),
      FakeICmdRunner_recordInvocation ''RunCmd'' [AContext (fst arg), AString (snd arg)] (fake\<lparr>runCmd := method_record arg (runCmd fake)\<rparr>))"

definition FakeICmdRunner_RunCmdCallCount :: "'c FakeICmdRunner \<Rightarrow> nat" where
  "FakeICmdRunner_RunCmdCallCount fake = length (ArgsForCall (runCmd fake))"

definition FakeICmdRunner_RunCmdCalls :: "('c \<times> string \<Rightarrow> error option) option \<Rightarrow> 'c FakeICmdRunner \<Rightarrow> 'c FakeICmdRunner" where
  "FakeICmdRunner_RunCmdCalls stub fake = fake\<lparr>runCmd := (runCmd fake)\<lparr>Stub := stub\<rparr>\<rparr>"

definition FakeICmdRunner_RunCmdArgsForCall :: "int \<Rightarrow> 'c FakeICmdRunner \<Rightarrow> ('c \<times> string) outcome" where
  "FakeICmdRunner_RunCmdArgsForCall i fake = method_args i (runCmd fake)"

definition FakeICmdRunner_RunCmdReturns :: "error option \<Rightarrow> 'c FakeICmdRunner \<Rightarrow> 'c FakeICmdRunner" where
  "FakeICmdRunner_RunCmdReturns result fake = fake\<lparr>runCmd := (runCmd fake)\<lparr>Stub := None, Returns := result\<rparr>\<rparr>"

definition FakeICmdRunner_RunCmdReturnsOnCall :: "int \<Rightarrow> error option \<Rightarrow> 'c FakeICmdRunner \<Rightarrow> 'c FakeICmdRunner" where
  "FakeICmdRunner_RunCmdReturnsOnCall i result fake = fake\<lparr>runCmd := method_returns_on i result (runCmd fake)\<rparr>"

definition FakeICmdRunner_Invocations :: "'c FakeICmdRunner \<Rightarrow> 'c invocations" where
  "FakeICmdRunner_Invocations fake = runner_invocations fake"

record FakeIFileWriter =
  mkdirIfNotExists :: "(string, error option) fake_method"
  writeToFile :: "(Files, error option) fake_method"
  writer_invocations :: "unit invocations"

definition FakeIFileWriter_recordInvocation :: "string \<Rightarrow> unit argument list \<Rightarrow> FakeIFileWriter \<Rightarrow> FakeIFileWriter" where
  "FakeIFileWriter_recordInvocation key args fake = fake\<lparr>writer_invocations := record_invocation key args (writer_invocations fake)\<rparr>"

definition FakeIFileWriter_MkdirIfNotExists :: "string \<Rightarrow> FakeIFileWriter \<Rightarrow> error option \<times> FakeIFileWriter" where
  "FakeIFileWriter_MkdirIfNotExists arg fake =
     (method_result arg (mkdirIfNotExists fake),
      FakeIFileWriter_recordInvocation ''MkdirIfNotExists'' [AString arg] (fake\<lparr>mkdirIfNotExists := method_record arg (mkdirIfNotExists fake)\<rparr>))"

definition FakeIFileWriter_MkdirIfNotExistsCallCount :: "FakeIFileWriter \<Rightarrow> nat" where
  "FakeIFileWriter_MkdirIfNotExistsCallCount fake = length (ArgsForCall (mkdirIfNotExists fake))"

definition FakeIFileWriter_MkdirIfNotExistsCalls :: "(string \<Rightarrow> error option) option \<Rightarrow> FakeIFileWriter \<Rightarrow> FakeIFileWriter" where
  "FakeIFileWriter_MkdirIfNotExistsCalls stub fake = fake\<lparr>mkdirIfNotExists := (mkdirIfNotExists fake)\<lparr>Stub := stub\<rparr>\<rparr>"

definition FakeIFileWriter_MkdirIfNotExistsArgsForCall :: "int \<Rightarrow> FakeIFileWriter \<Rightarrow> string outcome" where
  "FakeIFileWriter_MkdirIfNotExistsArgsForCall i fake = method_args i (mkdirIfNotExists fake)"

definition FakeIFileWriter_MkdirIfNotExistsReturns :: "error option \<Rightarrow> FakeIFileWriter \<Rightarrow> FakeIFileWriter" where
  "FakeIFileWriter_MkdirIfNotExistsReturns result fake = fake\<lparr>mkdirIfNotExists := (mkdirIfNotExists fake)\<lparr>Stub := None, Returns := result\<rparr>\<rparr>"

definition FakeIFileWriter_MkdirIfNotExistsReturnsOnCall :: "int \<Rightarrow> error option \<Rightarrow> FakeIFileWriter \<Rightarrow> FakeIFileWriter" where
  "FakeIFileWriter_MkdirIfNotExistsReturnsOnCall i result fake = fake\<lparr>mkdirIfNotExists := method_returns_on i result (mkdirIfNotExists fake)\<rparr>"

definition FakeIFileWriter_WriteToFile :: "Files \<Rightarrow> FakeIFileWriter \<Rightarrow> error option \<times> FakeIFileWriter" where
  "FakeIFileWriter_WriteToFile arg fake =
     (method_result arg (writeToFile fake),
      FakeIFileWriter_recordInvocation ''WriteToFile'' [AFiles arg] (fake\<lparr>writeToFile := method_record arg (writeToFile fake)\<rparr>))"

definition FakeIFileWriter_WriteToFileCallCount :: "FakeIFileWriter \<Rightarrow> nat" where
  "FakeIFileWriter_WriteToFileCallCount fake = length (ArgsForCall (writeToFile fake))"

definition FakeIFileWriter_WriteToFileCalls :: "(Files \<Rightarrow> error option) option \<Rightarrow> FakeIFileWriter \<Rightarrow> FakeIFileWriter" where
  "FakeIFileWriter_WriteToFileCalls stub fake = fake\<lparr>writeToFile := (writeToFile fake)\<lparr>Stub := stub\<rparr>\<rparr>"

definition FakeIFileWriter_WriteToFileArgsForCall :: "int \<Rightarrow> FakeIFileWriter \<Rightarrow> Files outcome" where
  "FakeIFileWriter_WriteToFileArgsForCall i fake = method_args i (writeToFile fake)"

definition FakeIFileWriter_WriteToFileReturns :: "error option \<Rightarrow> FakeIFileWriter \<Rightarrow> FakeIFileWriter" where
  "FakeIFileWriter_WriteToFileReturns result fake = fake\<lparr>writeToFile := (writeToFile fake)\<lparr>Stub := None, Returns := result\<rparr>\<rparr>"

definition FakeIFileWriter_WriteToFileReturnsOnCall :: "int \<Rightarrow> error option \<Rightarrow> FakeIFileWriter \<Rightarrow> FakeIFileWriter" where
  "FakeIFileWriter_WriteToFileReturnsOnCall i result fake = fake\<lparr>writeToFile := method_returns_on i result (writeToFile fake)\<rparr>"

definition FakeIFileWriter_Invocations :: "FakeIFileWriter \<Rightarrow> unit invocations" where
  "FakeIFileWriter_Invocations fake = writer_invocations fake"

record FakeITemplateParser =
  parseTemplate :: "(string, string \<times> error option) fake_method"
  parser_invocations :: "unit invocations"

definition FakeITemplateParser_recordInvocation :: "string \<Rightarrow> unit argument list \<Rightarrow> FakeITemplateParser \<Rightarrow> FakeITemplateParser" where
  "FakeITemplateParser_recordInvocation key args fake = fake\<lparr>parser_invocations := record_invocation key args (parser_invocations fake)\<rparr>"

definition FakeITemplateParser_ParseTemplate :: "string \<Rightarrow> FakeITemplateParser \<Rightarrow> (string \<times> error option) \<times> FakeITemplateParser" where
  "FakeITemplateParser_ParseTemplate arg fake =
     (method_result arg (parseTemplate fake),
      FakeITemplateParser_recordInvocation ''ParseTemplate'' [AString arg] (fake\<lparr>parseTemplate := method_record arg (parseTemplate fake)\<rparr>))"

definition FakeITemplateParser_ParseTemplateCallCount :: "FakeITemplateParser \<Rightarrow> nat" where
  "FakeITemplateParser_ParseTemplateCallCount fake = length (ArgsForCall (parseTemplate fake))"

definition FakeITemplateParser_ParseTemplateCalls :: "(string \<Rightarrow> string \<times> error option) option \<Rightarrow> FakeITemplateParser \<Rightarrow> FakeITemplateParser" where
  "FakeITemplateParser_ParseTemplateCalls stub fake = fake\<lparr>parseTemplate := (parseTemplate fake)\<lparr>Stub := stub\<rparr>\<rparr>"

definition FakeITemplateParser_ParseTemplateArgsForCall :: "int \<Rightarrow> FakeITemplateParser \<Rightarrow> string outcome" where
  "FakeITemplateParser_ParseTemplateArgsForCall i fake = method_args i (parseTemplate fake)"

definition FakeITemplateParser_ParseTemplateReturns :: "string \<times> error option \<Rightarrow> FakeITemplateParser \<Rightarrow> FakeITemplateParser" where
  "FakeITemplateParser_ParseTemplateReturns result fake = fake\<lparr>parseTemplate := (parseTemplate fake)\<lparr>Stub := None, Returns := result\<rparr>\<rparr>"

definition FakeITemplateParser_ParseTemplateReturnsOnCall :: "int \<Rightarrow> string \<times> error option \<Rightarrow> FakeITemplateParser \<Rightarrow> FakeITemplateParser" where
  "FakeITemplateParser_ParseTemplateReturnsOnCall i result fake = fake\<lparr>parseTemplate := method_returns_on i result (parseTemplate fake)\<rparr>"

definition FakeITemplateParser_Invocations :: "FakeITemplateParser \<Rightarrow> unit invocations" where
  "FakeITemplateParser_Invocations fake = parser_invocations fake"

section \<open>What a double returns and records\<close>

lemmas method_defs = method_result_def method_record_def method_args_def method_returns_on_def record_invocation_def

lemmas fake_defs =
  FakeICmdRunner_recordInvocation_def FakeICmdRunner_RunCmd_def FakeICmdRunner_RunCmdCallCount_def
  FakeICmdRunner_RunCmdCalls_def FakeICmdRunner_RunCmdArgsForCall_def FakeICmdRunner_RunCmdReturns_def
  FakeICmdRunner_RunCmdReturnsOnCall_def FakeICmdRunner_Invocations_def FakeIFileWriter_recordInvocation_def
  FakeIFileWriter_MkdirIfNotExists_def FakeIFileWriter_MkdirIfNotExistsCallCount_def FakeIFileWriter_MkdirIfNotExistsCalls_def
  FakeIFileWriter_MkdirIfNotExistsArgsForCall_def FakeIFileWriter_MkdirIfNotExistsReturns_def FakeIFileWriter_MkdirIfNotExistsReturnsOnCall_def
  FakeIFileWriter_WriteToFile_def FakeIFileWriter_WriteToFileCallCount_def FakeIFileWriter_WriteToFileCalls_def
  FakeIFileWriter_WriteToFileArgsForCall_def FakeIFileWriter_WriteToFileReturns_def FakeIFileWriter_WriteToFileReturnsOnCall_def
  FakeIFileWriter_Invocations_def FakeITemplateParser_recordInvocation_def FakeITemplateParser_ParseTemplate_def
  FakeITemplateParser_ParseTemplateCallCount_def FakeITemplateParser_ParseTemplateCalls_def FakeITemplateParser_ParseTemplateArgsForCall_def
  FakeITemplateParser_ParseTemplateReturns_def FakeITemplateParser_ParseTemplateReturnsOnCall_def FakeITemplateParser_Invocations_def

text \<open>A result that is set for a call is the result of that call, and each call can be asked for its arguments.\<close>

lemma result_on_call:
  assumes "i = int (FakeICmdRunner_RunCmdCallCount fake)"
  shows "fst (FakeICmdRunner_RunCmd arg (FakeICmdRunner_RunCmdReturnsOnCall i result fake)) = result"
    and "FakeICmdRunner_RunCmdArgsForCall i (snd (FakeICmdRunner_RunCmd arg fake)) = Return arg"
  using assms by (simp_all add: fake_defs method_defs)

text \<open>Every recorded invocation of a command is one of the calls, in the same order.\<close>

lemma runner_invocations_agree:
  assumes "runner_invocations fake ''RunCmd'' = (if ArgsForCall (runCmd fake) = [] then None
    else Some (map (\<lambda>(ctx, cmd). [AContext ctx, AString cmd]) (ArgsForCall (runCmd fake))))"
    and "FakeICmdRunner_RunCmd arg fake = (result, fake')"
  shows "FakeICmdRunner_Invocations fake' ''RunCmd'' =
    Some (map (\<lambda>(ctx, cmd). [AContext ctx, AString cmd]) (ArgsForCall (runCmd fake')))"
  using assms by (cases arg) (auto simp: fake_defs method_defs)

section \<open>The executor over the doubles\<close>

definition fake_executors :: "'c \<Rightarrow> FakeITemplateParser \<Rightarrow> (FakeIFileWriter \<times> 'c FakeICmdRunner) executors" where
  "fake_executors ctx parser =
     \<lparr>MkdirIfNotExists = (\<lambda>d (w, r). case FakeIFileWriter_MkdirIfNotExists d w of (e, w') \<Rightarrow> (e, w', r)),
      WriteToFile = (\<lambda>f (w, r). case FakeIFileWriter_WriteToFile f w of (e, w') \<Rightarrow> (e, w', r)),
      RunCmd = (\<lambda>c (w, r). case FakeICmdRunner_RunCmd (ctx, c) r of (e, r') \<Rightarrow> (e, w, r')),
      ParseTemplate = (\<lambda>t. case fst (FakeITemplateParser_ParseTemplate t parser) of (s, Some err) \<Rightarrow> Inl err | (s, None) \<Rightarrow> Inr s)\<rparr>"

fun dirs_made :: "action list \<Rightarrow> string list" where
  "dirs_made [] = []"
| "dirs_made (Mkdir d # tr) = d # dirs_made tr"
| "dirs_made (Write f # tr) = dirs_made tr"
| "dirs_made (Run c # tr) = dirs_made tr"

fun files_written :: "action list \<Rightarrow> Files list" where
  "files_written [] = []"
| "files_written (Write f # tr) = f # files_written tr"
| "files_written (Mkdir d # tr) = files_written tr"
| "files_written (Run c # tr) = files_written tr"

lemma calls_append [simp]:
  "dirs_made (tr @ tr') = dirs_made tr @ dirs_made tr'" "files_written (tr @ tr') = files_written tr @ files_written tr'"
  by (induction tr rule: dirs_made.induct) simp_all

text \<open>Between the two states the doubles have recorded exactly the calls of the trace.\<close>

definition recorded :: "'c \<Rightarrow> action list \<Rightarrow> FakeIFileWriter \<times> 'c FakeICmdRunner \<Rightarrow> FakeIFileWriter \<times> 'c FakeICmdRunner \<Rightarrow> bool" where
  "recorded ctx tr s s' \<longleftrightarrow>
     ArgsForCall (mkdirIfNotExists (fst s')) = ArgsForCall (mkdirIfNotExists (fst s)) @ dirs_made tr \<and>
     ArgsForCall (writeToFile (fst s')) = ArgsForCall (writeToFile (fst s)) @ files_written tr \<and>
     ArgsForCall (runCmd (snd s')) = ArgsForCall (runCmd (snd s)) @ map (Pair ctx) (commands_run tr)"

lemma recorded_trans [trans]: "recorded ctx tr s s1 \<Longrightarrow> recorded ctx tr' s1 s2 \<Longrightarrow> recorded ctx (tr @ tr') s s2"
  by (simp add: recorded_def)

lemma recorded_nil [simp]: "recorded ctx [] s s"
  by (simp add: recorded_def)

lemma fake_calls:
  "MkdirIfNotExists (fake_executors ctx parser) d s = (e, s1) \<Longrightarrow> recorded ctx [Mkdir d] s s1"
  "WriteToFile (fake_executors ctx parser) f s = (e, s1) \<Longrightarrow> recorded ctx [Write f] s s1"
  "RunCmd (fake_executors ctx parser) c s = (e, s1) \<Longrightarrow> recorded ctx [Run c] s s1"
  by (auto simp: recorded_def fake_executors_def fake_defs method_defs split: prod.splits)

lemma write_file_recorded:
  assumes "write_file (fake_executors ctx parser) gunzip f s = (e, s', tr)"
  shows "recorded ctx tr s s'"
proof -
  let ?d = "Dir (Path f)"
  obtain e1 s1 where 1: "MkdirIfNotExists (fake_executors ctx parser) ?d s = (e1, s1)" by (metis surj_pair)
  have w: "recorded ctx [Mkdir ?d, Write g] s s2" if "WriteToFile (fake_executors ctx parser) g s1 = (e2, s2)" for g e2 s2
    using recorded_trans [OF fake_calls(1) [OF 1] fake_calls(2) [OF that]] by simp
  show ?thesis
    using assms 1 fake_calls(1) [OF 1]
    by (auto simp: write_file_def Let_def dest: w split: option.splits sum.splits prod.splits)
qed

lemma write_files_recorded:
  "write_files (fake_executors ctx parser) gunzip fs s = (e, s', tr) \<Longrightarrow> recorded ctx tr s s'"
proof (induction fs arbitrary: s e s' tr)
  case (Cons f fs)
  obtain e1 s1 tr1 where 1: "write_file (fake_executors ctx parser) gunzip f s = (e1, s1, tr1)" by (rule prod_cases3)
  obtain e2 s2 tr2 where 2: "write_files (fake_executors ctx parser) gunzip fs s1 = (e2, s2, tr2)" by (rule prod_cases3)
  show ?case
    using Cons.prems 1 2 write_file_recorded [OF 1] recorded_trans [OF write_file_recorded [OF 1] Cons.IH [OF 2]]
    by (cases e1) auto
qed simp

lemma run_cmds_recorded: "run_cmds (fake_executors ctx parser) cmds s = (e, s', tr) \<Longrightarrow> recorded ctx tr s s'"
proof (induction cmds arbitrary: s e s' tr)
  case (Cons c cmds)
  obtain e1 s1 where 1: "RunCmd (fake_executors ctx parser) c s = (e1, s1)" by (metis surj_pair)
  obtain e2 s2 tr2 where 2: "run_cmds (fake_executors ctx parser) cmds s1 = (e2, s2, tr2)" by (rule prod_cases3)
  show ?case
    using Cons.prems 1 2 fake_calls(3) [OF 1] recorded_trans [OF fake_calls(3) [OF 1] Cons.IH [OF 2]]
    by (cases e1) auto
qed simp

text \<open>The trace of an execution is what happened: it lists the calls that the doubles have recorded.\<close>

lemma Execute_recorded:
  assumes "Execute (fake_executors ctx parser) unmarshal gunzip script s = (e, s', tr)"
  shows "recorded ctx tr s s'"
proof (cases "unmarshal script")
  case (Inr cfg)
  obtain e1 s1 tr1 where 1: "write_files (fake_executors ctx parser) gunzip (FilesToWrite cfg) s = (e1, s1, tr1)" by (rule prod_cases3)
  obtain e2 s2 tr2 where 2: "run_cmds (fake_executors ctx parser) (CommandsToExecute cfg) s1 = (e2, s2, tr2)" by (rule prod_cases3)
  show ?thesis
    using assms Inr 1 2 write_files_recorded [OF 1] recorded_trans [OF write_files_recorded [OF 1] run_cmds_recorded [OF 2]]
    by (cases e1) (auto simp: Execute_def)
qed (use assms in \<open>simp add: Execute_def\<close>)

end
