(* ===== verification/ByoMachine_Progress.thy ===== *)
theory ByoMachine_Progress
  imports ByoMachine_Props
begin

text \<open>
  What a reconciliation of a ByoMachine has reached when it asks for no further one: it returned no
  error and no delay, so that the next one comes only with an event.  Such a reconciliation has
  settled the machine, or waits for something that its condition names, or it has not found one of
  the objects it needs.
\<close>

section \<open>Settled machines\<close>

definition reason_is :: "'z lib_scheme \<Rightarrow> string \<Rightarrow> ByoMachine \<Rightarrow> bool" where
  "reason_is L reason m \<longleftrightarrow> \<not> cnd_IsTrue L (machine_GetConditions m) BYOHostReady \<and>
     cnd_GetReason L (machine_GetConditions m) BYOHostReady = reason"

definition provisioned :: "'z lib_scheme \<Rightarrow> ByoMachine \<Rightarrow> bool" where
  "provisioned L m \<longleftrightarrow> mach_Ready (MachineStatus m) \<and> cnd_IsTrue L (machine_GetConditions m) BYOHostReady \<and>
     (\<exists>hostname. MatchString (provider_rexp hostname) (ProviderID (MachineSpec m)))"

text \<open>What the machine \<open>m'\<close> that a quiet reconciliation leaves is, for the machine \<open>m\<close> it has read.\<close>

definition settled :: "'z lib_scheme \<Rightarrow> Cluster \<Rightarrow> Machine \<Rightarrow> ByoMachine \<Rightarrow> ByoMachine \<Rightarrow> bool" where
  "settled L cluster machine m m' =
     (if IsPaused L cluster (Annotations m) then reason_is L ClusterOrResourcePausedReason m'
      else if being_deleted m then Finalizers m' = fin_Remove L MachineFinalizer (Finalizers m)
      else if \<not> InfrastructureReady cluster then reason_is L WaitingForClusterInfrastructureReason m'
      else if DataSecretName machine = None then reason_is L WaitingForBootstrapDataSecretReason m'
      else provisioned L m')"

definition quiet :: "(Result \<times> error option) outcome \<Rightarrow> bool" where
  "quiet r \<longleftrightarrow> (\<exists>res. r = Return (res, None) \<and> RequeueAfter res \<le> 0)"

lemma quiet_simps [simp]:
  "\<not> quiet (Panic m)" "\<not> quiet (Return (res, Some err))" "quiet (Return (res, None)) \<longleftrightarrow> RequeueAfter res \<le> 0"
  by (auto simp: quiet_def)

lemma MarkFalse_reason_is:
  "conditions_contract L \<Longrightarrow> reason_is L r (machine_MarkFalse L BYOHostReady r sv m)"
  using machine_cond.MarkFalse_reason by (simp add: reason_is_def)

section \<open>Quiet steps\<close>

lemma updateNodeProviderID_quiet:
  assumes "random_contract C" and "conditions_contract (libs C)"
    and "updateNodeProviderID C host st = (r, st')" and "quiet r"
  shows "provisioned (libs C) (sc_ByoMachine (scope st'))"
  using assms(3)
proof (cases rule: updateNodeProviderID_cases)
  case failed
  then show ?thesis using assms(4) by (auto simp: quiet_def)
next
  case (ready rc pid w w')
  show ?thesis
    unfolding ready(4) provisioned_def
    using setNodeProviderID_ok [OF assms(1) ready(1)] machine_cond.MarkTrue_IsTrue [OF assms(2)] by auto
qed

lemma unless_requeued_quiet:
  "unless_requeued r st k = (r', st') \<Longrightarrow> quiet r' \<Longrightarrow> k = (r', st')"
  by (auto simp: unless_requeued_def split: outcome.splits prod.splits option.splits if_splits)

lemma provision_host_quiet:
  assumes "random_contract C" and "conditions_contract (libs C)"
    and "provision_host C host st = (r, st')" and "quiet r"
  shows "provisioned (libs C) (sc_ByoMachine (scope st'))"
proof -
  obtain host' st1 where "updateNodeProviderID C host' st1 = (r, st')"
    using assms(3,4)
    by (auto simp: provision_host_def Let_def dest!: unless_requeued_quiet split: option.splits prod.splits)
  from updateNodeProviderID_quiet [OF assms(1,2) this assms(4)] show ?thesis .
qed

lemma gate_and_attach_quiet:
  assumes "random_contract C" and L: "conditions_contract (libs C)"
    and "gate_and_attach C st = (r, st')" and "quiet r"
  shows "if \<not> InfrastructureReady (sc_Cluster (scope st)) then
      reason_is (libs C) WaitingForClusterInfrastructureReason (sc_ByoMachine (scope st'))
    else if DataSecretName (sc_Machine (scope st)) = None then
      reason_is (libs C) WaitingForBootstrapDataSecretReason (sc_ByoMachine (scope st'))
    else provisioned (libs C) (sc_ByoMachine (scope st'))"
proof (cases "InfrastructureReady (sc_Cluster (scope st)) \<and> DataSecretName (sc_Machine (scope st)) \<noteq> None")
  case False
  then show ?thesis using assms(3) MarkFalse_reason_is [OF L] by (auto simp: gate_and_attach_def)
next
  case True
  then obtain host st1 where "provision_host C host st1 = (r, st')"
    using assms(3,4) by (auto simp: gate_and_attach_def Let_def split: option.splits outcome.splits prod.splits)
  from provision_host_quiet [OF assms(1) L this assms(4)] show ?thesis using True by auto
qed

lemma reconcileNormal_quiet:
  assumes "reconcileNormal C st = (r, st')" and "quiet r"
  obtains st1 where "gate_and_attach C st1 = (r, st')" "sc_Cluster (scope st1) = sc_Cluster (scope st)"
    "sc_Machine (scope st1) = sc_Machine (scope st)"
  using assms that
  by (auto simp: reconcileNormal_def Let_def split: option.splits outcome.splits prod.splits)

lemma reconcileDelete_quiet:
  assumes "reconcileDelete C st = (r, st')" and "quiet r"
  shows "Finalizers (sc_ByoMachine (scope st')) = fin_Remove (libs C) MachineFinalizer (Finalizers (sc_ByoMachine (scope st)))"
  using assms by (auto simp: reconcileDelete_def Let_def split: option.splits outcome.splits prod.splits)

lemma reconcile_body_quiet:
  assumes R: "random_contract C" and L: "conditions_contract (libs C)"
    and "reconcile_body C cluster machine byoCluster m w = (r, m', w', evs)" and q: "quiet r"
  shows "settled (libs C) cluster machine m m'"
  using assms(3)
proof (cases rule: reconcile_body_cases)
  case (early x)
  then show ?thesis using q by (auto simp: quiet_def)
next
  case (run h w1 st st')
  have sc: "sc_ByoMachine (scope st) = m" "sc_Cluster (scope st) = cluster" "sc_Machine (scope st) = machine"
    using run(2) by simp_all
  consider (p) "IsPaused (libs C) cluster (Annotations m)" "reconcile_paused C st = (r, st')"
    | (d) "\<not> IsPaused (libs C) cluster (Annotations m)" "being_deleted m" "reconcileDelete C st = (r, st')"
    | (n) "\<not> IsPaused (libs C) cluster (Annotations m)" "\<not> being_deleted m" "reconcileNormal C st = (r, st')"
    using run(7) by (auto split: if_splits)
  then show ?thesis
  proof cases
    case p
    then show ?thesis using MarkFalse_reason_is [OF L] by (auto simp: settled_def reconcile_paused_def Let_def run(4))
  next
    case d
    then show ?thesis using reconcileDelete_quiet [OF d(3) q] sc(1) by (simp add: settled_def run(4))
  next
    case n
    obtain st1 where "gate_and_attach C st1 = (r, st')" "sc_Cluster (scope st1) = cluster" "sc_Machine (scope st1) = machine"
      using reconcileNormal_quiet [OF n(3) q] sc by metis
    with gate_and_attach_quiet [OF R L this(1) q] n(1,2) show ?thesis by (simp add: settled_def run(4))
  qed
qed

section \<open>Quiet reconciliations\<close>

text \<open>
  The reads of \<open>Reconcile\<close> that end it without an error: the machine is gone, it has no owner or no cluster
  yet, or its ByoCluster cannot be read, whatever the reason.
\<close>

definition waits_for_object :: "('w, 'z) machine_client_scheme \<Rightarrow> key \<Rightarrow> 'w \<Rightarrow> bool" where
  "waits_for_object C req w =
     (case getByoMachine C req w of
        (Inl err, _) \<Rightarrow> IsNotFound err
      | (Inr m, w1) \<Rightarrow>
          (case getOwnerMachine C (ObjectMeta.truncate m) w1 of
             (Inr (Some _), w2) \<Rightarrow>
               (case getClusterFromMetadata C (ObjectMeta.truncate m) w2 of
                  (Inr (Some cluster), w3) \<Rightarrow>
                    (case InfrastructureRef cluster of
                       Some infraRef \<Rightarrow> isl (fst (getByoCluster C (Namespace m, ref_Name infraRef) w3))
                     | None \<Rightarrow> False)
                | (r, _) \<Rightarrow> \<not> isl r)
           | (r, _) \<Rightarrow> \<not> isl r))"

text \<open>The objects that \<open>Reconcile\<close> reads before its body.\<close>

definition reads_objects ::
  "('w, 'z) machine_client_scheme \<Rightarrow> key \<Rightarrow> 'w \<Rightarrow> ByoMachine \<Rightarrow> Machine \<Rightarrow> Cluster \<Rightarrow> ByoCluster \<Rightarrow> 'w \<Rightarrow> bool" where
  "reads_objects C req w m machine cluster byoCluster w4 \<longleftrightarrow>
     (\<exists>w1 w2 w3 infraRef. getByoMachine C req w = (Inr m, w1) \<and>
        getOwnerMachine C (ObjectMeta.truncate m) w1 = (Inr (Some machine), w2) \<and>
        getClusterFromMetadata C (ObjectMeta.truncate m) w2 = (Inr (Some cluster), w3) \<and>
        InfrastructureRef cluster = Some infraRef \<and>
        getByoCluster C (Namespace m, ref_Name infraRef) w3 = (Inr byoCluster, w4))"

lemma Reconcile_quiet_cases:
  assumes "Reconcile C req w = (r, w', evs)" and "quiet r"
  obtains (waits) "waits_for_object C req w"
  | (body) m machine cluster byoCluster w4 r' m' w5 where "reads_objects C req w m machine cluster byoCluster w4"
      "reconcile_body C cluster machine byoCluster m w4 = (r', m', w5, evs)" "quiet r'"
      "patchByoMachine C m m' w5 = (None, w')"
proof (cases "\<exists>m machine cluster byoCluster w4. reads_objects C req w m machine cluster byoCluster w4")
  case True
  then obtain m machine cluster byoCluster w4 where rd: "reads_objects C req w m machine cluster byoCluster w4" by blast
  obtain r' m' w5 evs' where b: "reconcile_body C cluster machine byoCluster m w4 = (r', m', w5, evs')" by (metis prod.exhaust)
  have "evs' = evs \<and> quiet r' \<and> patchByoMachine C m m' w5 = (None, w')"
    using assms rd b unfolding reads_objects_def
    by (auto simp: Reconcile_def Let_def defer_error_def quiet_def split: option.splits prod.splits outcome.splits)
  then show thesis using body [OF rd] b by blast
next
  case False
  then have "waits_for_object C req w"
    using assms unfolding reads_objects_def waits_for_object_def Reconcile_def
    by (auto split: prod.splits sum.splits option.splits if_splits)
  then show thesis by (rule waits)
qed

text \<open>
  C9. A ByoMachine is never forgotten halfway.  A reconciliation that returns no error and asks for no delay
  is the last one until an event: then one of the objects it reads was missing, or the machine it has
  patched is settled, which means that it is paused, or released for deletion, or waits for the cluster's
  infrastructure or the bootstrap secret and says so in its condition, or is ready with a provider ID.  A
  missing host, a missing node, an installer configuration that is not ready and every failed call but
  the read of the ByoCluster lead to a retry.
\<close>

theorem quiet_reconcile_settled:
  assumes "random_contract C" and "conditions_contract (libs C)"
    and "Reconcile C req w = (Return (res, None), w', evs)" and "RequeueAfter res \<le> 0"
  shows "waits_for_object C req w \<or>
    (\<exists>m machine cluster byoCluster w4 m' w5. reads_objects C req w m machine cluster byoCluster w4 \<and>
       settled (libs C) cluster machine m m' \<and> patchByoMachine C m m' w5 = (None, w'))"
proof -
  have q: "quiet (Return (res, None))" using assms(4) by simp
  from assms(3) q show ?thesis
  proof (cases rule: Reconcile_quiet_cases)
    case (body m machine cluster byoCluster w4 r' m' w5)
    then show ?thesis using reconcile_body_quiet [OF assms(1,2) body(2,3)] by blast
  qed blast
qed

theorem quiet_reconcile_settled_witness:
  "\<exists>m machine cluster byoCluster w4 m'. reads_objects ref_machine_client (''default'', ''m1'') ex_world m machine cluster byoCluster w4 \<and>
     settled ref_lib cluster machine m m'"
proof -
  let ?out = "Reconcile ref_machine_client (''default'', ''m1'') ex_world"
  have "fst ?out = Return (no_requeue, None)" by code_simp
  then have out: "?out = (Return (no_requeue, None), fst (snd ?out), snd (snd ?out))" by (metis prod.collapse)
  have "\<not> waits_for_object ref_machine_client (''default'', ''m1'') ex_world" by code_simp
  moreover have "conditions_contract (libs ref_machine_client)" "RequeueAfter no_requeue \<le> 0" using ref_lib_contracts(1) by simp_all
  ultimately show ?thesis
    using quiet_reconcile_settled [OF ref_machine_client_contracts(2) _ out] unfolding libs_ref_machine_client by blast
qed

text \<open>Any error of the read of the ByoCluster ends the reconciliation without error.\<close>

lemma byocluster_error_not_retried:
  assumes "getByoMachine C req w = (Inr m, w1)"
    and "getOwnerMachine C (ObjectMeta.truncate m) w1 = (Inr (Some machine), w2)"
    and "getClusterFromMetadata C (ObjectMeta.truncate m) w2 = (Inr (Some cluster), w3)"
    and "InfrastructureRef cluster = Some infraRef"
    and "getByoCluster C (Namespace m, ref_Name infraRef) w3 = (Inl err, w4)"
  shows "Reconcile C req w = (Return (no_requeue, None), w4, [])"
  using assms by (simp add: Reconcile_def)

section \<open>A machine whose node has joined becomes ready\<close>

text \<open>
  Worlds \<open>I\<close> in which the API server answers and nothing is missing for the machine \<open>m\<close> with the host \<open>h\<close>:
  every call succeeds and stays in \<open>I\<close>, the machine has its cluster, its installer configuration,
  if it has one, is ready and names its secrets, and the cluster has a node for the host, without a
  provider ID or with one of this host.
\<close>

definition answers :: "('w \<Rightarrow> bool) \<Rightarrow> ('w \<Rightarrow> 'a \<times> 'w) \<Rightarrow> ('a \<Rightarrow> bool) \<Rightarrow> bool" where
  "answers I call ok \<longleftrightarrow> (\<forall>w. I w \<longrightarrow> ok (fst (call w)) \<and> I (snd (call w)))"

definition config_served :: "('w, 'z) machine_client_scheme \<Rightarrow> Unstructured \<Rightarrow> bool" where
  "config_served C cfg \<longleftrightarrow> IsReady C cfg = Inr True \<and>
     (\<exists>r. config_secret C ''installationSecret'' ''installation'' ''field'' cfg = Return (Inr r)) \<and>
     (\<exists>r. config_secret C ''uninstallationSecret'' ''uninstallation'' ''uninstallationSecret'' cfg = Return (Inr r))"

definition own_id :: "ByoHost \<Rightarrow> Node \<Rightarrow> bool" where
  "own_id h n \<longleftrightarrow> MatchString (provider_rexp (Name h)) (NodeProviderID n)"

definition serving :: "('w, 'z) machine_client_scheme \<Rightarrow> ('w \<Rightarrow> bool) \<Rightarrow> ByoMachine \<Rightarrow> ByoHost \<Rightarrow> Cluster \<Rightarrow> bool" where
  "serving C I m h cluster \<longleftrightarrow>
     (\<forall>x. helperByoHost C x = None) \<and> (\<forall>x. helperNode C x = None) \<and> (\<forall>x. helperByoMachine C x = None) \<and>
     (\<forall>b a. obj_key a = obj_key h \<longrightarrow> answers I (patchByoHost C b a) (\<lambda>e. e = None)) \<and>
     (\<forall>b a. obj_key a = obj_key m \<longrightarrow> answers I (patchByoMachine C b a) (\<lambda>e. e = None)) \<and>
     (\<forall>b a. own_id h a \<and> NodeName a = NodeName b \<longrightarrow> answers I (patchNode C (obj_key cluster) b a) (\<lambda>e. e = None)) \<and>
     answers I (RandomString C ProviderIDSuffixLength) (\<lambda>_. True) \<and>
     (\<forall>x. obj_key x = obj_key m \<and> Labels x = Labels m \<longrightarrow>
        answers I (getClusterFromMetadata C x) (\<lambda>r. r = Inr (Some cluster))) \<and>
     answers I (TrackerGetClient C (obj_key cluster)) (\<lambda>e. e = None) \<and>
     (\<forall>ref x. InstallerRef (MachineSpec m) = Some ref \<and> obj_key x = obj_key m \<longrightarrow>
        answers I (getInstallerConfig C ref x) (\<lambda>r. \<exists>cfg. r = Inr cfg \<and> config_served C cfg)) \<and>
     answers I (getNode C (obj_key cluster) (obj_key h)) (\<lambda>r. \<exists>n. r = Inr n \<and> (NodeProviderID n = [] \<or> own_id h n))"

lemma servingD:
  assumes "serving C I m h cluster"
  shows "helperByoHost C x = None" "helperNode C n = None" "helperByoMachine C y = None"
    "obj_key a = obj_key h \<Longrightarrow> answers I (patchByoHost C b a) (\<lambda>e. e = None)"
    "obj_key d = obj_key m \<Longrightarrow> answers I (patchByoMachine C c d) (\<lambda>e. e = None)"
    "own_id h n' \<Longrightarrow> NodeName n' = NodeName n \<Longrightarrow> answers I (patchNode C (obj_key cluster) n n') (\<lambda>e. e = None)"
    "answers I (RandomString C ProviderIDSuffixLength) (\<lambda>_. True)"
    "obj_key z = obj_key m \<Longrightarrow> Labels z = Labels m \<Longrightarrow> answers I (getClusterFromMetadata C z) (\<lambda>r. r = Inr (Some cluster))"
    "answers I (TrackerGetClient C (obj_key cluster)) (\<lambda>e. e = None)"
    "InstallerRef (MachineSpec m) = Some ref \<Longrightarrow> obj_key y = obj_key m \<Longrightarrow>
       answers I (getInstallerConfig C ref y) (\<lambda>r. \<exists>cfg. r = Inr cfg \<and> config_served C cfg)"
    "answers I (getNode C (obj_key cluster) (obj_key h)) (\<lambda>r. \<exists>n. r = Inr n \<and> (NodeProviderID n = [] \<or> own_id h n))"
  using assms unfolding serving_def by blast+

lemma answersE:
  assumes "answers I call ok" and "I w"
  obtains x w' where "call w = (x, w')" "ok x" "I w'"
  using assms by (cases "call w") (auto simp: answers_def)

text \<open>The machine and the host of the scope are still the ones that are served.\<close>

definition same_machine :: "ByoMachine \<Rightarrow> ByoMachine \<Rightarrow> bool" where
  "same_machine m x \<longleftrightarrow> obj_key x = obj_key m \<and> Labels x = Labels m \<and> InstallerRef (MachineSpec x) = InstallerRef (MachineSpec m)"

definition in_service :: "('w \<Rightarrow> bool) \<Rightarrow> ByoMachine \<Rightarrow> 'w mstate \<Rightarrow> bool" where
  "in_service I m st \<longleftrightarrow> I (world st) \<and> same_machine m (sc_ByoMachine (scope st))"

lemma setNodeProviderID_served:
  assumes R: "random_contract C" and S: "serving C I m h cluster" and w: "I w" and k: "obj_key host = obj_key h"
  obtains pid w' where "setNodeProviderID C (obj_key cluster) host w = ((pid, None), w')" "I w'"
proof -
  have name: "Name host = Name h" using k by (simp add: obj_key_def)
  obtain n w1 where n: "getNode C (obj_key cluster) (obj_key host) w = (Inr n, w1)" "I w1" "NodeProviderID n = [] \<or> own_id h n"
    using answersE [OF servingD(11) [OF S] w] k by metis
  show thesis
  proof (cases "NodeProviderID n = []")
    case False
    then show thesis using n name by (intro that [of "NodeProviderID n" w1]) (auto simp: setNodeProviderID_def own_id_def)
  next
    case True
    obtain sfx w2 where s: "RandomString C ProviderIDSuffixLength w1 = (sfx, w2)" "I w2"
      using answersE [OF servingD(7) [OF S] n(2)] by metis
    let ?n = "n\<lparr>NodeProviderID := ProviderIDPrefix @ Name host @ ''/'' @ sfx\<rparr>"
    have "own_id h ?n" using generated_provider_id [OF R s(1), of "Name h"] name by (simp add: own_id_def)
    then obtain w3 where p: "patchNode C (obj_key cluster) n ?n w2 = (None, w3)" "I w3"
      using answersE [OF servingD(6) [OF S, of ?n n] s(2)] by auto
    then show thesis using n True s servingD(2) [OF S]
      by (intro that [of "NodeProviderID ?n" w3]) (auto simp: setNodeProviderID_def Let_def)
  qed
qed

lemma updateNodeProviderID_served:
  assumes R: "random_contract C" and S: "serving C I m h cluster" and st: "in_service I m st" and k: "obj_key host = obj_key h"
  obtains st' where "updateNodeProviderID C host st = (Return (no_requeue, None), st')" "in_service I m st'"
proof -
  let ?m = "sc_ByoMachine (scope st)"
  have "obj_key (ObjectMeta.truncate ?m) = obj_key m" "Labels (ObjectMeta.truncate ?m) = Labels m"
    using st by (simp_all add: in_service_def same_machine_def obj_key_def ObjectMeta.truncate_def)
  then obtain w1 where 1: "getClusterFromMetadata C (ObjectMeta.truncate ?m) (world st) = (Inr (Some cluster), w1)" "I w1"
    using answersE [OF servingD(8) [OF S], of "ObjectMeta.truncate ?m" "world st"] st by (auto simp: in_service_def)
  obtain w2 where 2: "TrackerGetClient C (obj_key cluster) w1 = (None, w2)" "I w2"
    using answersE [OF servingD(9) [OF S] 1(2)] by metis
  obtain pid w3 where 3: "setNodeProviderID C (obj_key cluster) host w2 = ((pid, None), w3)" "I w3"
    using setNodeProviderID_served [OF R S 2(2) k] .
  have "getRemoteClient C ?m (world st) = (Return (Inr (obj_key cluster)), w2)" using 1 2 by (simp add: getRemoteClient_def)
  then show thesis using 3 st that by (simp add: updateNodeProviderID_def in_service_def same_machine_def obj_key_def Let_def)
qed

lemma secrets_served:
  assumes S: "serving C I m h cluster" and m': "same_machine m m'" "InstallerRef (MachineSpec m) = Some ref"
    and w: "I w \<and> obj_key host = obj_key h"
  shows "\<exists>host' w'. setInstallationSecretForByoHost C ref m' host w = (Return (no_requeue, None), host', w') \<and>
      I w' \<and> obj_key host' = obj_key h"
    and "\<exists>host' w'. setUninstallationSecretForByoHost C ref m' host w = (Return (no_requeue, None), host', w') \<and>
      I w' \<and> obj_key host' = obj_key h"
proof -
  have key: "obj_key m' = obj_key m" using m'(1) by (simp add: same_machine_def)
  obtain cfg w1 where c: "getInstallerConfig C ref m' w = (Inr cfg, w1)" "I w1" "config_served C cfg"
    using answersE [OF servingD(10) [OF S m'(2) key] conjunct1 [OF w]] by metis
  then have cfg: "getInstallerConfigAndHelper C ref m' host w = (Inr cfg, w1)"
    using servingD(1) [OF S] by (simp add: getInstallerConfigAndHelper_def getInstallerConfigAndStatus_def config_served_def)
  obtain r1 r2 where r: "config_secret C ''installationSecret'' ''installation'' ''field'' cfg = Return (Inr r1)"
      "config_secret C ''uninstallationSecret'' ''uninstallation'' ''uninstallationSecret'' cfg = Return (Inr r2)"
    using c(3) unfolding config_served_def by blast
  have p: "\<exists>w'. patchByoHost C b (host\<lparr>HostSpec := x\<rparr>) w1 = (None, w') \<and> I w'" for b x
    using answersE [OF servingD(4) [OF S] c(2), of "host\<lparr>HostSpec := x\<rparr>" b] w by (auto simp: obj_key_def)
  show "\<exists>host' w'. setInstallationSecretForByoHost C ref m' host w = (Return (no_requeue, None), host', w') \<and>
      I w' \<and> obj_key host' = obj_key h"
    using p [of host "(HostSpec host)\<lparr>InstallationSecret := Some r1\<rparr>"] cfg r(1) w
    by (auto simp: setInstallationSecretForByoHost_def Let_def obj_key_def)
  show "\<exists>host' w'. setUninstallationSecretForByoHost C ref m' host w = (Return (no_requeue, None), host', w') \<and>
      I w' \<and> obj_key host' = obj_key h"
    using p [of host "(HostSpec host)\<lparr>UninstallationSecret := Some r2\<rparr>"] cfg r(2) w
    by (auto simp: setUninstallationSecretForByoHost_def Let_def obj_key_def)
qed

lemma secret_step_served:
  assumes "\<And>host w. I w \<and> obj_key host = k \<Longrightarrow>
      \<exists>host' w'. f host w = (Return (no_requeue, None), host', w') \<and> I w' \<and> obj_key host' = k"
    and "in_service I m st" and "obj_key host = k"
  obtains host' st' where "secret_step f missing host st = (Return (no_requeue, None), host', st')" "in_service I m st'"
    "obj_key host' = k"
proof (cases missing)
  case True
  obtain host' w' where "f host (world st) = (Return (no_requeue, None), host', w')" "I w'" "obj_key host' = k"
    using assms(1) [of "world st" host] assms(2,3) by (auto simp: in_service_def)
  then show thesis using True assms(2) that [of host' "put_host host' (put_world w' st)"]
    by (simp add: secret_step_def in_service_def)
qed (use assms that in \<open>simp add: secret_step_def\<close>)

lemma provision_host_served:
  assumes R: "random_contract C" and S: "serving C I m h cluster" and st: "in_service I m st" and k: "obj_key host = obj_key h"
  obtains st' where "provision_host C host st = (Return (no_requeue, None), st')" "in_service I m st'"
proof -
  define st1 where "st1 = (if mach_HostInfo (MachineStatus (sc_ByoMachine (scope st))) = empty_HostInfo
                then upd_machine (\<lambda>m. m\<lparr>MachineStatus := (MachineStatus m)
                       \<lparr>mach_HostInfo := HostDetails (HostStatus host)\<rparr>\<rparr>) st
                else st)"
  have 1: "in_service I m st1" using st by (simp add: st1_def in_service_def same_machine_def obj_key_def)
  let ?m = "sc_ByoMachine (scope st1)"
  have m1: "same_machine m ?m" "InstallerRef (MachineSpec m) = InstallerRef (MachineSpec ?m)"
    using 1 by (simp_all add: in_service_def same_machine_def)
  show thesis
  proof (cases "InstallerRef (MachineSpec ?m)")
    case None
    then show thesis using updateNodeProviderID_served [OF R S 1 k] that
      by (auto simp: provision_host_def Let_def simp flip: st1_def)
  next
    case (Some ref)
    note ref = trans [OF m1(2) Some]
    obtain host2 st2 where 2: "secret_step (setInstallationSecretForByoHost C ref ?m) (InstallationSecret (HostSpec host) = None) host st1 =
        (Return (no_requeue, None), host2, st2)" "in_service I m st2" "obj_key host2 = obj_key h"
      by (rule secret_step_served [OF secrets_served(1) [OF S m1(1) ref] 1 k])
    obtain host3 st3 where 3: "secret_step (setUninstallationSecretForByoHost C ref ?m) (UninstallationSecret (HostSpec host2) = None) host2 st2 =
        (Return (no_requeue, None), host3, st3)" "in_service I m st3" "obj_key host3 = obj_key h"
      by (rule secret_step_served [OF secrets_served(2) [OF S m1(1) ref] 2(2,3)])
    obtain st' where 4: "updateNodeProviderID C host3 st3 = (Return (no_requeue, None), st')" "in_service I m st'"
      by (rule updateNodeProviderID_served [OF R S 3(2,3)])
    have "provision_host C host st = (Return (no_requeue, None), st')"
      using Some 2(1) 3(1) 4(1) by (simp add: provision_host_def Let_def unless_requeued_def flip: st1_def)
    then show thesis using 4(2) that by blast
  qed
qed

lemma reconcileNormal_served:
  assumes R: "random_contract C" and S: "serving C I m h cluster"
    and st: "in_service I m st" and host: "sc_ByoHost (scope st) = Some h" and cl: "sc_Cluster (scope st) = cluster"
    and gates: "InfrastructureReady cluster" "DataSecretName (sc_Machine (scope st)) \<noteq> None"
  obtains st' where "reconcileNormal C st = (Return (no_requeue, None), st')" "in_service I m st'"
proof -
  let ?st = "upd_machine (\<lambda>m. m\<lparr>Finalizers := fin_Add (libs C) MachineFinalizer (Finalizers m)\<rparr>) st"
  let ?h = "h\<lparr>Annotations := (Annotations h)(PausedAnnotation := None)\<rparr>"
  have key: "obj_key ?h = obj_key h" by (simp add: obj_key_def)
  obtain w1 where p: "patchByoHost C h ?h (world st) = (None, w1)" "I w1"
    using answersE [OF servingD(4) [OF S key], of "world st"] st unfolding in_service_def by metis
  define st1 where "st1 = put_host ?h (put_world w1 ?st)"
  have s1: "in_service I m st1" using st p(2) by (simp add: st1_def in_service_def same_machine_def obj_key_def)
  have paused: "setPausedConditionForByoHost C False h (world st) = (None, ?h, w1)"
    using p(1) servingD(1) [OF S] by (simp add: setPausedConditionForByoHost_def Let_def)
  have ref: "InstallerRef (MachineSpec (sc_ByoMachine (scope st1))) = InstallerRef (MachineSpec m)"
    using s1 by (simp add: in_service_def same_machine_def)
  have gate: "gate_and_attach C st2 = provision_host C ?h st2" if "scope st2 = scope st1" for st2
    using that gates cl by (auto simp: gate_and_attach_def st1_def)
  show thesis
  proof (cases "InstallerRef (MachineSpec m)")
    case None
    then have "reconcileNormal C st = provision_host C ?h st1"
      using host paused ref gate [OF refl] by (simp add: reconcileNormal_def Let_def flip: st1_def)
    then show thesis using provision_host_served [OF R S s1 key] that by metis
  next
    case (Some r)
    have mk: "obj_key (sc_ByoMachine (scope st1)) = obj_key m" using s1 by (simp add: in_service_def same_machine_def)
    obtain cfg w2 where c: "getInstallerConfig C r (sc_ByoMachine (scope st1)) (world st1) = (Inr cfg, w2)" "I w2"
      using answersE [OF servingD(10) [OF S Some mk], of "world st1"] s1 unfolding in_service_def by metis
    then have "reconcileNormal C st = provision_host C ?h (put_world w2 st1)"
      using host paused ref Some gate [of "put_world w2 st1"]
      by (simp add: reconcileNormal_def createInstallerConfig_def Let_def flip: st1_def)
    moreover have "in_service I m (put_world w2 st1)" using s1 c(2) by (simp add: in_service_def)
    ultimately show thesis using provision_host_served [OF R S _ key] that by metis
  qed
qed

text \<open>
  C8. A machine whose node has joined becomes ready.  Let the ByoMachine have its host, not be paused or
  deleted, with the infrastructure of its cluster ready and the bootstrap secret there; let the API server
  answer, the installer configuration be ready where there is one, and the cluster have the host's node.
  Then one reconciliation succeeds, asks for no further one and leaves the machine ready, with a
  provider ID and the condition true.
\<close>

theorem joined_machine_becomes_ready:
  assumes "random_contract C" and "conditions_contract (libs C)" and "serving C I m h cluster"
    and "reads_objects C req w m machine cluster byoCluster w4"
    and "FetchAttachedByoHost C (Name m) (Namespace m) w4 = (Return (Inr (Some h)), w5)" and "I w5"
    and "\<not> IsPaused (libs C) cluster (Annotations m)" and "\<not> being_deleted m"
    and "InfrastructureReady cluster" and "DataSecretName machine \<noteq> None"
  shows "\<exists>m' w6 w' evs. Reconcile C req w = (Return (no_requeue, None), w', evs) \<and> provisioned (libs C) m' \<and>
    patchByoMachine C m m' w6 = (None, w') \<and> obj_key m' = obj_key m \<and> I w'"
proof -
  note S = assms(3)
  define st where "st = \<lparr>scope = \<lparr>sc_Cluster = cluster, sc_Machine = machine, sc_ByoCluster = byoCluster, sc_ByoMachine = m,
    sc_ByoHost = Some h\<rparr>, world = w5, events = []\<rparr>"
  have sc: "sc_Cluster (scope st) = cluster" "sc_Machine (scope st) = machine" "sc_ByoHost (scope st) = Some h" "world st = w5"
    by (simp_all add: st_def)
  have "in_service I m st" using assms(6) by (simp add: st_def in_service_def same_machine_def)
  then obtain st' where st': "reconcileNormal C st = (Return (no_requeue, None), st')" "in_service I m st'"
    using reconcileNormal_served [OF assms(1) S _ sc(3,1)] assms(9,10) sc(2) by metis
  let ?m = "sc_ByoMachine (scope st')"
  have body: "reconcile_body C cluster machine byoCluster m w4 = (Return (no_requeue, None), ?m, world st', events st')"
    using assms(5,7,8) st'(1) servingD(3) [OF S] by (simp add: reconcile_body_def newByoMachineScope_def Let_def st_def)
  have "settled (libs C) cluster machine m ?m" using reconcile_body_quiet [OF assms(1,2) body] by simp
  then have ready: "provisioned (libs C) ?m" using assms(7-10) by (simp add: settled_def)
  have key: "obj_key ?m = obj_key m" "I (world st')" using st'(2) by (simp_all add: in_service_def same_machine_def)
  obtain w' where p: "patchByoMachine C m ?m (world st') = (None, w')" "I w'"
    using answersE [OF servingD(5) [OF S key(1)] key(2)] by metis
  have "Reconcile C req w = (Return (no_requeue, None), w', events st')"
    using assms(4) body p(1) servingD(3) [OF S] unfolding reads_objects_def
    by (auto simp: Reconcile_def Let_def defer_error_def)
  then show ?thesis using ready key(1) p by blast
qed

text \<open>A reserved host whose node has joined, and a machine with an installer configuration that is ready.\<close>

definition joined_machine :: ByoMachine where
  "joined_machine = ex_machine\<lparr>MachineSpec := (MachineSpec ex_machine)
     \<lparr>InstallerRef := Some \<lparr>ref_Kind = ''K8sInstallerConfigTemplate'', ref_APIVersion = ''infrastructure.cluster.x-k8s.io/v1beta1'',
        ref_Namespace = ''default'', ref_Name = ''t1'', ref_UID = []\<rparr>\<rparr>\<rparr>"

definition joined_host :: ByoHost where
  "joined_host = (new_host ''default'' ''host1'')\<lparr>Labels := [ClusterNameLabel \<mapsto> ''c1'',
     AttachedByoMachineLabel \<mapsto> generateSafeLabelValue ''default'' ''m1'']\<rparr>"

definition joined_config :: Unstructured where
  "joined_config = \<lparr>u_GVK = \<lparr>gvk_Group = ''infrastructure.cluster.x-k8s.io'', gvk_Version = ''v1beta1'', gvk_Kind = ''K8sInstallerConfig''\<rparr>,
     u_Name = ''m1'', u_Namespace = ''default'', u_Object = JObj [(''status'', JObj [(''ready'', JBool True),
       (''installationSecret'', JObj [(''name'', JStr ''m1-install'')]), (''uninstallationSecret'', JObj [(''name'', JStr ''m1-uninstall'')])])]\<rparr>"

definition joined_world :: machine_world where
  "joined_world = ex_world\<lparr>rw_hosts := [joined_host], rw_machines := [joined_machine], mw_objects := [joined_config]\<rparr>"

definition joined :: "machine_world \<Rightarrow> bool" where
  "joined w \<longleftrightarrow> store_has (rw_hosts w) (''default'', ''host1'') \<and> store_has (rw_machines w) (''default'', ''m1'') \<and>
     rw_clusters w = [new_cluster ''default'' ''c1''] \<and> mw_objects w = [joined_config] \<and>
     (\<exists>n. find (\<lambda>n. NodeName n = ''host1'') (mw_nodes w) = Some n \<and> (NodeProviderID n = [] \<or> own_id joined_host n))"

lemma store_put_has:
  assumes "store_has xs k" and "obj_key x = k"
  shows "fst (store_put xs x) = None" and "store_has (snd (store_put xs x)) k"
  using assms by (auto simp: store_put_def store_has_def list_ex_iff)

lemma find_replaced:
  "find (\<lambda>n. NodeName n = s) (map (\<lambda>n'. if NodeName n' = NodeName a then a else n') ns) =
     (if NodeName a = s then map_option (\<lambda>_. a) (find (\<lambda>n. NodeName n = s) ns) else find (\<lambda>n. NodeName n = s) ns)"
  by (induction ns) auto

lemma joined_keys:
  "obj_key joined_host = (''default'', ''host1'')" "obj_key joined_machine = (''default'', ''m1'')"
  "Labels joined_machine ClusterNameLabel = Some ''c1''"
  by (simp_all add: joined_host_def joined_machine_def ex_machine_def obj_key_def new_object_defs)

lemma joined_config_found:
  assumes "obj_key x = (''default'', ''m1'')" and "InstallerRef (MachineSpec joined_machine) = Some ref" and "joined w"
  shows "getInstallerConfig ref_machine_client ref x w = (Inr joined_config, w)"
proof -
  let ?gvk = "refGVK (ref_machine_client :: machine_world machine_client) (the (InstallerRef (MachineSpec joined_machine)))"
  have "?gvk\<lparr>gvk_Kind := RemoveAllStr ''Template'' (gvk_Kind ?gvk)\<rparr> = u_GVK joined_config" by code_simp
  then show ?thesis using assms
    by (simp add: getInstallerConfig_def Let_def ref_machine_client_defs joined_def joined_config_def obj_key_def)
qed

lemma joined_config_served: "config_served (ref_machine_client :: machine_world machine_client) joined_config"
  by (simp add: config_served_def config_secret_def joined_config_def ref_machine_client_defs)

lemma answersI: "(\<And>w. I w \<Longrightarrow> ok (fst (call w)) \<and> I (snd (call w))) \<Longrightarrow> answers I call ok"
  by (simp add: answers_def)

lemma joined_calls:
  fixes C :: "machine_world machine_client"
  defines "C \<equiv> ref_machine_client"
  shows "helperByoHost C x = None" "helperNode C n = None" "helperByoMachine C y = None"
    and "obj_key a = obj_key joined_host \<Longrightarrow> answers joined (patchByoHost C b a) (\<lambda>e. e = None)"
    and "obj_key d = obj_key joined_machine \<Longrightarrow> answers joined (patchByoMachine C c d) (\<lambda>e. e = None)"
    and "own_id joined_host n' \<Longrightarrow> answers joined (patchNode C k n n') (\<lambda>e. e = None)"
    and "answers joined (RandomString C l) (\<lambda>_. True)"
    and "obj_key z = obj_key joined_machine \<Longrightarrow> Labels z = Labels joined_machine \<Longrightarrow>
      answers joined (getClusterFromMetadata C z) (\<lambda>r. r = Inr (Some (new_cluster ''default'' ''c1'')))"
    and "answers joined (TrackerGetClient C k) (\<lambda>e. e = None)"
    and "InstallerRef (MachineSpec joined_machine) = Some ref \<Longrightarrow> obj_key y = obj_key joined_machine \<Longrightarrow>
      answers joined (getInstallerConfig C ref y) (\<lambda>r. \<exists>cfg. r = Inr cfg \<and> config_served C cfg)"
    and "answers joined (getNode C k (obj_key joined_host)) (\<lambda>r. \<exists>n. r = Inr n \<and> (NodeProviderID n = [] \<or> own_id joined_host n))"
proof -
  show "obj_key a = obj_key joined_host \<Longrightarrow> answers joined (patchByoHost C b a) (\<lambda>e. e = None)"
  proof (rule answersI)
    fix w assume "obj_key a = obj_key joined_host" "joined w"
    then show "fst (patchByoHost C b a w) = None \<and> joined (snd (patchByoHost C b a w))"
      using store_put_has [of "rw_hosts w" "(''default'', ''host1'')" a]
      by (simp add: C_def ref_machine_client_defs joined_def joined_keys split_beta)
  qed
  show "obj_key d = obj_key joined_machine \<Longrightarrow> answers joined (patchByoMachine C c d) (\<lambda>e. e = None)"
  proof (rule answersI)
    fix w assume "obj_key d = obj_key joined_machine" "joined w"
    then show "fst (patchByoMachine C c d w) = None \<and> joined (snd (patchByoMachine C c d w))"
      using store_put_has [of "rw_machines w" "(''default'', ''m1'')" d]
      by (simp add: C_def ref_machine_client_defs joined_def joined_keys split_beta)
  qed
  show "own_id joined_host n' \<Longrightarrow> answers joined (patchNode C k n n') (\<lambda>e. e = None)"
    by (rule answersI) (auto simp: C_def ref_machine_client_defs joined_def find_replaced)
  show "answers joined (getClusterFromMetadata C z) (\<lambda>r. r = Inr (Some (new_cluster ''default'' ''c1'')))"
    if "obj_key z = obj_key joined_machine" "Labels z = Labels joined_machine"
    by (rule answersI) (use that joined_keys in
        \<open>auto simp: C_def ref_machine_client_defs joined_def store_get_def new_cluster_def new_meta_def obj_key_def ObjectMeta.defs Cluster.defs\<close>)
  show "answers joined (getInstallerConfig C ref y) (\<lambda>r. \<exists>cfg. r = Inr cfg \<and> config_served C cfg)"
    if "InstallerRef (MachineSpec joined_machine) = Some ref" "obj_key y = obj_key joined_machine"
  proof (rule answersI)
    fix w assume w: "joined w"
    have "obj_key y = (''default'', ''m1'')" using that(2) joined_keys(2) by simp
    from joined_config_found [OF this that(1) w] joined_config_served w
    show "(\<exists>cfg. fst (getInstallerConfig C ref y w) = Inr cfg \<and> config_served C cfg) \<and> joined (snd (getInstallerConfig C ref y w))"
      by (simp add: C_def)
  qed
qed (auto simp: answers_def C_def ref_machine_client_defs joined_def joined_keys)

lemma joined_serving: "serving ref_machine_client joined joined_machine joined_host (new_cluster ''default'' ''c1'')"
  unfolding serving_def using joined_calls by blast

theorem joined_machine_becomes_ready_witness:
  "\<exists>m' w' evs. Reconcile ref_machine_client (''default'', ''m1'') joined_world = (Return (no_requeue, None), w', evs) \<and>
     provisioned ref_lib m' \<and> store_get (rw_machines w') (''default'', ''m1'') = Inr m'"
proof -
  let ?cl = "new_cluster ''default'' ''c1''"
  let ?ref = "empty_ref\<lparr>ref_Namespace := ''default'', ref_Name := ''c1''\<rparr>"
  have reads: "getByoMachine ref_machine_client (''default'', ''m1'') joined_world = (Inr joined_machine, joined_world)"
    "getOwnerMachine ref_machine_client (ObjectMeta.truncate joined_machine) joined_world = (Inr (Some ex_owner), joined_world)"
    "getClusterFromMetadata ref_machine_client (ObjectMeta.truncate joined_machine) joined_world = (Inr (Some ?cl), joined_world)"
    "InfrastructureRef ?cl = Some ?ref"
    "getByoCluster ref_machine_client (Namespace joined_machine, ref_Name ?ref) joined_world = (Inr ex_byocluster, joined_world)"
    by (simp_all add: ref_machine_client_defs joined_world_def ex_world_def joined_machine_def ex_machine_def ex_owner_def
        ex_byocluster_def store_get_def obj_key_def new_object_defs Machine.defs ByoCluster.defs ObjectMeta.truncate_def)
  then have rd: "reads_objects ref_machine_client (''default'', ''m1'') joined_world joined_machine ex_owner ?cl ex_byocluster joined_world"
    unfolding reads_objects_def by blast
  have "valid_label_value (generateSafeLabelValue ''default'' ''m1'')" by code_simp
  then have fetch: "FetchAttachedByoHost ref_machine_client (Name joined_machine) (Namespace joined_machine) joined_world =
      (Return (Inr (Some joined_host)), joined_world)"
    by (simp add: FetchAttachedByoHost_def Let_def ref_machine_client_defs joined_world_def joined_machine_def ex_machine_def
        joined_host_def new_object_defs sel_matches_def)
  have j: "joined joined_world"
    by (simp add: joined_def joined_world_def ex_world_def store_has_def joined_keys)
  have g: "\<not> IsPaused ref_lib ?cl (Annotations joined_machine)" "\<not> being_deleted joined_machine" "InfrastructureReady ?cl"
    "DataSecretName ex_owner \<noteq> None" by code_simp+
  obtain m' w6 w' evs where r: "Reconcile ref_machine_client (''default'', ''m1'') joined_world = (Return (no_requeue, None), w', evs)"
      "provisioned ref_lib m'" "patchByoMachine ref_machine_client joined_machine m' w6 = (None, w')" "obj_key m' = (''default'', ''m1'')"
    using joined_machine_becomes_ready [OF ref_machine_client_contracts(2) _ joined_serving rd fetch j] g ref_lib_contracts(1) joined_keys(2)
    by auto
  have "store_get (rw_machines w') (''default'', ''m1'') = Inr m'"
    using r(3,4) store_get_put [of "rw_machines w6" m'] by (auto simp: ref_machine_client_defs split: prod.splits)
  with r show ?thesis by blast
qed

end
