(* ===== verification/Spec2Isabelle.thy ===== *)
theory Spec2Isabelle
  imports ByoMachine_Props CloudInit Host_Agent ByoHost_Ctl Installer InstallerConfig_Ctl ByoCluster_Ctl
    ByoAdmission_Ctl Bootstrap_Token ByoHost_Webhook Registration Agent_Main Host_Lifecycle Ctl_Utils Ctl_Client
    Ctl_Agent Ctl_Host Ctl_Onboard Ctl_Main Host_Concurrency Installer_Scripts Manager_Main Api_DeepCopy
    Cloudinit_Fakes ByoMachine_Progress
begin

text \<open>
  A verification development of the bring-your-own-host provider for Cluster API.

  \<^bold>\<open>The program.\<close>  A \<^emph>\<open>manager\<close> runs in a management cluster with controllers for the objects ByoMachine,
  ByoHost, ByoCluster, K8sInstallerConfig, BootstrapKubeconfig and for certificate requests, and with
  webhooks for ByoHost and BootstrapKubeconfig.  An \<^emph>\<open>agent\<close> runs on every host: it gets a
  certificate, registers the host as a ByoHost object, and installs, bootstraps and cleans up the node.
  The command \<^emph>\<open>byohctl\<close> onboards a host (it saves a kubeconfig and installs the agent's package),
  deauthorises it and decommissions it.  The parts meet in the ByoHost object: the ByoMachine controller
  reserves it and marks it for cleanup, the agent acts on it and gives it back, the ByoHost controller
  removes what the cleanup leaves, and \<open>byohctl\<close> waits for it to be free.

  \<^bold>\<open>Conventions.\<close>  A Go error is a value of \<open>error\<close>; \<open>(T, error)\<close> is \<open>error + T\<close> or a pair with an
  \<open>error option\<close>; a nil dereference is \<open>Panic\<close> of \<open>outcome\<close>.  API objects are records with the fields
  the program uses; handlers pass the world \<open>'w\<close> (API server, network) and the file system explicitly.
  What is not part of the sources (API server, Cluster API and client-go, template engines, YAML, PEM,
  the shell) is a field of an environment record, and what is used of it is a named contract such as
  \<open>conditions_contract\<close>, \<open>list_contract\<close>, \<open>token_contract\<close> or \<open>clock_runs\<close>.  Reference instances
  (\<open>ref_client\<close>, \<open>ref_agent\<close>, \<open>ref_cmd\<close> and others) satisfy the contracts and run the examples.

  \<^bold>\<open>The theories.\<close>
  \<^item> \<open>Prelude\<close>, \<open>Go_Strings\<close>, \<open>Go_Regexp\<close>, \<open>Go_Sha256\<close>, \<open>Go_Os\<close>, \<open>Go_Json\<close>, \<open>Go_Gzip\<close>: errors and results, and
    the parts of Go's library the code uses (\<open>strings\<close>, \<open>strconv\<close>, \<open>regexp\<close>, \<open>sha256\<close>, \<open>base64\<close>, \<open>filepath\<close>,
    \<open>os\<close>, \<open>json\<close> with its scanner, \<open>gzip\<close> with inflate and the check sum).  What an encoder writes is
    read back.
  \<^item> \<open>Api_Types\<close>, \<open>Externals\<close>, \<open>Reference_Client\<close>: \<open>apis/infrastructure/v1beta1\<close>, the clients as
    parameters with their contracts, and a store that satisfies them.
  \<^item> \<open>Deep_Copy\<close>, \<open>Api_DeepCopy\<close>: \<open>zz_generated.deepcopy.go\<close> over a memory of cells.  A copy is equal to its
    original and shares no cell with it.
  \<^item> \<open>Byo_Label\<close>, \<open>ByoMachine_Ctl\<close>, \<open>ByoMachine_Props\<close>: \<open>byomachine_controller.go\<close> and
    \<open>byomachine_scope.go\<close>.  Reservation only of free matching hosts, release before the finalizer goes,
    readiness only with a provider ID, errors never lost, host invariants kept.
  \<^item> \<open>ByoMachine_Progress\<close>: what one reconciliation of a ByoMachine reaches.  A machine whose host has joined
    becomes ready, and a reconciliation that asks for no further one has settled the machine or waits for an
    object it has not found.
  \<^item> \<open>ByoHost_Ctl\<close>, \<open>ByoCluster_Ctl\<close>, \<open>InstallerConfig_Ctl\<close>, \<open>ByoAdmission_Ctl\<close>, \<open>Bootstrap_Token\<close>,
    \<open>ByoHost_Webhook\<close>: the other controllers and the webhooks, each with its \<open>Reconcile\<close> or \<open>Handle\<close>.
  \<^item> \<open>CloudInit\<close>, \<open>Installer\<close>, \<open>Installer_Scripts\<close>, \<open>Host_Agent\<close>, \<open>Registration\<close>, \<open>Agent_Main\<close>: \<open>agent/\<close> and
    \<open>installer/\<close>.  The file writer and the bootstrap scripts, the choice of the installer, the embedded
    templates and what the template engine makes of them, the agent's reconciler, registration and
    certificate request, and \<open>main\<close> with the label flag and the certificate rotation.
  \<^item> \<open>Cloudinit_Fakes\<close>: \<open>agent/cloudinit/cloudinitfakes\<close>.  Executed with the fakes, a script makes the calls of
    its trace in the model and no others, so that a test on the recorded calls is a test on the trace.
  \<^item> \<open>Host_Lifecycle\<close>: the writes of all components to one host as a step relation.  Each component
    interprets the locale \<open>host_component\<close>; together they keep hosts consistent, implement the abstract
    cycle of three phases (the locale \<open>phase_machine\<close>), and never hand a host over without a cleanup.
  \<^item> \<open>Host_Concurrency\<close>: the same host when a patch is computed from an old read and merged later.  Late
    patches of the agent, the ByoHost controller and the registration keep the cycle; two reservations from the same
    read do not.
  \<^item> \<open>Manager_Main\<close>: \<open>main.go\<close>, the watches of every \<open>SetupWithManager\<close> and the requests that an event
    causes.  The release of a host reaches the machine that held it.
  \<^item> \<open>Ctl_Utils\<close>, \<open>Ctl_Client\<close>, \<open>Ctl_Agent\<close>, \<open>Ctl_Host\<close>, \<open>Ctl_Onboard\<close>, \<open>Ctl_Main\<close>: \<open>cmd/byohctl\<close>.  The
    logger, the clients, the installation of the agent, deauthorise and decommission, onboarding, and the
    program with its commands.

  \<^bold>\<open>Bounds, loops and fuel.\<close>  Machine integers that can overflow keep their width: the replica count is a
  \<open>32 word\<close>, the certificate lifetime a \<open>64 word\<close>, file modes and check sums a \<open>32 word\<close>.  The wait for the
  machine reference (\<open>wait_loop\<close>) is a \<open>partial_function (option)\<close> whose return is proved from a running
  clock.  The rotation of certificates never ends by design; it takes the number of rounds to run, and its
  property is for every number.  All other recursion is structural or has a termination proof.

  \<^bold>\<open>Assumptions of the life cycle.\<close>  A step of \<open>host_step\<close> is one patch computed from the object that it
  replaces; \<open>delayed_step\<close> lifts this to a patch that is computed early and merged late.  Registration
  labels do not claim a reservation.

  \<^bold>\<open>Not modelled.\<close>  The registration of schemes, of command-line flags and of cobra commands, which only
  calls libraries: the flags are records with their default values.  The compressor (\<open>GzipData\<close>,
  which no other code calls), the locks of the generated fakes, builders and end-to-end helpers of the tests,
  and log and event texts except where they are results.  In \<open>byohctl\<close> log calls are left out of the
  handlers.
\<close>

section \<open>Properties across components\<close>



end
